(* ===== verification/Prelude.thy ===== *)
theory Prelude
  imports
    "HOL-Library.State_Monad"
    "HOL-Library.AList"
    "HOL-Library.FSet"
    "HOL-Library.Char_ord"
    "HOL-Library.List_Lexorder"
begin

text \<open>
  Shared vocabulary of the development: Go's error values and string maps, the state monad in
  which the reconcilers are written (with early return), weakest preconditions for it (collection
  \<open>wp\<close>), and the interface \<open>step_rel\<close>: a reflexive and transitive relation between
  the state before and after a computation, with the compositional rules (collection
  \<open>steps\<close>) by which a whole reconciler is shown to respect it.
\<close>

named_theorems wp \<open>weakest preconditions, read as rewrite rules\<close>
named_theorems results \<open>compositional rules for predicates on results\<close>
named_theorems steps \<open>compositional rules for step relations\<close>

section \<open>Go values\<close>

text \<open>
  A Go \<open>error\<close> value. The sources distinguish the API's not-found error from every other
  error; \<open>ErrorMsg\<close> is \<open>fmt.Errorf\<close> without arguments, \<open>Errorf\<close> with one
  argument, kept beside the format, \<open>Wrapped\<close> the verb
  \<open>%w\<close>, through which \<open>apierrors.IsNotFound\<close> looks.
\<close>

datatype go_error =
    NotFound
  | APIError string
  | ErrorMsg string
  | Errorf string string
  | Wrapped string go_error

fun IsNotFound :: "go_error \<Rightarrow> bool" where
  "IsNotFound NotFound = True"
| "IsNotFound (Wrapped _ e) = IsNotFound e"
| "IsNotFound (APIError _) = False"
| "IsNotFound (ErrorMsg _) = False"
| "IsNotFound (Errorf _ _) = False"

text \<open>
  A Go \<open>map[string]string\<close> is an association list read with \<^const>\<open>map_of\<close>,
  written with \<^const>\<open>AList.update\<close> and shrunk with \<^const>\<open>AList.delete\<close>.
  A nil map reads like an empty one and the sources write only to maps they have made.
\<close>

type_synonym strmap = "(string \<times> string) list"

text \<open>The copy loop \<open>for k, v := range m { out[k] = v }\<close>, into a map made before it.\<close>

definition copy_map :: "strmap \<Rightarrow> strmap \<Rightarrow> strmap" where
  "copy_map m out = fold (\<lambda>(k, v) acc. AList.update k v acc) m out"

lemma map_of_copy_map:
  assumes "distinct (map fst m)"
  shows "map_of (copy_map m out) k = (case map_of m k of None \<Rightarrow> map_of out k | Some v \<Rightarrow> Some v)"
  using assms
proof (induction m arbitrary: out)
  case Nil
  then show ?case by (simp add: copy_map_def)
next
  case (Cons kv m)
  obtain k' v' where kv: "kv = (k', v')" by (cases kv)
  with Cons.prems have "map_of m k' = None" and "distinct (map fst m)"
    by (auto simp: map_of_eq_None_iff)
  moreover have "copy_map (kv # m) out = copy_map m (AList.update k' v' out)"
    by (simp add: copy_map_def kv)
  ultimately show ?case
    using kv Cons.IH by (auto simp: update_conv' split: option.split)
qed

lemma update_fresh: "k \<notin> fst ` set m \<Longrightarrow> AList.update k v m = m @ [(k, v)]"
  by (induction m) auto

lemma map_of_update_same [simp]: "map_of (AList.update k v m) k = Some v"
  by (simp add: update_conv')

lemma map_of_update_other [simp]: "k \<noteq> k' \<Longrightarrow> map_of (AList.update k v m) k' = map_of m k'"
  by (simp add: update_conv')

lemma map_of_delete_same [simp]: "map_of (AList.delete k m) k = None"
  by (simp add: delete_conv')

section \<open>Order in a list of events\<close>

text \<open>Every element that satisfies \<open>B\<close> comes after one that satisfies \<open>A\<close>.\<close>

fun preceded :: "('e \<Rightarrow> bool) \<Rightarrow> ('e \<Rightarrow> bool) \<Rightarrow> 'e list \<Rightarrow> bool" where
  "preceded A B [] = True"
| "preceded A B (e # es) = (\<not> B e \<and> (A e \<or> preceded A B es))"

lemma preceded_append:
  "preceded A B (xs @ ys) \<longleftrightarrow> preceded A B xs \<and> (list_ex A xs \<or> preceded A B ys)"
  by (induction xs) auto

lemma preceded_none: "list_all (\<lambda>e. \<not> B e) es \<Longrightarrow> preceded A B es"
  by (induction es) auto

lemma preceded_iff:
  "preceded A B es \<longleftrightarrow> (\<forall>xs y ys. es = xs @ y # ys \<longrightarrow> B y \<longrightarrow> list_ex A xs)"
proof (induction es)
  case Nil
  then show ?case by simp
next
  case (Cons e es)
  show ?case (is "?l = (\<forall>xs y ys. ?r xs y ys)")
  proof
    assume ?l
    with Cons.IH show "\<forall>xs y ys. ?r xs y ys"
      by (auto simp: Cons_eq_append_conv)
  next
    assume r: "\<forall>xs y ys. ?r xs y ys"
    have "\<not> B e" using r [rule_format, of "[]" e es] by auto
    moreover have "preceded A B es" if "\<not> A e"
      unfolding Cons.IH
    proof (intro allI impI)
      fix xs y ys assume "es = xs @ y # ys" and "B y"
      with r [rule_format, of "e # xs" y ys] that show "list_ex A xs" by simp
    qed
    ultimately show ?l by auto
  qed
qed

section \<open>The monad of the reconcilers\<close>

abbreviation return :: "'a \<Rightarrow> ('s, 'a) state" where
  "return \<equiv> State_Monad.return"

text \<open>
  A block of a Go function that may return early: \<open>Inl\<close> is the value the function returns,
  \<open>Inr\<close> the variables the rest of the function goes on with.
\<close>

definition or_return :: "('s, 'r + 'a) state \<Rightarrow> ('a \<Rightarrow> ('s, 'r) state) \<Rightarrow> ('s, 'r) state" where
  "or_return m k = do { x \<leftarrow> m; case x of Inl r \<Rightarrow> return r | Inr a \<Rightarrow> k a }"

subsection \<open>Weakest preconditions\<close>

definition wp :: "('s, 'a) state \<Rightarrow> ('a \<Rightarrow> 's \<Rightarrow> bool) \<Rightarrow> 's \<Rightarrow> bool" where
  "wp m Q s = (case run_state m s of (a, s') \<Rightarrow> Q a s')"

lemma wp_return [wp]: "wp (return a) Q s = Q a s"
  by (simp add: wp_def)

lemma wp_bind [wp]: "wp (m \<bind> f) Q s = wp m (\<lambda>a. wp (f a) Q) s"
  by (simp add: wp_def split: prod.split)

lemma wp_or_return [wp]:
  "wp (or_return m k) Q s = wp m (\<lambda>x t. case x of Inl r \<Rightarrow> Q r t | Inr a \<Rightarrow> wp (k a) Q t) s"
  unfolding or_return_def wp_bind
  by (rule arg_cong [where f = "\<lambda>Q. wp m Q s"]) (auto simp: fun_eq_iff wp_return split: sum.split)

lemma wp_get [wp]: "wp State_Monad.get Q s = Q s s"
  by (simp add: wp_def)

lemma wp_update [wp]: "wp (State_Monad.update f) Q s = Q () (f s)"
  by (simp add: wp_def State_Monad.update_def)

lemma wp_mono: "wp m Q s \<Longrightarrow> (\<And>a t. Q a t \<Longrightarrow> Q' a t) \<Longrightarrow> wp m Q' s"
  by (auto simp: wp_def split: prod.splits)

lemma wp_run: "wp m Q s \<Longrightarrow> run_state m s = (a, t) \<Longrightarrow> Q a t"
  by (simp add: wp_def)

lemma wp_run_iff: "wp m Q s \<longleftrightarrow> Q (fst (run_state m s)) (snd (run_state m s))"
  by (simp add: wp_def split: prod.split)

subsection \<open>Step relations\<close>

text \<open>
  What a computation may do to the state, as a relation \<open>R\<close> between the states before and
  after it. The two laws are all that the rules for sequencing, early return and branching need.
\<close>

locale step_rel =
  fixes R :: "'s \<Rightarrow> 's \<Rightarrow> bool"
  assumes R_refl: "R s s"
    and R_trans: "R s t \<Longrightarrow> R t u \<Longrightarrow> R s u"
begin

lemma rel_return: "state_io_rel R (return a)"
  by (auto simp: R_refl)

lemma rel_bind:
  "state_io_rel R m \<Longrightarrow> (\<And>a. state_io_rel R (f a)) \<Longrightarrow> state_io_rel R (m \<bind> f)"
  by (rule state_io_relI) (auto split: prod.splits dest!: state_io_relD intro: R_trans)

lemma rel_or_return:
  "state_io_rel R m \<Longrightarrow> (\<And>a. state_io_rel R (k a)) \<Longrightarrow> state_io_rel R (or_return m k)"
  unfolding or_return_def by (intro rel_bind) (auto intro: rel_return split: sum.split)

lemma rel_get: "state_io_rel R State_Monad.get"
  by (auto simp: R_refl)

lemma rel_update: "(\<And>s. R s (f s)) \<Longrightarrow> state_io_rel R (State_Monad.update f)"
  by (rule state_io_relI) (auto simp: State_Monad.update_def)

lemmas rel_intros = rel_return rel_bind rel_or_return rel_get rel_update

end

lemma rel_if [steps]:
  "(b \<Longrightarrow> state_io_rel R m) \<Longrightarrow> (\<not> b \<Longrightarrow> state_io_rel R n) \<Longrightarrow> state_io_rel R (if b then m else n)"
  by simp

lemma rel_case_sum [steps]:
  "(\<And>e. x = Inl e \<Longrightarrow> state_io_rel R (f e)) \<Longrightarrow> (\<And>a. x = Inr a \<Longrightarrow> state_io_rel R (g a)) \<Longrightarrow>
   state_io_rel R (case x of Inl e \<Rightarrow> f e | Inr a \<Rightarrow> g a)"
  by (cases x) auto

lemma rel_case_option [steps]:
  "(x = None \<Longrightarrow> state_io_rel R m) \<Longrightarrow> (\<And>a. x = Some a \<Longrightarrow> state_io_rel R (g a)) \<Longrightarrow>
   state_io_rel R (case x of None \<Rightarrow> m | Some a \<Rightarrow> g a)"
  by (cases x) auto

lemma rel_let [steps]: "state_io_rel R (f a) \<Longrightarrow> state_io_rel R (let x = a in f x)"
  by simp

lemma rel_wp: "state_io_rel R m \<Longrightarrow> wp m (\<lambda>_ t. R s t) s"
  by (auto simp: wp_def split: prod.splits)

lemma rel_run: "state_io_rel R m \<Longrightarrow> run_state m s = (a, t) \<Longrightarrow> R s t"
  by blast

subsection \<open>Predicates on results\<close>

lemma pred_return [results]: "P a \<Longrightarrow> pred_state P (return a)"
  by (auto)

lemma pred_bind [results]: "(\<And>x. pred_state P (f x)) \<Longrightarrow> pred_state P (m \<bind> f)"
  by (auto split: prod.splits)

lemma pred_or_return [results]:
  "pred_state (\<lambda>x. case x of Inl r \<Rightarrow> P r | Inr _ \<Rightarrow> True) m \<Longrightarrow> (\<And>a. pred_state P (k a)) \<Longrightarrow>
   pred_state P (or_return m k)"
  unfolding or_return_def by (fastforce split: prod.splits sum.splits)

lemma pred_or_return_strong:
  "pred_state Q m \<Longrightarrow> (\<And>r. Q (Inl r) \<Longrightarrow> P r) \<Longrightarrow> (\<And>a. Q (Inr a) \<Longrightarrow> pred_state P (k a)) \<Longrightarrow>
   pred_state P (or_return m k)"
  unfolding or_return_def by (fastforce split: prod.splits sum.splits)

lemma pred_if [results]:
  "(b \<Longrightarrow> pred_state P m) \<Longrightarrow> (\<not> b \<Longrightarrow> pred_state P n) \<Longrightarrow> pred_state P (if b then m else n)"
  by simp

lemma pred_case_sum [results]:
  "(\<And>e. x = Inl e \<Longrightarrow> pred_state P (f e)) \<Longrightarrow> (\<And>a. x = Inr a \<Longrightarrow> pred_state P (g a)) \<Longrightarrow>
   pred_state P (case x of Inl e \<Rightarrow> f e | Inr a \<Rightarrow> g a)"
  by (cases x) auto

lemma pred_case_option [results]:
  "(x = None \<Longrightarrow> pred_state P m) \<Longrightarrow> (\<And>a. x = Some a \<Longrightarrow> pred_state P (g a)) \<Longrightarrow>
   pred_state P (case x of None \<Rightarrow> m | Some a \<Rightarrow> g a)"
  by (cases x) auto

lemma pred_run: "pred_state P m \<Longrightarrow> run_state m s = (a, t) \<Longrightarrow> P a"
  by blast

end
