(* ===== verification/Go_Time.thy ===== *)
theory Go_Time
  imports Prelude
begin

text \<open>
  The parts of Go's package \<open>time\<close> that the sources use. An instant is the number of
  nanoseconds since Go's zero \<open>Time\<close> (January 1 of the year 1, UTC); a \<open>Duration\<close>
  is the signed 64-bit number of nanoseconds, kept as an \<^typ>\<open>int\<close> with the saturation and
  wrap-around of its operations written out.
\<close>

type_synonym time = int
type_synonym duration = int

definition Second :: duration where "Second = 1000000000"
definition Minute :: duration where "Minute = 60 * Second"
definition Hour :: duration where "Hour = 60 * Minute"
definition Millisecond :: duration where "Millisecond = 1000000"
definition minDuration :: duration where "minDuration = - 9223372036854775808"
definition maxDuration :: duration where "maxDuration = 9223372036854775807"

definition is_duration :: "int \<Rightarrow> bool" where
  "is_duration d \<longleftrightarrow> minDuration \<le> d \<and> d \<le> maxDuration"

text \<open>Two's complement wrap-around of 64-bit arithmetic.\<close>

definition wrap64 :: "int \<Rightarrow> int" where
  "wrap64 x = (x + 9223372036854775808) mod 18446744073709551616 - 9223372036854775808"

text \<open>
  \<open>t.Sub(u)\<close> saturates; \<open>t.Add(d)\<close> stays inside the range of \<open>Time\<close>, which is
  wider than that of any duration. A \<open>*metav1.Time\<close> is an optional instant, and its
  \<open>IsZero\<close> holds for nil and for the zero instant.
\<close>

definition Time_Sub :: "time \<Rightarrow> time \<Rightarrow> duration" where
  "Time_Sub t u = (if maxDuration < t - u then maxDuration
                   else if t - u < minDuration then minDuration else t - u)"

definition Time_Add :: "time \<Rightarrow> duration \<Rightarrow> time" where
  "Time_Add t d = t + d"

definition Time_After :: "time \<Rightarrow> time \<Rightarrow> bool" where
  "Time_After t u \<longleftrightarrow> u < t"

fun Time_IsZero :: "time option \<Rightarrow> bool" where
  "Time_IsZero None = True"
| "Time_IsZero (Some t) = (t = 0)"

text \<open>\<open>t.Unix()\<close>: whole seconds since January 1, 1970, rounded down.\<close>

definition Unix :: "time \<Rightarrow> int" where
  "Unix t = t div Second - 62135596800"

text \<open>
  \<open>d.Round(m)\<close>: the nearest multiple of \<open>m\<close>, halves away from zero, saturating when
  the sum leaves the 64-bit range (seen by the wrapped sum being on the wrong side of \<open>d\<close>).
\<close>

definition Duration_Round :: "duration \<Rightarrow> duration \<Rightarrow> duration" where
  "Duration_Round d m =
    (if m \<le> 0 then d
     else if d < 0 then
       (let r = (- d) mod m in
        if r + r < m then d + r
        else let d1 = wrap64 (d - m + r) in if d1 < d then d1 else minDuration)
     else
       (let r = d mod m in
        if r + r < m then d - r
        else let d1 = wrap64 (d + m - r) in if d < d1 then d1 else maxDuration))"

section \<open>Facts about durations\<close>

lemmas time_consts = Second_def Minute_def Hour_def Millisecond_def minDuration_def maxDuration_def

lemma wrap64_id: "is_duration x \<Longrightarrow> wrap64 x = x"
  by (simp add: wrap64_def is_duration_def time_consts)

lemma wrap64_is_duration: "is_duration (wrap64 x)"
  using pos_mod_bound [of "18446744073709551616" "x + 9223372036854775808"]
    pos_mod_sign [of "18446744073709551616" "x + 9223372036854775808"]
  by (simp add: wrap64_def is_duration_def time_consts)

lemma wrap64_overflow:
  "maxDuration < x \<Longrightarrow> x \<le> maxDuration + 18446744073709551616 \<Longrightarrow> wrap64 x = x - 18446744073709551616"
proof -
  assume a: "maxDuration < x" "x \<le> maxDuration + 18446744073709551616"
  have "(x + 9223372036854775808) mod 18446744073709551616 =
        (x + 9223372036854775808 - 18446744073709551616) mod 18446744073709551616"
    by (metis minus_mod_self2)
  also have "\<dots> = x + 9223372036854775808 - 18446744073709551616"
    using a by (intro mod_pos_pos_trivial) (simp_all add: time_consts)
  finally show ?thesis by (simp add: wrap64_def)
qed

lemma wrap64_underflow:
  "x < minDuration \<Longrightarrow> minDuration - 18446744073709551616 \<le> x \<Longrightarrow> wrap64 x = x + 18446744073709551616"
proof -
  assume a: "x < minDuration" "minDuration - 18446744073709551616 \<le> x"
  have "(x + 9223372036854775808) mod 18446744073709551616 =
        (x + 9223372036854775808 + 18446744073709551616) mod 18446744073709551616"
    by (metis mod_add_self2)
  also have "\<dots> = x + 9223372036854775808 + 18446744073709551616"
    using a by (intro mod_pos_pos_trivial) (simp_all add: time_consts)
  finally show ?thesis by (simp add: wrap64_def)
qed

lemma Time_Sub_is_duration: "is_duration (Time_Sub t u)"
  by (simp add: Time_Sub_def is_duration_def time_consts)

lemma Time_Sub_exact: "is_duration (t - u) \<Longrightarrow> Time_Sub t u = t - u"
  by (simp add: Time_Sub_def is_duration_def)

lemma Time_Sub_le_0_iff: "Time_Sub t u \<le> 0 \<longleftrightarrow> t \<le> u"
  by (simp add: Time_Sub_def time_consts)

lemma Time_Sub_pos_iff: "0 < Time_Sub t u \<longleftrightarrow> u < t"
  by (simp add: Time_Sub_def time_consts)

text \<open>Rounding gives a multiple within half a unit, as long as the result stays in range.\<close>

lemma Duration_Round_spec:
  assumes "0 < m" and "minDuration + m \<le> d" and "d \<le> maxDuration - m"
  shows "m dvd Duration_Round d m \<and> 2 * \<bar>Duration_Round d m - d\<bar> \<le> m"
proof (cases "d < 0")
  case True
  define r where "r = (- d) mod m"
  have r: "0 \<le> r" "r < m" using assms(1) by (simp_all add: r_def)
  have dvd: "m dvd d + r"
    using minus_mod_eq_mult_div [of "- d" m] unfolding r_def by (metis dvd_minus_iff dvd_triv_left minus_diff_eq diff_minus_eq_add add.commute)
  show ?thesis
  proof (cases "r + r < m")
    case less: True
    with True dvd r assms show ?thesis by (simp add: Duration_Round_def Let_def r_def [symmetric])
  next
    case ge: False
    have "wrap64 (d - m + r) = d - m + r"
      using assms r True by (intro wrap64_id) (simp add: is_duration_def time_consts)
    moreover have "m dvd d - m + r" using dvd by (simp add: algebra_simps dvd_diff)
    moreover have "2 * \<bar>r - m\<bar> \<le> m" using r ge by (simp add: abs_if)
    ultimately show ?thesis using True ge r assms by (auto simp: Duration_Round_def Let_def r_def [symmetric])
  qed
next
  case False
  define r where "r = d mod m"
  have r: "0 \<le> r" "r < m" using assms(1) by (simp_all add: r_def)
  have dvd: "m dvd d - r" by (simp add: r_def)
  show ?thesis
  proof (cases "r + r < m")
    case less: True
    with False dvd r assms show ?thesis by (simp add: Duration_Round_def Let_def r_def [symmetric])
  next
    case ge: False
    have "wrap64 (d + m - r) = d + m - r"
      using assms r False by (intro wrap64_id) (simp add: is_duration_def time_consts)
    moreover have "m dvd d + m - r" using dvd by (metis add_diff_eq add.commute dvd_add dvd_refl)
    ultimately show ?thesis using False ge r assms by (auto simp: Duration_Round_def Let_def r_def [symmetric])
  qed
qed

end
