(* ===== verification/Kube_Types.thy ===== *)
theory Kube_Types
  imports Go_Time
begin

text \<open>
  The Kubernetes objects the operator reads and writes, with exactly the fields the sources
  set or read. They are the API's data types (packages \<open>k8s.io/api\<close>,
  \<open>k8s.io/apimachinery\<close> and the snapshotter's client), so nothing here is translated from
  \<open>src/\<close>; every field keeps its Go name, prefixed where two structs share it. Pointers are
  options, slices are lists, and a \<open>resource.Quantity\<close>, which is only copied, is its text.
\<close>

type_synonym Quantity = string

record OwnerReference =
  owner_APIVersion :: string
  owner_Kind :: string
  owner_Name :: string
  owner_UID :: string
  owner_Controller :: "bool option"

record ObjectMeta =
  Name :: string
  Namespace :: string
  UID :: string
  Labels :: strmap
  Annotations :: strmap
  OwnerReferences :: "OwnerReference list"
  CreationTimestamp :: time

definition emptyMeta :: ObjectMeta where
  "emptyMeta = \<lparr>Name = [], Namespace = [], UID = [], Labels = [], Annotations = [],
     OwnerReferences = [], CreationTimestamp = 0\<rparr>"

record NamespacedName =
  nn_Namespace :: string
  nn_Name :: string

definition object_key :: "ObjectMeta \<Rightarrow> NamespacedName" where
  "object_key m = \<lparr>nn_Namespace = Namespace m, nn_Name = Name m\<rparr>"

text \<open>The kinds of object the operator handles, as registered in its scheme.\<close>

datatype kind = KNamespace | KPersistentVolumeClaim | KPVCBackup | KPVCRestore | KVolumeSnapshot | KJob

record Namespace_object =
  ns_meta :: ObjectMeta

record Toleration =
  tol_Key :: string
  tol_Operator :: string
  tol_Value :: string
  tol_Effect :: string
  tol_Seconds :: "int option"

record ResourceRequirements =
  Limits :: "(string \<times> Quantity) list"
  Requests :: "(string \<times> Quantity) list"

record TypedLocalObjectReference =
  ref_APIGroup :: "string option"
  ref_Kind :: string
  ref_Name :: string

record PersistentVolumeClaimSpec =
  pvcs_StorageClassName :: "string option"
  pvcs_DataSource :: "TypedLocalObjectReference option"
  pvcs_AccessModes :: "string list"
  pvcs_Requests :: "(string \<times> Quantity) list"

record PersistentVolumeClaim =
  pvc_meta :: ObjectMeta
  pvc_spec :: PersistentVolumeClaimSpec

record VolumeSnapshotSpec =
  vss_PersistentVolumeClaimName :: "string option"
  vss_VolumeSnapshotClassName :: "string option"

record VolumeSnapshotStatus =
  ReadyToUse :: "bool option"
  RestoreSize :: "Quantity option"

record VolumeSnapshot =
  vs_meta :: ObjectMeta
  vs_spec :: VolumeSnapshotSpec
  vs_status :: "VolumeSnapshotStatus option"

record EnvVar =
  env_Name :: string
  env_Value :: string

record VolumeMount =
  vm_Name :: string
  vm_ReadOnly :: bool
  vm_MountPath :: string

text \<open>A pod volume backed by a claim: \<open>PersistentVolumeClaimVolumeSource\<close> inlined.\<close>

record Volume =
  vol_Name :: string
  vol_ClaimName :: string
  vol_ReadOnly :: bool

record Container =
  c_Name :: string
  c_Image :: string
  c_ImagePullPolicy :: string
  c_Command :: "string list"
  c_Env :: "EnvVar list"
  c_Resources :: ResourceRequirements
  c_VolumeMounts :: "VolumeMount list"

record PodSpec =
  ImagePullSecrets :: "string list"
  RestartPolicy :: string
  pod_NodeSelector :: strmap
  pod_Tolerations :: "Toleration list"
  pod_PriorityClassName :: string
  Volumes :: "Volume list"
  Containers :: "Container list"

record PodTemplateSpec =
  tmpl_meta :: ObjectMeta
  tmpl_spec :: PodSpec

record JobSpec =
  BackoffLimit :: "int option"
  Template :: PodTemplateSpec

record JobStatus =
  CompletionTime :: "time option"

record Job =
  job_meta :: ObjectMeta
  job_spec :: JobSpec
  job_status :: JobStatus

text \<open>What a reconciler returns to its controller: a \<open>ctrl.Result\<close> and an error, or a panic.\<close>

record ctrl_Result =
  RequeueAfter :: duration

definition emptyResult :: ctrl_Result where
  "emptyResult = \<lparr>RequeueAfter = 0\<rparr>"

datatype outcome = Returned ctrl_Result "go_error option" | Panicked

abbreviation no_requeue :: outcome where
  "no_requeue \<equiv> Returned emptyResult None"

abbreviation failed :: "go_error \<Rightarrow> outcome" where
  "failed e \<equiv> Returned emptyResult (Some e)"

end
