(* ===== verification/Api_Types.thy ===== *)
theory Api_Types
  imports Kube_Types
begin

text \<open>
  The custom resources of \<open>src/api/v1alpha1\<close>: \<open>PVCBackup\<close> and \<open>PVCRestore\<close>,
  each with its spec and its status. A \<open>metav1.Duration\<close> is a duration; the fields of a
  status are pointers, nil until the reconciler sets them.
\<close>

record PVCBackupSpec =
  PVCName :: string
  TTL :: duration
  bs_StorageClassName :: string
  bs_NodeSelector :: strmap
  bs_Tolerations :: "Toleration list"
  bs_PriorityClassName :: string
  bs_Labels :: strmap
  bs_Annotations :: strmap

type_synonym Result = string

record PVCBackupStatus =
  StartedAt :: "time option"
  FinishedAt :: "time option"
  Duration :: "duration option"
  Result :: "Result option"

record PVCBackup =
  backup_meta :: ObjectMeta
  backup_spec :: PVCBackupSpec
  backup_status :: PVCBackupStatus

record PVCRestoreSpec =
  SourcePVC :: string
  SourceNamespace :: string
  SourceSnapshot :: string
  TargetPVC :: string
  TargetPVCSize :: Quantity
  rs_StorageClassName :: string
  rs_NodeSelector :: strmap
  rs_Tolerations :: "Toleration list"
  rs_PriorityClassName :: string
  rs_Labels :: strmap
  rs_Annotations :: strmap

record PVCRestoreStatus =
  restore_StartedAt :: "time option"
  restore_FinishedAt :: "time option"
  restore_Duration :: "duration option"
  restore_Result :: "Result option"

record PVCRestore =
  restore_meta :: ObjectMeta
  restore_spec :: PVCRestoreSpec
  restore_status :: PVCRestoreStatus

text \<open>The zero values of the Go structs.\<close>

definition emptyBackupSpec :: PVCBackupSpec where
  "emptyBackupSpec = \<lparr>PVCName = [], TTL = 0, bs_StorageClassName = [], bs_NodeSelector = [],
     bs_Tolerations = [], bs_PriorityClassName = [], bs_Labels = [], bs_Annotations = []\<rparr>"

definition emptyBackupStatus :: PVCBackupStatus where
  "emptyBackupStatus = \<lparr>StartedAt = None, FinishedAt = None, Duration = None, Result = None\<rparr>"

end
