(* ===== verification/Kube_Client.thy ===== *)
theory Kube_Client
  imports Api_Types
begin

text \<open>
  The environment of the reconcilers. The API server and its caches, the cron library, the owner
  reference helpers, the polling helper and the clock are not part of \<open>src/\<close>: they are one
  parameter, the record \<open>'w kube\<close> of their operations over a world \<open>'w\<close> of which nothing is
  known. Every answer, error and interference by other clients is an answer some \<open>'w kube\<close>
  gives, so a theorem about all of them holds whatever the cluster does. What a property needs to
  know of them is a named hypothesis about the record, stated below.

  The state of the operator is the world, the \<open>CurrentRunningBackups\<close> map of the backup
  reconciler (nil until it is first filled), and the trace of the calls made so far with their
  answers, which the code never reads.
\<close>

record ListOptions =
  opt_Namespace :: string
  opt_Field :: "(string \<times> string) option"

text \<open>
  \<open>InNamespace ''''\<close> is the same as no namespace restriction, as in the client library.
\<close>

definition InNamespace :: "string \<Rightarrow> ListOptions" where
  "InNamespace ns = \<lparr>opt_Namespace = ns, opt_Field = None\<rparr>"

datatype event =
    EGetNamespace NamespacedName "go_error + Namespace_object"
  | EGetPVC NamespacedName "go_error + PersistentVolumeClaim"
  | EGetBackup NamespacedName "go_error + PVCBackup"
  | EGetRestore NamespacedName "go_error + PVCRestore"
  | EGetSnapshot NamespacedName "go_error + VolumeSnapshot"
  | EGetJob NamespacedName "go_error + Job"
  | EListBackups ListOptions "go_error + PVCBackup list"
  | EListPVCs ListOptions "go_error + PersistentVolumeClaim list"
  | ECreateSnapshot VolumeSnapshot "go_error + VolumeSnapshot"
  | ECreatePVC PersistentVolumeClaim "go_error + PersistentVolumeClaim"
  | ECreateJob Job "go_error + Job"
  | ECreateBackup PVCBackup "go_error + PVCBackup"
  | EUpdatePVC PersistentVolumeClaim "go_error + PersistentVolumeClaim"
  | EUpdateBackupStatus PVCBackup "go_error + PVCBackup"
  | EUpdateRestoreStatus PVCRestore "go_error + PVCRestore"
  | EDelete kind NamespacedName "string option" "go_error option"
  | ENow time
  | ESleep duration

record 'w sys =
  world :: 'w
  CurrentRunningBackups :: "string fset option"
  trace :: "event list"

type_synonym ('w, 'a) action = "('w sys, 'a) state"

record 'w kube =
  k_Get_Namespace :: "NamespacedName \<Rightarrow> 'w \<Rightarrow> (go_error + Namespace_object) \<times> 'w"
  k_Get_PVC :: "NamespacedName \<Rightarrow> 'w \<Rightarrow> (go_error + PersistentVolumeClaim) \<times> 'w"
  k_Get_PVCBackup :: "NamespacedName \<Rightarrow> 'w \<Rightarrow> (go_error + PVCBackup) \<times> 'w"
  k_Get_PVCRestore :: "NamespacedName \<Rightarrow> 'w \<Rightarrow> (go_error + PVCRestore) \<times> 'w"
  k_Get_VolumeSnapshot :: "NamespacedName \<Rightarrow> 'w \<Rightarrow> (go_error + VolumeSnapshot) \<times> 'w"
  k_Get_Job :: "NamespacedName \<Rightarrow> 'w \<Rightarrow> (go_error + Job) \<times> 'w"
  k_List_PVCBackups :: "ListOptions \<Rightarrow> 'w \<Rightarrow> (go_error + PVCBackup list) \<times> 'w"
  k_List_PVCs :: "ListOptions \<Rightarrow> 'w \<Rightarrow> (go_error + PersistentVolumeClaim list) \<times> 'w"
  k_Create_VolumeSnapshot :: "VolumeSnapshot \<Rightarrow> 'w \<Rightarrow> (go_error + VolumeSnapshot) \<times> 'w"
  k_Create_PVC :: "PersistentVolumeClaim \<Rightarrow> 'w \<Rightarrow> (go_error + PersistentVolumeClaim) \<times> 'w"
  k_Create_Job :: "Job \<Rightarrow> 'w \<Rightarrow> (go_error + Job) \<times> 'w"
  k_Create_PVCBackup :: "PVCBackup \<Rightarrow> 'w \<Rightarrow> (go_error + PVCBackup) \<times> 'w"
  k_Update_PVC :: "PersistentVolumeClaim \<Rightarrow> 'w \<Rightarrow> (go_error + PersistentVolumeClaim) \<times> 'w"
  k_Status_Update_PVCBackup :: "PVCBackup \<Rightarrow> 'w \<Rightarrow> (go_error + PVCBackup) \<times> 'w"
  k_Status_Update_PVCRestore :: "PVCRestore \<Rightarrow> 'w \<Rightarrow> (go_error + PVCRestore) \<times> 'w"
  k_Delete :: "kind \<Rightarrow> NamespacedName \<Rightarrow> string option \<Rightarrow> 'w \<Rightarrow> go_error option \<times> 'w"
  k_SetControllerReference :: "kind \<Rightarrow> ObjectMeta \<Rightarrow> ObjectMeta \<Rightarrow> go_error + ObjectMeta"
  k_GetControllerOf :: "ObjectMeta \<Rightarrow> OwnerReference option"
  k_cronexpr_Parse :: "string \<Rightarrow> go_error + (time \<Rightarrow> time)"
  k_time_Now :: "'w \<Rightarrow> time \<times> 'w"
  k_time_Sleep :: "duration \<Rightarrow> 'w \<Rightarrow> 'w"
  k_PollUntilContextTimeout ::
    "duration \<Rightarrow> duration \<Rightarrow> bool \<Rightarrow> ('w, go_error + bool) action \<Rightarrow> ('w, go_error option) action"

section \<open>Calls\<close>

definition call :: "('w \<Rightarrow> 'r \<times> 'w) \<Rightarrow> ('r \<Rightarrow> event) \<Rightarrow> ('w, 'r) action" where
  "call f ev = State (\<lambda>s. case f (world s) of
     (r, w) \<Rightarrow> (r, s\<lparr>world := w, trace := trace s @ [ev r]\<rparr>))"

abbreviation Get_Namespace :: "'w kube \<Rightarrow> NamespacedName \<Rightarrow> ('w, go_error + Namespace_object) action" where
  "Get_Namespace K nn \<equiv> call (k_Get_Namespace K nn) (EGetNamespace nn)"

abbreviation Get_PVC :: "'w kube \<Rightarrow> NamespacedName \<Rightarrow> ('w, go_error + PersistentVolumeClaim) action" where
  "Get_PVC K nn \<equiv> call (k_Get_PVC K nn) (EGetPVC nn)"

abbreviation Get_PVCBackup :: "'w kube \<Rightarrow> NamespacedName \<Rightarrow> ('w, go_error + PVCBackup) action" where
  "Get_PVCBackup K nn \<equiv> call (k_Get_PVCBackup K nn) (EGetBackup nn)"

abbreviation Get_PVCRestore :: "'w kube \<Rightarrow> NamespacedName \<Rightarrow> ('w, go_error + PVCRestore) action" where
  "Get_PVCRestore K nn \<equiv> call (k_Get_PVCRestore K nn) (EGetRestore nn)"

abbreviation Get_VolumeSnapshot :: "'w kube \<Rightarrow> NamespacedName \<Rightarrow> ('w, go_error + VolumeSnapshot) action" where
  "Get_VolumeSnapshot K nn \<equiv> call (k_Get_VolumeSnapshot K nn) (EGetSnapshot nn)"

abbreviation Get_Job :: "'w kube \<Rightarrow> NamespacedName \<Rightarrow> ('w, go_error + Job) action" where
  "Get_Job K nn \<equiv> call (k_Get_Job K nn) (EGetJob nn)"

abbreviation List_PVCBackups :: "'w kube \<Rightarrow> ListOptions \<Rightarrow> ('w, go_error + PVCBackup list) action" where
  "List_PVCBackups K opts \<equiv> call (k_List_PVCBackups K opts) (EListBackups opts)"

abbreviation List_PVCs :: "'w kube \<Rightarrow> ListOptions \<Rightarrow> ('w, go_error + PersistentVolumeClaim list) action" where
  "List_PVCs K opts \<equiv> call (k_List_PVCs K opts) (EListPVCs opts)"

abbreviation Create_VolumeSnapshot :: "'w kube \<Rightarrow> VolumeSnapshot \<Rightarrow> ('w, go_error + VolumeSnapshot) action" where
  "Create_VolumeSnapshot K x \<equiv> call (k_Create_VolumeSnapshot K x) (ECreateSnapshot x)"

abbreviation Create_PVC :: "'w kube \<Rightarrow> PersistentVolumeClaim \<Rightarrow> ('w, go_error + PersistentVolumeClaim) action" where
  "Create_PVC K x \<equiv> call (k_Create_PVC K x) (ECreatePVC x)"

abbreviation Create_Job :: "'w kube \<Rightarrow> Job \<Rightarrow> ('w, go_error + Job) action" where
  "Create_Job K x \<equiv> call (k_Create_Job K x) (ECreateJob x)"

abbreviation Create_PVCBackup :: "'w kube \<Rightarrow> PVCBackup \<Rightarrow> ('w, go_error + PVCBackup) action" where
  "Create_PVCBackup K x \<equiv> call (k_Create_PVCBackup K x) (ECreateBackup x)"

abbreviation Update_PVC :: "'w kube \<Rightarrow> PersistentVolumeClaim \<Rightarrow> ('w, go_error + PersistentVolumeClaim) action" where
  "Update_PVC K x \<equiv> call (k_Update_PVC K x) (EUpdatePVC x)"

abbreviation Status_Update_PVCBackup :: "'w kube \<Rightarrow> PVCBackup \<Rightarrow> ('w, go_error + PVCBackup) action" where
  "Status_Update_PVCBackup K x \<equiv> call (k_Status_Update_PVCBackup K x) (EUpdateBackupStatus x)"

abbreviation Status_Update_PVCRestore :: "'w kube \<Rightarrow> PVCRestore \<Rightarrow> ('w, go_error + PVCRestore) action" where
  "Status_Update_PVCRestore K x \<equiv> call (k_Status_Update_PVCRestore K x) (EUpdateRestoreStatus x)"

abbreviation Delete :: "'w kube \<Rightarrow> kind \<Rightarrow> NamespacedName \<Rightarrow> string option \<Rightarrow> ('w, go_error option) action" where
  "Delete K kd nn prop \<equiv> call (k_Delete K kd nn prop) (EDelete kd nn prop)"

abbreviation time_Now :: "'w kube \<Rightarrow> ('w, time) action" where
  "time_Now K \<equiv> call (k_time_Now K) ENow"

abbreviation time_Sleep :: "'w kube \<Rightarrow> duration \<Rightarrow> ('w, unit) action" where
  "time_Sleep K d \<equiv> call (\<lambda>w. ((), k_time_Sleep K d w)) (\<lambda>_. ESleep d)"

text \<open>The calls a computation makes, in order, with their answers.\<close>

definition calls :: "('w, 'a) action \<Rightarrow> 'w sys \<Rightarrow> event list" where
  "calls m s = trace (snd (run_state m (s\<lparr>trace := []\<rparr>)))"

section \<open>Hypotheses about the environment\<close>

text \<open>
  \<open>wait.PollUntilContextTimeout\<close> does nothing but wait and run its condition: what the
  condition and the passing of time both keep, the poll keeps.
\<close>

definition poll_runs_condition :: "'w kube \<Rightarrow> bool" where
  "poll_runs_condition K \<longleftrightarrow> (\<forall>R interval timeout immediate condition.
     (\<forall>s. R s s) \<longrightarrow> (\<forall>s t u. R s t \<longrightarrow> R t u \<longrightarrow> R s u) \<longrightarrow> (\<forall>s w. R s (s\<lparr>world := w\<rparr>)) \<longrightarrow>
     state_io_rel R condition \<longrightarrow>
     state_io_rel R (k_PollUntilContextTimeout K interval timeout immediate condition))"

section \<open>Facts about calls\<close>

lemma wp_call [wp]:
  "wp (call f ev) Q s =
   (case f (world s) of (r, w) \<Rightarrow> Q r (s\<lparr>world := w, trace := trace s @ [ev r]\<rparr>))"
  by (simp add: wp_def call_def split: prod.split)

lemma run_call:
  "run_state (call f ev) s =
   (case f (world s) of (r, w) \<Rightarrow> (r, s\<lparr>world := w, trace := trace s @ [ev r]\<rparr>))"
  by (simp add: call_def)

subsection \<open>Which calls a computation makes\<close>

text \<open>
  \<open>emit_rel P\<close>: the trace has grown, by calls that all satisfy \<open>P\<close>. A computation
  is shown to make only calls in \<open>P\<close> by the rules of \<open>step_rel\<close>.
\<close>

definition emit_rel :: "(event \<Rightarrow> bool) \<Rightarrow> 'w sys \<Rightarrow> 'w sys \<Rightarrow> bool" where
  "emit_rel P s t \<longleftrightarrow> (\<exists>es. trace t = trace s @ es \<and> list_all P es)"

definition same_running :: "'w sys \<Rightarrow> 'w sys \<Rightarrow> bool" where
  "same_running s t \<longleftrightarrow> CurrentRunningBackups t = CurrentRunningBackups s"

interpretation emits: step_rel "emit_rel P" for P
proof
  show "emit_rel P s s" for s by (simp add: emit_rel_def)
  show "emit_rel P s t \<Longrightarrow> emit_rel P t u \<Longrightarrow> emit_rel P s u" for s t u
    by (auto simp: emit_rel_def)
qed

interpretation running: step_rel same_running
  by unfold_locales (simp_all add: same_running_def)

declare emits.rel_intros [steps] running.rel_intros [steps]

lemma emit_rel_running [simp]: "emit_rel P s (s\<lparr>CurrentRunningBackups := R\<rparr>)"
  by (simp add: emit_rel_def)

lemma emit_call [steps]: "(\<And>r. P (ev r)) \<Longrightarrow> state_io_rel (emit_rel P) (call f ev)"
  by (rule state_io_relI) (auto simp: emit_rel_def run_call split: prod.splits)

lemma running_call [steps]: "state_io_rel same_running (call f ev)"
  by (rule state_io_relI) (auto simp: same_running_def run_call split: prod.splits)

lemma emit_poll [steps]:
  "poll_runs_condition K \<Longrightarrow> state_io_rel (emit_rel P) c \<Longrightarrow>
   state_io_rel (emit_rel P) (k_PollUntilContextTimeout K i t b c)"
  unfolding poll_runs_condition_def
  by (drule spec [of _ "emit_rel P"]) (auto intro: emits.R_refl emits.R_trans simp: emit_rel_def)

lemma running_poll [steps]:
  "poll_runs_condition K \<Longrightarrow> state_io_rel same_running c \<Longrightarrow>
   state_io_rel same_running (k_PollUntilContextTimeout K i t b c)"
  unfolding poll_runs_condition_def
  by (drule spec [of _ same_running]) (auto simp: same_running_def)

subsection \<open>The order of calls\<close>

text \<open>
  \<open>order_rel A B\<close>: among the calls made, each in \<open>B\<close> comes after one in \<open>A\<close>.
\<close>

definition order_rel :: "(event \<Rightarrow> bool) \<Rightarrow> (event \<Rightarrow> bool) \<Rightarrow> 'w sys \<Rightarrow> 'w sys \<Rightarrow> bool" where
  "order_rel A B s t \<longleftrightarrow> (\<exists>es. trace t = trace s @ es \<and> preceded A B es)"

interpretation order: step_rel "order_rel A B" for A B
proof
  show "order_rel A B s s" for s by (simp add: order_rel_def)
  show "order_rel A B s t \<Longrightarrow> order_rel A B t u \<Longrightarrow> order_rel A B s u" for s t u
    by (auto simp: order_rel_def preceded_append)
qed

declare order.rel_intros [steps]

lemma emit_imp_order:
  "state_io_rel (emit_rel (\<lambda>e. \<not> B e)) m \<Longrightarrow> state_io_rel (order_rel A B) m"
  by (fastforce simp: state_io_rel_def emit_rel_def order_rel_def intro: preceded_none)

lemma order_call [steps]: "(\<And>r. \<not> B (ev r)) \<Longrightarrow> state_io_rel (order_rel A B) (call f ev)"
  by (rule emit_imp_order) (rule emit_call)

text \<open>
  A block \<open>m\<close> that makes a call in \<open>A\<close> whenever its value satisfies \<open>G\<close>: what
  follows on such a value may call anything.
\<close>

definition establishes :: "(event \<Rightarrow> bool) \<Rightarrow> ('a \<Rightarrow> bool) \<Rightarrow> ('w, 'r + 'a) action \<Rightarrow> bool" where
  "establishes A G m \<longleftrightarrow> (\<forall>s. wp m (\<lambda>x t. \<exists>es. trace t = trace s @ es \<and>
     (case x of Inl _ \<Rightarrow> True | Inr a \<Rightarrow> G a \<longrightarrow> list_ex A es)) s)"

lemma order_or_return_establishes:
  assumes m: "state_io_rel (order_rel A B) m" and est: "establishes A G m"
    and no: "\<And>a. \<not> G a \<Longrightarrow> state_io_rel (order_rel A B) (k a)"
    and yes: "\<And>a. G a \<Longrightarrow> state_io_rel (emit_rel (\<lambda>_. True)) (k a)"
  shows "state_io_rel (order_rel A B) (or_return m k)"
proof (rule state_io_relI)
  fix a s s' assume run: "run_state (or_return m k) s = (a, s')"
  obtain x t where mt: "run_state m s = (x, t)" by fastforce
  with m have st: "order_rel A B s t" by blast
  show "order_rel A B s s'"
  proof (cases x)
    case (Inl r)
    with run mt st show ?thesis by (simp add: or_return_def)
  next
    case (Inr b)
    with run mt have ks: "run_state (k b) t = (a, s')" by (simp add: or_return_def)
    show ?thesis
    proof (cases "G b")
      case False
      with ks st no show ?thesis by (blast intro: order.R_trans)
    next
      case True
      from est mt Inr True obtain es where es: "trace t = trace s @ es" "list_ex A es"
        by (auto simp: establishes_def wp_def dest: spec [of _ s])
      from yes [OF True] ks obtain fs where "trace s' = trace t @ fs"
        by (auto simp: emit_rel_def dest!: state_io_relD)
      with es st show ?thesis by (auto simp: order_rel_def preceded_append)
    qed
  qed
qed

lemma calls_order: "state_io_rel (order_rel A B) m \<Longrightarrow> preceded A B (calls m s)"
  by (auto simp: calls_def state_io_rel_def order_rel_def dest!: spec [of _ "s\<lparr>trace := []\<rparr>"])

lemma calls_emit: "state_io_rel (emit_rel P) m \<Longrightarrow> e \<in> set (calls m s) \<Longrightarrow> P e"
  by (auto simp: calls_def state_io_rel_def emit_rel_def list_all_iff
      dest!: spec [of _ "s\<lparr>trace := []\<rparr>"])

lemma calls_wp: "wp m (\<lambda>_ t. Q (trace t)) (s\<lparr>trace := []\<rparr>) \<Longrightarrow> Q (calls m s)"
  by (simp add: calls_def wp_run_iff)

subsection \<open>Keeping the running map\<close>

text \<open>The running map, once made, stays.\<close>

definition filled_rel :: "'w sys \<Rightarrow> 'w sys \<Rightarrow> bool" where
  "filled_rel s t \<longleftrightarrow> (CurrentRunningBackups s \<noteq> None \<longrightarrow> CurrentRunningBackups t \<noteq> None)"

interpretation filled: step_rel filled_rel
  by unfold_locales (auto simp: filled_rel_def)

declare filled.rel_intros [steps]

lemma running_imp_filled: "state_io_rel same_running m \<Longrightarrow> state_io_rel filled_rel m"
  by (auto simp: state_io_rel_def filled_rel_def same_running_def)

lemma filled_call [steps]: "state_io_rel filled_rel (call f ev)"
  by (rule running_imp_filled) (rule running_call)

subsection \<open>Outcomes explained by a call\<close>

text \<open>Whenever \<open>m\<close> ends with an outcome in \<open>P\<close>, it has made a call in \<open>A\<close>.\<close>

definition explained :: "(event \<Rightarrow> bool) \<Rightarrow> ('r \<Rightarrow> bool) \<Rightarrow> ('w, 'r) action \<Rightarrow> bool" where
  "explained A P m \<longleftrightarrow> (\<forall>s. wp m (\<lambda>out t. \<exists>es. trace t = trace s @ es \<and> (P out \<longrightarrow> list_ex A es)) s)"

lemma explained_never:
  assumes "pred_state (\<lambda>out. \<not> P out) m" and "state_io_rel (emit_rel (\<lambda>_. True)) m"
  shows "explained A P m"
  unfolding explained_def wp_def
proof (intro allI, clarsimp split: prod.split)
  fix s out t assume run: "run_state m s = (out, t)"
  from pred_run [OF assms(1) run] rel_run [OF assms(2) run]
  show "\<exists>es. trace t = trace s @ es \<and> (P out \<longrightarrow> list_ex A es)" by (auto simp: emit_rel_def)
qed

lemma explained_or_return:
  assumes m: "pred_state (\<lambda>x. case x of Inl out \<Rightarrow> \<not> P out | Inr _ \<Rightarrow> True) m"
    and est: "establishes A (\<lambda>a. \<not> G a) m"
    and good: "\<And>a. G a \<Longrightarrow> explained A P (k a)"
    and bad: "\<And>a. \<not> G a \<Longrightarrow> state_io_rel (emit_rel (\<lambda>_. True)) (k a)"
  shows "explained A P (or_return m k)"
  unfolding explained_def
proof
  fix s
  obtain x t where run: "run_state m s = (x, t)" by fastforce
  with est obtain es where es: "trace t = trace s @ es"
    "case x of Inl _ \<Rightarrow> True | Inr a \<Rightarrow> \<not> G a \<longrightarrow> list_ex A es"
    by (auto simp: establishes_def wp_def dest: spec [of _ s])
  show "wp (or_return m k) (\<lambda>out t. \<exists>es. trace t = trace s @ es \<and> (P out \<longrightarrow> list_ex A es)) s"
  proof (cases x)
    case (Inl out)
    with run es pred_run [OF m run] show ?thesis by (auto simp: wp_or_return wp_def [of m])
  next
    case (Inr a)
    show ?thesis
    proof (cases "G a")
      case True
      with good have "wp (k a) (\<lambda>out u. \<exists>fs. trace u = trace t @ fs \<and> (P out \<longrightarrow> list_ex A fs)) t"
        by (auto simp: explained_def)
      with run Inr es show ?thesis by (auto simp: wp_or_return wp_def [of m] elim!: wp_mono)
    next
      case False
      from rel_wp [OF bad [OF False], of t] run Inr es False show ?thesis
        by (auto simp: wp_or_return wp_def [of m] emit_rel_def elim!: wp_mono)
    qed
  qed
qed

text \<open>
  Whenever \<open>m\<close> makes a call in \<open>B\<close>, its outcome and the running map before and after
  it are related by \<open>P\<close>.
\<close>

definition ends_with ::
  "(event \<Rightarrow> bool) \<Rightarrow> ('r \<Rightarrow> string fset option \<Rightarrow> string fset option \<Rightarrow> bool) \<Rightarrow> ('w, 'r) action \<Rightarrow> bool" where
  "ends_with B P m \<longleftrightarrow> (\<forall>s. wp m (\<lambda>out t. \<exists>es. trace t = trace s @ es \<and>
     (list_ex B es \<longrightarrow> P out (CurrentRunningBackups s) (CurrentRunningBackups t))) s)"

lemma ends_with_quiet:
  "state_io_rel (emit_rel (\<lambda>e. \<not> B e)) m \<Longrightarrow> ends_with B P m"
  unfolding ends_with_def
  by (intro allI, erule wp_mono [OF rel_wp]) (auto simp: emit_rel_def list_all_iff list_ex_iff)

lemma ends_with_or_return:
  assumes m: "state_io_rel (emit_rel (\<lambda>e. \<not> B e)) m" and same: "state_io_rel same_running m"
    and k: "\<And>a. ends_with B P (k a)"
  shows "ends_with B P (or_return m k)"
  unfolding ends_with_def
proof
  fix s
  obtain x t where run: "run_state m s = (x, t)" by fastforce
  from rel_run [OF m run] obtain es where es: "trace t = trace s @ es" "\<not> list_ex B es"
    by (auto simp: emit_rel_def list_all_iff list_ex_iff)
  from rel_run [OF same run] have eq: "CurrentRunningBackups t = CurrentRunningBackups s"
    by (simp add: same_running_def)
  have "wp (k a) (\<lambda>out u. \<exists>fs. trace u = trace t @ fs \<and>
     (list_ex B fs \<longrightarrow> P out (CurrentRunningBackups t) (CurrentRunningBackups u))) t" for a
    using k [of a] by (auto simp: ends_with_def)
  then have "wp (k a) (\<lambda>out t. \<exists>es. trace t = trace s @ es \<and>
     (list_ex B es \<longrightarrow> P out (CurrentRunningBackups s) (CurrentRunningBackups t))) t" for a
    by (rule wp_mono) (use es eq in auto)
  then show "wp (or_return m k) (\<lambda>out t. \<exists>es. trace t = trace s @ es \<and>
     (list_ex B es \<longrightarrow> P out (CurrentRunningBackups s) (CurrentRunningBackups t))) s"
    using run es by (cases x) (auto simp: wp_or_return wp_def [of m])
qed

end
