(* ===== verification/Util.thy ===== *)
theory Util
  imports Kube_Client
begin

text \<open>
  \<open>src/internal/controller/util.go\<close>: the annotation names, \<open>requeueAfter\<close>, the clock
  interface, the backup settings, the environment of restic containers and the choice of the
  storage class. The functions of \<open>samber/lo\<close> the operator uses (\<open>Contains\<close>,
  \<open>ContainsBy\<close>, \<open>Keys\<close>, \<open>Assign\<close>, \<open>Map\<close>, \<open>Filter\<close>, \<open>Reduce\<close>) are
  their list counterparts.
\<close>

definition BackupScheduleAnnotation :: string where
  "BackupScheduleAnnotation = ''backsnap.skyb.it/schedule''"

definition CurrentlyRestoringAnnotation :: string where
  "CurrentlyRestoringAnnotation = ''backsnap.skyb.it/restoring''"

definition dataVolume :: string where
  "dataVolume = ''data''"

definition requeueAfter :: "duration \<Rightarrow> ctrl_Result" where
  "requeueAfter d = \<lparr>RequeueAfter = max d Second\<rparr>"

text \<open>The interface \<open>Clock\<close> is its one method; \<open>realClock\<close> reads \<open>time.Now\<close>.\<close>

type_synonym 'w clock = "'w \<Rightarrow> time \<times> 'w"

definition realClock :: "'w kube \<Rightarrow> 'w clock" where
  "realClock K = k_time_Now K"

record BackupSettings =
  SnapshotClass :: string
  StorageClass :: string
  BackupStorageClass :: string
  RestoreStorageClass :: string
  ImagePullSecret :: string
  Image :: string
  S3Host :: string
  S3Bucket :: string
  S3AccessKeyId :: string
  S3SecretAccessKey :: string
  ResticPassword :: string
  ResticOldPassword :: string
  ResticEnv :: strmap
  ResticResources :: ResourceRequirements

definition defaultResticEnv :: strmap where
  "defaultResticEnv =
    [(''BACKSNAP_RETRY_LOCK'', ''30m''),
     (''BACKSNAP_CHECK_SUBSET'', ''10%''),
     (''RESTIC_PROGRESS_FPS'', ''0.0166666'')]"

definition lo_Assign :: "strmap \<Rightarrow> strmap \<Rightarrow> strmap" where
  "lo_Assign m1 m2 = copy_map m2 (copy_map m1 [])"

text \<open>Reading a Go map: the zero value for a missing key.\<close>

definition map_index :: "strmap \<Rightarrow> string \<Rightarrow> string" where
  "map_index m k = (case map_of m k of Some v \<Rightarrow> v | None \<Rightarrow> [])"

definition resticEnv :: "BackupSettings \<Rightarrow> EnvVar list \<Rightarrow> EnvVar list" where
  "resticEnv s managed =
    (let extra = lo_Assign defaultResticEnv (ResticEnv s);
         names = sort (map fst extra)
     in fold (\<lambda>name env.
               if list_ex (\<lambda>e. env_Name e = name) managed then env
               else env @ [\<lparr>env_Name = name, env_Value = map_index extra name\<rparr>])
          names managed)"

fun firstStorageClassName :: "string list \<Rightarrow> string option" where
  "firstStorageClassName [] = None"
| "firstStorageClassName (name # names) =
     (if name \<noteq> [] then Some name else firstStorageClassName names)"

definition backupStorageClassName :: "BackupSettings \<Rightarrow> string \<Rightarrow> string option" where
  "backupStorageClassName s override =
     firstStorageClassName [override, BackupStorageClass s, StorageClass s]"

definition restoreStorageClassName :: "BackupSettings \<Rightarrow> string \<Rightarrow> string option" where
  "restoreStorageClassName s override =
     firstStorageClassName [override, RestoreStorageClass s, StorageClass s]"

section \<open>Requeueing and storage classes\<close>

lemma requeueAfter_ge: "Second \<le> RequeueAfter (requeueAfter d)"
  by (simp add: requeueAfter_def)

lemma requeueAfter_0: "requeueAfter 0 = \<lparr>RequeueAfter = Second\<rparr>"
  by (simp add: requeueAfter_def Second_def)

lemma requeueAfter_future: "Second \<le> d \<Longrightarrow> RequeueAfter (requeueAfter d) = d"
  by (simp add: requeueAfter_def)

text \<open>
  What every reconciler of the operator owes the work queue: with an error no requeue time, and
  without one either none or at least a second, so that it never spins.
\<close>

fun polite :: "outcome \<Rightarrow> bool" where
  "polite Panicked = True"
| "polite (Returned res err) =
     (if err = None then RequeueAfter res = 0 \<or> Second \<le> RequeueAfter res else RequeueAfter res = 0)"

lemma polite_requeue [simp]: "polite (Returned (requeueAfter d) None)"
  by (simp add: requeueAfter_ge)

lemma polite_simps [simp]: "polite no_requeue" "polite (failed e)"
  by (simp_all add: emptyResult_def)

declare polite.simps(2) [simp del]

text \<open>The reference definition of the choice: the first non-empty name of the list.\<close>

lemma firstStorageClassName_find: "firstStorageClassName names = find (\<lambda>n. n \<noteq> []) names"
  by (induction names) auto

section \<open>The environment of restic containers\<close>

definition env_lookup :: "EnvVar list \<Rightarrow> string \<Rightarrow> string option" where
  "env_lookup env = map_of (map (\<lambda>e. (env_Name e, env_Value e)) env)"

lemma env_lookup_append:
  "env_lookup (xs @ ys) k = (case env_lookup xs k of Some v \<Rightarrow> Some v | None \<Rightarrow> env_lookup ys k)"
  by (auto simp: env_lookup_def map_add_def split: option.splits)

lemma env_lookup_None: "env_lookup env k = None \<longleftrightarrow> k \<notin> env_Name ` set env"
  by (auto simp: env_lookup_def map_of_eq_None_iff image_iff)

lemma env_lookup_map:
  "env_lookup (map (\<lambda>n. \<lparr>env_Name = n, env_Value = f n\<rparr>) ns) k = (if k \<in> set ns then Some (f k) else None)"
  by (induction ns) (auto simp: env_lookup_def)

lemma fold_append_filter:
  "fold (\<lambda>x acc. if P x then acc else acc @ [f x]) xs acc = acc @ map f (filter (\<lambda>x. \<not> P x) xs)"
  by (induction xs arbitrary: acc) auto

lemma distinct_copy_map: "distinct (map fst out) \<Longrightarrow> distinct (map fst (copy_map m out))"
  unfolding copy_map_def by (induction m arbitrary: out) (auto simp: distinct_update)

lemma distinct_lo_Assign: "distinct (map fst (lo_Assign m1 m2))"
  by (simp add: lo_Assign_def distinct_copy_map)

lemma map_of_lo_Assign:
  "distinct (map fst m1) \<Longrightarrow> distinct (map fst m2) \<Longrightarrow>
   map_of (lo_Assign m1 m2) k = (case map_of m2 k of Some v \<Rightarrow> Some v | None \<Rightarrow> map_of m1 k)"
  by (auto simp: lo_Assign_def map_of_copy_map split: option.split)

lemma distinct_defaultResticEnv: "distinct (map fst defaultResticEnv)"
  by (simp add: defaultResticEnv_def)

lemma resticEnv_eq:
  "resticEnv s managed =
   managed @ map (\<lambda>n. \<lparr>env_Name = n, env_Value = map_index (lo_Assign defaultResticEnv (ResticEnv s)) n\<rparr>)
     (filter (\<lambda>n. n \<notin> env_Name ` set managed) (sort (map fst (lo_Assign defaultResticEnv (ResticEnv s)))))"
  by (simp add: resticEnv_def fold_append_filter list_ex_iff image_iff Let_def)
     (intro arg_cong2 [where f = "\<lambda>P xs. map _ (filter P xs)"], auto)

lemma map_index_Some: "k \<in> fst ` set m \<Longrightarrow> map_of m k = Some (map_index m k)"
  by (auto simp: map_index_def split: option.split dest: weak_map_of_SomeI)

lemma resticEnv_lookup:
  assumes "distinct (map fst (ResticEnv s))"
  shows "env_lookup (resticEnv s managed) k =
    (case env_lookup managed k of Some v \<Rightarrow> Some v
     | None \<Rightarrow> (case map_of (ResticEnv s) k of Some v \<Rightarrow> Some v | None \<Rightarrow> map_of defaultResticEnv k))"
proof -
  let ?x = "lo_Assign defaultResticEnv (ResticEnv s)"
  have "env_lookup (resticEnv s managed) k =
      (case env_lookup managed k of Some v \<Rightarrow> Some v
       | None \<Rightarrow> (if k \<in> fst ` set ?x then Some (map_index ?x k) else None))"
    using env_lookup_None [of managed k]
    by (cases "env_lookup managed k") (auto simp: resticEnv_eq env_lookup_append env_lookup_map)
  also have "(if k \<in> fst ` set ?x then Some (map_index ?x k) else None) = map_of ?x k"
    using map_index_Some [of k ?x] by (auto simp: map_of_eq_None_iff [symmetric])
  also have "map_of ?x k =
      (case map_of (ResticEnv s) k of Some v \<Rightarrow> Some v | None \<Rightarrow> map_of defaultResticEnv k)"
    by (rule map_of_lo_Assign [OF distinct_defaultResticEnv assms])
  finally show ?thesis .
qed

lemma resticEnv_distinct:
  "distinct (map env_Name managed) \<Longrightarrow> distinct (map env_Name (resticEnv s managed))"
  using distinct_lo_Assign [of defaultResticEnv "ResticEnv s"]
  by (auto simp: resticEnv_eq comp_def)

lemma resticEnv_prefix: "take (length managed) (resticEnv s managed) = managed"
  by (simp add: resticEnv_eq)

lemma resticEnv_suffix_sorted: "sorted (map env_Name (drop (length managed) (resticEnv s managed)))"
  by (simp add: resticEnv_eq comp_def sorted_filter [where f = "\<lambda>x. x", simplified])

end
