(* ===== verification/Backup_Controller.thy ===== *)
theory Backup_Controller
  imports Util
begin

text \<open>
  \<open>src/internal/controller/pvcbackup_controller.go\<close>: the reconciler of \<open>PVCBackup\<close>
  objects. \<open>PVCBackupReconciler_Reconcile\<close> is the whole handler, composed of the blocks of the
  Go function in their order: finding the running backups on the first call, the namespace
  filter, the finished branch (deletion after the TTL, cleanup of the children), taking a slot,
  marking the start, making the snapshot, the temporary claim and the job, and finishing. Each
  block that can return early yields \<open>Inl\<close> of what the function returns. Logging is left out.
\<close>

record 'w PVCBackupReconciler =
  br_Clock :: "'w clock option"
  MaxRunningBackups :: int
  SleepBetweenBackups :: int
  br_Namespaces :: "string list"
  br_ExcludeNamespaces :: "string list"
  br_BackupSettings :: BackupSettings

text \<open>\<open>r.Now()\<close> of the embedded clock; calling it on a nil clock panics.\<close>

definition r_Now :: "'w PVCBackupReconciler \<Rightarrow> ('w, time option) action" where
  "r_Now r = (case br_Clock r of
      None \<Rightarrow> return None
    | Some c \<Rightarrow> do { t \<leftarrow> call c ENow; return (Some t) })"

section \<open>Helpers at the end of the file\<close>

text \<open>\<open>None\<close> is the nil dereference of \<open>backup.Status.StartedAt.Time\<close>.\<close>

definition setBackupFinished :: "time \<Rightarrow> PVCBackup \<Rightarrow> Result \<Rightarrow> PVCBackup option" where
  "setBackupFinished now backup result =
    (case StartedAt (backup_status backup) of
       None \<Rightarrow> None
     | Some startedAt \<Rightarrow>
         Some (backup\<lparr>backup_status := (backup_status backup)
           \<lparr>FinishedAt := Some now,
            Duration := Some (Duration_Round (Time_Sub now startedAt) Second),
            Result := Some result\<rparr>\<rparr>))"

definition backupIsRunning :: "PVCBackup \<Rightarrow> bool" where
  "backupIsRunning backup =
    (let started = (StartedAt (backup_status backup) \<noteq> None \<and> \<not> Time_IsZero (StartedAt (backup_status backup)));
         finished = (FinishedAt (backup_status backup) \<noteq> None \<and> \<not> Time_IsZero (FinishedAt (backup_status backup)))
     in started \<and> \<not> finished)"

definition backupQualifiedName :: "PVCBackup \<Rightarrow> string" where
  "backupQualifiedName backup = Namespace (backup_meta backup) @ ''/'' @ Name (backup_meta backup)"

definition add_running :: "(PVCBackup \<Rightarrow> bool) \<Rightarrow> PVCBackup list \<Rightarrow> string fset \<Rightarrow> string fset" where
  "add_running keep backups m =
    fold (\<lambda>backup m. if backupIsRunning backup then
                        (if keep backup then finsert (backupQualifiedName backup) m else m)
                      else m) backups m"

definition modify_running :: "(string fset \<Rightarrow> string fset) \<Rightarrow> ('w, unit) action" where
  "modify_running f = State_Monad.update (\<lambda>s. s\<lparr>CurrentRunningBackups := map_option f (CurrentRunningBackups s)\<rparr>)"

primrec find_in_namespaces ::
  "'w kube \<Rightarrow> 'w PVCBackupReconciler \<Rightarrow> string list \<Rightarrow> ('w, go_error option) action" where
  "find_in_namespaces K r [] = return None"
| "find_in_namespaces K r (namespace # namespaces) =
    (if namespace \<in> set (br_ExcludeNamespaces r) then find_in_namespaces K r namespaces
     else do {
       l \<leftarrow> List_PVCBackups K (InNamespace namespace);
       case l of
         Inl err \<Rightarrow> return (Some err)
       | Inr backups \<Rightarrow> do {
           modify_running (add_running (\<lambda>_. True) backups);
           find_in_namespaces K r namespaces } })"

definition FindCurrentRunningBackups ::
  "'w kube \<Rightarrow> 'w PVCBackupReconciler \<Rightarrow> ('w, go_error option) action" where
  "FindCurrentRunningBackups K r = do {
     State_Monad.update (\<lambda>s. s\<lparr>CurrentRunningBackups := Some {||}\<rparr>);
     if br_Namespaces r = [[]] then do {
       l \<leftarrow> List_PVCBackups K (InNamespace []);
       case l of
         Inl err \<Rightarrow> return (Some err)
       | Inr backups \<Rightarrow> do {
           modify_running (add_running
             (\<lambda>backup. Namespace (backup_meta backup) \<notin> set (br_ExcludeNamespaces r)) backups);
           return None } }
     else find_in_namespaces K r (br_Namespaces r) }"

section \<open>The finished branch\<close>

definition hasOlderSiblings :: "PVCBackup \<Rightarrow> time \<Rightarrow> PVCBackup list \<Rightarrow> bool" where
  "hasOlderSiblings backup finishedAt siblings =
    list_ex (\<lambda>sibling. PVCName (backup_spec sibling) = PVCName (backup_spec backup) \<and>
      (case FinishedAt (backup_status sibling) of
         None \<Rightarrow> False
       | Some t \<Rightarrow> Time_After t finishedAt)) siblings"

definition reconcile_expired :: "'w kube \<Rightarrow> PVCBackup \<Rightarrow> time \<Rightarrow> ('w, outcome) action" where
  "reconcile_expired K backup finishedAt = do {
     l \<leftarrow> List_PVCBackups K (InNamespace (Namespace (backup_meta backup)));
     case l of
       Inl err \<Rightarrow> return (failed err)
     | Inr siblings \<Rightarrow>
         if \<not> hasOlderSiblings backup finishedAt siblings then
           (let recheckAfter = TTL (backup_spec backup);
                recheckAfter = (if recheckAfter = 0 then Hour else recheckAfter)
            in return (Returned (requeueAfter recheckAfter) None))
         else do {
           e \<leftarrow> Delete K KPVCBackup (object_key (backup_meta backup)) None;
           case e of Some err \<Rightarrow> return (failed err) | None \<Rightarrow> return no_requeue } }"

definition delete_child :: "'w kube \<Rightarrow> kind \<Rightarrow> PVCBackup \<Rightarrow> ('w, outcome + unit) action" where
  "delete_child K kd backup = do {
     e \<leftarrow> Delete K kd (object_key (backup_meta backup)) (Some ''Background'');
     case e of
       None \<Rightarrow> return (Inr ())
     | Some err \<Rightarrow> if \<not> IsNotFound err then return (Inl (failed err)) else return (Inr ()) }"

definition reconcile_cleanup :: "'w kube \<Rightarrow> PVCBackup \<Rightarrow> duration \<Rightarrow> ('w, outcome) action" where
  "reconcile_cleanup K backup timeUntilDeletion =
     or_return (delete_child K KVolumeSnapshot backup) (\<lambda>_.
     or_return (delete_child K KJob backup) (\<lambda>_.
     or_return (delete_child K KPersistentVolumeClaim backup) (\<lambda>_.
     return (Returned (requeueAfter timeUntilDeletion) None))))"

definition reconcile_finished ::
  "'w kube \<Rightarrow> 'w PVCBackupReconciler \<Rightarrow> PVCBackup \<Rightarrow> ('w, outcome) action" where
  "reconcile_finished K r backup =
    (if Result (backup_status backup) = None \<or> Result (backup_status backup) \<noteq> Some ''Succeeded''
     then return no_requeue
     else case FinishedAt (backup_status backup) of
       None \<Rightarrow> return Panicked
     | Some finishedAt \<Rightarrow> do {
         n \<leftarrow> r_Now r;
         case n of
           None \<Rightarrow> return Panicked
         | Some now \<Rightarrow>
             let deletionAt = Time_Add finishedAt (TTL (backup_spec backup));
                 timeUntilDeletion = Time_Sub deletionAt now
             in if timeUntilDeletion \<le> 0 then reconcile_expired K backup finishedAt
                else reconcile_cleanup K backup timeUntilDeletion })"

section \<open>Slots and the start of a backup\<close>

text \<open>
  The decision on the map \<open>CurrentRunningBackups\<close>: \<open>None\<close> when the maximum is reached
  and this backup is not among the running ones.
\<close>

definition admit :: "int \<Rightarrow> string \<Rightarrow> string fset \<Rightarrow> string fset option" where
  "admit maxRunning qualifiedName running =
    (if qualifiedName |\<in>| running then Some (finsert qualifiedName running)
     else if 0 < maxRunning \<and> maxRunning \<le> int (fcard running) then None
     else Some (finsert qualifiedName running))"

definition acquire_slot :: "'w PVCBackupReconciler \<Rightarrow> string \<Rightarrow> ('w, outcome + unit) action" where
  "acquire_slot r qualifiedName = do {
     s \<leftarrow> State_Monad.get;
     case CurrentRunningBackups s of
       None \<Rightarrow> return (Inl Panicked)
     | Some running \<Rightarrow>
         (case admit (MaxRunningBackups r) qualifiedName running of
            None \<Rightarrow> return (Inl (Returned (requeueAfter (30 * Second)) None))
          | Some running' \<Rightarrow> do {
              State_Monad.set (s\<lparr>CurrentRunningBackups := Some running'\<rparr>);
              return (Inr ()) }) }"

definition release_slot :: "string \<Rightarrow> ('w, unit) action" where
  "release_slot qualifiedName = modify_running (\<lambda>m. m |-| {|qualifiedName|})"

definition mark_started :: "'w kube \<Rightarrow> PVCBackup \<Rightarrow> ('w, outcome + PVCBackup) action" where
  "mark_started K backup =
    (if StartedAt (backup_status backup) = None then do {
       now \<leftarrow> time_Now K;
       u \<leftarrow> Status_Update_PVCBackup K
              (backup\<lparr>backup_status := (backup_status backup)\<lparr>StartedAt := Some now\<rparr>\<rparr>);
       case u of Inl err \<Rightarrow> return (Inl (failed err)) | Inr backup' \<Rightarrow> return (Inr backup') }
     else return (Inr backup))"

section \<open>Snapshot, temporary claim and job\<close>

definition newSnapshot :: "'w PVCBackupReconciler \<Rightarrow> PVCBackup \<Rightarrow> PersistentVolumeClaim \<Rightarrow> VolumeSnapshot" where
  "newSnapshot r backup pvc =
    (let snapshotClass = (if SnapshotClass (br_BackupSettings r) \<noteq> []
                          then Some (SnapshotClass (br_BackupSettings r)) else None)
     in \<lparr>vs_meta = emptyMeta
           \<lparr>Namespace := Namespace (backup_meta backup),
            Name := Name (backup_meta backup),
            Labels := bs_Labels (backup_spec backup),
            Annotations := bs_Annotations (backup_spec backup)\<rparr>,
         vs_spec =
           \<lparr>vss_PersistentVolumeClaimName = Some (Name (pvc_meta pvc)),
            vss_VolumeSnapshotClassName = snapshotClass\<rparr>,
         vs_status = None\<rparr>)"

definition ensure_snapshot ::
  "'w kube \<Rightarrow> 'w PVCBackupReconciler \<Rightarrow> NamespacedName \<Rightarrow> PVCBackup \<Rightarrow> PersistentVolumeClaim \<Rightarrow>
   ('w, outcome + VolumeSnapshot) action" where
  "ensure_snapshot K r req backup pvc = do {
     g \<leftarrow> Get_VolumeSnapshot K req;
     case g of
       Inr snapshot \<Rightarrow> return (Inr snapshot)
     | Inl err \<Rightarrow>
         if \<not> IsNotFound err then return (Inl (failed err))
         else let snapshot = newSnapshot r backup pvc in
           (case k_SetControllerReference K KPVCBackup (backup_meta backup) (vs_meta snapshot) of
              Inl err \<Rightarrow> return (Inl (failed err))
            | Inr meta \<Rightarrow> do {
                c \<leftarrow> Create_VolumeSnapshot K (snapshot\<lparr>vs_meta := meta\<rparr>);
                case c of
                  Inl err \<Rightarrow> return (Inl (failed err))
                | Inr snapshot' \<Rightarrow> return (Inr snapshot') }) }"

definition snapshotReady :: "VolumeSnapshot \<Rightarrow> bool" where
  "snapshotReady snapshot =
    (case vs_status snapshot of
       None \<Rightarrow> False
     | Some st \<Rightarrow> (case ReadyToUse st of None \<Rightarrow> False | Some ready \<Rightarrow> ready))"

text \<open>\<open>None\<close> is the dereference of a nil \<open>snapshot.Status.RestoreSize\<close>.\<close>

definition snapshotSize :: "VolumeSnapshot \<Rightarrow> Quantity option" where
  "snapshotSize snapshot = (case vs_status snapshot of None \<Rightarrow> None | Some st \<Rightarrow> RestoreSize st)"

definition newSnapshotPVC ::
  "'w PVCBackupReconciler \<Rightarrow> PVCBackup \<Rightarrow> VolumeSnapshot \<Rightarrow> Quantity \<Rightarrow> PersistentVolumeClaim" where
  "newSnapshotPVC r backup snapshot restoreSize =
    (let storageClass = backupStorageClassName (br_BackupSettings r) (bs_StorageClassName (backup_spec backup));
         annotations = copy_map (bs_Annotations (backup_spec backup)) [];
         annotations = AList.update BackupScheduleAnnotation [] annotations
     in \<lparr>pvc_meta = emptyMeta
           \<lparr>Namespace := Namespace (backup_meta backup),
            Name := Name (backup_meta backup),
            Labels := bs_Labels (backup_spec backup),
            Annotations := annotations\<rparr>,
         pvc_spec =
           \<lparr>pvcs_StorageClassName = storageClass,
            pvcs_DataSource = Some
              \<lparr>ref_APIGroup = Some ''snapshot.storage.k8s.io'',
               ref_Kind = ''VolumeSnapshot'',
               ref_Name = Name (vs_meta snapshot)\<rparr>,
            pvcs_AccessModes = [''ReadWriteOnce''],
            pvcs_Requests = [(''storage'', restoreSize)]\<rparr>\<rparr>)"

definition ensure_snapshot_pvc ::
  "'w kube \<Rightarrow> 'w PVCBackupReconciler \<Rightarrow> NamespacedName \<Rightarrow> PVCBackup \<Rightarrow> VolumeSnapshot \<Rightarrow>
   ('w, outcome + PersistentVolumeClaim) action" where
  "ensure_snapshot_pvc K r req backup snapshot = do {
     g \<leftarrow> Get_PVC K req;
     case g of
       Inr snapshotPvc \<Rightarrow> return (Inr snapshotPvc)
     | Inl err \<Rightarrow>
         if \<not> IsNotFound err then return (Inl (failed err))
         else (case snapshotSize snapshot of
             None \<Rightarrow> return (Inl Panicked)
           | Some restoreSize \<Rightarrow>
               let snapshotPvc = newSnapshotPVC r backup snapshot restoreSize in
               (case k_SetControllerReference K KPVCBackup (backup_meta backup) (pvc_meta snapshotPvc) of
                  Inl err \<Rightarrow> return (Inl (failed err))
                | Inr meta \<Rightarrow> do {
                    c \<leftarrow> Create_PVC K (snapshotPvc\<lparr>pvc_meta := meta\<rparr>);
                    case c of
                      Inl err \<Rightarrow> return (Inl (failed err))
                    | Inr snapshotPvc' \<Rightarrow> return (Inr snapshotPvc') })) }"

definition backupManagedEnv :: "BackupSettings \<Rightarrow> PersistentVolumeClaim \<Rightarrow> EnvVar list" where
  "backupManagedEnv s pvc =
    [\<lparr>env_Name = ''BACKUP_NAMESPACE'', env_Value = Namespace (pvc_meta pvc)\<rparr>,
     \<lparr>env_Name = ''BACKUP_VOLUME'', env_Value = Name (pvc_meta pvc)\<rparr>,
     \<lparr>env_Name = ''RESTIC_REPOSITORY_BASE'', env_Value = ''s3:'' @ S3Host s @ ''/'' @ S3Bucket s\<rparr>,
     \<lparr>env_Name = ''RESTIC_PASSWORD'', env_Value = ResticPassword s\<rparr>,
     \<lparr>env_Name = ''BACKSNAP_OLD_RESTIC_PASSWORD'', env_Value = ResticOldPassword s\<rparr>,
     \<lparr>env_Name = ''AWS_ACCESS_KEY_ID'', env_Value = S3AccessKeyId s\<rparr>,
     \<lparr>env_Name = ''AWS_SECRET_ACCESS_KEY'', env_Value = S3SecretAccessKey s\<rparr>,
     \<lparr>env_Name = ''RESTIC_HOSTNAME'', env_Value = ''$(BACKUP_NAMESPACE)''\<rparr>,
     \<lparr>env_Name = ''RESTIC_REPOSITORY'',
      env_Value = ''$(RESTIC_REPOSITORY_BASE)/$(BACKUP_NAMESPACE)/$(BACKUP_VOLUME)''\<rparr>]"

definition newBackupJob ::
  "'w PVCBackupReconciler \<Rightarrow> PVCBackup \<Rightarrow> PersistentVolumeClaim \<Rightarrow> PersistentVolumeClaim \<Rightarrow> Job" where
  "newBackupJob r backup pvc snapshotPvc =
    (let settings = br_BackupSettings r; spec = backup_spec backup;
         imagePullSecrets = (if ImagePullSecret settings \<noteq> [] then [ImagePullSecret settings] else [])
     in \<lparr>job_meta = emptyMeta
           \<lparr>Namespace := Namespace (backup_meta backup),
            Name := Name (backup_meta backup),
            Labels := bs_Labels spec,
            Annotations := bs_Annotations spec\<rparr>,
         job_spec =
           \<lparr>BackoffLimit = Some 4,
            Template =
              \<lparr>tmpl_meta = emptyMeta\<lparr>Labels := bs_Labels spec, Annotations := bs_Annotations spec\<rparr>,
               tmpl_spec =
                 \<lparr>ImagePullSecrets = imagePullSecrets,
                  RestartPolicy = ''Never'',
                  pod_NodeSelector = bs_NodeSelector spec,
                  pod_Tolerations = bs_Tolerations spec,
                  pod_PriorityClassName = bs_PriorityClassName spec,
                  Volumes = [\<lparr>vol_Name = dataVolume, vol_ClaimName = Name (pvc_meta snapshotPvc),
                              vol_ReadOnly = True\<rparr>],
                  Containers =
                    [\<lparr>c_Name = ''default'',
                      c_Image = Image settings,
                      c_ImagePullPolicy = ''Always'',
                      c_Command = [],
                      c_Env = resticEnv settings (backupManagedEnv settings pvc),
                      c_Resources = ResticResources settings,
                      c_VolumeMounts = [\<lparr>vm_Name = dataVolume, vm_ReadOnly = True,
                                         vm_MountPath = ''/data''\<rparr>]\<rparr>]\<rparr>\<rparr>\<rparr>,
         job_status = \<lparr>CompletionTime = None\<rparr>\<rparr>)"

definition ensure_job ::
  "'w kube \<Rightarrow> 'w PVCBackupReconciler \<Rightarrow> NamespacedName \<Rightarrow> PVCBackup \<Rightarrow> PersistentVolumeClaim \<Rightarrow>
   PersistentVolumeClaim \<Rightarrow> ('w, outcome + Job) action" where
  "ensure_job K r req backup pvc snapshotPvc = do {
     g \<leftarrow> Get_Job K req;
     case g of
       Inr job \<Rightarrow> return (Inr job)
     | Inl err \<Rightarrow>
         if \<not> IsNotFound err then return (Inl (failed err))
         else let job = newBackupJob r backup pvc snapshotPvc in
           (case k_SetControllerReference K KPVCBackup (backup_meta backup) (job_meta job) of
              Inl err \<Rightarrow> return (Inl (failed err))
            | Inr meta \<Rightarrow> do {
                c \<leftarrow> Create_Job K (job\<lparr>job_meta := meta\<rparr>);
                case c of
                  Inl err \<Rightarrow> return (Inl (failed err))
                | Inr job' \<Rightarrow> return (Inr job') }) }"

section \<open>Finishing\<close>

definition jobCompleted :: "Job \<Rightarrow> bool" where
  "jobCompleted job \<longleftrightarrow> \<not> Time_IsZero (CompletionTime (job_status job))"

text \<open>The condition polled until the cache shows the finished status.\<close>

definition finishedVisible :: "'w kube \<Rightarrow> NamespacedName \<Rightarrow> ('w, go_error + bool) action" where
  "finishedVisible K req = do {
     g \<leftarrow> Get_PVCBackup K req;
     case g of
       Inl err \<Rightarrow> return (Inl err)
     | Inr backup \<Rightarrow> return (Inr (FinishedAt (backup_status backup) \<noteq> None \<and>
                                  \<not> Time_IsZero (FinishedAt (backup_status backup)))) }"

definition finish_backup ::
  "'w kube \<Rightarrow> 'w PVCBackupReconciler \<Rightarrow> NamespacedName \<Rightarrow> PVCBackup \<Rightarrow> string \<Rightarrow> ('w, outcome) action" where
  "finish_backup K r req backup qualifiedName = do {
     now \<leftarrow> time_Now K;
     case setBackupFinished now backup ''Succeeded'' of
       None \<Rightarrow> return Panicked
     | Some backup \<Rightarrow> do {
         time_Sleep K (wrap64 (SleepBetweenBackups r * Second));
         u \<leftarrow> Status_Update_PVCBackup K backup;
         case u of
           Inl err \<Rightarrow> return (failed err)
         | Inr _ \<Rightarrow> do {
             e \<leftarrow> k_PollUntilContextTimeout K (100 * Millisecond) (2 * Second) True (finishedVisible K req);
             case e of
               Some err \<Rightarrow>
                 return (failed (Wrapped ''failed to wait for PVCBackup Status to be updated: '' err))
             | None \<Rightarrow> do {
                 release_slot qualifiedName;
                 return (Returned (requeueAfter 0) None) } } } }"

section \<open>Reconcile\<close>

definition run_job ::
  "'w kube \<Rightarrow> 'w PVCBackupReconciler \<Rightarrow> NamespacedName \<Rightarrow> PVCBackup \<Rightarrow> PersistentVolumeClaim \<Rightarrow>
   PersistentVolumeClaim \<Rightarrow> string \<Rightarrow> ('w, outcome) action" where
  "run_job K r req backup pvc snapshotPvc qualifiedName =
     or_return (ensure_job K r req backup pvc snapshotPvc) (\<lambda>job.
     if \<not> jobCompleted job then return no_requeue
     else finish_backup K r req backup qualifiedName)"

definition run_snapshot ::
  "'w kube \<Rightarrow> 'w PVCBackupReconciler \<Rightarrow> NamespacedName \<Rightarrow> PVCBackup \<Rightarrow> PersistentVolumeClaim \<Rightarrow>
   VolumeSnapshot \<Rightarrow> string \<Rightarrow> ('w, outcome) action" where
  "run_snapshot K r req backup pvc snapshot qualifiedName =
    (if \<not> snapshotReady snapshot then return no_requeue
     else or_return (ensure_snapshot_pvc K r req backup snapshot) (\<lambda>snapshotPvc.
          run_job K r req backup pvc snapshotPvc qualifiedName))"

definition run_backup ::
  "'w kube \<Rightarrow> 'w PVCBackupReconciler \<Rightarrow> NamespacedName \<Rightarrow> PVCBackup \<Rightarrow> PersistentVolumeClaim \<Rightarrow>
   string \<Rightarrow> ('w, outcome) action" where
  "run_backup K r req backup pvc qualifiedName =
     or_return (ensure_snapshot K r req backup pvc) (\<lambda>snapshot.
     run_snapshot K r req backup pvc snapshot qualifiedName)"

definition reconcile_running ::
  "'w kube \<Rightarrow> 'w PVCBackupReconciler \<Rightarrow> NamespacedName \<Rightarrow> PVCBackup \<Rightarrow> PersistentVolumeClaim \<Rightarrow>
   string \<Rightarrow> ('w, outcome) action" where
  "reconcile_running K r req backup pvc qualifiedName =
     or_return (mark_started K backup) (\<lambda>backup.
     run_backup K r req backup pvc qualifiedName)"

definition reconcile_unfinished ::
  "'w kube \<Rightarrow> 'w PVCBackupReconciler \<Rightarrow> NamespacedName \<Rightarrow> PVCBackup \<Rightarrow> ('w, outcome) action" where
  "reconcile_unfinished K r req backup = do {
     g \<leftarrow> Get_PVC K \<lparr>nn_Namespace = nn_Namespace req, nn_Name = PVCName (backup_spec backup)\<rparr>;
     case g of
       Inl err \<Rightarrow> return (failed err)
     | Inr pvc \<Rightarrow>
         or_return (acquire_slot r (backupQualifiedName backup)) (\<lambda>_.
         reconcile_running K r req backup pvc (backupQualifiedName backup)) }"

definition reconcile_request ::
  "'w kube \<Rightarrow> 'w PVCBackupReconciler \<Rightarrow> NamespacedName \<Rightarrow> ('w, outcome) action" where
  "reconcile_request K r req =
    (if nn_Namespace req \<in> set (br_ExcludeNamespaces r) then return no_requeue
     else if [] \<notin> set (br_Namespaces r) \<and> nn_Namespace req \<notin> set (br_Namespaces r) then return no_requeue
     else do {
       g \<leftarrow> Get_PVCBackup K req;
       case g of
         Inl err \<Rightarrow>
           if IsNotFound err then do {
             release_slot (nn_Namespace req @ ''/'' @ nn_Name req);
             return no_requeue }
           else return (failed err)
       | Inr backup \<Rightarrow>
           if \<not> Time_IsZero (FinishedAt (backup_status backup)) then reconcile_finished K r backup
           else reconcile_unfinished K r req backup })"

definition PVCBackupReconciler_Reconcile ::
  "'w kube \<Rightarrow> 'w PVCBackupReconciler \<Rightarrow> NamespacedName \<Rightarrow> ('w, outcome) action" where
  "PVCBackupReconciler_Reconcile K r req = do {
     s \<leftarrow> State_Monad.get;
     if CurrentRunningBackups s = None then do {
       e \<leftarrow> FindCurrentRunningBackups K r;
       case e of Some err \<Rightarrow> return (failed err) | None \<Rightarrow> reconcile_request K r req }
     else reconcile_request K r req }"

end
