(* ===== verification/Slot_Pool.thy ===== *)
theory Slot_Pool
  imports Backup_Controller
begin

text \<open>
  The contract behind \<open>MaxRunningBackups\<close>: a pool of slots with a limit. The interface
  \<open>slot_pool\<close> says what taking and giving back a slot does to the set of holders; the
  properties of every history of such operations are proved inside it once, and it is interpreted
  on \<open>admit\<close> and the map deletion of the backup reconciler. \<open>pool_rel\<close> states that a
  computation changes \<open>CurrentRunningBackups\<close> through pool operations only, and for which
  names.
\<close>

datatype 'a slot_op = Take 'a | Give 'a

fun op_name :: "'a slot_op \<Rightarrow> 'a" where
  "op_name (Take a) = a"
| "op_name (Give a) = a"

locale slot_pool =
  fixes take_slot :: "'a \<Rightarrow> 'p \<Rightarrow> 'p option"
    and give_slot :: "'a \<Rightarrow> 'p \<Rightarrow> 'p"
    and holders :: "'p \<Rightarrow> 'a fset"
    and limit :: int
  assumes take_Some: "take_slot a p = Some p' \<Longrightarrow>
      holders p' = finsert a (holders p) \<and>
      (a |\<in>| holders p \<or> limit \<le> 0 \<or> int (fcard (holders p)) < limit)"
    and take_None: "take_slot a p = None \<Longrightarrow>
      a |\<notin>| holders p \<and> 0 < limit \<and> limit \<le> int (fcard (holders p))"
    and give_holders: "holders (give_slot a p) = holders p |-| {|a|}"
begin

fun apply_op :: "'a slot_op \<Rightarrow> 'p \<Rightarrow> 'p" where
  "apply_op (Take a) p = (case take_slot a p of None \<Rightarrow> p | Some p' \<Rightarrow> p')"
| "apply_op (Give a) p = give_slot a p"

lemma fcard_give: "fcard (holders (give_slot a p)) \<le> fcard (holders p)"
  by (metis fcard_mono fminus_fsubset give_holders)

lemma apply_op_bound:
  "0 < limit \<Longrightarrow> int (fcard (holders (apply_op op p))) \<le> max limit (int (fcard (holders p)))"
proof (cases op)
  case (Take a)
  assume "0 < limit"
  with Take show ?thesis
    using take_Some [of a p] by (auto simp: fcard_finsert_if finsert_absorb split: option.split)
next
  case (Give a)
  then show ?thesis using fcard_give [of a p] by simp
qed

text \<open>Whatever the history, the holders stay within the limit, or within what there was at first.\<close>

lemma history_bound:
  "0 < limit \<Longrightarrow> int (fcard (holders (fold apply_op ops p))) \<le> max limit (int (fcard (holders p)))"
proof (induction ops arbitrary: p)
  case Nil
  then show ?case by simp
next
  case (Cons op ops)
  from Cons.prems have "int (fcard (holders (fold apply_op ops (apply_op op p))))
      \<le> max limit (int (fcard (holders (apply_op op p))))" by (rule Cons.IH)
  with apply_op_bound [OF Cons.prems, of op p] show ?case by simp
qed

text \<open>Operations of others never take a slot away from its holder.\<close>

lemma history_keeps_holder:
  "a |\<in>| holders p \<Longrightarrow> Give a \<notin> set ops \<Longrightarrow> a |\<in>| holders (fold apply_op ops p)"
proof (induction ops arbitrary: p)
  case Nil
  then show ?case by simp
next
  case (Cons op ops)
  from Cons.prems have "a |\<in>| holders (apply_op op p)"
    using take_Some by (cases op) (auto simp: give_holders split: option.split)
  with Cons show ?case by simp
qed

text \<open>Operations for other names do not concern a name at all.\<close>

lemma apply_op_others: "op_name op \<noteq> a \<Longrightarrow> a |\<in>| holders (apply_op op p) \<longleftrightarrow> a |\<in>| holders p"
  using take_Some by (cases op) (auto simp: give_holders split: option.split)

lemma history_others:
  "a \<notin> op_name ` set ops \<Longrightarrow> a |\<in>| holders (fold apply_op ops p) \<longleftrightarrow> a |\<in>| holders p"
proof (induction ops arbitrary: p)
  case (Cons op ops)
  then show ?case using apply_op_others [of op a p] by auto
qed simp

text \<open>A slot is available again as soon as one holder of a full pool gives it back.\<close>

lemma take_after_give:
  assumes "0 < limit" and "int (fcard (holders p)) \<le> limit" and "b |\<in>| holders p"
  shows "take_slot a (give_slot b p) \<noteq> None"
proof
  assume "take_slot a (give_slot b p) = None"
  then have "limit \<le> int (fcard (holders p |-| {|b|}))"
    using take_None by (metis give_holders)
  moreover have "fcard (holders p |-| {|b|}) < fcard (holders p)"
    using assms(3) by (metis fcard_fminus1_less)
  ultimately show False using assms(2) by simp
qed

end

interpretation pool: slot_pool "admit m" "\<lambda>q R. R |-| {|q|}" "\<lambda>R. R" m for m
  by unfold_locales (auto simp: admit_def finsert_absorb split: if_splits)

section \<open>Computations that use the pool\<close>

definition pool_rel :: "int \<Rightarrow> string set \<Rightarrow> 'w sys \<Rightarrow> 'w sys \<Rightarrow> bool" where
  "pool_rel m Q s t \<longleftrightarrow>
     (\<forall>R. CurrentRunningBackups s = Some R \<longrightarrow>
       (\<exists>ops. op_name ` set ops \<subseteq> Q \<and> CurrentRunningBackups t = Some (fold (pool.apply_op m) ops R)))"

interpretation pool_steps: step_rel "pool_rel m Q" for m Q
proof
  show "pool_rel m Q s s" for s :: "'w sys"
    by (auto simp: pool_rel_def intro: exI [of _ "[]"])
  show "pool_rel m Q s u" if st: "pool_rel m Q s t" and tu: "pool_rel m Q t u" for s t u :: "'w sys"
    unfolding pool_rel_def
  proof (intro allI impI)
    fix R assume "CurrentRunningBackups s = Some R"
    with st obtain ops where o: "op_name ` set ops \<subseteq> Q"
      "CurrentRunningBackups t = Some (fold (pool.apply_op m) ops R)"
      by (auto simp: pool_rel_def)
    with tu obtain ops' where o': "op_name ` set ops' \<subseteq> Q"
      "CurrentRunningBackups u = Some (fold (pool.apply_op m) ops' (fold (pool.apply_op m) ops R))"
      by (auto simp: pool_rel_def)
    from o o' show "\<exists>ops. op_name ` set ops \<subseteq> Q \<and> CurrentRunningBackups u = Some (fold (pool.apply_op m) ops R)"
      by (intro exI [of _ "ops @ ops'"]) auto
  qed
qed

declare pool_steps.rel_intros [steps]

lemma same_running_pool: "same_running s t \<Longrightarrow> pool_rel m Q s t"
  by (auto simp: same_running_def pool_rel_def intro: exI [of _ "[]"])

lemma running_imp_pool: "state_io_rel same_running m \<Longrightarrow> state_io_rel (pool_rel k Q) m"
  by (auto simp: state_io_rel_def intro: same_running_pool)

lemma pool_rel_take:
  "CurrentRunningBackups s = Some R \<Longrightarrow> admit m q R = Some R' \<Longrightarrow> q \<in> Q \<Longrightarrow>
   pool_rel m Q s (s\<lparr>CurrentRunningBackups := Some R'\<rparr>)"
  by (auto simp: pool_rel_def intro!: exI [of _ "[Take q]"])

lemma pool_rel_give:
  "q \<in> Q \<Longrightarrow>
   pool_rel m Q s (s\<lparr>CurrentRunningBackups := map_option (\<lambda>R. R |-| {|q|}) (CurrentRunningBackups s)\<rparr>)"
  by (auto simp: pool_rel_def intro!: exI [of _ "[Give q]"])

lemma pool_rel_bound:
  assumes "pool_rel m Q s t" and "CurrentRunningBackups s = Some R" and "0 < m"
  shows "\<exists>R'. CurrentRunningBackups t = Some R' \<and> int (fcard R') \<le> max m (int (fcard R))"
  using assms pool.history_bound [OF assms(3)] by (auto simp: pool_rel_def)

lemma pool_rel_others:
  assumes "pool_rel m Q s t" and "CurrentRunningBackups s = Some R" and "q \<notin> Q"
  shows "\<exists>R'. CurrentRunningBackups t = Some R' \<and> (q |\<in>| R' \<longleftrightarrow> q |\<in>| R)"
proof -
  from assms(1,2) obtain ops where "op_name ` set ops \<subseteq> Q"
    "CurrentRunningBackups t = Some (fold (pool.apply_op m) ops R)"
    by (auto simp: pool_rel_def)
  with pool.history_others [of q ops m R] assms(3) show ?thesis by blast
qed

lemma pool_acquire [steps]:
  "MaxRunningBackups r = m \<Longrightarrow> q \<in> Q \<Longrightarrow> state_io_rel (pool_rel m Q) (acquire_slot r q)"
proof (rule state_io_relI)
  fix a s s'
  assume m: "MaxRunningBackups r = m" "q \<in> Q" and run: "run_state (acquire_slot r q) s = (a, s')"
  then show "pool_rel m Q s s'"
    by (auto simp: acquire_slot_def pool_steps.R_refl split: option.splits intro: pool_rel_take)
qed

lemma pool_release [steps]: "q \<in> Q \<Longrightarrow> state_io_rel (pool_rel m Q) (release_slot q)"
  unfolding release_slot_def modify_running_def
  by (rule pool_steps.rel_update) (rule pool_rel_give)

end
