(* ===== verification/Backup_Props.thy ===== *)
theory Backup_Props
  imports Slot_Pool
begin

text \<open>
  The behaviour of the backup reconciler: which calls each block makes, what happens to the
  running map, and the properties of whole reconciliations that follow.
\<close>

section \<open>Calls of the blocks\<close>

fun is_list :: "event \<Rightarrow> bool" where
  "is_list (EListBackups _ _) = True"
| "is_list _ = False"

fun is_delete :: "event \<Rightarrow> bool" where
  "is_delete (EDelete _ _ _ _) = True"
| "is_delete _ = False"

fun is_create :: "event \<Rightarrow> bool" where
  "is_create (ECreateSnapshot _ _) = True"
| "is_create (ECreatePVC _ _) = True"
| "is_create (ECreateJob _ _) = True"
| "is_create (ECreateBackup _ _) = True"
| "is_create _ = False"

fun is_status_update :: "event \<Rightarrow> bool" where
  "is_status_update (EUpdateBackupStatus _ _) = True"
| "is_status_update (EUpdateRestoreStatus _ _) = True"
| "is_status_update _ = False"

lemmas finished_defs = reconcile_finished_def reconcile_expired_def reconcile_cleanup_def
  delete_child_def r_Now_def

lemmas ensure_defs = mark_started_def ensure_snapshot_def ensure_snapshot_pvc_def ensure_job_def

lemmas running_defs = reconcile_running_def run_backup_def run_snapshot_def run_job_def
  ensure_defs finish_backup_def finishedVisible_def

lemma modify_running_emits: "state_io_rel (emit_rel P) (modify_running f)"
  unfolding modify_running_def by (auto intro!: steps)

lemma find_in_namespaces_emits: "state_io_rel (emit_rel is_list) (find_in_namespaces K r ns)"
  by (induction ns) (auto intro!: steps modify_running_emits)

lemma Find_emits: "state_io_rel (emit_rel is_list) (FindCurrentRunningBackups K r)"
  unfolding FindCurrentRunningBackups_def
  by (auto intro!: steps find_in_namespaces_emits modify_running_emits)

lemma finished_running: "state_io_rel same_running (reconcile_finished K r backup)"
  unfolding finished_defs by (auto intro!: steps simp: Let_def)

lemma finished_no_create:
  "state_io_rel (emit_rel (\<lambda>e. \<not> is_create e \<and> \<not> is_status_update e)) (reconcile_finished K r backup)"
  unfolding finished_defs by (auto intro!: steps simp: Let_def)

lemma release_emits: "state_io_rel (emit_rel P) (release_slot q)"
  unfolding release_slot_def by (rule modify_running_emits)

lemma acquire_emits: "state_io_rel (emit_rel P) (acquire_slot r q)"
  unfolding acquire_slot_def
  by (rule state_io_relI) (auto simp: emit_rel_def split: option.splits)

lemma running_no_delete:
  "poll_runs_condition K \<Longrightarrow>
   state_io_rel (emit_rel (\<lambda>e. \<not> is_delete e)) (reconcile_running K r req backup pvc q)"
  unfolding running_defs by (auto intro!: steps release_emits simp: Let_def)

lemma unfinished_no_delete:
  "poll_runs_condition K \<Longrightarrow>
   state_io_rel (emit_rel (\<lambda>e. \<not> is_delete e)) (reconcile_unfinished K r req backup)"
  unfolding reconcile_unfinished_def by (auto intro!: steps acquire_emits running_no_delete)

section \<open>The pool of running backups\<close>

lemma pool_call [steps]: "state_io_rel (pool_rel m Q) (call f ev)"
  by (rule running_imp_pool) (rule running_call)

lemma pool_poll [steps]:
  "poll_runs_condition K \<Longrightarrow> state_io_rel same_running c \<Longrightarrow>
   state_io_rel (pool_rel m Q) (k_PollUntilContextTimeout K i t b c)"
  by (rule running_imp_pool) (rule running_poll)

lemma finishedVisible_running: "state_io_rel same_running (finishedVisible K req)"
  unfolding finishedVisible_def by (auto intro!: steps)

lemma running_pool:
  assumes "poll_runs_condition K" and "q \<in> Q"
  shows "state_io_rel (pool_rel m Q) (reconcile_running K r req backup pvc q)"
proof -
  have "state_io_rel (pool_rel m Q) (finish_backup K r req backup q)" for backup
    unfolding finish_backup_def using assms
    by (auto intro!: steps finishedVisible_running)
  then show ?thesis
    unfolding reconcile_running_def run_backup_def run_snapshot_def run_job_def ensure_defs
    by (auto intro!: steps simp: Let_def)
qed

lemma unfinished_pool:
  assumes "poll_runs_condition K" and "backupQualifiedName backup \<in> Q"
  shows "state_io_rel (pool_rel (MaxRunningBackups r) Q) (reconcile_unfinished K r req backup)"
  unfolding reconcile_unfinished_def by (auto intro!: steps running_pool assms)

text \<open>Finding the running backups always leaves a map, even when it fails.\<close>

lemma modify_running_filled: "state_io_rel filled_rel (modify_running f)"
  unfolding modify_running_def by (auto intro!: steps simp: filled_rel_def)

lemma find_in_namespaces_filled: "state_io_rel filled_rel (find_in_namespaces K r ns)"
  by (induction ns) (auto intro!: steps modify_running_filled)

lemma Find_filled:
  assumes "run_state (FindCurrentRunningBackups K r) s = (e, t)"
  shows "CurrentRunningBackups t \<noteq> None"
proof -
  let ?s = "s\<lparr>CurrentRunningBackups := Some {||}\<rparr>"
  have "wp (FindCurrentRunningBackups K r) (\<lambda>_ t. filled_rel ?s t) s"
    unfolding FindCurrentRunningBackups_def wp_bind wp_update
    by (intro rel_wp) (auto intro!: steps find_in_namespaces_filled modify_running_filled)
  with assms show ?thesis by (simp add: wp_def filled_rel_def)
qed

section \<open>The order of a backup\<close>

text \<open>Events that show a completed job, a ready snapshot and the temporary claim.\<close>

fun saw_completed_job :: "NamespacedName \<Rightarrow> event \<Rightarrow> bool" where
  "saw_completed_job req (EGetJob nn (Inr job)) = (nn = req \<and> jobCompleted job)"
| "saw_completed_job req (ECreateJob _ (Inr job)) = jobCompleted job"
| "saw_completed_job req _ = False"

fun saw_ready_snapshot :: "NamespacedName \<Rightarrow> event \<Rightarrow> bool" where
  "saw_ready_snapshot req (EGetSnapshot nn (Inr snapshot)) = (nn = req \<and> snapshotReady snapshot)"
| "saw_ready_snapshot req (ECreateSnapshot _ (Inr snapshot)) = snapshotReady snapshot"
| "saw_ready_snapshot req _ = False"

fun saw_snapshot_pvc :: "NamespacedName \<Rightarrow> event \<Rightarrow> bool" where
  "saw_snapshot_pvc req (EGetPVC nn (Inr _)) = (nn = req)"
| "saw_snapshot_pvc req (ECreatePVC _ (Inr _)) = True"
| "saw_snapshot_pvc req _ = False"

fun finishes :: "event \<Rightarrow> bool" where
  "finishes (EUpdateBackupStatus b _) = (\<not> Time_IsZero (FinishedAt (backup_status b)))"
| "finishes _ = False"

fun creates_pvc :: "event \<Rightarrow> bool" where
  "creates_pvc (ECreatePVC _ _) = True"
| "creates_pvc _ = False"

fun creates_job :: "event \<Rightarrow> bool" where
  "creates_job (ECreateJob _ _) = True"
| "creates_job _ = False"

lemma ensure_job_establishes: "establishes (saw_completed_job req) jobCompleted (ensure_job K r req backup pvc spvc)"
  unfolding establishes_def ensure_job_def
  by (auto simp: wp Let_def split: sum.split prod.split)

lemma ensure_snapshot_establishes:
  "establishes (saw_ready_snapshot req) snapshotReady (ensure_snapshot K r req backup pvc)"
  unfolding establishes_def ensure_snapshot_def
  by (auto simp: wp Let_def split: sum.split prod.split)

lemma ensure_pvc_establishes:
  "establishes (saw_snapshot_pvc req) (\<lambda>_. True) (ensure_snapshot_pvc K r req backup snapshot)"
  unfolding establishes_def ensure_snapshot_pvc_def
  by (auto simp: wp Let_def split: sum.split prod.split option.split)

lemma running_appends:
  assumes "poll_runs_condition K"
  shows "state_io_rel (emit_rel (\<lambda>_. True)) (finish_backup K r req backup q)"
    and "state_io_rel (emit_rel (\<lambda>_. True)) (run_job K r req backup pvc spvc q)"
    and "state_io_rel (emit_rel (\<lambda>_. True)) (run_snapshot K r req backup pvc snapshot q)"
  unfolding running_defs using assms by (auto intro!: steps release_emits simp: Let_def)

lemma run_job_finish_order:
  "poll_runs_condition K \<Longrightarrow>
   state_io_rel (order_rel (saw_completed_job req) finishes) (run_job K r req backup pvc spvc q)"
  unfolding run_job_def
  by (rule order_or_return_establishes [OF _ ensure_job_establishes])
     (auto intro!: steps running_appends simp: ensure_job_def Let_def)

lemma running_finish_order:
  assumes "poll_runs_condition K" and "Time_IsZero (FinishedAt (backup_status backup))"
  shows "state_io_rel (order_rel (saw_completed_job req) finishes) (reconcile_running K r req backup pvc q)"
  unfolding reconcile_running_def run_backup_def run_snapshot_def mark_started_def
    ensure_snapshot_def ensure_snapshot_pvc_def
  using assms by (auto intro!: steps run_job_finish_order simp: Let_def)

lemma running_pvc_order:
  assumes "poll_runs_condition K"
  shows "state_io_rel (order_rel (saw_ready_snapshot req) creates_pvc) (reconcile_running K r req backup pvc q)"
proof -
  have "state_io_rel (order_rel (saw_ready_snapshot req) creates_pvc) (run_backup K r req b pvc q)" for b
    unfolding run_backup_def
    by (rule order_or_return_establishes [OF _ ensure_snapshot_establishes])
       (auto intro!: steps running_appends assms simp: ensure_snapshot_def run_snapshot_def
         ensure_snapshot_pvc_def Let_def)
  then show ?thesis
    unfolding reconcile_running_def mark_started_def by (auto intro!: steps)
qed

lemma running_job_order:
  assumes "poll_runs_condition K"
  shows "state_io_rel (order_rel (saw_snapshot_pvc req) creates_job) (reconcile_running K r req backup pvc q)"
proof -
  have "state_io_rel (order_rel (saw_snapshot_pvc req) creates_job)
      (or_return (ensure_snapshot_pvc K r req b sn) (\<lambda>spvc. run_job K r req b pvc spvc q))" for b sn
    by (rule order_or_return_establishes [OF _ ensure_pvc_establishes])
       (auto intro!: steps running_appends assms simp: ensure_snapshot_pvc_def Let_def)
  then have "state_io_rel (order_rel (saw_snapshot_pvc req) creates_job) (run_snapshot K r req b pvc sn q)" for b sn
    unfolding run_snapshot_def by (rule rel_if [rotated]) (auto intro!: steps)
  then show ?thesis
    unfolding reconcile_running_def mark_started_def run_backup_def ensure_snapshot_def
    by (auto intro!: steps simp: Let_def)
qed

section \<open>Whole reconciliations\<close>

lemma emit_mono: "(\<And>e. P e \<Longrightarrow> Q e) \<Longrightarrow> state_io_rel (emit_rel P) m \<Longrightarrow> state_io_rel (emit_rel Q) m"
  by (fastforce simp: state_io_rel_def emit_rel_def list_all_iff)

lemma Reconcile_order:
  assumes B: "\<And>e. B e \<Longrightarrow> is_create e \<or> is_status_update e"
    and run: "\<And>backup pvc q. Time_IsZero (FinishedAt (backup_status backup)) \<Longrightarrow>
      state_io_rel (order_rel A B) (reconcile_running K r req backup pvc q)"
  shows "state_io_rel (order_rel A B) (PVCBackupReconciler_Reconcile K r req)"
proof -
  have nb: "\<not> B (EGetBackup nn x)" "\<not> B (EGetPVC nn y)" for nn x y
    using B by fastforce+
  have "state_io_rel (emit_rel (\<lambda>e. \<not> B e)) (FindCurrentRunningBackups K r)"
    by (rule emit_mono [OF _ Find_emits]) (auto elim!: is_list.elims dest!: B)
  moreover have "state_io_rel (emit_rel (\<lambda>e. \<not> B e)) (reconcile_finished K r backup)" for backup
    by (rule emit_mono [OF _ finished_no_create]) (use B in blast)
  ultimately show ?thesis
    unfolding PVCBackupReconciler_Reconcile_def reconcile_request_def reconcile_unfinished_def
    using run nb
    by (auto intro!: steps emit_imp_order [OF release_emits] emit_imp_order [OF acquire_emits]
        intro: emit_imp_order)
qed

text \<open>
  How a reconciliation can go: it ends before the backup is read or because the backup cannot be
  read, or it reads the backup and takes the finished or the unfinished branch.
\<close>

definition br_watches :: "'w PVCBackupReconciler \<Rightarrow> string \<Rightarrow> bool" where
  "br_watches r ns \<longleftrightarrow> ns \<notin> set (br_ExcludeNamespaces r) \<and>
     ([] \<in> set (br_Namespaces r) \<or> ns \<in> set (br_Namespaces r))"

definition request_name :: "NamespacedName \<Rightarrow> string" where
  "request_name req = nn_Namespace req @ ''/'' @ nn_Name req"

lemma request_run_cases:
  assumes "run_state (reconcile_request K r req) s = (out, t)"
  obtains (unwatched) "\<not> br_watches r (nn_Namespace req)" "out = no_requeue" "t = s"
  | (unread) err w where "br_watches r (nn_Namespace req)"
      "k_Get_PVCBackup K req (world s) = (Inl err, w)"
      "t = s\<lparr>world := w, trace := trace s @ [EGetBackup req (Inl err)],
             CurrentRunningBackups := (if IsNotFound err
               then map_option (\<lambda>R. R |-| {|request_name req|}) (CurrentRunningBackups s)
               else CurrentRunningBackups s)\<rparr>"
      "out = (if IsNotFound err then no_requeue else failed err)"
  | (finished) backup w where "br_watches r (nn_Namespace req)"
      "k_Get_PVCBackup K req (world s) = (Inr backup, w)"
      "\<not> Time_IsZero (FinishedAt (backup_status backup))"
      "run_state (reconcile_finished K r backup)
         (s\<lparr>world := w, trace := trace s @ [EGetBackup req (Inr backup)]\<rparr>) = (out, t)"
  | (unfinished) backup w where "br_watches r (nn_Namespace req)"
      "k_Get_PVCBackup K req (world s) = (Inr backup, w)"
      "Time_IsZero (FinishedAt (backup_status backup))"
      "run_state (reconcile_unfinished K r req backup)
         (s\<lparr>world := w, trace := trace s @ [EGetBackup req (Inr backup)]\<rparr>) = (out, t)"
proof (cases "br_watches r (nn_Namespace req)")
  case False
  with assms that(1) show thesis by (auto simp: br_watches_def reconcile_request_def split: if_splits)
next
  case True
  obtain x w where g: "k_Get_PVCBackup K req (world s) = (x, w)" by fastforce
  from True assms g show thesis
    using that(2-4)
    by (cases x) (auto simp: br_watches_def reconcile_request_def run_call release_slot_def
        request_name_def modify_running_def State_Monad.update_def split: if_splits)
qed

lemma Reconcile_run_cases:
  assumes "run_state (PVCBackupReconciler_Reconcile K r req) s = (out, t)"
  obtains (find_failed) err where "CurrentRunningBackups s = None" "emit_rel is_list s t"
      "CurrentRunningBackups t \<noteq> None" "out = failed err"
  | (request) u where "emit_rel is_list s u" "CurrentRunningBackups s \<noteq> None \<longrightarrow> u = s"
      "CurrentRunningBackups u \<noteq> None"
      "run_state (reconcile_request K r req) u = (out, t)"
proof (cases "CurrentRunningBackups s = None")
  case False
  with assms that(2) [of s] show thesis
    by (simp add: PVCBackupReconciler_Reconcile_def emits.R_refl)
next
  case True
  obtain e u where f: "run_state (FindCurrentRunningBackups K r) s = (e, u)" by fastforce
  with Find_emits [of K r] have "emit_rel is_list s u" by blast
  with True f Find_filled [OF f] assms that show thesis
    by (cases e) (auto simp: PVCBackupReconciler_Reconcile_def)
qed

text \<open>
  A reconciliation uses the pool for the backup it is about: the name of the request, or of the
  object read under it.
\<close>

lemma Reconcile_pool:
  assumes poll: "poll_runs_condition K" and Q: "request_name req \<in> Q"
    and read: "\<And>w backup w'. k_Get_PVCBackup K req w = (Inr backup, w') \<Longrightarrow> backupQualifiedName backup \<in> Q"
  shows "state_io_rel (pool_rel (MaxRunningBackups r) Q) (PVCBackupReconciler_Reconcile K r req)"
proof (rule state_io_relI)
  fix out s t assume run: "run_state (PVCBackupReconciler_Reconcile K r req) s = (out, t)"
  show "pool_rel (MaxRunningBackups r) Q s t"
  proof (cases "CurrentRunningBackups s = None")
    case True
    then show ?thesis by (simp add: pool_rel_def)
  next
    case False
    with run have "run_state (reconcile_request K r req) s = (out, t)"
      by (simp add: PVCBackupReconciler_Reconcile_def)
    then show ?thesis
    proof (cases rule: request_run_cases)
      case unwatched
      then show ?thesis by (simp add: pool_steps.R_refl)
    next
      case (unread err w)
      with pool_rel_give [OF Q, of _ s] show ?thesis
        by (auto simp: pool_rel_def intro: exI [of _ "[]"])
    next
      case (finished backup w)
      with rel_run [OF running_imp_pool [OF finished_running] finished(4)] show ?thesis
        by (simp add: pool_rel_def)
    next
      case (unfinished backup w)
      with rel_run [OF unfinished_pool [OF poll read] unfinished(4)] show ?thesis
        by (simp add: pool_rel_def)
    qed
  qed
qed

section \<open>Deleting\<close>

definition superseded_by :: "PVCBackup \<Rightarrow> time \<Rightarrow> PVCBackup \<Rightarrow> bool" where
  "superseded_by backup finishedAt sibling \<longleftrightarrow>
     PVCName (backup_spec sibling) = PVCName (backup_spec backup) \<and>
     (\<exists>t. FinishedAt (backup_status sibling) = Some t \<and> finishedAt < t)"

lemma hasOlderSiblings_iff:
  "hasOlderSiblings backup finishedAt siblings \<longleftrightarrow> (\<exists>sibling\<in>set siblings. superseded_by backup finishedAt sibling)"
  by (auto simp: hasOlderSiblings_def superseded_by_def list_ex_iff Time_After_def split: option.splits)

text \<open>What the finished branch has seen when it deletes something.\<close>

definition delete_justified :: "PVCBackup \<Rightarrow> kind \<Rightarrow> NamespacedName \<Rightarrow> event list \<Rightarrow> bool" where
  "delete_justified backup kd nn es \<longleftrightarrow>
     nn = object_key (backup_meta backup) \<and>
     Result (backup_status backup) = Some ''Succeeded'' \<and>
     (\<exists>finishedAt now. FinishedAt (backup_status backup) = Some finishedAt \<and> ENow now \<in> set es \<and>
       (if finishedAt + TTL (backup_spec backup) \<le> now
        then kd = KPVCBackup \<and>
          (\<exists>siblings. EListBackups (InNamespace (Namespace (backup_meta backup))) (Inr siblings) \<in> set es \<and>
            (\<exists>sibling\<in>set siblings. superseded_by backup finishedAt sibling))
        else kd \<in> {KVolumeSnapshot, KJob, KPersistentVolumeClaim}))"

lemma finished_deletes:
  assumes "run_state (reconcile_finished K r backup) s = (out, t)"
  shows "\<exists>es. trace t = trace s @ es \<and>
    (\<forall>kd nn prop res. EDelete kd nn prop res \<in> set es \<longrightarrow> delete_justified backup kd nn es)"
proof -
  have "wp (reconcile_finished K r backup) (\<lambda>_ t. \<exists>es. trace t = trace s @ es \<and>
    (\<forall>kd nn prop res. EDelete kd nn prop res \<in> set es \<longrightarrow> delete_justified backup kd nn es)) s"
    unfolding finished_defs delete_justified_def
    by (auto simp: wp Let_def hasOlderSiblings_iff Time_Sub_le_0_iff Time_Add_def
        split: option.split sum.split prod.split)
  with assms show ?thesis by (simp add: wp_def)
qed

abbreviation backup_calls :: "'w kube \<Rightarrow> 'w PVCBackupReconciler \<Rightarrow> NamespacedName \<Rightarrow> 'w sys \<Rightarrow> event list" where
  "backup_calls K r req s \<equiv> calls (PVCBackupReconciler_Reconcile K r req) s"

lemma delete_justified_mono:
  "delete_justified backup kd nn es \<Longrightarrow> set es \<subseteq> set es' \<Longrightarrow> delete_justified backup kd nn es'"
  unfolding delete_justified_def by (force split: if_splits)

lemma Reconcile_deletes:
  assumes poll: "poll_runs_condition K"
    and e: "EDelete kd nn policy res \<in> set (backup_calls K r req s)"
  shows "\<exists>backup. EGetBackup req (Inr backup) \<in> set (backup_calls K r req s) \<and>
    delete_justified backup kd nn (backup_calls K r req s)"
proof -
  let ?s = "s\<lparr>trace := []\<rparr>"
  obtain out t where run: "run_state (PVCBackupReconciler_Reconcile K r req) ?s = (out, t)" by fastforce
  then have t: "backup_calls K r req s = trace t" by (simp add: calls_def)
  from run show ?thesis
  proof (cases rule: Reconcile_run_cases)
    case (find_failed err)
    with e t show ?thesis by (auto simp: emit_rel_def list_all_iff)
  next
    case (request u)
    then have u: "list_all is_list (trace u)" by (simp add: emit_rel_def)
    from request(4) show ?thesis
    proof (cases rule: request_run_cases)
      case unwatched
      with e t u show ?thesis by (auto simp: list_all_iff)
    next
      case (unread err w)
      with e t u show ?thesis by (auto simp: list_all_iff)
    next
      case (finished backup w)
      from finished_deletes [OF finished(4)] obtain es where
        es: "trace t = trace u @ [EGetBackup req (Inr backup)] @ es" and
        just: "\<forall>kd nn policy res. EDelete kd nn policy res \<in> set es \<longrightarrow> delete_justified backup kd nn es"
        by auto
      from e t es u have "EDelete kd nn policy res \<in> set es" by (auto simp: list_all_iff)
      with just have "delete_justified backup kd nn es" by blast
      then have "delete_justified backup kd nn (trace t)" by (rule delete_justified_mono) (auto simp: es)
      with es t show ?thesis by auto
    next
      case (unfinished backup w)
      from rel_run [OF unfinished_no_delete [OF poll] unfinished(4)] e t u have False
        by (fastforce simp: list_all_iff emit_rel_def)
      then show ?thesis ..
    qed
  qed
qed

end
