(* ===== verification/Backup_Outcomes.thy ===== *)
theory Backup_Outcomes
  imports Backup_Props
begin

text \<open>
  How reconciliations of the backup controller end: what the search for running backups leaves in
  the map, what a finished backup leaves behind, which outcomes are possible and what must have
  been seen when the handler panics.
\<close>

section \<open>Finding the running backups\<close>

lemma in_add_running:
  "q |\<in>| add_running keep bs m \<longleftrightarrow>
   q |\<in>| m \<or> (\<exists>b\<in>set bs. backupIsRunning b \<and> keep b \<and> backupQualifiedName b = q)"
  unfolding add_running_def by (induction bs arbitrary: m) auto

text \<open>
  The lists of an API server that holds the backups \<open>bs\<close> and answers every call: the
  objects of the namespace, or all of them for the empty name.
\<close>

definition lists_backups :: "'w kube \<Rightarrow> PVCBackup list \<Rightarrow> bool" where
  "lists_backups K bs \<longleftrightarrow> (\<forall>ns w. fst (k_List_PVCBackups K (InNamespace ns) w) =
     Inr (filter (\<lambda>b. ns = [] \<or> Namespace (backup_meta b) = ns) bs))"

lemma find_in_namespaces_wp:
  assumes "lists_backups K bs" and "[] \<notin> set ns"
  shows "CurrentRunningBackups s = Some R \<Longrightarrow> wp (find_in_namespaces K r ns) (\<lambda>e t. e = None \<and>
    (\<exists>R'. CurrentRunningBackups t = Some R' \<and> (\<forall>q. q |\<in>| R' \<longleftrightarrow> q |\<in>| R \<or>
      (\<exists>b\<in>set bs. backupIsRunning b \<and> backupQualifiedName b = q \<and>
        Namespace (backup_meta b) \<in> set ns \<and> Namespace (backup_meta b) \<notin> set (br_ExcludeNamespaces r))))) s"
  using assms(2)
proof (induction ns arbitrary: s R)
  case Nil
  then show ?case by (simp add: wp)
next
  case (Cons n ns)
  show ?case
  proof (cases "n \<in> set (br_ExcludeNamespaces r)")
    case True
    with Cons.prems show ?thesis
      by (auto intro!: wp_mono [OF Cons.IH])
  next
    case False
    let ?l = "filter (\<lambda>b. Namespace (backup_meta b) = n) bs"
    from Cons.prems assms(1) have l: "fst (k_List_PVCBackups K (InNamespace n) (world s)) = Inr ?l"
      by (auto simp: lists_backups_def)
    obtain w where w: "k_List_PVCBackups K (InNamespace n) (world s) = (Inr ?l, w)"
      using l by (cases "k_List_PVCBackups K (InNamespace n) (world s)") auto
    show ?thesis
      using False w Cons.prems
      by (auto simp: wp modify_running_def in_add_running intro!: wp_mono [OF Cons.IH])
  qed
qed

lemma FindCurrentRunningBackups_wp:
  assumes "lists_backups K bs" and "br_Namespaces r = [[]] \<or> [] \<notin> set (br_Namespaces r)"
  shows "wp (FindCurrentRunningBackups K r) (\<lambda>e t. e = None \<and>
    (\<exists>R. CurrentRunningBackups t = Some R \<and> (\<forall>q. q |\<in>| R \<longleftrightarrow>
      (\<exists>b\<in>set bs. backupIsRunning b \<and> br_watches r (Namespace (backup_meta b)) \<and>
        backupQualifiedName b = q)))) s"
proof (cases "br_Namespaces r = [[]]")
  case True
  obtain w where w: "k_List_PVCBackups K (InNamespace []) (world s) = (Inr bs, w)"
    using assms(1) by (cases "k_List_PVCBackups K (InNamespace []) (world s)") (auto simp: lists_backups_def dest!: spec [of _ "[]"] spec [of _ "world s"])
  with True show ?thesis
    by (auto simp: FindCurrentRunningBackups_def wp modify_running_def in_add_running br_watches_def)
next
  case False
  with assms(2) have ne: "[] \<notin> set (br_Namespaces r)" by simp
  from False find_in_namespaces_wp [OF assms(1) ne, of "s\<lparr>CurrentRunningBackups := Some {||}\<rparr>" "{||}" r]
  show ?thesis
    by (auto simp: FindCurrentRunningBackups_def wp br_watches_def ne elim!: wp_mono)
qed


section \<open>Outcomes\<close>

lemma finished_polite: "pred_state polite (reconcile_finished K r backup)"
  unfolding finished_defs by (auto intro!: results simp: Let_def)

lemma Reconcile_polite: "pred_state polite (PVCBackupReconciler_Reconcile K r req)"
  unfolding PVCBackupReconciler_Reconcile_def reconcile_request_def reconcile_unfinished_def
    acquire_slot_def running_defs
  by (auto intro!: results finished_polite simp: Let_def)

section \<open>Panics\<close>

text \<open>
  Answers of the API after which the handler dereferences a nil pointer: a ready snapshot
  without a \<open>RestoreSize\<close>, or a status update that came back without the start time.
\<close>

fun panic_cause :: "event \<Rightarrow> bool" where
  "panic_cause (EGetSnapshot _ (Inr sn)) = (snapshotReady sn \<and> snapshotSize sn = None)"
| "panic_cause (ECreateSnapshot _ (Inr sn)) = (snapshotReady sn \<and> snapshotSize sn = None)"
| "panic_cause (EUpdateBackupStatus _ (Inr b)) = (StartedAt (backup_status b) = None)"
| "panic_cause _ = False"

lemma run_job_no_panic:
  "StartedAt (backup_status backup) \<noteq> None \<Longrightarrow>
   pred_state (\<lambda>out. out \<noteq> Panicked) (run_job K r req backup pvc spvc q)"
  unfolding run_job_def ensure_job_def finish_backup_def setBackupFinished_def
  by (auto intro!: results simp: Let_def)

lemma run_snapshot_no_panic:
  "StartedAt (backup_status backup) \<noteq> None \<Longrightarrow> \<not> (snapshotReady sn \<and> snapshotSize sn = None) \<Longrightarrow>
   pred_state (\<lambda>out. out \<noteq> Panicked) (run_snapshot K r req backup pvc sn q)"
  unfolding run_snapshot_def ensure_snapshot_pvc_def
  by (auto intro!: results run_job_no_panic simp: Let_def)

lemma run_backup_appends:
  "poll_runs_condition K \<Longrightarrow> state_io_rel (emit_rel (\<lambda>_. True)) (run_backup K r req backup pvc q)"
  unfolding run_backup_def ensure_snapshot_def
  by (auto intro!: steps running_appends simp: Let_def)

lemma run_backup_panics:
  assumes "poll_runs_condition K" and "StartedAt (backup_status backup) \<noteq> None"
  shows "explained panic_cause (\<lambda>out. out = Panicked) (run_backup K r req backup pvc q)"
  unfolding run_backup_def
proof (rule explained_or_return [where G = "\<lambda>sn. \<not> (snapshotReady sn \<and> snapshotSize sn = None)"])
  show "pred_state (\<lambda>x. case x of Inl out \<Rightarrow> out \<noteq> Panicked | Inr _ \<Rightarrow> True) (ensure_snapshot K r req backup pvc)"
    unfolding ensure_snapshot_def by (auto intro!: results simp: Let_def)
  show "establishes panic_cause (\<lambda>sn. \<not> \<not> (snapshotReady sn \<and> snapshotSize sn = None)) (ensure_snapshot K r req backup pvc)"
    unfolding establishes_def ensure_snapshot_def
    by (auto simp: wp Let_def split: sum.split prod.split)
qed (use assms in \<open>auto intro!: explained_never run_snapshot_no_panic running_appends\<close>)

lemma reconcile_running_panics:
  assumes "poll_runs_condition K"
  shows "explained panic_cause (\<lambda>out. out = Panicked) (reconcile_running K r req backup pvc q)"
  unfolding reconcile_running_def
proof (rule explained_or_return [where G = "\<lambda>b. StartedAt (backup_status b) \<noteq> None"])
  show "pred_state (\<lambda>x. case x of Inl out \<Rightarrow> out \<noteq> Panicked | Inr _ \<Rightarrow> True) (mark_started K backup)"
    unfolding mark_started_def by (auto intro!: results)
  show "establishes panic_cause (\<lambda>b. \<not> StartedAt (backup_status b) \<noteq> None) (mark_started K backup)"
    unfolding establishes_def mark_started_def by (auto simp: wp split: sum.split prod.split)
qed (use assms in \<open>auto intro!: run_backup_panics run_backup_appends\<close>)

lemma finished_no_panic:
  "FinishedAt (backup_status backup) \<noteq> None \<Longrightarrow> br_Clock r \<noteq> None \<Longrightarrow>
   pred_state (\<lambda>out. out \<noteq> Panicked) (reconcile_finished K r backup)"
proof -
  assume a: "FinishedAt (backup_status backup) \<noteq> None" "br_Clock r \<noteq> None"
  then obtain c f where "br_Clock r = Some c" "FinishedAt (backup_status backup) = Some f" by auto
  then show ?thesis
    unfolding finished_defs by (auto intro!: results simp: Let_def)
qed

lemma acquire_slot_cases:
  assumes "CurrentRunningBackups s = Some R"
  shows "run_state (acquire_slot r q) s =
    (case admit (MaxRunningBackups r) q R of
       None \<Rightarrow> (Inl (Returned (requeueAfter (30 * Second)) None), s)
     | Some R' \<Rightarrow> (Inr (), s\<lparr>CurrentRunningBackups := Some R'\<rparr>))"
  using assms by (simp add: acquire_slot_def split: option.split)

lemma unfinished_panics:
  assumes "poll_runs_condition K" and R: "CurrentRunningBackups s = Some R"
  shows "wp (reconcile_unfinished K r req backup)
    (\<lambda>out t. \<exists>es. trace t = trace s @ es \<and> (out = Panicked \<longrightarrow> list_ex panic_cause es)) s"
proof -
  let ?Q = "\<lambda>s' out t. \<exists>es. trace t = trace s' @ es \<and> (out = Panicked \<longrightarrow> list_ex panic_cause es)"
  have run: "wp (reconcile_running K r req backup pvc q) (?Q s') s'" for pvc q s'
    using reconcile_running_panics [OF assms(1)] by (auto simp: explained_def)
  have "wp (or_return (acquire_slot r q) (\<lambda>_. reconcile_running K r req backup pvc q')) (?Q s') s'"
    if "CurrentRunningBackups s' = Some R" for pvc q q' s'
    using run [of pvc q' "s'\<lparr>CurrentRunningBackups := _\<rparr>"] that
    by (auto simp: wp_or_return wp_def [of "acquire_slot r q"] acquire_slot_cases split: option.split)
  note slot = this
  let ?nn = "\<lparr>nn_Namespace = nn_Namespace req, nn_Name = PVCName (backup_spec backup)\<rparr>"
  obtain x w where g: "k_Get_PVC K ?nn (world s) = (x, w)" by fastforce
  show ?thesis
  proof (cases x)
    case (Inl err)
    with g show ?thesis by (simp add: reconcile_unfinished_def wp)
  next
    case (Inr pvc)
    with g have "wp (reconcile_unfinished K r req backup) (?Q s) s \<longleftrightarrow>
      wp (or_return (acquire_slot r (backupQualifiedName backup))
            (\<lambda>_. reconcile_running K r req backup pvc (backupQualifiedName backup))) (?Q s)
         (s\<lparr>world := w, trace := trace s @ [EGetPVC ?nn (Inr pvc)]\<rparr>)"
      by (simp add: reconcile_unfinished_def wp_bind wp_call)
    moreover have "\<dots>"
      by (rule wp_mono [OF slot]) (use R in auto)
    ultimately show ?thesis by simp
  qed
qed

lemma Reconcile_panics:
  assumes "poll_runs_condition K" and "br_Clock r \<noteq> None"
    and "run_state (PVCBackupReconciler_Reconcile K r req) s = (Panicked, t)"
  shows "\<exists>es. trace t = trace s @ es \<and> list_ex panic_cause es"
  using assms(3)
proof (cases rule: Reconcile_run_cases)
  case (request u)
  then obtain es R where es: "trace u = trace s @ es" and R: "CurrentRunningBackups u = Some R"
    by (auto simp: emit_rel_def)
  from request(4) show ?thesis
  proof (cases rule: request_run_cases)
    case (unread err w)
    then show ?thesis by (auto split: if_splits)
  next
    case (finished backup w)
    then have "FinishedAt (backup_status backup) \<noteq> None"
      by (cases "FinishedAt (backup_status backup)") auto
    from pred_run [OF finished_no_panic [OF this assms(2)] finished(4)] show ?thesis by simp
  next
    case (unfinished backup w)
    from wp_run [OF unfinished_panics [OF assms(1)] unfinished(4)] R es show ?thesis by fastforce
  qed simp
qed simp

section \<open>Finishing a backup\<close>

text \<open>How the slot of \<open>q\<close> stands after an attempt to finish: free exactly if no error is returned.\<close>

fun slot_after :: "string \<Rightarrow> outcome \<Rightarrow> string fset option \<Rightarrow> string fset option \<Rightarrow> bool" where
  "slot_after q (Returned res None) Rs Rt =
     (RequeueAfter res = Second \<and> Rt = map_option (\<lambda>R. R |-| {|q|}) Rs)"
| "slot_after q (Returned res (Some err)) Rs Rt = (RequeueAfter res = 0 \<and> Rt = Rs)"
| "slot_after q Panicked Rs Rt = (Rt = Rs)"

lemma finish_backup_ends:
  assumes "poll_runs_condition K"
  shows "ends_with finishes (slot_after q) (finish_backup K r req backup q)"
  unfolding ends_with_def
proof
  fix s
  let ?poll = "k_PollUntilContextTimeout K (100 * Millisecond) (2 * Second) True (finishedVisible K req)"
  have "wp ?poll (\<lambda>e t. CurrentRunningBackups t = CurrentRunningBackups s' \<and>
      (\<exists>es. trace t = trace s' @ es)) s'" for s'
  proof -
    have "state_io_rel same_running ?poll" and "state_io_rel (emit_rel (\<lambda>_. True)) ?poll"
      using assms by (auto intro!: steps finishedVisible_running simp: finishedVisible_def)
    from this [THEN rel_wp, of s'] show ?thesis
      by (auto simp: wp_def same_running_def emit_rel_def split: prod.splits)
  qed
  note poll = this
  show "wp (finish_backup K r req backup q) (\<lambda>out t. \<exists>es. trace t = trace s @ es \<and>
     (list_ex finishes es \<longrightarrow> slot_after q out (CurrentRunningBackups s) (CurrentRunningBackups t))) s"
    unfolding finish_backup_def release_slot_def modify_running_def
    by (auto simp: wp requeueAfter_0 emptyResult_def split: prod.split option.split sum.split intro!: wp_mono [OF poll])
qed

lemma reconcile_running_ends:
  assumes "poll_runs_condition K" and "Time_IsZero (FinishedAt (backup_status backup))"
  shows "ends_with finishes (slot_after q) (reconcile_running K r req backup pvc q)"
proof -
  have "ends_with finishes (slot_after q) (run_job K r req b pvc spvc q)" for b spvc
    unfolding run_job_def ensure_job_def
    by (intro ends_with_or_return)
       (auto intro!: steps ends_with_quiet [of finishes "return _"] finish_backup_ends assms simp: Let_def)
  then have "ends_with finishes (slot_after q) (run_snapshot K r req b pvc sn q)" for b sn
    unfolding run_snapshot_def ensure_snapshot_pvc_def
    by (auto intro!: steps ends_with_or_return ends_with_quiet [of finishes "return _"] simp: Let_def)
  then have "ends_with finishes (slot_after q) (run_backup K r req b pvc q)" for b
    unfolding run_backup_def ensure_snapshot_def
    by (intro ends_with_or_return) (auto intro!: steps simp: Let_def)
  then show ?thesis
    unfolding reconcile_running_def mark_started_def using assms(2)
    by (intro ends_with_or_return) (auto intro!: steps simp: Let_def)
qed

lemma unfinished_ends:
  assumes poll: "poll_runs_condition K" and R: "CurrentRunningBackups s = Some R"
    and zero: "Time_IsZero (FinishedAt (backup_status backup))"
    and run: "run_state (reconcile_unfinished K r req backup) s = (out, t)"
  shows "\<exists>es. trace t = trace s @ es \<and> (list_ex finishes es \<longrightarrow>
    slot_after (backupQualifiedName backup) out
      (Some (finsert (backupQualifiedName backup) R)) (CurrentRunningBackups t))"
proof -
  let ?nn = "\<lparr>nn_Namespace = nn_Namespace req, nn_Name = PVCName (backup_spec backup)\<rparr>"
  let ?q = "backupQualifiedName backup"
  obtain x w where g: "k_Get_PVC K ?nn (world s) = (x, w)" by fastforce
  let ?s = "s\<lparr>world := w, trace := trace s @ [EGetPVC ?nn x]\<rparr>"
  show ?thesis
  proof (cases x)
    case (Inl err)
    with g run show ?thesis by (auto simp: reconcile_unfinished_def run_call)
  next
    case (Inr pvc)
    have slot: "run_state (acquire_slot r ?q) ?s =
        (case admit (MaxRunningBackups r) ?q R of
           None \<Rightarrow> (Inl (Returned (requeueAfter (30 * Second)) None), ?s)
         | Some R' \<Rightarrow> (Inr (), ?s\<lparr>CurrentRunningBackups := Some R'\<rparr>))"
      by (rule acquire_slot_cases) (simp add: R)
    show ?thesis
    proof (cases "admit (MaxRunningBackups r) ?q R")
      case None
      with g run Inr slot show ?thesis by (auto simp: reconcile_unfinished_def run_call or_return_def)
    next
      case (Some R')
      then have "R' = finsert ?q R" by (simp add: admit_def split: if_splits)
      moreover have "run_state (reconcile_running K r req backup pvc ?q)
          (?s\<lparr>CurrentRunningBackups := Some R'\<rparr>) = (out, t)"
        using g run Inr slot Some by (auto simp: reconcile_unfinished_def run_call or_return_def)
      from wp_run [OF _ this] reconcile_running_ends [OF poll zero]
      have "\<exists>es. trace t = trace (?s\<lparr>CurrentRunningBackups := Some R'\<rparr>) @ es \<and>
        (list_ex finishes es \<longrightarrow> slot_after ?q out
          (CurrentRunningBackups (?s\<lparr>CurrentRunningBackups := Some R'\<rparr>)) (CurrentRunningBackups t))"
        unfolding ends_with_def by blast
      ultimately show ?thesis by auto
    qed
  qed
qed

lemma finish_not_quiet:
  "emit_rel is_list s u \<Longrightarrow> \<exists>es. trace u = trace s @ es \<and> \<not> list_ex finishes es"
  by (auto simp: emit_rel_def list_all_iff list_ex_iff) (metis finishes.simps(8) is_list.elims(2))

lemma Reconcile_ends:
  assumes poll: "poll_runs_condition K"
    and run: "run_state (PVCBackupReconciler_Reconcile K r req) s = (out, t)"
  shows "\<exists>es. trace t = trace s @ es \<and> (list_ex finishes es \<longrightarrow>
    (\<exists>backup R. EGetBackup req (Inr backup) \<in> set es \<and> backupQualifiedName backup |\<in>| R \<and>
       slot_after (backupQualifiedName backup) out (Some R) (CurrentRunningBackups t)))"
  using run
proof (cases rule: Reconcile_run_cases)
  case (find_failed err)
  with finish_not_quiet [of s t] show ?thesis by blast
next
  case (request u)
  then obtain es R where es: "trace u = trace s @ es" "\<not> list_ex finishes es"
    and R: "CurrentRunningBackups u = Some R"
    using finish_not_quiet [of s u] by auto
  from request(4) show ?thesis
  proof (cases rule: request_run_cases)
    case (finished backup w)
    have "state_io_rel (emit_rel (\<lambda>e. \<not> finishes e)) (reconcile_finished K r backup)"
      by (rule emit_mono [OF _ finished_no_create]) (auto elim: finishes.elims)
    from rel_run [OF this finished(4)] es show ?thesis
      by (auto simp: emit_rel_def list_all_iff list_ex_iff)
  next
    case (unfinished backup w)
    from unfinished_ends [OF poll _ unfinished(3,4)] R obtain fs where
      "trace t = trace u @ [EGetBackup req (Inr backup)] @ fs"
      "list_ex finishes fs \<longrightarrow> slot_after (backupQualifiedName backup) out
         (Some (finsert (backupQualifiedName backup) R)) (CurrentRunningBackups t)"
      by auto
    with es show ?thesis
      by (intro exI [of _ "es @ [EGetBackup req (Inr backup)] @ fs"])
         (auto intro!: exI [of _ backup] exI [of _ "finsert (backupQualifiedName backup) R"])
  qed (use es in auto)
qed

end
