(* ===== verification/Sample_Cluster.thy ===== *)
theory Sample_Cluster
  imports Util
begin

text \<open>
  A concrete environment on which the hypotheses of the properties are shown to hold: reads find
  nothing, lists are empty, writes succeed and return what was written, the clock stands still.
  A witness changes the answers it is about. Nothing of the model depends on this theory.
\<close>

definition sample_time :: time where
  "sample_time = 63900000000 * Second"

definition sampleK :: "'w kube" where
  "sampleK = \<lparr>
     k_Get_Namespace = (\<lambda>_ w. (Inl NotFound, w)),
     k_Get_PVC = (\<lambda>_ w. (Inl NotFound, w)),
     k_Get_PVCBackup = (\<lambda>_ w. (Inl NotFound, w)),
     k_Get_PVCRestore = (\<lambda>_ w. (Inl NotFound, w)),
     k_Get_VolumeSnapshot = (\<lambda>_ w. (Inl NotFound, w)),
     k_Get_Job = (\<lambda>_ w. (Inl NotFound, w)),
     k_List_PVCBackups = (\<lambda>_ w. (Inr [], w)),
     k_List_PVCs = (\<lambda>_ w. (Inr [], w)),
     k_Create_VolumeSnapshot = (\<lambda>x w. (Inr x, w)),
     k_Create_PVC = (\<lambda>x w. (Inr x, w)),
     k_Create_Job = (\<lambda>x w. (Inr x, w)),
     k_Create_PVCBackup = (\<lambda>x w. (Inr (x\<lparr>backup_meta := (backup_meta x)\<lparr>CreationTimestamp := sample_time\<rparr>\<rparr>), w)),
     k_Update_PVC = (\<lambda>x w. (Inr x, w)),
     k_Status_Update_PVCBackup = (\<lambda>x w. (Inr x, w)),
     k_Status_Update_PVCRestore = (\<lambda>x w. (Inr x, w)),
     k_Delete = (\<lambda>_ _ _ w. (None, w)),
     k_SetControllerReference = (\<lambda>kd owner obj. Inr (obj\<lparr>OwnerReferences :=
       [\<lparr>owner_APIVersion = ''v1'', owner_Kind = (if kd = KPersistentVolumeClaim then ''PersistentVolumeClaim'' else ''other''),
         owner_Name = Name owner, owner_UID = UID owner, owner_Controller = Some True\<rparr>]\<rparr>)),
     k_GetControllerOf = (\<lambda>obj. find (\<lambda>owner. owner_Controller owner = Some True) (OwnerReferences obj)),
     k_cronexpr_Parse = (\<lambda>s. if s = ''@hourly'' then Inr (\<lambda>t. (t div Hour + 1) * Hour)
                              else Inl (ErrorMsg ''syntax error'')),
     k_time_Now = (\<lambda>w. (sample_time, w)),
     k_time_Sleep = (\<lambda>_ w. w),
     k_PollUntilContextTimeout = (\<lambda>_ _ _ condition. do {
       x \<leftarrow> condition;
       return (case x of Inl err \<Rightarrow> Some err
               | Inr ok \<Rightarrow> if ok then None else Some (ErrorMsg ''context deadline exceeded'')) })\<rparr>"

lemma sampleK_simps [simp]:
  "k_Get_Namespace sampleK = (\<lambda>_ w. (Inl NotFound, w))"
  "k_Get_PVC sampleK = (\<lambda>_ w. (Inl NotFound, w))"
  "k_Get_PVCBackup sampleK = (\<lambda>_ w. (Inl NotFound, w))"
  "k_Get_PVCRestore sampleK = (\<lambda>_ w. (Inl NotFound, w))"
  "k_Get_VolumeSnapshot sampleK = (\<lambda>_ w. (Inl NotFound, w))"
  "k_Get_Job sampleK = (\<lambda>_ w. (Inl NotFound, w))"
  "k_List_PVCBackups sampleK = (\<lambda>_ w. (Inr [], w))"
  "k_List_PVCs sampleK = (\<lambda>_ w. (Inr [], w))"
  "k_Create_VolumeSnapshot sampleK = (\<lambda>x w. (Inr x, w))"
  "k_Create_PVC sampleK = (\<lambda>x w. (Inr x, w))"
  "k_Create_Job sampleK = (\<lambda>x w. (Inr x, w))"
  "k_Update_PVC sampleK = (\<lambda>x w. (Inr x, w))"
  "k_Status_Update_PVCBackup sampleK = (\<lambda>x w. (Inr x, w))"
  "k_Status_Update_PVCRestore sampleK = (\<lambda>x w. (Inr x, w))"
  "k_Delete sampleK = (\<lambda>_ _ _ w. (None, w))"
  "k_time_Now sampleK = (\<lambda>w. (sample_time, w))"
  "k_time_Sleep sampleK = (\<lambda>_ w. w)"
  "k_GetControllerOf sampleK = (\<lambda>obj. find (\<lambda>owner. owner_Controller owner = Some True) (OwnerReferences obj))"
  by (simp_all add: sampleK_def)

text \<open>The polling of this environment runs its condition once, whatever the other answers are.\<close>

definition polls_once :: "'w kube \<Rightarrow> bool" where
  "polls_once K \<longleftrightarrow> (\<forall>i t b c. k_PollUntilContextTimeout K i t b c = do {
     x \<leftarrow> c;
     return (case x of Inl err \<Rightarrow> Some err
             | Inr ok \<Rightarrow> if ok then None else Some (ErrorMsg ''context deadline exceeded'')) })"

lemma rel_then_return: "state_io_rel R m \<Longrightarrow> state_io_rel R (m \<bind> (\<lambda>x. return (f x)))"
  by (rule state_io_relI) (auto split: prod.splits)

lemma polls_once_runs_condition: "polls_once K \<Longrightarrow> poll_runs_condition K"
  unfolding polls_once_def poll_runs_condition_def by (simp add: rel_then_return)

lemma sampleK_polls_once [simp]: "polls_once sampleK"
  by (simp add: polls_once_def sampleK_def)

lemma polls_once_update [simp]:
  "polls_once (K\<lparr>k_Get_PVC := f\<rparr>) = polls_once K"
  "polls_once (K\<lparr>k_Get_PVCBackup := g\<rparr>) = polls_once K"
  "polls_once (K\<lparr>k_Get_VolumeSnapshot := h\<rparr>) = polls_once K"
  "polls_once (K\<lparr>k_Get_Job := j\<rparr>) = polls_once K"
  "polls_once (K\<lparr>k_List_PVCBackups := l\<rparr>) = polls_once K"
  "polls_once (K\<lparr>k_Status_Update_PVCBackup := u\<rparr>) = polls_once K"
  by (simp_all add: polls_once_def)

definition sample_settings :: BackupSettings where
  "sample_settings = \<lparr>SnapshotClass = [], StorageClass = ''general'', BackupStorageClass = [],
     RestoreStorageClass = [], ImagePullSecret = [], Image = ''restic'', S3Host = ''host'',
     S3Bucket = ''bucket'', S3AccessKeyId = ''id'', S3SecretAccessKey = ''key'',
     ResticPassword = ''secret'', ResticOldPassword = [], ResticEnv = [(''GOGC'', ''20'')],
     ResticResources = \<lparr>Limits = [], Requests = []\<rparr>\<rparr>"

definition sample_key :: NamespacedName where
  "sample_key = \<lparr>nn_Namespace = ''app'', nn_Name = ''data-backup''\<rparr>"

definition sample_pvc :: PersistentVolumeClaim where
  "sample_pvc = \<lparr>pvc_meta = emptyMeta\<lparr>Namespace := ''app'', Name := ''data'', CreationTimestamp := sample_time - 3 * Hour\<rparr>,
     pvc_spec = \<lparr>pvcs_StorageClassName = None, pvcs_DataSource = None, pvcs_AccessModes = [],
                 pvcs_Requests = []\<rparr>\<rparr>"

definition sample_backup :: PVCBackup where
  "sample_backup = \<lparr>backup_meta = emptyMeta\<lparr>Namespace := ''app'', Name := ''data-backup''\<rparr>,
     backup_spec = emptyBackupSpec\<lparr>PVCName := ''data'', TTL := Hour\<rparr>,
     backup_status = emptyBackupStatus\<rparr>"

text \<open>The sample backup after it finished successfully at the given time.\<close>

definition finished_at :: "time \<Rightarrow> PVCBackup" where
  "finished_at t = sample_backup\<lparr>backup_status :=
     \<lparr>StartedAt = Some (t - Minute), FinishedAt = Some t, Duration = Some Minute, Result = Some ''Succeeded''\<rparr>\<rparr>"

text \<open>The sample backup while its job runs.\<close>

definition started_backup :: PVCBackup where
  "started_backup = sample_backup\<lparr>backup_status := emptyBackupStatus\<lparr>StartedAt := Some (sample_time - Minute)\<rparr>\<rparr>"

definition ready_snapshot :: VolumeSnapshot where
  "ready_snapshot = \<lparr>vs_meta = emptyMeta\<lparr>Namespace := ''app'', Name := ''data-backup''\<rparr>,
     vs_spec = \<lparr>vss_PersistentVolumeClaimName = Some ''data'', vss_VolumeSnapshotClassName = None\<rparr>,
     vs_status = Some \<lparr>ReadyToUse = Some True, RestoreSize = Some ''1Gi''\<rparr>\<rparr>"

definition sample_job :: "time option \<Rightarrow> Job" where
  "sample_job completion = \<lparr>job_meta = emptyMeta\<lparr>Namespace := ''app'', Name := ''data-backup''\<rparr>,
     job_spec = \<lparr>BackoffLimit = Some 4, Template = \<lparr>tmpl_meta = emptyMeta,
       tmpl_spec = \<lparr>ImagePullSecrets = [], RestartPolicy = ''Never'', pod_NodeSelector = [],
         pod_Tolerations = [], pod_PriorityClassName = [], Volumes = [], Containers = []\<rparr>\<rparr>\<rparr>,
     job_status = \<lparr>CompletionTime = completion\<rparr>\<rparr>"

text \<open>
  A cluster whose world is the one stored backup: it is read and its status is replaced there.
  Its snapshot is ready, its temporary claim exists and its job has completed.
\<close>

definition storeK :: "PVCBackup kube" where
  "storeK = sampleK
     \<lparr>k_Get_PVCBackup := \<lambda>_ w. (Inr w, w),
      k_Status_Update_PVCBackup := \<lambda>b _. (Inr b, b),
      k_Get_PVC := \<lambda>_ w. (Inr sample_pvc, w),
      k_Get_VolumeSnapshot := \<lambda>_ w. (Inr ready_snapshot, w),
      k_Get_Job := \<lambda>_ w. (Inr (sample_job (Some sample_time)), w)\<rparr>"

lemma storeK_polls_once [simp]: "polls_once storeK"
  by (simp add: storeK_def)

definition sample_sys :: "'w \<Rightarrow> string list \<Rightarrow> 'w sys" where
  "sample_sys w running = \<lparr>world = w, CurrentRunningBackups = Some (fset_of_list running), trace = []\<rparr>"

lemmas sample_defs = sample_key_def sample_pvc_def sample_backup_def finished_at_def sample_sys_def
  started_backup_def ready_snapshot_def sample_job_def
  emptyMeta_def emptyBackupSpec_def emptyBackupStatus_def

end
