(* ===== verification/Backup_Theorems.thy ===== *)
theory Backup_Theorems
  imports Backup_Outcomes Sample_Cluster
begin

text \<open>
  The properties of the backup controller, each with a witness on the concrete clusters of
  \<open>Sample_Cluster\<close> where it has hypotheses.
\<close>

definition sample_reconciler :: "'w PVCBackupReconciler" where
  "sample_reconciler = \<lparr>br_Clock = Some (k_time_Now sampleK), MaxRunningBackups = 1,
     SleepBetweenBackups = 30, br_Namespaces = [[]], br_ExcludeNamespaces = [[]],
     br_BackupSettings = sample_settings\<rparr>"

text \<open>A cluster with an expired backup and a sibling that finished after it.\<close>

definition expired_K :: "unit kube" where
  "expired_K = sampleK
     \<lparr>k_Get_PVCBackup := \<lambda>_ w. (Inr (finished_at (sample_time - 2 * Hour)), w),
      k_List_PVCBackups := \<lambda>_ w. (Inr [finished_at (sample_time - Hour)], w)\<rparr>"

text \<open>A cluster with a backup that finished less than its TTL ago.\<close>

definition recent_K :: "unit kube" where
  "recent_K = sampleK\<lparr>k_Get_PVCBackup := \<lambda>_ w. (Inr (finished_at (sample_time - Minute)), w)\<rparr>"

text \<open>Further clusters and backups for the witnesses.\<close>

definition two_backups_K :: "unit kube" where
  "two_backups_K = sampleK\<lparr>k_List_PVCBackups := \<lambda>opts w.
     (Inr (filter (\<lambda>b. opt_Namespace opts = [] \<or> Namespace (backup_meta b) = opt_Namespace opts)
        [started_backup, finished_at sample_time]), w)\<rparr>"

definition sizeless_K :: "unit kube" where
  "sizeless_K = sampleK
     \<lparr>k_Get_PVCBackup := \<lambda>_ w. (Inr started_backup, w),
      k_Get_PVC := \<lambda>nn w. (if nn = sample_key then Inl NotFound else Inr sample_pvc, w),
      k_Get_VolumeSnapshot := \<lambda>_ w. (Inr (ready_snapshot
        \<lparr>vs_status := Some \<lparr>ReadyToUse = Some True, RestoreSize = None\<rparr>\<rparr>), w)\<rparr>"

definition no_ttl_backup :: PVCBackup where
  "no_ttl_backup = (finished_at sample_time)\<lparr>backup_spec := emptyBackupSpec\<lparr>PVCName := ''data''\<rparr>\<rparr>"

definition same_name_backup :: PVCBackup where
  "same_name_backup = (finished_at (sample_time - Minute))\<lparr>backup_meta := emptyMeta\<lparr>Namespace := ''app'', Name := ''data''\<rparr>\<rparr>"

lemmas backup_eval = calls_def PVCBackupReconciler_Reconcile_def reconcile_request_def finished_defs
  reconcile_unfinished_def running_defs run_call or_return_def acquire_slot_def admit_def
  release_slot_def modify_running_def State_Monad.update_def hasOlderSiblings_def Let_def
  Time_Sub_def Time_Add_def Time_After_def object_key_def backupQualifiedName_def
  sample_reconciler_def sample_defs time_consts sample_time_def fcard_fempty fcard_finsert_if

lemmas stored_eval = backup_eval storeK_def sampleK_def snapshotReady_def jobCompleted_def
  setBackupFinished_def Duration_Round_def requeueAfter_def

section \<open>Order\<close>

text \<open>
  C1: In every reconciliation, whatever the cluster answers, the temporary claim is created only
  after a snapshot that is ready to use was seen, the job only after the temporary claim was read
  or created, and the status is written with a finish time only after a completed job was seen.
\<close>

theorem backup_order:
  assumes "poll_runs_condition K"
  shows "preceded (saw_ready_snapshot req) creates_pvc (backup_calls K r req s) \<and>
    preceded (saw_snapshot_pvc req) creates_job (backup_calls K r req s) \<and>
    preceded (saw_completed_job req) finishes (backup_calls K r req s)"
proof (intro conjI)
  have c: "is_create e" if "creates_pvc e \<or> creates_job e" for e
    using that by (cases e) auto
  have f: "is_status_update e" if "finishes e" for e
    using that by (cases e) auto
  show "preceded (saw_ready_snapshot req) creates_pvc (backup_calls K r req s)"
    by (intro calls_order Reconcile_order running_pvc_order assms) (use c in blast)
  show "preceded (saw_snapshot_pvc req) creates_job (backup_calls K r req s)"
    by (intro calls_order Reconcile_order running_job_order assms) (use c in blast)
  show "preceded (saw_completed_job req) finishes (backup_calls K r req s)"
    by (intro calls_order Reconcile_order running_finish_order assms) (use f in blast)
qed

theorem backup_order_witness:
  "preceded (saw_completed_job sample_key) finishes
     (backup_calls storeK sample_reconciler sample_key (sample_sys started_backup [])) \<and>
   list_ex finishes (backup_calls storeK sample_reconciler sample_key (sample_sys started_backup []))"
proof
  have p: "poll_runs_condition storeK" by (simp add: polls_once_runs_condition)
  from backup_order [OF p] show "preceded (saw_completed_job sample_key) finishes
     (backup_calls storeK sample_reconciler sample_key (sample_sys started_backup []))" by blast
  show "list_ex finishes (backup_calls storeK sample_reconciler sample_key (sample_sys started_backup []))"
    by (simp add: stored_eval)
qed

section \<open>Deletion\<close>

text \<open>
  C2: A \<open>PVCBackup\<close> object is deleted only when it is the object read for the request,
  succeeded, its TTL after the finish time has passed on the clock that was read, and the list
  of its namespace shows another backup of the same claim that finished strictly later, with
  whatever result. So of the backups of a claim that the list shows, the one that finished last
  is never deleted.
\<close>

theorem backup_deleted_only_if_superseded:
  assumes "poll_runs_condition K"
    and "EDelete KPVCBackup nn policy res \<in> set (backup_calls K r req s)"
  shows "\<exists>backup finishedAt now siblings sibling.
    EGetBackup req (Inr backup) \<in> set (backup_calls K r req s) \<and>
    nn = object_key (backup_meta backup) \<and>
    Result (backup_status backup) = Some ''Succeeded'' \<and>
    FinishedAt (backup_status backup) = Some finishedAt \<and>
    ENow now \<in> set (backup_calls K r req s) \<and>
    finishedAt + TTL (backup_spec backup) \<le> now \<and>
    EListBackups (InNamespace (Namespace (backup_meta backup))) (Inr siblings)
      \<in> set (backup_calls K r req s) \<and>
    sibling \<in> set siblings \<and> sibling \<noteq> backup \<and>
    PVCName (backup_spec sibling) = PVCName (backup_spec backup) \<and>
    (\<exists>later. FinishedAt (backup_status sibling) = Some later \<and> finishedAt < later)"
proof -
  from Reconcile_deletes [OF assms] obtain backup where
    "EGetBackup req (Inr backup) \<in> set (backup_calls K r req s)" and
    "delete_justified backup KPVCBackup nn (backup_calls K r req s)" by blast
  then show ?thesis unfolding delete_justified_def superseded_by_def by (fastforce split: if_splits)
qed

theorem backup_deleted_only_if_superseded_witness:
  "\<exists>siblings sibling.
     EListBackups (InNamespace ''app'') (Inr siblings)
       \<in> set (backup_calls expired_K sample_reconciler sample_key (sample_sys () [])) \<and>
     sibling \<in> set siblings \<and>
     EDelete KPVCBackup sample_key None None
       \<in> set (backup_calls expired_K sample_reconciler sample_key (sample_sys () []))"
proof -
  have p: "poll_runs_condition expired_K"
    by (rule polls_once_runs_condition) (simp add: expired_K_def)
  have d: "EDelete KPVCBackup sample_key None None
       \<in> set (backup_calls expired_K sample_reconciler sample_key (sample_sys () []))"
    by (simp add: expired_K_def backup_eval)
  from backup_deleted_only_if_superseded [OF p d] d show ?thesis
    by (auto simp: object_key_def sample_key_def)
qed

text \<open>
  Conversely, an expired backup is deleted as soon as the list shows a backup of the claim that
  finished later. The result of that backup is not looked at: one that has finished as
  \<open>Failed\<close>, which the operator itself never writes but the API allows, lets the last
  successful backup be deleted.
\<close>

lemma superseded_backup_deleted:
  assumes "CurrentRunningBackups s = Some R" and "br_watches r (nn_Namespace req)"
    and "k_Get_PVCBackup K req (world s) = (Inr backup, w)"
    and "Result (backup_status backup) = Some ''Succeeded''"
    and "FinishedAt (backup_status backup) = Some finishedAt" and "finishedAt \<noteq> 0"
    and "br_Clock r = Some clock" and "clock w = (now, w')"
    and "finishedAt + TTL (backup_spec backup) \<le> now"
    and "k_List_PVCBackups K (InNamespace (Namespace (backup_meta backup))) w' = (Inr siblings, w'')"
    and "sibling \<in> set siblings" and "PVCName (backup_spec sibling) = PVCName (backup_spec backup)"
    and "FinishedAt (backup_status sibling) = Some later" and "finishedAt < later"
  shows "\<exists>res. EDelete KPVCBackup (object_key (backup_meta backup)) None res \<in> set (backup_calls K r req s)"
proof -
  obtain res w3 where "k_Delete K KPVCBackup (object_key (backup_meta backup)) None w'' = (res, w3)" by fastforce
  moreover have "hasOlderSiblings backup finishedAt siblings"
    using assms(11-14) by (auto simp: hasOlderSiblings_iff superseded_by_def)
  moreover have "Time_Sub (Time_Add finishedAt (TTL (backup_spec backup))) now \<le> 0"
    using assms(9) by (simp add: Time_Sub_le_0_iff Time_Add_def)
  ultimately show ?thesis
    using assms(1-10)
    by (auto simp: calls_def PVCBackupReconciler_Reconcile_def reconcile_request_def br_watches_def
        run_call finished_defs Let_def split: option.split)
qed

text \<open>
  C14: Everything else the controller deletes is a snapshot, job or claim with the name of the
  backup it read, and only while that backup has succeeded and its TTL has not yet passed.
\<close>

theorem cleanup_only_own_children:
  assumes "poll_runs_condition K"
    and "EDelete kd nn policy res \<in> set (backup_calls K r req s)" and "kd \<noteq> KPVCBackup"
  shows "kd \<in> {KVolumeSnapshot, KJob, KPersistentVolumeClaim} \<and>
    (\<exists>backup finishedAt now. EGetBackup req (Inr backup) \<in> set (backup_calls K r req s) \<and>
      nn = object_key (backup_meta backup) \<and>
      Result (backup_status backup) = Some ''Succeeded'' \<and>
      FinishedAt (backup_status backup) = Some finishedAt \<and>
      ENow now \<in> set (backup_calls K r req s) \<and> now < finishedAt + TTL (backup_spec backup))"
proof -
  from Reconcile_deletes [OF assms(1,2)] obtain backup where
    "EGetBackup req (Inr backup) \<in> set (backup_calls K r req s)" and
    "delete_justified backup kd nn (backup_calls K r req s)" by blast
  with assms(3) show ?thesis unfolding delete_justified_def by (fastforce split: if_splits)
qed

theorem cleanup_only_own_children_witness:
  "EDelete KJob sample_key (Some ''Background'') None
     \<in> set (backup_calls recent_K sample_reconciler sample_key (sample_sys () [])) \<and>
   (\<exists>now. ENow now \<in> set (backup_calls recent_K sample_reconciler sample_key (sample_sys () [])))"
proof -
  have p: "poll_runs_condition recent_K"
    by (rule polls_once_runs_condition) (simp add: recent_K_def)
  have d: "EDelete KJob sample_key (Some ''Background'') None
       \<in> set (backup_calls recent_K sample_reconciler sample_key (sample_sys () []))"
    by (simp add: recent_K_def backup_eval)
  from cleanup_only_own_children [OF p d] d show ?thesis by auto
qed

section \<open>Slots\<close>

text \<open>
  While the maximum number of backups is running, an unfinished backup that is not among
  them is not started: the reconciliation reads the backup and its claim, writes nothing and is
  repeated after thirty seconds.
\<close>

lemma full_pool_waits:
  assumes "CurrentRunningBackups s = Some R" and "0 < MaxRunningBackups r"
    and "MaxRunningBackups r \<le> int (fcard R)"
    and "br_watches r (nn_Namespace req)"
    and "k_Get_PVCBackup K req (world s) = (Inr backup, w)"
    and "Time_IsZero (FinishedAt (backup_status backup))"
    and "k_Get_PVC K \<lparr>nn_Namespace = nn_Namespace req, nn_Name = PVCName (backup_spec backup)\<rparr> w = (Inr pvc, w')"
    and "backupQualifiedName backup |\<notin>| R"
  shows "run_state (PVCBackupReconciler_Reconcile K r req) s =
    (Returned \<lparr>RequeueAfter = 30 * Second\<rparr> None,
     s\<lparr>world := w', trace := trace s @
        [EGetBackup req (Inr backup),
         EGetPVC \<lparr>nn_Namespace = nn_Namespace req, nn_Name = PVCName (backup_spec backup)\<rparr> (Inr pvc)]\<rparr>)"
  using assms
  by (auto simp: PVCBackupReconciler_Reconcile_def reconcile_request_def reconcile_unfinished_def
      br_watches_def run_call or_return_def acquire_slot_def admit_def requeueAfter_def time_consts)

text \<open>
  When a reconciliation writes a status with a finish time, the slot of the backup it read is
  free afterwards if it returned without error, and then it is repeated after a second; if it
  returned an error (the update failed, or the change did not become visible in time) the slot is
  still held.
\<close>

lemma finishing_slot:
  assumes "poll_runs_condition K"
    and "run_state (PVCBackupReconciler_Reconcile K r req) (s\<lparr>trace := []\<rparr>) = (Returned res err, t)"
    and "list_ex finishes (trace t)"
  shows "\<exists>backup R'. EGetBackup req (Inr backup) \<in> set (trace t) \<and> CurrentRunningBackups t = Some R' \<and>
    (if err = None then RequeueAfter res = Second \<and> backupQualifiedName backup |\<notin>| R'
     else RequeueAfter res = 0 \<and> backupQualifiedName backup |\<in>| R')"
proof -
  from Reconcile_ends [OF assms(1,2)] assms(3) obtain backup R where
    "EGetBackup req (Inr backup) \<in> set (trace t)" "backupQualifiedName backup |\<in>| R"
    "slot_after (backupQualifiedName backup) (Returned res err) (Some R) (CurrentRunningBackups t)"
    by auto
  then show ?thesis by (cases err) auto
qed

section \<open>Finishing\<close>

text \<open>
  The duration recorded in the status is the difference between finish and start, rounded to
  a multiple of a second that is at most half a second away (for any difference that
  \<open>time.Duration\<close> can hold with a second to spare).
\<close>

lemma recorded_duration:
  assumes "setBackupFinished now backup result = Some backup'"
    and "StartedAt (backup_status backup) = Some startedAt"
    and "minDuration + Second \<le> now - startedAt" and "now - startedAt \<le> maxDuration - Second"
  shows "\<exists>d. Duration (backup_status backup') = Some d \<and> Second dvd d \<and> 2 * \<bar>d - (now - startedAt)\<bar> \<le> Second \<and>
    FinishedAt (backup_status backup') = Some now \<and> StartedAt (backup_status backup') = Some startedAt \<and>
    Result (backup_status backup') = Some result \<and> backup_spec backup' = backup_spec backup"
proof -
  have "Time_Sub now startedAt = now - startedAt"
    using assms(3,4) by (intro Time_Sub_exact) (simp add: is_duration_def time_consts)
  with assms(1,2) Duration_Round_spec [OF _ assms(3,4)] show ?thesis
    by (auto simp: setBackupFinished_def time_consts)
qed

section \<open>Start-up\<close>

text \<open>
  C25: On an API server that answers its lists, the search at start-up puts exactly the backups
  that are started and not finished, in the namespaces that the controller handles, into the
  running map. The namespaces are configured as the command line leaves them: all of them, or
  a list of names.
\<close>

theorem find_running_exact:
  assumes "lists_backups K bs"
    and "br_Namespaces r = [[]] \<or> [] \<notin> set (br_Namespaces r)"
    and "run_state (FindCurrentRunningBackups K r) s = (e, t)"
  shows "e = None \<and> (\<exists>R. CurrentRunningBackups t = Some R \<and> (\<forall>q. q |\<in>| R \<longleftrightarrow>
    (\<exists>b\<in>set bs. backupIsRunning b \<and> br_watches r (Namespace (backup_meta b)) \<and> backupQualifiedName b = q)))"
  using wp_run [OF FindCurrentRunningBackups_wp [OF assms(1,2)] assms(3)] .

theorem find_running_exact_witness:
  "\<exists>R. CurrentRunningBackups (snd (run_state (FindCurrentRunningBackups two_backups_K sample_reconciler)
      (sample_sys () []))) = Some R \<and> ''app/data-backup'' |\<in>| R"
proof -
  let ?run = "run_state (FindCurrentRunningBackups two_backups_K sample_reconciler) (sample_sys () [])"
  have l: "lists_backups two_backups_K [started_backup, finished_at sample_time]"
    by (simp add: lists_backups_def two_backups_K_def InNamespace_def)
  have n: "br_Namespaces (sample_reconciler :: unit PVCBackupReconciler) = [[]]"
    by (simp add: sample_reconciler_def)
  from find_running_exact [where s = "sample_sys () []" and e = "fst ?run" and t = "snd ?run", OF l disjI1 [OF n]]
  obtain R where "CurrentRunningBackups (snd ?run) = Some R" and
    q: "\<And>q. q |\<in>| R \<longleftrightarrow> (\<exists>b\<in>set [started_backup, finished_at sample_time]. backupIsRunning b \<and>
      br_watches (sample_reconciler :: unit PVCBackupReconciler) (Namespace (backup_meta b)) \<and> backupQualifiedName b = q)"
    by auto
  moreover have "''app/data-backup'' |\<in>| R"
    unfolding q by (simp add: backupIsRunning_def br_watches_def backupQualifiedName_def
        sample_reconciler_def sample_defs time_consts sample_time_def)
  ultimately show ?thesis by blast
qed

text \<open>
  When the search fails, it leaves an empty map behind, and the search is never made again:
  the next reconciliation goes straight to its request, although running backups are then not
  counted against the maximum.
\<close>

lemma find_failure_not_retried:
  assumes "CurrentRunningBackups s = None" and "br_Namespaces r = [[]]"
    and "k_List_PVCBackups K (InNamespace []) (world s) = (Inl err, w)"
    and "run_state (PVCBackupReconciler_Reconcile K r req) s = (out, t)"
  shows "out = failed err \<and> CurrentRunningBackups t = Some {||} \<and>
    run_state (PVCBackupReconciler_Reconcile K r req') t = run_state (reconcile_request K r req') t"
  using assms by (auto simp: PVCBackupReconciler_Reconcile_def FindCurrentRunningBackups_def
      State_Monad.update_def run_call)

section \<open>Outcomes\<close>

text \<open>
  C35: With a clock set, the handler panics only after the API has answered with a ready snapshot
  that has no \<open>RestoreSize\<close>, or with an updated backup whose start time is gone.
\<close>

theorem backup_panics_explained:
  assumes "poll_runs_condition K" and "br_Clock r \<noteq> None"
    and "run_state (PVCBackupReconciler_Reconcile K r req) (s\<lparr>trace := []\<rparr>) = (Panicked, t)"
  shows "\<exists>e\<in>set (trace t). panic_cause e"
  using Reconcile_panics [OF assms] by (auto simp: list_ex_iff)

theorem backup_panics_explained_witness:
  "\<exists>t. run_state (PVCBackupReconciler_Reconcile sizeless_K sample_reconciler sample_key) (sample_sys () []) = (Panicked, t) \<and>
     (\<exists>e\<in>set (trace t). panic_cause e)"
proof -
  let ?run = "run_state (PVCBackupReconciler_Reconcile sizeless_K sample_reconciler sample_key) (sample_sys () [])"
  have p: "poll_runs_condition sizeless_K"
    by (rule polls_once_runs_condition) (simp add: sizeless_K_def)
  have c: "br_Clock (sample_reconciler :: unit PVCBackupReconciler) \<noteq> None"
    by (simp add: sample_reconciler_def)
  have "fst ?run = Panicked"
    by (simp add: sizeless_K_def backup_eval snapshotReady_def snapshotSize_def)
  then have run: "?run = (Panicked, snd ?run)" by (simp add: prod_eq_iff)
  have s: "(sample_sys () [])\<lparr>trace := []\<rparr> = sample_sys () []" by (simp add: sample_sys_def)
  from backup_panics_explained [OF p c, of sample_key "sample_sys () []" "snd ?run"] run s show ?thesis by metis
qed

text \<open>
  C36: A finished backup that is the last of its claim to finish is kept when its TTL has passed:
  the reconciliation makes no change and is repeated after the TTL, or after an hour when there
  is no TTL. The snapshot, job and temporary claim are not deleted in this branch either, so with
  a TTL that has passed when the backup finishes they stay.
\<close>

theorem last_backup_rechecked:
  assumes "CurrentRunningBackups s = Some R" and "br_watches r (nn_Namespace req)"
    and "k_Get_PVCBackup K req (world s) = (Inr backup, w)"
    and "Result (backup_status backup) = Some ''Succeeded''"
    and "FinishedAt (backup_status backup) = Some finishedAt" and "finishedAt \<noteq> 0"
    and "br_Clock r = Some clock" and "clock w = (now, w')"
    and "finishedAt + TTL (backup_spec backup) \<le> now"
    and "k_List_PVCBackups K (InNamespace (Namespace (backup_meta backup))) w' = (Inr siblings, w'')"
    and "\<forall>sibling\<in>set siblings. \<not> superseded_by backup finishedAt sibling"
  shows "run_state (PVCBackupReconciler_Reconcile K r req) s =
    (Returned (requeueAfter (if TTL (backup_spec backup) = 0 then Hour else TTL (backup_spec backup))) None,
     s\<lparr>world := w'', trace := trace s @
        [EGetBackup req (Inr backup), ENow now,
         EListBackups (InNamespace (Namespace (backup_meta backup))) (Inr siblings)]\<rparr>)"
proof -
  have "Time_Sub (Time_Add finishedAt (TTL (backup_spec backup))) now \<le> 0"
    using assms(9) by (simp add: Time_Sub_le_0_iff Time_Add_def)
  with assms show ?thesis
    by (auto simp: PVCBackupReconciler_Reconcile_def reconcile_request_def br_watches_def
        run_call finished_defs Let_def hasOlderSiblings_iff)
qed

theorem last_backup_rechecked_witness:
  "run_state (PVCBackupReconciler_Reconcile (sampleK\<lparr>k_Get_PVCBackup := \<lambda>_ w. (Inr no_ttl_backup, w)\<rparr>)
      sample_reconciler sample_key) (sample_sys () []) =
    (Returned \<lparr>RequeueAfter = Hour\<rparr> None, (sample_sys () [])\<lparr>trace :=
       [EGetBackup sample_key (Inr no_ttl_backup), ENow sample_time, EListBackups (InNamespace ''app'') (Inr [])]\<rparr>)"
proof -
  have "requeueAfter Hour = \<lparr>RequeueAfter = Hour\<rparr>" by (simp add: requeueAfter_def time_consts)
  then show ?thesis
    using last_backup_rechecked [where K = "sampleK\<lparr>k_Get_PVCBackup := \<lambda>_ w. (Inr no_ttl_backup, w)\<rparr>"
      and r = sample_reconciler and req = sample_key and s = "sample_sys () []" and backup = no_ttl_backup
      and clock = "k_time_Now sampleK" and siblings = "[]" and now = sample_time and finishedAt = sample_time]
    by (simp add: sample_reconciler_def br_watches_def no_ttl_backup_def sample_defs time_consts sample_time_def)
qed

text \<open>
  C38: The temporary claim has the name of the backup, and the cleanup deletes the claim of that
  name without looking at its owner. So for a backup that has the name of the claim it backs up,
  the cleanup after success deletes the claim that was backed up.
\<close>

theorem source_claim_deleted:
  assumes "br_watches r (nn_Namespace req)"
    and "CurrentRunningBackups s = Some R"
    and "k_Get_PVCBackup K req (world s) = (Inr backup, w)"
    and "object_key (backup_meta backup) = req"
    and "PVCName (backup_spec backup) = nn_Name req"
    and "Result (backup_status backup) = Some ''Succeeded''"
    and "FinishedAt (backup_status backup) = Some finishedAt" and "finishedAt \<noteq> 0"
    and "br_Clock r = Some clock" and "\<And>w. fst (clock w) < finishedAt + TTL (backup_spec backup)"
    and "\<And>kd w. kd \<noteq> KPersistentVolumeClaim \<Longrightarrow> fst (k_Delete K kd req (Some ''Background'') w) = None"
  shows "\<exists>res. EDelete KPersistentVolumeClaim
      \<lparr>nn_Namespace = nn_Namespace req, nn_Name = PVCName (backup_spec backup)\<rparr> (Some ''Background'') res
    \<in> set (backup_calls K r req s)"
proof -
  obtain now w1 where now: "clock w = (now, w1)" by fastforce
  obtain w2 where d1: "k_Delete K KVolumeSnapshot req (Some ''Background'') w1 = (None, w2)"
    using assms(11) [of KVolumeSnapshot w1] by (cases "k_Delete K KVolumeSnapshot req (Some ''Background'') w1") auto
  obtain w3 where d2: "k_Delete K KJob req (Some ''Background'') w2 = (None, w3)"
    using assms(11) [of KJob w2] by (cases "k_Delete K KJob req (Some ''Background'') w2") auto
  obtain res w4 where d3: "k_Delete K KPersistentVolumeClaim req (Some ''Background'') w3 = (res, w4)" by fastforce
  have k: "\<lparr>nn_Namespace = nn_Namespace req, nn_Name = nn_Name req\<rparr> = req" by simp
  from assms(10) [of w] now have "\<not> Time_Sub (Time_Add finishedAt (TTL (backup_spec backup))) now \<le> 0"
    by (simp add: Time_Sub_le_0_iff Time_Add_def)
  with assms now d1 d2 d3 k show ?thesis
    by (auto simp: calls_def PVCBackupReconciler_Reconcile_def reconcile_request_def br_watches_def
        run_call finished_defs or_return_def Let_def split: option.split)
qed
theorem source_claim_deleted_witness:
  "\<exists>res. EDelete KPersistentVolumeClaim \<lparr>nn_Namespace = ''app'', nn_Name = ''data''\<rparr> (Some ''Background'') res
     \<in> set (backup_calls (sampleK\<lparr>k_Get_PVCBackup := \<lambda>_ w. (Inr same_name_backup, w)\<rparr>) sample_reconciler
        \<lparr>nn_Namespace = ''app'', nn_Name = ''data''\<rparr> (sample_sys () []))"
  using source_claim_deleted [where K = "sampleK\<lparr>k_Get_PVCBackup := \<lambda>_ w. (Inr same_name_backup, w)\<rparr>"
    and r = sample_reconciler and req = "\<lparr>nn_Namespace = ''app'', nn_Name = ''data''\<rparr>" and s = "sample_sys () []"
    and backup = same_name_backup and clock = "k_time_Now sampleK" and finishedAt = "sample_time - Minute"
    and R = "{||}" and w = "()"]
  by (simp add: sample_reconciler_def br_watches_def same_name_backup_def sample_defs object_key_def
      time_consts sample_time_def)

end
