(* ===== verification/Restore_Controller.thy ===== *)
theory Restore_Controller
  imports Util
begin

text \<open>
  \<open>src/internal/controller/pvcrestore_controller.go\<close>: the reconciler of \<open>PVCRestore\<close>
  objects. \<open>PVCRestoreReconciler_Reconcile\<close> is the whole handler: the namespace filter, the
  finished check, the name of the target claim, marking the start, getting or making the claim
  (marked with the UID of the restore), the ownership checks on claim and job, getting or making
  the job, and finishing, which takes the mark off the claim.
\<close>

record PVCRestoreReconciler =
  rr_Namespaces :: "string list"
  rr_ExcludeNamespaces :: "string list"
  rr_BackupSettings :: BackupSettings

text \<open>\<open>None\<close> is the nil dereference of \<open>restore.Status.StartedAt.Time\<close>.\<close>

definition setRestoreFinished :: "time \<Rightarrow> PVCRestore \<Rightarrow> Result \<Rightarrow> PVCRestore option" where
  "setRestoreFinished now restore result =
    (case restore_StartedAt (restore_status restore) of
       None \<Rightarrow> None
     | Some startedAt \<Rightarrow>
         Some (restore\<lparr>restore_status := (restore_status restore)
           \<lparr>restore_FinishedAt := Some now,
            restore_Duration := Some (Duration_Round (Time_Sub now startedAt) Second),
            restore_Result := Some result\<rparr>\<rparr>))"

text \<open>
  The sequence \<open>setRestoreFinished\<close>, \<open>Status().Update\<close>, \<open>return\<close> that the handler
  runs in four places.
\<close>

definition finish_restore :: "'w kube \<Rightarrow> PVCRestore \<Rightarrow> Result \<Rightarrow> ('w, outcome) action" where
  "finish_restore K restore result = do {
     now \<leftarrow> time_Now K;
     case setRestoreFinished now restore result of
       None \<Rightarrow> return Panicked
     | Some restore' \<Rightarrow> do {
         u \<leftarrow> Status_Update_PVCRestore K restore';
         case u of Inl err \<Rightarrow> return (failed err) | Inr _ \<Rightarrow> return no_requeue } }"

definition targetPvcName :: "PVCRestore \<Rightarrow> string" where
  "targetPvcName restore =
    (if TargetPVC (restore_spec restore) = [] then SourcePVC (restore_spec restore)
     else TargetPVC (restore_spec restore))"

definition mark_restore_started :: "'w kube \<Rightarrow> PVCRestore \<Rightarrow> ('w, outcome + PVCRestore) action" where
  "mark_restore_started K restore =
    (if restore_StartedAt (restore_status restore) = None then do {
       now \<leftarrow> time_Now K;
       u \<leftarrow> Status_Update_PVCRestore K
              (restore\<lparr>restore_status := (restore_status restore)\<lparr>restore_StartedAt := Some now\<rparr>\<rparr>);
       case u of Inl err \<Rightarrow> return (Inl (failed err)) | Inr restore' \<Rightarrow> return (Inr restore') }
     else return (Inr restore))"

text \<open>The annotations of the restore with the mark \<open>CurrentlyRestoringAnnotation\<close> added.\<close>

definition restoringAnnotations :: "PVCRestore \<Rightarrow> strmap" where
  "restoringAnnotations restore =
     AList.update CurrentlyRestoringAnnotation (UID (restore_meta restore))
       (copy_map (rs_Annotations (restore_spec restore)) [])"

definition newTargetPVC ::
  "PVCRestoreReconciler \<Rightarrow> NamespacedName \<Rightarrow> PVCRestore \<Rightarrow> string \<Rightarrow> PersistentVolumeClaim" where
  "newTargetPVC r req restore targetPvc =
    (let storageClass = restoreStorageClassName (rr_BackupSettings r) (rs_StorageClassName (restore_spec restore))
     in \<lparr>pvc_meta = emptyMeta
           \<lparr>Name := targetPvc,
            Namespace := nn_Namespace req,
            Labels := rs_Labels (restore_spec restore),
            Annotations := restoringAnnotations restore\<rparr>,
         pvc_spec =
           \<lparr>pvcs_StorageClassName = storageClass,
            pvcs_DataSource = None,
            pvcs_AccessModes = [''ReadWriteOnce''],
            pvcs_Requests = [(''storage'', TargetPVCSize (restore_spec restore))]\<rparr>\<rparr>)"

definition ensure_target_pvc ::
  "'w kube \<Rightarrow> PVCRestoreReconciler \<Rightarrow> NamespacedName \<Rightarrow> PVCRestore \<Rightarrow> string \<Rightarrow>
   ('w, outcome + PersistentVolumeClaim) action" where
  "ensure_target_pvc K r req restore targetPvc = do {
     g \<leftarrow> Get_PVC K \<lparr>nn_Namespace = nn_Namespace req, nn_Name = targetPvc\<rparr>;
     case g of
       Inr pvc \<Rightarrow> return (Inr pvc)
     | Inl err \<Rightarrow>
         if \<not> IsNotFound err then return (Inl (failed err))
         else do {
           c \<leftarrow> Create_PVC K (newTargetPVC r req restore targetPvc);
           case c of Inl err \<Rightarrow> return (Inl (failed err)) | Inr pvc \<Rightarrow> return (Inr pvc) } }"

text \<open>\<open>uid, ok := m[CurrentlyRestoringAnnotation]; !ok || uid != restore.UID\<close>, negated.\<close>

definition markedBy :: "PVCRestore \<Rightarrow> ObjectMeta \<Rightarrow> bool" where
  "markedBy restore meta \<longleftrightarrow>
     map_of (Annotations meta) CurrentlyRestoringAnnotation = Some (UID (restore_meta restore))"

text \<open>The defaults written into the in-memory spec before the job is built.\<close>

definition defaultSource :: "PVCRestore \<Rightarrow> PVCRestore" where
  "defaultSource restore =
    (let spec = restore_spec restore;
         spec = (if SourceNamespace spec = [] then spec\<lparr>SourceNamespace := Namespace (restore_meta restore)\<rparr> else spec);
         spec = (if SourceSnapshot spec = [] then spec\<lparr>SourceSnapshot := ''latest''\<rparr> else spec)
     in restore\<lparr>restore_spec := spec\<rparr>)"

definition restoreManagedEnv :: "BackupSettings \<Rightarrow> PVCRestoreSpec \<Rightarrow> EnvVar list" where
  "restoreManagedEnv s spec =
    [\<lparr>env_Name = ''BACKUP_NAMESPACE'', env_Value = SourceNamespace spec\<rparr>,
     \<lparr>env_Name = ''BACKUP_VOLUME'', env_Value = SourcePVC spec\<rparr>,
     \<lparr>env_Name = ''RESTIC_REPOSITORY_BASE'', env_Value = ''s3:'' @ S3Host s @ ''/'' @ S3Bucket s\<rparr>,
     \<lparr>env_Name = ''RESTIC_PASSWORD'', env_Value = ResticPassword s\<rparr>,
     \<lparr>env_Name = ''AWS_ACCESS_KEY_ID'', env_Value = S3AccessKeyId s\<rparr>,
     \<lparr>env_Name = ''AWS_SECRET_ACCESS_KEY'', env_Value = S3SecretAccessKey s\<rparr>,
     \<lparr>env_Name = ''RESTIC_HOSTNAME'', env_Value = ''$(BACKUP_NAMESPACE)''\<rparr>,
     \<lparr>env_Name = ''RESTIC_REPOSITORY'',
      env_Value = ''$(RESTIC_REPOSITORY_BASE)/$(BACKUP_NAMESPACE)/$(BACKUP_VOLUME)''\<rparr>]"

definition newRestoreJob :: "PVCRestoreReconciler \<Rightarrow> PVCRestore \<Rightarrow> PersistentVolumeClaim \<Rightarrow> Job" where
  "newRestoreJob r restore pvc =
    (let settings = rr_BackupSettings r; spec = restore_spec restore;
         imagePullSecrets = (if ImagePullSecret settings \<noteq> [] then [ImagePullSecret settings] else [])
     in \<lparr>job_meta = emptyMeta
           \<lparr>Namespace := Namespace (restore_meta restore),
            Name := Name (restore_meta restore),
            Labels := rs_Labels spec,
            Annotations := restoringAnnotations restore\<rparr>,
         job_spec =
           \<lparr>BackoffLimit = Some 4,
            Template =
              \<lparr>tmpl_meta = emptyMeta\<lparr>Labels := rs_Labels spec, Annotations := rs_Annotations spec\<rparr>,
               tmpl_spec =
                 \<lparr>ImagePullSecrets = imagePullSecrets,
                  RestartPolicy = ''OnFailure'',
                  pod_NodeSelector = rs_NodeSelector spec,
                  pod_Tolerations = rs_Tolerations spec,
                  pod_PriorityClassName = rs_PriorityClassName spec,
                  Volumes = [\<lparr>vol_Name = dataVolume, vol_ClaimName = Name (pvc_meta pvc),
                              vol_ReadOnly = False\<rparr>],
                  Containers =
                    [\<lparr>c_Name = ''default'',
                      c_Image = Image settings,
                      c_ImagePullPolicy = ''Always'',
                      c_Command = [''restic'', ''restore'', SourceSnapshot spec, ''--sparse'', ''--verify'',
                                   ''--target'', ''/data'', ''--retry-lock'', ''$(BACKSNAP_RETRY_LOCK)''],
                      c_Env = resticEnv settings (restoreManagedEnv settings spec),
                      c_Resources = ResticResources settings,
                      c_VolumeMounts = [\<lparr>vm_Name = dataVolume, vm_ReadOnly = False,
                                         vm_MountPath = ''/data/data''\<rparr>]\<rparr>]\<rparr>\<rparr>\<rparr>,
         job_status = \<lparr>CompletionTime = None\<rparr>\<rparr>)"

text \<open>The job, and the restore as the handler goes on with it (its spec may have been defaulted).\<close>

definition ensure_restore_job ::
  "'w kube \<Rightarrow> PVCRestoreReconciler \<Rightarrow> NamespacedName \<Rightarrow> PVCRestore \<Rightarrow> PersistentVolumeClaim \<Rightarrow>
   ('w, outcome + Job \<times> PVCRestore) action" where
  "ensure_restore_job K r req restore pvc = do {
     g \<leftarrow> Get_Job K req;
     case g of
       Inr job \<Rightarrow> return (Inr (job, restore))
     | Inl err \<Rightarrow>
         if \<not> IsNotFound err then return (Inl (failed err))
         else let restore = defaultSource restore; job = newRestoreJob r restore pvc in
           (case k_SetControllerReference K KPVCRestore (restore_meta restore) (job_meta job) of
              Inl err \<Rightarrow> return (Inl (failed err))
            | Inr meta \<Rightarrow> do {
                c \<leftarrow> Create_Job K (job\<lparr>job_meta := meta\<rparr>);
                case c of
                  Inl err \<Rightarrow> return (Inl (failed err))
                | Inr job' \<Rightarrow> return (Inr (job', restore)) }) }"

definition restoreJobCompleted :: "Job \<Rightarrow> bool" where
  "restoreJobCompleted job \<longleftrightarrow> \<not> Time_IsZero (CompletionTime (job_status job))"

definition unmark :: "PersistentVolumeClaim \<Rightarrow> PersistentVolumeClaim" where
  "unmark pvc = pvc\<lparr>pvc_meta := (pvc_meta pvc)
     \<lparr>Annotations := AList.delete CurrentlyRestoringAnnotation (Annotations (pvc_meta pvc))\<rparr>\<rparr>"

definition complete_restore ::
  "'w kube \<Rightarrow> PVCRestore \<Rightarrow> PersistentVolumeClaim \<Rightarrow> ('w, outcome) action" where
  "complete_restore K restore pvc = do {
     u \<leftarrow> Update_PVC K (unmark pvc);
     case u of
       Inl _ \<Rightarrow> finish_restore K restore ''Failed''
     | Inr _ \<Rightarrow> finish_restore K restore ''Succeeded'' }"

definition restore_into ::
  "'w kube \<Rightarrow> PVCRestoreReconciler \<Rightarrow> NamespacedName \<Rightarrow> PVCRestore \<Rightarrow> PersistentVolumeClaim \<Rightarrow>
   ('w, outcome) action" where
  "restore_into K r req restore pvc =
    (if \<not> markedBy restore (pvc_meta pvc) then finish_restore K restore ''Failed''
     else or_return (ensure_restore_job K r req restore pvc) (\<lambda>(job, restore).
       if \<not> markedBy restore (job_meta job) then finish_restore K restore ''Failed''
       else if \<not> restoreJobCompleted job then return no_requeue
       else complete_restore K restore pvc))"

definition reconcile_restore ::
  "'w kube \<Rightarrow> PVCRestoreReconciler \<Rightarrow> NamespacedName \<Rightarrow> PVCRestore \<Rightarrow> ('w, outcome) action" where
  "reconcile_restore K r req restore =
    (let targetPvc = targetPvcName restore in
     if targetPvc = [] then return (failed (ErrorMsg ''failed to start backup without source PVC''))
     else or_return (mark_restore_started K restore) (\<lambda>restore.
          or_return (ensure_target_pvc K r req restore targetPvc) (\<lambda>pvc.
          restore_into K r req restore pvc)))"

definition PVCRestoreReconciler_Reconcile ::
  "'w kube \<Rightarrow> PVCRestoreReconciler \<Rightarrow> NamespacedName \<Rightarrow> ('w, outcome) action" where
  "PVCRestoreReconciler_Reconcile K r req =
    (if nn_Namespace req \<in> set (rr_ExcludeNamespaces r) then return no_requeue
     else if [] \<notin> set (rr_Namespaces r) \<and> nn_Namespace req \<notin> set (rr_Namespaces r) then return no_requeue
     else do {
       g \<leftarrow> Get_PVCRestore K req;
       case g of
         Inl err \<Rightarrow> if IsNotFound err then return no_requeue else return (failed err)
       | Inr restore \<Rightarrow>
           if \<not> Time_IsZero (restore_FinishedAt (restore_status restore)) then return no_requeue
           else reconcile_restore K r req restore })"

end
