(* ===== verification/Restore_Props.thy ===== *)
theory Restore_Props
  imports Restore_Controller
begin

text \<open>
  The behaviour of the restore reconciler: what every call it makes is justified by, the mark on
  claim and job, and the environment its job shares with the backup job.
\<close>

text \<open>The namespaces the controller handles.\<close>

definition rr_watches :: "PVCRestoreReconciler \<Rightarrow> string \<Rightarrow> bool" where
  "rr_watches r ns \<longleftrightarrow> ns \<notin> set (rr_ExcludeNamespaces r) \<and>
     ([] \<in> set (rr_Namespaces r) \<or> ns \<in> set (rr_Namespaces r))"

section \<open>The mark\<close>

lemma newTargetPVC_marked: "markedBy restore (pvc_meta (newTargetPVC r req restore targetPvc))"
  by (simp add: markedBy_def newTargetPVC_def restoringAnnotations_def Let_def)

lemma unmark_not_marked: "\<not> markedBy restore (pvc_meta (unmark pvc))"
  by (simp add: markedBy_def unmark_def)

lemma defaultSource_keeps [simp]:
  "restore_meta (defaultSource restore) = restore_meta restore"
  "restore_status (defaultSource restore) = restore_status restore"
  by (simp_all add: defaultSource_def Let_def)

lemma markedBy_defaultSource [simp]: "markedBy (defaultSource restore) m = markedBy restore m"
  by (simp add: markedBy_def)

section \<open>Justified calls\<close>

text \<open>The restore a reconciliation works with: the one read, or the answer to a status update.\<close>

definition seen_restore :: "NamespacedName \<Rightarrow> event list \<Rightarrow> PVCRestore \<Rightarrow> bool" where
  "seen_restore req es restore \<longleftrightarrow>
     EGetRestore req (Inr restore) \<in> set es \<or> (\<exists>x. EUpdateRestoreStatus x (Inr restore) \<in> set es)"

text \<open>The claim it works with: the one read under the target name, or the answer to its creation.\<close>

definition seen_claim :: "NamespacedName \<Rightarrow> event list \<Rightarrow> PersistentVolumeClaim \<Rightarrow> bool" where
  "seen_claim req es pvc \<longleftrightarrow>
     (\<exists>name. EGetPVC \<lparr>nn_Namespace = nn_Namespace req, nn_Name = name\<rparr> (Inr pvc) \<in> set es) \<or>
     (\<exists>x. ECreatePVC x (Inr pvc) \<in> set es)"

definition seen_job :: "NamespacedName \<Rightarrow> event list \<Rightarrow> Job \<Rightarrow> bool" where
  "seen_job req es job \<longleftrightarrow> EGetJob req (Inr job) \<in> set es \<or> (\<exists>x. ECreateJob x (Inr job) \<in> set es)"

lemmas seen_defs = seen_restore_def seen_claim_def seen_job_def

text \<open>
  What must have been seen for each call of the restore reconciler: a claim is created only when
  there is none of that name, with the mark on it; a job only for a claim that carries the mark,
  and with that claim as its volume; a claim is updated only to take the mark off after a
  completed job with the mark, and a finished status says \<open>Succeeded\<close> only after that update
  was accepted.
\<close>

fun restore_justified :: "PVCRestoreReconciler \<Rightarrow> NamespacedName \<Rightarrow> event list \<Rightarrow> event \<Rightarrow> bool" where
  "restore_justified r req es (ECreatePVC pvc _) =
     (\<exists>restore name err. seen_restore req es restore \<and> pvc = newTargetPVC r req restore name \<and>
        EGetPVC \<lparr>nn_Namespace = nn_Namespace req, nn_Name = name\<rparr> (Inl err) \<in> set es \<and> IsNotFound err)"
| "restore_justified r req es (ECreateJob job _) =
     (\<exists>restore pvc meta. seen_restore req es restore \<and> seen_claim req es pvc \<and> markedBy restore (pvc_meta pvc) \<and>
        job = (newRestoreJob r (defaultSource restore) pvc)\<lparr>job_meta := meta\<rparr>)"
| "restore_justified r req es (EUpdatePVC pvc' _) =
     (\<exists>restore pvc job. seen_restore req es restore \<and> seen_claim req es pvc \<and> markedBy restore (pvc_meta pvc) \<and>
        pvc' = unmark pvc \<and> seen_job req es job \<and> markedBy restore (job_meta job) \<and> restoreJobCompleted job)"
| "restore_justified r req es (EUpdateRestoreStatus restore _) =
     (\<not> Time_IsZero (restore_FinishedAt (restore_status restore)) \<and>
        restore_Result (restore_status restore) = Some ''Succeeded'' \<longrightarrow>
        (\<exists>pvc answer. EUpdatePVC (unmark pvc) (Inr answer) \<in> set es))"
| "restore_justified r req es (EGetRestore nn _) = (nn = req)"
| "restore_justified r req es (EGetPVC nn _) = (nn_Namespace nn = nn_Namespace req)"
| "restore_justified r req es (EGetJob nn _) = (nn = req)"
| "restore_justified r req es (ENow _) = True"
| "restore_justified r req es _ = False"

lemma seen_mono:
  "set es \<subseteq> set es' \<Longrightarrow> seen_restore req es restore \<Longrightarrow> seen_restore req es' restore"
  "set es \<subseteq> set es' \<Longrightarrow> seen_claim req es pvc \<Longrightarrow> seen_claim req es' pvc"
  "set es \<subseteq> set es' \<Longrightarrow> seen_job req es job \<Longrightarrow> seen_job req es' job"
  by (auto simp: seen_defs)

lemma restore_justified_mono:
  assumes sub: "set es \<subseteq> set es'" and just: "restore_justified r req es e"
  shows "restore_justified r req es' e"
proof (cases e)
  case (ECreatePVC pvc res)
  with just obtain restore name err where "seen_restore req es restore" "pvc = newTargetPVC r req restore name"
    "EGetPVC \<lparr>nn_Namespace = nn_Namespace req, nn_Name = name\<rparr> (Inl err) \<in> set es" "IsNotFound err" by auto
  with sub ECreatePVC seen_mono(1) [OF sub] show ?thesis by auto
next
  case (ECreateJob job res)
  with just obtain restore pvc meta where "seen_restore req es restore" "seen_claim req es pvc"
    "markedBy restore (pvc_meta pvc)" "job = (newRestoreJob r (defaultSource restore) pvc)\<lparr>job_meta := meta\<rparr>"
    by (metis restore_justified.simps(2))
  with ECreateJob seen_mono [OF sub] show ?thesis by (metis restore_justified.simps(2))
next
  case (EUpdatePVC pvc' res)
  with just obtain restore pvc job where "seen_restore req es restore" "seen_claim req es pvc"
    "markedBy restore (pvc_meta pvc)" "pvc' = unmark pvc" "seen_job req es job"
    "markedBy restore (job_meta job)" "restoreJobCompleted job"
    by (metis restore_justified.simps(3))
  with EUpdatePVC seen_mono [OF sub] show ?thesis by (metis restore_justified.simps(3))
qed (use just sub in auto)

text \<open>
  The trace invariant: all calls are justified by the trace itself. It is threaded through the
  blocks with what each of them has seen.
\<close>

definition all_justified :: "PVCRestoreReconciler \<Rightarrow> NamespacedName \<Rightarrow> event list \<Rightarrow> bool" where
  "all_justified r req es \<longleftrightarrow> (\<forall>e\<in>set es. restore_justified r req es e)"

lemma all_justified_snoc:
  assumes "all_justified r req es" and "restore_justified r req (es @ [e]) e"
  shows "all_justified r req (es @ [e])"
  unfolding all_justified_def
proof
  fix e' assume "e' \<in> set (es @ [e])"
  with assms restore_justified_mono [of es "es @ [e]" r req e'] show "restore_justified r req (es @ [e]) e'"
    by (auto simp: all_justified_def)
qed

lemma wp_justified_call:
  assumes "all_justified r req (trace s)"
    and "\<And>a. restore_justified r req (trace s @ [ev a]) (ev a)"
    and "\<And>a t. all_justified r req (trace t) \<Longrightarrow> set (trace s) \<subseteq> set (trace t) \<Longrightarrow> ev a \<in> set (trace t) \<Longrightarrow> Q a t"
  shows "wp (call f ev) Q s"
  unfolding wp_call
  by (auto split: prod.split intro!: assms(3) all_justified_snoc [OF assms(1,2)])

lemma finish_restore_justified:
  assumes "all_justified r req (trace s)"
    and "result = ''Succeeded'' \<longrightarrow> (\<exists>pvc answer. EUpdatePVC (unmark pvc) (Inr answer) \<in> set (trace s))"
  shows "wp (finish_restore K restore result) (\<lambda>_ t. all_justified r req (trace t)) s"
  unfolding finish_restore_def wp_bind
proof (rule wp_justified_call [OF assms(1)], goal_cases)
  case (2 now t)
  show ?case
  proof (cases "setRestoreFinished now restore result")
    case None
    with 2 show ?thesis by (simp add: wp)
  next
    case (Some restore')
    then have "restore_Result (restore_status restore') = Some result"
      by (auto simp: setRestoreFinished_def split: option.splits)
    moreover from assms(2) 2(2) have "result = ''Succeeded'' \<longrightarrow> (\<exists>pvc answer. EUpdatePVC (unmark pvc) (Inr answer) \<in> set (trace t))"
      by blast
    ultimately have "restore_justified r req (trace t @ [EUpdateRestoreStatus restore' a])
        (EUpdateRestoreStatus restore' a)" for a
      unfolding restore_justified.simps set_append by (metis UnI1 option.inject)
    note update = wp_justified_call [OF 2(1) this]
    from Some show ?thesis by (auto simp: wp_bind wp_return split: sum.split intro!: update)
  qed
qed simp

lemma complete_restore_justified:
  assumes "all_justified r req (trace s)" and "seen_restore req (trace s) restore"
    and "seen_claim req (trace s) pvc" and "markedBy restore (pvc_meta pvc)"
    and "seen_job req (trace s) job" and "markedBy restore (job_meta job)" and "restoreJobCompleted job"
  shows "wp (complete_restore K restore' pvc) (\<lambda>_ t. all_justified r req (trace t)) s"
  unfolding complete_restore_def wp_bind
proof (rule wp_justified_call [OF assms(1)], goal_cases)
  case (1 a)
  let ?es = "trace s @ [EUpdatePVC (unmark pvc) a]"
  have sub: "set (trace s) \<subseteq> set ?es" by auto
  from seen_mono [OF sub] assms(2-7) show ?case by (metis restore_justified.simps(3))
next
  case (2 a t)
  then show ?case by (cases a) (auto intro!: finish_restore_justified)
qed

lemma ensure_restore_job_justified:
  assumes "all_justified r req (trace s)" and "seen_restore req (trace s) restore"
    and "seen_claim req (trace s) pvc" and "markedBy restore (pvc_meta pvc)"
  shows "wp (ensure_restore_job K r req restore pvc) (\<lambda>x t. all_justified r req (trace t) \<and>
     set (trace s) \<subseteq> set (trace t) \<and> (case x of Inl _ \<Rightarrow> True | Inr (job, restore') \<Rightarrow>
       seen_job req (trace t) job \<and> (\<forall>m. markedBy restore' m = markedBy restore m))) s"
  unfolding ensure_restore_job_def wp_bind
proof (rule wp_justified_call [OF assms(1)], goal_cases)
  case (2 g t)
  have "restore_justified r req (trace t @ [ECreateJob ((newRestoreJob r (defaultSource restore) pvc)\<lparr>job_meta := meta\<rparr>) a])
      (ECreateJob ((newRestoreJob r (defaultSource restore) pvc)\<lparr>job_meta := meta\<rparr>) a)" (is "restore_justified r req ?es _")
    for a meta
  proof -
    have sub: "set (trace s) \<subseteq> set ?es" using 2 by auto
    from seen_mono [OF sub] assms(2-4) show ?thesis by (metis restore_justified.simps(2))
  qed
  note create = wp_justified_call [OF 2(1) this]
  show ?case
    using 2 by (auto simp: wp_bind wp_return Let_def seen_job_def split: sum.split intro!: create) (meson subsetD)+
qed simp

lemma restore_into_justified:
  assumes "all_justified r req (trace s)" and "seen_restore req (trace s) restore" and "seen_claim req (trace s) pvc"
  shows "wp (restore_into K r req restore pvc) (\<lambda>_ t. all_justified r req (trace t)) s"
proof (cases "markedBy restore (pvc_meta pvc)")
  case False
  with assms show ?thesis by (auto simp: restore_into_def intro: finish_restore_justified)
next
  case True
  have "wp (or_return (ensure_restore_job K r req restore pvc) (\<lambda>(job, restore).
       if \<not> markedBy restore (job_meta job) then finish_restore K restore ''Failed''
       else if \<not> restoreJobCompleted job then return no_requeue
       else complete_restore K restore pvc)) (\<lambda>_ t. all_justified r req (trace t)) s"
    unfolding wp_or_return
  proof (rule wp_mono [OF ensure_restore_job_justified [OF assms True]], goal_cases)
    case (1 x t)
    then have sub: "set (trace s) \<subseteq> set (trace t)" by blast
    from 1 seen_mono [OF sub] assms True show ?case
      by (auto simp: wp_return split: sum.splits
          intro!: finish_restore_justified complete_restore_justified [where restore = restore])
  qed
  with True show ?thesis by (simp add: restore_into_def)
qed

lemma ensure_target_pvc_justified:
  assumes "all_justified r req (trace s)" and "seen_restore req (trace s) restore"
  shows "wp (ensure_target_pvc K r req restore name) (\<lambda>x t. all_justified r req (trace t) \<and>
     set (trace s) \<subseteq> set (trace t) \<and> (case x of Inl _ \<Rightarrow> True | Inr pvc \<Rightarrow> seen_claim req (trace t) pvc)) s"
  unfolding ensure_target_pvc_def wp_bind
proof (rule wp_justified_call [OF assms(1)], goal_cases)
  case (2 g t)
  show ?case
  proof (cases g)
    case (Inl err)
    have "restore_justified r req (trace t @ [ECreatePVC (newTargetPVC r req restore name) a])
        (ECreatePVC (newTargetPVC r req restore name) a)" (is "restore_justified r req ?es _") if "IsNotFound err" for a
    proof -
      have sub: "set (trace s) \<subseteq> set ?es" using 2 by auto
      have "EGetPVC \<lparr>nn_Namespace = nn_Namespace req, nn_Name = name\<rparr> (Inl err) \<in> set ?es" using 2 Inl by auto
      with seen_mono(1) [OF sub assms(2)] that show ?thesis by (metis restore_justified.simps(1))
    qed
    note create = wp_justified_call [OF 2(1) this]
    from 2 Inl show ?thesis
      by (auto simp: wp_bind wp_return seen_claim_def split: sum.split intro!: create) (meson subsetD)+
  next
    case (Inr pvc)
    with 2 show ?thesis by (auto simp: wp seen_claim_def)
  qed
qed simp

lemma mark_restore_started_justified:
  assumes "all_justified r req (trace s)" and "seen_restore req (trace s) restore"
    and "Time_IsZero (restore_FinishedAt (restore_status restore))"
  shows "wp (mark_restore_started K restore) (\<lambda>x t. all_justified r req (trace t) \<and>
     (case x of Inl _ \<Rightarrow> True | Inr restore' \<Rightarrow> seen_restore req (trace t) restore')) s"
proof (cases "restore_StartedAt (restore_status restore) = None")
  case False
  with assms show ?thesis by (auto simp: mark_restore_started_def wp_return)
next
  case True
  show ?thesis
    unfolding mark_restore_started_def if_P [OF True] wp_bind
  proof (rule wp_justified_call [OF assms(1)], goal_cases)
    case (2 now t)
    show ?case
      by (rule wp_justified_call [OF 2(1)])
         (use assms(3) in \<open>auto simp: wp_return seen_restore_def split: sum.split\<close>)
  qed simp
qed

lemma reconcile_restore_justified:
  assumes "all_justified r req (trace s)" and "seen_restore req (trace s) restore"
    and "Time_IsZero (restore_FinishedAt (restore_status restore))"
  shows "wp (reconcile_restore K r req restore) (\<lambda>_ t. all_justified r req (trace t)) s"
proof (cases "targetPvcName restore = []")
  case True
  with assms show ?thesis by (simp add: reconcile_restore_def wp)
next
  case False
  have into: "wp (or_return (ensure_target_pvc K r req restore' (targetPvcName restore)) (restore_into K r req restore'))
      (\<lambda>_ t. all_justified r req (trace t)) t"
    if t: "all_justified r req (trace t)" "seen_restore req (trace t) restore'" for restore' t
    unfolding wp_or_return
  proof (rule wp_mono [OF ensure_target_pvc_justified [OF t]], goal_cases)
    case (1 x u)
    with seen_mono(1) [OF _ t(2), of "trace u"] show ?case
      by (auto split: sum.splits intro!: restore_into_justified)
  qed
  show ?thesis
    unfolding reconcile_restore_def Let_def if_not_P [OF False] wp_or_return [where m = "mark_restore_started K restore"]
    by (rule wp_mono [OF mark_restore_started_justified [OF assms]]) (auto split: sum.splits intro!: into)
qed

lemma Restore_justified:
  "all_justified r req (calls (PVCRestoreReconciler_Reconcile K r req) s)"
proof (rule calls_wp)
  have start: "all_justified r req []" by (simp add: all_justified_def)
  show "wp (PVCRestoreReconciler_Reconcile K r req) (\<lambda>_ t. all_justified r req (trace t)) (s\<lparr>trace := []\<rparr>)"
  proof (cases "nn_Namespace req \<in> set (rr_ExcludeNamespaces r) \<or>
      ([] \<notin> set (rr_Namespaces r) \<and> nn_Namespace req \<notin> set (rr_Namespaces r))")
    case True
    with start show ?thesis by (auto simp: PVCRestoreReconciler_Reconcile_def wp_return)
  next
    case False
    have "wp (do {
       g \<leftarrow> Get_PVCRestore K req;
       case g of
         Inl err \<Rightarrow> if IsNotFound err then return no_requeue else return (failed err)
       | Inr restore \<Rightarrow>
           if \<not> Time_IsZero (restore_FinishedAt (restore_status restore)) then return no_requeue
           else reconcile_restore K r req restore }) (\<lambda>_ t. all_justified r req (trace t)) (s\<lparr>trace := []\<rparr>)"
      unfolding wp_bind
      by (rule wp_justified_call)
         (use start in \<open>auto simp: wp_return seen_restore_def split: sum.split intro!: reconcile_restore_justified\<close>)
    with False show ?thesis by (auto simp: PVCRestoreReconciler_Reconcile_def)
  qed
qed

section \<open>Outcomes\<close>

lemmas restore_defs = PVCRestoreReconciler_Reconcile_def reconcile_restore_def restore_into_def
  mark_restore_started_def ensure_target_pvc_def ensure_restore_job_def complete_restore_def finish_restore_def

fun never_requeues :: "outcome \<Rightarrow> bool" where
  "never_requeues Panicked = True"
| "never_requeues (Returned res _) = (res = emptyResult)"

lemma Restore_never_requeues: "pred_state never_requeues (PVCRestoreReconciler_Reconcile K r req)"
  unfolding restore_defs by (auto intro!: results simp: Let_def split: prod.split)

lemma finish_restore_no_panic:
  "restore_StartedAt (restore_status restore) \<noteq> None \<Longrightarrow> pred_state (\<lambda>out. out \<noteq> Panicked) (finish_restore K restore result)"
  unfolding finish_restore_def setRestoreFinished_def by (auto intro!: results)

lemma restore_into_no_panic:
  assumes "restore_StartedAt (restore_status restore) \<noteq> None"
  shows "pred_state (\<lambda>out. out \<noteq> Panicked) (restore_into K r req restore pvc)"
proof -
  let ?ok = "\<lambda>x. case x of Inl out \<Rightarrow> out \<noteq> Panicked | Inr (job :: Job, restore') \<Rightarrow> restore_StartedAt (restore_status restore') \<noteq> None"
  have j: "pred_state ?ok (ensure_restore_job K r req restore pvc)"
    unfolding ensure_restore_job_def using assms by (auto intro!: results simp: Let_def)
  have "pred_state (\<lambda>out. out \<noteq> Panicked) (complete_restore K restore' pvc)"
    if "restore_StartedAt (restore_status restore') \<noteq> None" for restore'
    unfolding complete_restore_def using that by (auto intro!: results finish_restore_no_panic)
  then have "pred_state (\<lambda>out. out \<noteq> Panicked) (if \<not> markedBy restore' (job_meta job) then finish_restore K restore' ''Failed''
       else if \<not> restoreJobCompleted job then return no_requeue else complete_restore K restore' pvc)"
    if "restore_StartedAt (restore_status restore') \<noteq> None" for restore' job
    using that by (auto intro!: results finish_restore_no_panic)
  with pred_or_return_strong [OF j] assms show ?thesis
    unfolding restore_into_def by (intro pred_if finish_restore_no_panic) (auto split: sum.splits)
qed

section \<open>The running map\<close>

lemma Restore_running: "state_io_rel same_running (PVCRestoreReconciler_Reconcile K r req)"
  unfolding restore_defs by (auto intro!: steps simp: Let_def split: prod.split)

end
