(* ===== verification/Restore_Theorems.thy ===== *)
theory Restore_Theorems
  imports Restore_Props Sample_Cluster
begin

text \<open>
  The properties of the restore controller, each with a witness where it has hypotheses, and the
  agreement of the environments of backup and restore jobs.
\<close>

section \<open>Samples\<close>

definition sample_restorer :: PVCRestoreReconciler where
  "sample_restorer = \<lparr>rr_Namespaces = [[]], rr_ExcludeNamespaces = [[]], rr_BackupSettings = sample_settings\<rparr>"

definition restore_key :: NamespacedName where
  "restore_key = \<lparr>nn_Namespace = ''app'', nn_Name = ''undo''\<rparr>"

definition sample_restore :: PVCRestore where
  "sample_restore = \<lparr>restore_meta = emptyMeta\<lparr>Namespace := ''app'', Name := ''undo'', UID := ''u1''\<rparr>,
     restore_spec = \<lparr>SourcePVC = ''data'', SourceNamespace = [], SourceSnapshot = [], TargetPVC = ''copy'',
       TargetPVCSize = ''1Gi'', rs_StorageClassName = [], rs_NodeSelector = [], rs_Tolerations = [],
       rs_PriorityClassName = [], rs_Labels = [], rs_Annotations = []\<rparr>,
     restore_status = \<lparr>restore_StartedAt = None, restore_FinishedAt = None, restore_Duration = None,
       restore_Result = None\<rparr>\<rparr>"

definition started_restore :: PVCRestore where
  "started_restore = sample_restore\<lparr>restore_status := (restore_status sample_restore)
     \<lparr>restore_StartedAt := Some (sample_time - Minute)\<rparr>\<rparr>"

definition marked_pvc :: PersistentVolumeClaim where
  "marked_pvc = sample_pvc\<lparr>pvc_meta := (pvc_meta sample_pvc)
     \<lparr>Name := ''copy'', Annotations := [(CurrentlyRestoringAnnotation, ''u1'')]\<rparr>\<rparr>"

definition completed_restore_job :: Job where
  "completed_restore_job = (sample_job (Some sample_time))\<lparr>job_meta := emptyMeta
     \<lparr>Namespace := ''app'', Name := ''undo'', Annotations := [(CurrentlyRestoringAnnotation, ''u1'')]\<rparr>\<rparr>"

text \<open>A cluster with the restore and nothing else, and one in which its job has completed.\<close>

definition fresh_K :: "unit kube" where
  "fresh_K = sampleK\<lparr>k_Get_PVCRestore := \<lambda>_ w. (Inr sample_restore, w)\<rparr>"

definition done_K :: "unit kube" where
  "done_K = sampleK
     \<lparr>k_Get_PVCRestore := \<lambda>_ w. (Inr started_restore, w),
      k_Get_PVC := \<lambda>_ w. (Inr marked_pvc, w),
      k_Get_Job := \<lambda>_ w. (Inr completed_restore_job, w)\<rparr>"

abbreviation restore_calls :: "'w kube \<Rightarrow> PVCRestoreReconciler \<Rightarrow> NamespacedName \<Rightarrow> 'w sys \<Rightarrow> event list" where
  "restore_calls K r req s \<equiv> calls (PVCRestoreReconciler_Reconcile K r req) s"

lemmas restore_samples = sample_restorer_def restore_key_def sample_restore_def started_restore_def
  marked_pvc_def completed_restore_job_def fresh_K_def done_K_def sample_defs sample_time_def
  time_consts

lemmas restore_eval = calls_def restore_defs run_call or_return_def Let_def targetPvcName_def markedBy_def
  newTargetPVC_def newRestoreJob_def restoringAnnotations_def copy_map_def defaultSource_def
  restoreJobCompleted_def unmark_def setRestoreFinished_def sampleK_def

section \<open>What a restore touches\<close>

text \<open>
  C3: A restore job is created only for a claim that was seen, in the answer to a read or to the
  creation, with the mark of this very restore (its UID), and that claim is the one volume the
  job mounts; so data is never restored into a claim that existed before.
\<close>

theorem restore_job_only_on_marked_claim:
  assumes "ECreateJob job res \<in> set (restore_calls K r req s)"
  shows "\<exists>restore pvc. seen_restore req (restore_calls K r req s) restore \<and>
    seen_claim req (restore_calls K r req s) pvc \<and> markedBy restore (pvc_meta pvc) \<and>
    map vol_ClaimName (Volumes (tmpl_spec (Template (job_spec job)))) = [Name (pvc_meta pvc)]"
proof -
  from Restore_justified [of r req K s] assms
  have "restore_justified r req (restore_calls K r req s) (ECreateJob job res)"
    unfolding all_justified_def by blast
  then obtain restore pvc meta where
    "seen_restore req (restore_calls K r req s) restore" "seen_claim req (restore_calls K r req s) pvc"
    "markedBy restore (pvc_meta pvc)" and
    job: "job = (newRestoreJob r (defaultSource restore) pvc)\<lparr>job_meta := meta\<rparr>"
    by (metis restore_justified.simps(2))
  moreover from job have "map vol_ClaimName (Volumes (tmpl_spec (Template (job_spec job)))) = [Name (pvc_meta pvc)]"
    by (simp add: newRestoreJob_def Let_def)
  ultimately show ?thesis by metis
qed

theorem restore_job_only_on_marked_claim_witness:
  "\<exists>job restore (pvc :: PersistentVolumeClaim). ECreateJob job (Inr job) \<in> set (restore_calls fresh_K sample_restorer restore_key (sample_sys () [])) \<and>
     markedBy restore (pvc_meta pvc) \<and>
     map vol_ClaimName (Volumes (tmpl_spec (Template (job_spec job)))) = [Name (pvc_meta pvc)]"
proof -
  have "\<exists>job. ECreateJob job (Inr job) \<in> set (restore_calls fresh_K sample_restorer restore_key (sample_sys () []))"
    by (simp add: restore_eval restore_samples)
  then obtain job where job: "ECreateJob job (Inr job) \<in> set (restore_calls fresh_K sample_restorer restore_key (sample_sys () []))" ..
  from restore_job_only_on_marked_claim [OF job] job show ?thesis by metis
qed

text \<open>
  C9: A restore is reported as \<open>Succeeded\<close> only after a job with the mark of this restore
  has completed, and after the API has accepted the claim without the mark.
\<close>

theorem restore_success_only_after_unmark:
  assumes "EUpdateRestoreStatus x res \<in> set (restore_calls K r req s)"
    and "\<not> Time_IsZero (restore_FinishedAt (restore_status x))"
    and "restore_Result (restore_status x) = Some ''Succeeded''"
  shows "\<exists>restore pvc job answer. EUpdatePVC (unmark pvc) (Inr answer) \<in> set (restore_calls K r req s) \<and>
    seen_restore req (restore_calls K r req s) restore \<and>
    seen_job req (restore_calls K r req s) job \<and> markedBy restore (job_meta job) \<and> restoreJobCompleted job"
proof -
  let ?es = "restore_calls K r req s"
  note just = Restore_justified [of r req K s, unfolded all_justified_def]
  from bspec [OF just assms(1)] assms(2,3) obtain pvc answer where u: "EUpdatePVC (unmark pvc) (Inr answer) \<in> set ?es"
    by (metis restore_justified.simps(4))
  with bspec [OF just u] show ?thesis by (metis restore_justified.simps(3))
qed

theorem restore_success_only_after_unmark_witness:
  "\<exists>x pvc answer. EUpdateRestoreStatus x (Inr x) \<in> set (restore_calls done_K sample_restorer restore_key (sample_sys () [])) \<and>
     restore_Result (restore_status x) = Some ''Succeeded'' \<and>
     EUpdatePVC (unmark pvc) (Inr answer) \<in> set (restore_calls done_K sample_restorer restore_key (sample_sys () []))"
proof -
  let ?x = "started_restore\<lparr>restore_status := \<lparr>restore_StartedAt = Some (sample_time - Minute),
    restore_FinishedAt = Some sample_time, restore_Duration = Some Minute, restore_Result = Some ''Succeeded''\<rparr>\<rparr>"
  have x: "EUpdateRestoreStatus ?x (Inr ?x) \<in> set (restore_calls done_K sample_restorer restore_key (sample_sys () []))"
    by (simp add: restore_eval restore_samples Time_Sub_def Duration_Round_def)
  have "\<not> Time_IsZero (restore_FinishedAt (restore_status ?x))" "restore_Result (restore_status ?x) = Some ''Succeeded''"
    by (simp_all add: sample_time_def Second_def)
  from restore_success_only_after_unmark [OF x this] x this(2) show ?thesis by blast
qed

text \<open>
  C16: The restore controller never deletes anything, never touches a \<open>PVCBackup\<close> or a
  snapshot, and creates a claim only in the namespace of the request, after reading that there is
  none of that name, with the mark of the restore on it and the requested size.
\<close>

theorem restore_confined:
  assumes "e \<in> set (restore_calls K r req s)"
  shows "(\<forall>kd nn policy res. e \<noteq> EDelete kd nn policy res) \<and>
    (\<forall>x res. e \<noteq> EUpdateBackupStatus x res \<and> e \<noteq> ECreateBackup x res) \<and> (\<forall>x res. e \<noteq> ECreateSnapshot x res) \<and>
    (\<forall>pvc res. e = ECreatePVC pvc res \<longrightarrow> Namespace (pvc_meta pvc) = nn_Namespace req \<and>
       (\<exists>restore err. seen_restore req (restore_calls K r req s) restore \<and> markedBy restore (pvc_meta pvc) \<and>
          pvcs_Requests (pvc_spec pvc) = [(''storage'', TargetPVCSize (restore_spec restore))] \<and>
          EGetPVC \<lparr>nn_Namespace = nn_Namespace req, nn_Name = Name (pvc_meta pvc)\<rparr> (Inl err)
            \<in> set (restore_calls K r req s) \<and> IsNotFound err))"
proof -
  have just: "restore_justified r req (restore_calls K r req s) e"
    using Restore_justified [of r req K s] assms by (simp add: all_justified_def)
  have "Namespace (pvc_meta pvc) = nn_Namespace req \<and>
       (\<exists>restore err. seen_restore req (restore_calls K r req s) restore \<and> markedBy restore (pvc_meta pvc) \<and>
          pvcs_Requests (pvc_spec pvc) = [(''storage'', TargetPVCSize (restore_spec restore))] \<and>
          EGetPVC \<lparr>nn_Namespace = nn_Namespace req, nn_Name = Name (pvc_meta pvc)\<rparr> (Inl err)
            \<in> set (restore_calls K r req s) \<and> IsNotFound err)" if "e = ECreatePVC pvc res" for pvc res
  proof -
    from just that obtain restore name err where
      "seen_restore req (restore_calls K r req s) restore" and pvc: "pvc = newTargetPVC r req restore name" and
      "EGetPVC \<lparr>nn_Namespace = nn_Namespace req, nn_Name = name\<rparr> (Inl err) \<in> set (restore_calls K r req s)"
      "IsNotFound err"
      by (metis restore_justified.simps(1))
    moreover from pvc have "Namespace (pvc_meta pvc) = nn_Namespace req" "Name (pvc_meta pvc) = name"
      "pvcs_Requests (pvc_spec pvc) = [(''storage'', TargetPVCSize (restore_spec restore))]"
      by (simp_all add: newTargetPVC_def Let_def)
    ultimately show ?thesis using newTargetPVC_marked [of restore r req name] by metis
  qed
  with just show ?thesis by (cases e) simp_all
qed

theorem restore_confined_witness:
  "ECreatePVC (newTargetPVC sample_restorer restore_key started_restore ''copy'')
      (Inr (newTargetPVC sample_restorer restore_key started_restore ''copy''))
     \<in> set (restore_calls fresh_K sample_restorer restore_key (sample_sys () [])) \<and>
   Namespace (pvc_meta (newTargetPVC sample_restorer restore_key started_restore ''copy'')) = ''app''"
proof -
  have c: "ECreatePVC (newTargetPVC sample_restorer restore_key started_restore ''copy'')
      (Inr (newTargetPVC sample_restorer restore_key started_restore ''copy''))
     \<in> set (restore_calls fresh_K sample_restorer restore_key (sample_sys () []))"
    by (simp add: restore_eval restore_samples restoreStorageClassName_def)
  from restore_confined [OF c] c show ?thesis by (simp add: restore_key_def)
qed

section \<open>Branches\<close>

text \<open>
  The first calls of a reconciliation that has read an unfinished restore: a fresh one (without a
  start time) is written back with its start time and the handler goes on with the answer; one
  that has been started is used as it was read.
\<close>

definition begins_restore :: "'w kube \<Rightarrow> PVCRestore \<Rightarrow> 'w \<Rightarrow> PVCRestore \<Rightarrow> 'w \<Rightarrow> event list \<Rightarrow> bool" where
  "begins_restore K restore w begun w' es \<longleftrightarrow>
    (if restore_StartedAt (restore_status restore) = None
     then (\<exists>now w1. let sent = restore\<lparr>restore_status := (restore_status restore)\<lparr>restore_StartedAt := Some now\<rparr>\<rparr> in
       k_time_Now K w = (now, w1) \<and> k_Status_Update_PVCRestore K sent w1 = (Inr begun, w') \<and>
       es = [ENow now, EUpdateRestoreStatus sent (Inr begun)])
     else begun = restore \<and> w' = w \<and> es = [])"

lemma begins_restore_run:
  assumes "begins_restore K restore (world s) begun w' es"
  shows "run_state (mark_restore_started K restore) s = (Inr begun, s\<lparr>world := w', trace := trace s @ es\<rparr>)"
  using assms by (auto simp: begins_restore_def mark_restore_started_def run_call Let_def split: if_splits)

text \<open>
  C33: When the claim to restore to exists without the mark of this restore, the restore is
  finished as \<open>Failed\<close> at once, in the very first reconciliation of a fresh restore (right
  after its start time was written) as in every later one of a restore that has not finished: the
  calls are those listed, so no claim and no job is made or written.
\<close>

theorem unmarked_claim_fails:
  assumes "rr_watches r (nn_Namespace req)"
    and "k_Get_PVCRestore K req (world s) = (Inr restore, w1)"
    and "Time_IsZero (restore_FinishedAt (restore_status restore))" and "targetPvcName restore \<noteq> []"
    and "begins_restore K restore w1 begun w2 es"
    and "k_Get_PVC K \<lparr>nn_Namespace = nn_Namespace req, nn_Name = targetPvcName restore\<rparr> w2 = (Inr pvc, w3)"
    and "\<not> markedBy begun (pvc_meta pvc)"
    and "k_time_Now K w3 = (now, w4)"
    and "setRestoreFinished now begun ''Failed'' = Some failure"
    and "k_Status_Update_PVCRestore K failure w4 = (answer, w5)"
  shows "run_state (PVCRestoreReconciler_Reconcile K r req) s =
    ((case answer of Inl err \<Rightarrow> failed err | Inr _ \<Rightarrow> no_requeue),
     s\<lparr>world := w5, trace := trace s @ [EGetRestore req (Inr restore)] @ es @
       [EGetPVC \<lparr>nn_Namespace = nn_Namespace req, nn_Name = targetPvcName restore\<rparr> (Inr pvc),
        ENow now, EUpdateRestoreStatus failure answer]\<rparr>) \<and>
   restore_Result (restore_status failure) = Some ''Failed'' \<and>
   restore_FinishedAt (restore_status failure) = Some now"
proof
  let ?s = "s\<lparr>world := w1, trace := trace s @ [EGetRestore req (Inr restore)]\<rparr>"
  have "begins_restore K restore (world ?s) begun w2 es" using assms(5) by simp
  note begun = begins_restore_run [OF this]
  show "run_state (PVCRestoreReconciler_Reconcile K r req) s =
    ((case answer of Inl err \<Rightarrow> failed err | Inr _ \<Rightarrow> no_requeue),
     s\<lparr>world := w5, trace := trace s @ [EGetRestore req (Inr restore)] @ es @
       [EGetPVC \<lparr>nn_Namespace = nn_Namespace req, nn_Name = targetPvcName restore\<rparr> (Inr pvc),
        ENow now, EUpdateRestoreStatus failure answer]\<rparr>)"
    using assms(1-4,6-10) begun
    by (auto simp: PVCRestoreReconciler_Reconcile_def reconcile_restore_def ensure_target_pvc_def restore_into_def
        finish_restore_def rr_watches_def run_call or_return_def Let_def split: sum.split)
  show "restore_Result (restore_status failure) = Some ''Failed'' \<and>
   restore_FinishedAt (restore_status failure) = Some now"
    using assms(9) by (auto simp: setRestoreFinished_def split: option.splits)
qed

theorem unmarked_claim_fails_witness:
  "\<exists>t x. run_state (PVCRestoreReconciler_Reconcile (fresh_K\<lparr>k_Get_PVC := \<lambda>_ w. (Inr sample_pvc, w)\<rparr>)
      sample_restorer restore_key) (sample_sys () []) = (no_requeue, t) \<and> length (trace t) = 6 \<and>
     EUpdateRestoreStatus x (Inr x) \<in> set (trace t) \<and> restore_Result (restore_status x) = Some ''Failed''"
proof -
  let ?K = "fresh_K\<lparr>k_Get_PVC := \<lambda>_ w. (Inr sample_pvc, w)\<rparr>"
  let ?begun = "sample_restore\<lparr>restore_status := (restore_status sample_restore)\<lparr>restore_StartedAt := Some sample_time\<rparr>\<rparr>"
  obtain x where x: "setRestoreFinished sample_time ?begun ''Failed'' = Some x"
    by (simp add: setRestoreFinished_def)
  have b: "begins_restore ?K sample_restore () ?begun () [ENow sample_time, EUpdateRestoreStatus ?begun (Inr ?begun)]"
    by (simp add: begins_restore_def Let_def fresh_K_def) (simp add: sample_restore_def)
  have "\<not> markedBy ?begun (pvc_meta sample_pvc)"
    by (simp add: markedBy_def sample_defs)
  from unmarked_claim_fails [where K = ?K and r = sample_restorer and req = restore_key
      and s = "sample_sys () []" and restore = sample_restore and pvc = sample_pvc and now = sample_time
      and answer = "Inr x" and ?w1.0 = "()" and ?w3.0 = "()" and ?w4.0 = "()" and ?w5.0 = "()", OF _ _ _ _ b _ this _ x]
  show ?thesis
    by (auto simp: fresh_K_def rr_watches_def sample_restorer_def restore_key_def targetPvcName_def sample_restore_def sample_sys_def)
qed

text \<open>
  C34: A restore controller never panics on an API that keeps the start time in the answers to its
  status updates, and it never asks to be repeated: it returns an error or an empty result.
\<close>

theorem restore_no_panic:
  assumes "\<And>x w answer w'. k_Status_Update_PVCRestore K x w = (Inr answer, w') \<Longrightarrow>
      restore_StartedAt (restore_status x) \<noteq> None \<Longrightarrow> restore_StartedAt (restore_status answer) \<noteq> None"
  shows "\<exists>err. fst (run_state (PVCRestoreReconciler_Reconcile K r req) s) = Returned emptyResult err"
proof -
  let ?ok = "\<lambda>x. case x of Inl out \<Rightarrow> out \<noteq> Panicked | Inr restore \<Rightarrow> restore_StartedAt (restore_status restore) \<noteq> None"
  have started: "pred_state ?ok (mark_restore_started K restore)" for restore
  proof (rule pred_stateI)
    fix x s t assume "run_state (mark_restore_started K restore) s = (x, t)"
    then show "?ok x"
      by (auto simp: mark_restore_started_def run_call split: prod.splits sum.splits if_splits dest!: assms)
  qed
  have target: "pred_state (\<lambda>x. case x of Inl out \<Rightarrow> out \<noteq> Panicked | Inr _ \<Rightarrow> True) (ensure_target_pvc K r req restore name)"
    for restore name
    unfolding ensure_target_pvc_def by (auto intro!: results)
  have "pred_state (\<lambda>out. out \<noteq> Panicked) (reconcile_restore K r req restore)" for restore
    unfolding reconcile_restore_def Let_def
  proof (intro pred_if pred_or_return_strong [OF started])
    show "pred_state (\<lambda>out. out \<noteq> Panicked) (or_return (ensure_target_pvc K r req restore' (targetPvcName restore))
        (restore_into K r req restore'))" if "?ok (Inr restore')" for restore'
      by (rule pred_or_return [OF target]) (use that in \<open>auto intro: restore_into_no_panic\<close>)
  qed auto
  then have "pred_state (\<lambda>out. out \<noteq> Panicked) (PVCRestoreReconciler_Reconcile K r req)"
    unfolding PVCRestoreReconciler_Reconcile_def by (auto intro!: results)
  from pred_state_run_state [OF this, of s] pred_state_run_state [OF Restore_never_requeues, of K r req s]
  show ?thesis by (cases "fst (run_state (PVCRestoreReconciler_Reconcile K r req) s)") auto
qed

theorem restore_no_panic_witness:
  "\<exists>err. fst (run_state (PVCRestoreReconciler_Reconcile fresh_K sample_restorer restore_key) (sample_sys () [])) =
    Returned emptyResult err"
  by (rule restore_no_panic) (simp add: fresh_K_def)

end
