(* ===== verification/Automatic.thy ===== *)
theory Automatic
  imports Util
begin

text \<open>
  \<open>src/internal/controller/automatic.go\<close>: the controller that creates \<open>PVCBackup\<close>
  objects on schedule. A parsed cron expression of the library \<open>cronexpr\<close> is its
  \<open>Next\<close> function. The comparison of durations against the tolerance is made in
  \<open>float64\<close> by the code and is computed here exactly as IEEE 754 prescribes.
\<close>

definition jobOwnerKey :: string where
  "jobOwnerKey = ''.metadata.controller''"

definition DefaultTTL :: duration where
  "DefaultTTL = 3 * 24 * Hour"

section \<open>float64\<close>

text \<open>
  A \<open>float64\<close> in the range met here is an integer times a power of two with a significand of
  53 bits. \<open>bit_length\<close> counts binary digits; \<open>round_even\<close> divides by \<open>2 ^ k\<close>
  rounding to nearest, ties to even; \<open>round53\<close> rounds an integer to 53 significant bits, which
  is the conversion \<open>float64(n)\<close>.
\<close>

fun bit_length :: "nat \<Rightarrow> nat" where
  "bit_length n = (if n = 0 then 0 else Suc (bit_length (n div 2)))"

declare bit_length.simps [simp del]

definition round_even :: "nat \<Rightarrow> nat \<Rightarrow> nat" where
  "round_even n k =
    (let q = n div 2 ^ k; r = n mod 2 ^ k in
     if 2 * r < 2 ^ k then q
     else if 2 ^ k < 2 * r then q + 1
     else if even q then q else q + 1)"

definition round53_nat :: "nat \<Rightarrow> nat" where
  "round53_nat n = (let k = bit_length n - 53 in round_even n k * 2 ^ k)"

definition round53 :: "int \<Rightarrow> int" where
  "round53 x = (if x < 0 then - int (round53_nat (nat (- x))) else int (round53_nat (nat x)))"

text \<open>
  \<open>ScheduleIntervalTolerance = 0.01\<close>: the nearest \<open>float64\<close> to 0.01 is
  \<open>5764607523034235 * 2 ^ -59\<close>. A product with it is the product of the significands rounded to
  53 bits, scaled by \<open>2 ^ -59\<close>; the comparison is made after scaling both sides by
  \<open>2 ^ 59\<close>.
\<close>

definition toleranceSignificand :: int where
  "toleranceSignificand = 5764607523034235"

definition withinTolerance :: "duration \<Rightarrow> duration \<Rightarrow> bool" where
  "withinTolerance actualInterval scheduleInterval \<longleftrightarrow>
     round53 actualInterval * 2 ^ 59 < round53 (round53 scheduleInterval * toleranceSignificand)"

section \<open>Names of backups\<close>

definition digit :: "nat \<Rightarrow> char" where
  "digit d = char_of (48 + d)"

fun show_nat :: "nat \<Rightarrow> string" where
  "show_nat n = (if n < 10 then [digit n] else show_nat (n div 10) @ [digit (n mod 10)])"

declare show_nat.simps [simp del]

text \<open>The verb \<open>%d\<close> of \<open>fmt.Sprintf\<close>.\<close>

definition show_int :: "int \<Rightarrow> string" where
  "show_int i = (if i < 0 then ''-'' @ show_nat (nat (- i)) else show_nat (nat i))"

definition backupName :: "string \<Rightarrow> time \<Rightarrow> string" where
  "backupName pvcName now = pvcName @ ''-'' @ show_int (Unix now)"

section \<open>Reconcile\<close>

record 'w AutomaticPVCBackupCreator =
  ac_Clock :: "'w clock option"
  DefaultSchedule :: string
  ac_Namespaces :: "string list"
  ac_ExcludeNamespaces :: "string list"

definition scheduleFor :: "'w AutomaticPVCBackupCreator \<Rightarrow> Namespace_object \<Rightarrow> PersistentVolumeClaim \<Rightarrow> string" where
  "scheduleFor r namespace pvc =
    (case map_of (Annotations (pvc_meta pvc)) BackupScheduleAnnotation of
       Some s \<Rightarrow> s
     | None \<Rightarrow>
         (case map_of (Annotations (ns_meta namespace)) BackupScheduleAnnotation of
            Some s \<Rightarrow> s
          | None \<Rightarrow> DefaultSchedule r))"

definition newestBackup :: "PersistentVolumeClaim \<Rightarrow> PVCBackup list \<Rightarrow> time" where
  "newestBackup pvc childBackups =
    fold (\<lambda>item newest. if Time_After (CreationTimestamp (backup_meta item)) newest
                         then CreationTimestamp (backup_meta item) else newest)
      childBackups (CreationTimestamp (pvc_meta pvc))"

definition nextBackupAt :: "(time \<Rightarrow> time) \<Rightarrow> time \<Rightarrow> time" where
  "nextBackupAt Next newest =
    (let nextBackup = Next newest;
         actualInterval = Time_Sub nextBackup newest;
         scheduleInterval = Time_Sub (Next nextBackup) nextBackup
     in if withinTolerance actualInterval scheduleInterval then Next nextBackup else nextBackup)"

definition newPVCBackup :: "PersistentVolumeClaim \<Rightarrow> time \<Rightarrow> PVCBackup" where
  "newPVCBackup pvc now =
    \<lparr>backup_meta = emptyMeta
       \<lparr>Name := backupName (Name (pvc_meta pvc)) now,
        Namespace := Namespace (pvc_meta pvc)\<rparr>,
     backup_spec = emptyBackupSpec\<lparr>PVCName := Name (pvc_meta pvc), TTL := DefaultTTL\<rparr>,
     backup_status = emptyBackupStatus\<rparr>"

text \<open>\<open>requeueAfter(time.Until(t))\<close>: the clock is read again.\<close>

definition requeueAt :: "'w kube \<Rightarrow> time \<Rightarrow> ('w, outcome) action" where
  "requeueAt K t = do { now \<leftarrow> time_Now K; return (Returned (requeueAfter (Time_Sub t now)) None) }"

definition create_backup ::
  "'w kube \<Rightarrow> (time \<Rightarrow> time) \<Rightarrow> PersistentVolumeClaim \<Rightarrow> time \<Rightarrow> ('w, outcome) action" where
  "create_backup K Next pvc now =
    (let newBackup = newPVCBackup pvc now in
     case k_SetControllerReference K KPersistentVolumeClaim (pvc_meta pvc) (backup_meta newBackup) of
       Inl err \<Rightarrow> return (failed err)
     | Inr meta \<Rightarrow> do {
         c \<leftarrow> Create_PVCBackup K (newBackup\<lparr>backup_meta := meta\<rparr>);
         case c of
           Inl err \<Rightarrow> return (failed err)
         | Inr newBackup' \<Rightarrow> requeueAt K (Next (CreationTimestamp (backup_meta newBackup'))) })"

definition schedule_backup ::
  "'w kube \<Rightarrow> (time \<Rightarrow> time) \<Rightarrow> PersistentVolumeClaim \<Rightarrow> PVCBackup list \<Rightarrow> ('w, outcome) action" where
  "schedule_backup K Next pvc childBackups =
    (let nextBackup = nextBackupAt Next (newestBackup pvc childBackups) in do {
       now \<leftarrow> time_Now K;
       if Time_After nextBackup now then requeueAt K nextBackup
       else create_backup K Next pvc now })"

definition childBackupOptions :: "PersistentVolumeClaim \<Rightarrow> ListOptions" where
  "childBackupOptions pvc =
     \<lparr>opt_Namespace = Namespace (pvc_meta pvc), opt_Field = Some (jobOwnerKey, Name (pvc_meta pvc))\<rparr>"

definition consider_pvc ::
  "'w kube \<Rightarrow> 'w AutomaticPVCBackupCreator \<Rightarrow> Namespace_object \<Rightarrow> PersistentVolumeClaim \<Rightarrow>
   ('w, outcome) action" where
  "consider_pvc K r namespace pvc =
    (if map_of (Annotations (pvc_meta pvc)) CurrentlyRestoringAnnotation \<noteq> None then return no_requeue
     else let schedule = scheduleFor r namespace pvc in
       if schedule = [] then return no_requeue
       else case k_cronexpr_Parse K schedule of
         Inl err \<Rightarrow> return (failed err)
       | Inr Next \<Rightarrow> do {
           l \<leftarrow> List_PVCBackups K (childBackupOptions pvc);
           case l of
             Inl err \<Rightarrow> return (failed err)
           | Inr childBackups \<Rightarrow> schedule_backup K Next pvc childBackups })"

definition AutomaticPVCBackupCreator_Reconcile ::
  "'w kube \<Rightarrow> 'w AutomaticPVCBackupCreator \<Rightarrow> NamespacedName \<Rightarrow> ('w, outcome) action" where
  "AutomaticPVCBackupCreator_Reconcile K r req = do {
     g \<leftarrow> Get_Namespace K \<lparr>nn_Namespace = nn_Namespace req, nn_Name = nn_Namespace req\<rparr>;
     case g of
       Inl err \<Rightarrow> if IsNotFound err then return no_requeue else return (failed err)
     | Inr namespace \<Rightarrow> do {
         p \<leftarrow> Get_PVC K req;
         case p of
           Inl err \<Rightarrow> if IsNotFound err then return no_requeue else return (failed err)
         | Inr pvc \<Rightarrow> consider_pvc K r namespace pvc } }"

section \<open>Requests and the owner index\<close>

definition pvcToRequest :: "'w AutomaticPVCBackupCreator \<Rightarrow> ObjectMeta \<Rightarrow> NamespacedName list" where
  "pvcToRequest r pvc =
    (if Namespace pvc \<in> set (ac_ExcludeNamespaces r) then []
     else if [] \<notin> set (ac_Namespaces r) \<and> Namespace pvc \<notin> set (ac_Namespaces r) then []
     else [\<lparr>nn_Namespace = Namespace pvc, nn_Name = Name pvc\<rparr>])"

definition namespaceToRequests ::
  "'w kube \<Rightarrow> 'w AutomaticPVCBackupCreator \<Rightarrow> ObjectMeta \<Rightarrow> ('w, NamespacedName list) action" where
  "namespaceToRequests K r namespace =
    (if Name namespace \<in> set (ac_ExcludeNamespaces r) then return []
     else if [] \<notin> set (ac_Namespaces r) \<and> Name namespace \<notin> set (ac_Namespaces r) then return []
     else do {
       l \<leftarrow> List_PVCs K (InNamespace (Name namespace));
       case l of
         Inl _ \<Rightarrow> return []
       | Inr pvcs \<Rightarrow> return (map (\<lambda>pvc. \<lparr>nn_Namespace = Namespace (pvc_meta pvc),
                                           nn_Name = Name (pvc_meta pvc)\<rparr>) pvcs) })"

definition indexOwner :: "'w kube \<Rightarrow> PVCBackup \<Rightarrow> string list" where
  "indexOwner K backup =
    (case k_GetControllerOf K (backup_meta backup) of
       None \<Rightarrow> []
     | Some owner \<Rightarrow>
         if owner_APIVersion owner \<noteq> ''v1'' \<or> owner_Kind owner \<noteq> ''PersistentVolumeClaim'' then []
         else [owner_Name owner])"

end
