(* ===== verification/Automatic_Props.thy ===== *)
theory Automatic_Props
  imports Automatic
begin

text \<open>
  The arithmetic behind the schedule: rounding to 53 bits is accurate enough for the tolerance to
  be the exact one per cent on intervals of up to 52 days, the newest backup is a maximum, the
  names of backups are unique, and what each call of the controller is justified by.
\<close>

section \<open>Rounding\<close>

lemma bit_length_0 [simp]: "bit_length 0 = 0"
  by (simp add: bit_length.simps)

lemma bit_length_le_iff: "bit_length n \<le> m \<longleftrightarrow> n < 2 ^ m"
proof (induction n arbitrary: m rule: bit_length.induct)
  case (1 n)
  show ?case
  proof (cases "n = 0")
    case True
    then show ?thesis by (simp add: bit_length.simps)
  next
    case False
    show ?thesis
    proof (cases m)
      case 0
      with False show ?thesis by (simp add: bit_length.simps)
    next
      case (Suc m')
      have "bit_length n \<le> m \<longleftrightarrow> bit_length (n div 2) \<le> m'"
        using False Suc by (subst bit_length.simps) simp
      also have "\<dots> \<longleftrightarrow> n div 2 < 2 ^ m'" by (rule "1.IH" [OF False])
      also have "\<dots> \<longleftrightarrow> n < 2 ^ m" using Suc by auto
      finally show ?thesis .
    qed
  qed
qed

lemma bit_length_eq: "2 ^ m \<le> n \<Longrightarrow> n < 2 ^ Suc m \<Longrightarrow> bit_length n = Suc m"
  using bit_length_le_iff [of n "Suc m"] bit_length_le_iff [of n m] by simp

lemma round_even_error: "2 * \<bar>int (round_even n k * 2 ^ k) - int n\<bar> \<le> 2 ^ k"
proof -
  define q r where "q = n div 2 ^ k" and "r = n mod 2 ^ k"
  have "n = q * 2 ^ k + r" unfolding q_def r_def by (rule div_mult_mod_eq [symmetric])
  then have n: "int n = int q * 2 ^ k + int r" by simp
  have "r < 2 ^ k" by (simp add: r_def)
  then have r: "int r < 2 ^ k" by (metis of_nat_less_iff of_nat_numeral of_nat_power)
  have c: "2 * r < 2 ^ k \<longleftrightarrow> 2 * int r < 2 ^ k" "2 ^ k < 2 * r \<longleftrightarrow> 2 ^ k < 2 * int r"
    by (metis of_nat_less_iff of_nat_mult of_nat_numeral of_nat_power)+
  show ?thesis
    using r c unfolding round_even_def Let_def q_def [symmetric] r_def [symmetric] n
    by (auto simp: algebra_simps abs_if)
qed

lemma round_even_down: "2 * (n mod 2 ^ k) < 2 ^ k \<Longrightarrow> round_even n k = n div 2 ^ k"
  by (simp add: round_even_def Let_def)

lemma round53_nat_small: "n < 2 ^ 53 \<Longrightarrow> round53_nat n = n"
  using bit_length_le_iff [of n 53] by (simp add: round53_nat_def round_even_def Let_def)

lemma round53_nat_error:
  assumes "n < 2 ^ (53 + k)"
  shows "2 * \<bar>int (round53_nat n) - int n\<bar> \<le> 2 ^ k"
proof -
  have "bit_length n - 53 \<le> k" using assms bit_length_le_iff [of n "53 + k"] by simp
  then have "(2 :: int) ^ (bit_length n - 53) \<le> 2 ^ k" by (intro power_increasing) auto
  with round_even_error [of n "bit_length n - 53"]
  have "2 * \<bar>int (round_even n (bit_length n - 53) * 2 ^ (bit_length n - 53)) - int n\<bar> \<le> 2 ^ k"
    by (rule order_trans)
  then show ?thesis by (simp add: round53_nat_def Let_def)
qed

section \<open>The tolerance\<close>

text \<open>The significand is a hundredth of \<open>2 ^ 59\<close>, and a little more.\<close>

lemma tolerance_hundredth: "100 * toleranceSignificand = 2 ^ 59 + 12"
  by (simp add: toleranceSignificand_def)

text \<open>The product for an interval that is exactly a hundredth rounds to the exact product.\<close>

lemma round53_nat_hundredth:
  assumes "a < 2 ^ 52"
  shows "round53_nat (a * 2 ^ 59 + 12 * a) = a * 2 ^ 59"
proof (cases "a = 0")
  case True
  then show ?thesis by (simp add: round53_nat_small)
next
  case False
  let ?n = "a * 2 ^ 59 + 12 * a"
  obtain b where b: "bit_length a = Suc b"
    using False bit_length_le_iff [of a 0] by (cases "bit_length a") auto
  have hi: "a < 2 ^ Suc b" and lo: "2 ^ b \<le> a"
    using bit_length_le_iff [of a "Suc b"] bit_length_le_iff [of a b] b by auto
  have "b < 52" using bit_length_le_iff [of a 52] assms b by simp
  then have split: "(2 :: nat) ^ 59 = 2 ^ (52 - b) * 2 ^ (b + 7)" by (simp flip: power_add)
  have "Suc a * 2 ^ 59 \<le> 2 ^ Suc b * 2 ^ 59" using hi by (intro mult_le_mono1) simp
  moreover have "(2 :: nat) ^ Suc b * 2 ^ 59 = 2 ^ Suc (b + 59)" by (simp add: power_add)
  ultimately have "?n < 2 ^ Suc (b + 59)" using assms by simp
  moreover have "2 ^ (b + 59) \<le> ?n" using lo by (simp add: power_add)
  ultimately have len: "bit_length ?n - 53 = b + 7" by (simp add: bit_length_eq)
  have n: "?n = a * 2 ^ (52 - b) * 2 ^ (b + 7) + 12 * a" using split by simp
  have small: "24 * a < 2 ^ (b + 7)" using hi by (simp add: power_add)
  then have "?n mod 2 ^ (b + 7) = 12 * a" and "?n div 2 ^ (b + 7) = a * 2 ^ (52 - b)"
    unfolding n by simp_all
  then have "round_even ?n (b + 7) * 2 ^ (b + 7) = a * 2 ^ (52 - b) * 2 ^ (b + 7)"
    using small by (simp add: round_even_down)
  then show ?thesis using len split by (simp add: round53_nat_def Let_def)
qed

lemma round53_small: "0 \<le> x \<Longrightarrow> x < 2 ^ 53 \<Longrightarrow> round53 x = x"
  by (simp add: round53_def round53_nat_small nat_less_iff)

lemma round53_error:
  assumes "0 \<le> x" and "x < 2 ^ (53 + k)"
  shows "2 * \<bar>round53 x - x\<bar> \<le> 2 ^ k"
proof -
  have "nat x < 2 ^ (53 + k)" using assms by (simp add: nat_less_iff)
  from round53_nat_error [OF this] assms(1) show ?thesis by (simp add: round53_def)
qed

lemma withinTolerance_iff:
  assumes "0 \<le> a" and "a < 2 ^ 52" and "0 \<le> i" and "i \<le> 2 ^ 52"
  shows "withinTolerance a i \<longleftrightarrow> 100 * a < i"
proof -
  define p where "p = i * toleranceSignificand"
  have w: "withinTolerance a i \<longleftrightarrow> a * 2 ^ 59 < round53 p"
    using assms by (simp add: withinTolerance_def round53_small p_def)
  have p: "100 * p = i * 2 ^ 59 + 12 * i"
    unfolding p_def using arg_cong [OF tolerance_hundredth, of "\<lambda>x. i * x"] by (simp add: algebra_simps)
  have "0 \<le> p" "p < 2 ^ (53 + 52)" using assms(3,4) by (simp_all add: toleranceSignificand_def p_def)
  from round53_error [OF this] have err: "round53 p - p \<le> 2 ^ 51" "p - round53 p \<le> 2 ^ 51" by simp_all
  consider "100 * a < i" | "100 * a = i" | "i < 100 * a" by linarith
  then show ?thesis
  proof cases
    case 1
    with p err assms have "a * 2 ^ 59 < round53 p" by simp
    with 1 w show ?thesis by simp
  next
    case 2
    have "p = a * 2 ^ 59 + 12 * a" using p 2 by simp
    then have "nat p = nat a * 2 ^ 59 + 12 * nat a" using assms(1) by (simp add: nat_add_distrib nat_mult_distrib)
    moreover have "nat a < 2 ^ 52" using assms(1,2) by (simp add: nat_less_iff)
    ultimately have "round53_nat (nat p) = nat a * 2 ^ 59" using round53_nat_hundredth by simp
    with 2 w \<open>0 \<le> p\<close> assms(1) show ?thesis by (simp add: round53_def)
  next
    case 3
    with p err assms have "round53 p \<le> a * 2 ^ 59" by simp
    with 3 w show ?thesis by simp
  qed
qed

section \<open>Names of backups\<close>

lemma digit_inj: "d < 10 \<Longrightarrow> d' < 10 \<Longrightarrow> digit d = digit d' \<Longrightarrow> d = d'"
  using inj_onD [OF inj_on_char_of_nat, of "48 + d" "48 + d'"] by (simp add: digit_def)

lemma digit_not_dash: "d < 10 \<Longrightarrow> digit d \<noteq> CHR ''-''"
proof
  assume d: "d < 10" and "digit d = CHR ''-''"
  then have "(of_char (digit d) :: nat) = of_char (CHR ''-'')" by simp
  with d show False by (simp add: digit_def)
qed

lemma show_nat_nonempty [simp]: "show_nat n \<noteq> []"
  by (subst show_nat.simps) simp

lemma show_nat_no_dash: "CHR ''-'' \<notin> set (show_nat n)"
proof (induction n rule: show_nat.induct)
  case (1 n)
  then show ?case using digit_not_dash [of n] digit_not_dash [of "n mod 10"] by (subst show_nat.simps) auto
qed

lemma show_nat_inj: "show_nat m = show_nat n \<Longrightarrow> m = n"
proof (induction m arbitrary: n rule: show_nat.induct)
  case (1 m)
  have one: "length (show_nat k) = 1 \<longleftrightarrow> k < 10" for k
    by (subst show_nat.simps) simp
  show ?case
  proof (cases "m < 10")
    case True
    with 1(2) one [of m] one [of n] have "n < 10" by simp
    with True 1(2) show ?thesis by (simp add: show_nat.simps [of m] show_nat.simps [of n] digit_inj)
  next
    case False
    with 1(2) one [of m] one [of n] have "\<not> n < 10" by simp
    with False 1(2) have "show_nat (m div 10) = show_nat (n div 10)" "digit (m mod 10) = digit (n mod 10)"
      by (simp_all add: show_nat.simps [of m] show_nat.simps [of n])
    with 1(1) [OF False] digit_inj [of "m mod 10" "n mod 10"] have "m div 10 = n div 10" "m mod 10 = n mod 10"
      by simp_all
    then show ?thesis by (metis div_mult_mod_eq)
  qed
qed

text \<open>The last dash of a name separates the claim from the time.\<close>

lemma split_last_dash:
  assumes "xs @ CHR ''-'' # ys = xs' @ CHR ''-'' # ys'" and "CHR ''-'' \<notin> set ys" and "CHR ''-'' \<notin> set ys'"
  shows "xs = xs' \<and> ys = ys'"
proof -
  have "takeWhile (\<lambda>c. c \<noteq> CHR ''-'') (rev (xs @ CHR ''-'' # ys)) = rev ys"
    if "CHR ''-'' \<notin> set ys" for xs ys
    using that by (induction ys rule: rev_induct) auto
  from this [OF assms(2), of xs] this [OF assms(3), of xs'] assms(1) have "ys = ys'"
    by (metis rev_rev_ident)
  with assms(1) show ?thesis by simp
qed

lemma backupName_eq_iff:
  assumes "0 \<le> Unix t" and "0 \<le> Unix t'"
  shows "backupName p t = backupName p' t' \<longleftrightarrow> p = p' \<and> Unix t = Unix t'"
proof
  assume "backupName p t = backupName p' t'"
  then have "p @ CHR ''-'' # show_nat (nat (Unix t)) = p' @ CHR ''-'' # show_nat (nat (Unix t'))"
    using assms by (simp add: backupName_def show_int_def)
  from split_last_dash [OF this show_nat_no_dash show_nat_no_dash] show_nat_inj
  show "p = p' \<and> Unix t = Unix t'" using assms by (metis eq_nat_nat_iff)
qed (simp add: backupName_def)

section \<open>The newest backup\<close>

lemma newestBackup_Max:
  "newestBackup pvc bs = Max (insert (CreationTimestamp (pvc_meta pvc)) ((\<lambda>b. CreationTimestamp (backup_meta b)) ` set bs))"
proof -
  have "fold (\<lambda>item newest. if Time_After (CreationTimestamp (backup_meta item)) newest
      then CreationTimestamp (backup_meta item) else newest) bs t =
    Max (insert t ((\<lambda>b. CreationTimestamp (backup_meta b)) ` set bs))" for t
  proof (induction bs arbitrary: t)
    case (Cons b bs)
    let ?c = "\<lambda>b. CreationTimestamp (backup_meta b)"
    have "(if Time_After (?c b) t then ?c b else t) = max t (?c b)" by (auto simp: Time_After_def max_def)
    moreover have "Max (insert (max t (?c b)) (?c ` set bs)) = Max (insert t (insert (?c b) (?c ` set bs)))"
      by (cases "bs = []") (simp_all add: max.assoc)
    ultimately show ?case using Cons.IH by simp
  qed simp
  then show ?thesis by (simp add: newestBackup_def)
qed

section \<open>The controller\<close>

text \<open>The namespaces the controller handles.\<close>

definition ac_watches :: "'w AutomaticPVCBackupCreator \<Rightarrow> string \<Rightarrow> bool" where
  "ac_watches r ns \<longleftrightarrow> ns \<notin> set (ac_ExcludeNamespaces r) \<and>
     ([] \<in> set (ac_Namespaces r) \<or> ns \<in> set (ac_Namespaces r))"

lemmas auto_defs = AutomaticPVCBackupCreator_Reconcile_def consider_pvc_def schedule_backup_def
  create_backup_def requeueAt_def

lemma Auto_running: "state_io_rel same_running (AutomaticPVCBackupCreator_Reconcile K r req)"
  unfolding auto_defs by (auto intro!: steps simp: Let_def)

lemma Auto_polite: "pred_state polite (AutomaticPVCBackupCreator_Reconcile K r req)"
  unfolding auto_defs by (auto intro!: results simp: Let_def)

end
