(* ===== verification/Automatic_Theorems.thy ===== *)
theory Automatic_Theorems
  imports Automatic_Props Sample_Cluster
begin

text \<open>
  The properties of the controller that creates backups on schedule.
\<close>

abbreviation auto_calls :: "'w kube \<Rightarrow> 'w AutomaticPVCBackupCreator \<Rightarrow> NamespacedName \<Rightarrow> 'w sys \<Rightarrow> event list" where
  "auto_calls K r req s \<equiv> calls (AutomaticPVCBackupCreator_Reconcile K r req) s"

section \<open>Samples\<close>

definition sample_creator :: "'w AutomaticPVCBackupCreator" where
  "sample_creator = \<lparr>ac_Clock = None, DefaultSchedule = ''@hourly'', ac_Namespaces = [[]], ac_ExcludeNamespaces = [[]]\<rparr>"

definition claim_key :: NamespacedName where
  "claim_key = \<lparr>nn_Namespace = ''app'', nn_Name = ''data''\<rparr>"

definition sample_namespace :: Namespace_object where
  "sample_namespace = \<lparr>ns_meta = emptyMeta\<lparr>Name := ''app''\<rparr>\<rparr>"

text \<open>A cluster with a claim that is three hours old and has no backup.\<close>

definition due_K :: "unit kube" where
  "due_K = sampleK
     \<lparr>k_Get_Namespace := \<lambda>_ w. (Inr sample_namespace, w),
      k_Get_PVC := \<lambda>_ w. (Inr sample_pvc, w)\<rparr>"

definition sample_new_backup :: "time \<Rightarrow> PVCBackup" where
  "sample_new_backup now = (newPVCBackup sample_pvc now)\<lparr>backup_meta := (backup_meta (newPVCBackup sample_pvc now))
     \<lparr>OwnerReferences := [\<lparr>owner_APIVersion = ''v1'', owner_Kind = ''PersistentVolumeClaim'',
        owner_Name = ''data'', owner_UID = [], owner_Controller = Some True\<rparr>]\<rparr>\<rparr>"

definition restoring_pvc :: PersistentVolumeClaim where
  "restoring_pvc = sample_pvc\<lparr>pvc_meta := (pvc_meta sample_pvc)\<lparr>Annotations := [(CurrentlyRestoringAnnotation, ''u1'')]\<rparr>\<rparr>"

lemmas auto_samples = sample_creator_def claim_key_def sample_namespace_def due_K_def sample_defs

lemmas auto_eval = auto_defs run_call calls_def Let_def Time_After_def auto_samples scheduleFor_def sampleK_def
  nextBackupAt_def newestBackup_def withinTolerance_def newPVCBackup_def backupName_def Time_Sub_def
  round53_def round53_nat_def round_even_def bit_length.simps toleranceSignificand_def
  CurrentlyRestoringAnnotation_def BackupScheduleAnnotation_def sample_time_def time_consts

section \<open>When backups are created\<close>

text \<open>
  C8: A backup is created only for the claim of the request, when the namespace and the claim
  were read, the claim is not being restored, the schedule that applies to it (annotation of the
  claim, else of the namespace, else the default) is not empty and parses, and the next time on
  that schedule after the newest backup is not in the future. The backup is for that claim, in
  its namespace, with the default TTL of three days.
\<close>

theorem auto_creates_only_if_due:
  assumes "ECreateBackup backup res \<in> set (auto_calls K r req s)"
  shows "\<exists>namespace pvc Next children now meta.
    EGetNamespace \<lparr>nn_Namespace = nn_Namespace req, nn_Name = nn_Namespace req\<rparr> (Inr namespace)
      \<in> set (auto_calls K r req s) \<and>
    EGetPVC req (Inr pvc) \<in> set (auto_calls K r req s) \<and>
    map_of (Annotations (pvc_meta pvc)) CurrentlyRestoringAnnotation = None \<and>
    scheduleFor r namespace pvc \<noteq> [] \<and> k_cronexpr_Parse K (scheduleFor r namespace pvc) = Inr Next \<and>
    EListBackups (childBackupOptions pvc) (Inr children) \<in> set (auto_calls K r req s) \<and>
    ENow now \<in> set (auto_calls K r req s) \<and>
    nextBackupAt Next (newestBackup pvc children) \<le> now \<and>
    k_SetControllerReference K KPersistentVolumeClaim (pvc_meta pvc) (backup_meta (newPVCBackup pvc now)) = Inr meta \<and>
    backup = (newPVCBackup pvc now)\<lparr>backup_meta := meta\<rparr>"
proof -
  have "wp (AutomaticPVCBackupCreator_Reconcile K r req) (\<lambda>_ t. ECreateBackup backup res \<in> set (trace t) \<longrightarrow>
    (\<exists>namespace pvc Next children now meta.
    EGetNamespace \<lparr>nn_Namespace = nn_Namespace req, nn_Name = nn_Namespace req\<rparr> (Inr namespace) \<in> set (trace t) \<and>
    EGetPVC req (Inr pvc) \<in> set (trace t) \<and>
    map_of (Annotations (pvc_meta pvc)) CurrentlyRestoringAnnotation = None \<and>
    scheduleFor r namespace pvc \<noteq> [] \<and> k_cronexpr_Parse K (scheduleFor r namespace pvc) = Inr Next \<and>
    EListBackups (childBackupOptions pvc) (Inr children) \<in> set (trace t) \<and> ENow now \<in> set (trace t) \<and>
    nextBackupAt Next (newestBackup pvc children) \<le> now \<and>
    k_SetControllerReference K KPersistentVolumeClaim (pvc_meta pvc) (backup_meta (newPVCBackup pvc now)) = Inr meta \<and>
    backup = (newPVCBackup pvc now)\<lparr>backup_meta := meta\<rparr>)) (s\<lparr>trace := []\<rparr>)"
    unfolding auto_defs Let_def
    by (auto simp: wp Time_After_def not_less split: prod.split sum.split) 
  from calls_wp [OF this] assms show ?thesis by blast
qed

theorem auto_creates_only_if_due_witness:
  "\<exists>backup Next now. ECreateBackup backup (Inr (backup\<lparr>backup_meta := (backup_meta backup)\<lparr>CreationTimestamp := sample_time\<rparr>\<rparr>))
       \<in> set (auto_calls due_K sample_creator claim_key (sample_sys () [])) \<and>
     k_cronexpr_Parse due_K ''@hourly'' = Inr Next \<and> ENow now \<in> set (auto_calls due_K sample_creator claim_key (sample_sys () []))"
proof -
  have created: "\<exists>backup. ECreateBackup backup (Inr (backup\<lparr>backup_meta := (backup_meta backup)\<lparr>CreationTimestamp := sample_time\<rparr>\<rparr>))
       \<in> set (auto_calls due_K sample_creator claim_key (sample_sys () []))"
    by (simp add: auto_eval)
  then obtain backup where b: "ECreateBackup backup (Inr (backup\<lparr>backup_meta := (backup_meta backup)\<lparr>CreationTimestamp := sample_time\<rparr>\<rparr>))
       \<in> set (auto_calls due_K sample_creator claim_key (sample_sys () []))" ..
  have "k_cronexpr_Parse due_K ''@hourly'' = Inr (\<lambda>t. (t div Hour + 1) * Hour)" by (simp add: due_K_def sampleK_def)
  with b auto_creates_only_if_due [OF b] show ?thesis by metis
qed

text \<open>
  C12: A claim that is due gets its backup: when the reads succeed, the claim is not being
  restored, its schedule parses and the next time on it has come, the reconciliation creates a
  backup named after the claim and the current second, and if that is accepted it is repeated at
  the next time on the schedule after the creation of the backup (in a second at the earliest).
\<close>

theorem due_backup_created:
  assumes "k_Get_Namespace K \<lparr>nn_Namespace = nn_Namespace req, nn_Name = nn_Namespace req\<rparr> (world s) = (Inr namespace, w1)"
    and "k_Get_PVC K req w1 = (Inr pvc, w2)"
    and "map_of (Annotations (pvc_meta pvc)) CurrentlyRestoringAnnotation = None"
    and "scheduleFor r namespace pvc \<noteq> []" and "k_cronexpr_Parse K (scheduleFor r namespace pvc) = Inr Next"
    and "k_List_PVCBackups K (childBackupOptions pvc) w2 = (Inr children, w3)"
    and "k_time_Now K w3 = (now, w4)" and "nextBackupAt Next (newestBackup pvc children) \<le> now"
    and "k_SetControllerReference K KPersistentVolumeClaim (pvc_meta pvc) (backup_meta (newPVCBackup pvc now)) = Inr meta"
    and "k_Create_PVCBackup K ((newPVCBackup pvc now)\<lparr>backup_meta := meta\<rparr>) w4 = (Inr created, w5)"
    and "k_time_Now K w5 = (later, w6)"
  shows "fst (run_state (AutomaticPVCBackupCreator_Reconcile K r req) s) =
      Returned (requeueAfter (Time_Sub (Next (CreationTimestamp (backup_meta created))) later)) None \<and>
    ECreateBackup ((newPVCBackup pvc now)\<lparr>backup_meta := meta\<rparr>) (Inr created) \<in> set (auto_calls K r req s) \<and>
    Name (backup_meta (newPVCBackup pvc now)) = Name (pvc_meta pvc) @ ''-'' @ show_int (Unix now) \<and>
    backup_spec (newPVCBackup pvc now) = emptyBackupSpec\<lparr>PVCName := Name (pvc_meta pvc), TTL := 3 * 24 * Hour\<rparr>"
  using assms by (simp add: auto_defs run_call calls_def Let_def Time_After_def newPVCBackup_def backupName_def DefaultTTL_def)

theorem due_backup_created_witness:
  "\<exists>created. ECreateBackup (sample_new_backup sample_time) (Inr created)
     \<in> set (auto_calls due_K sample_creator claim_key (sample_sys () []))"
proof -
  let ?created = "(sample_new_backup sample_time)\<lparr>backup_meta := (backup_meta (sample_new_backup sample_time))\<lparr>CreationTimestamp := sample_time\<rparr>\<rparr>"
  have "fst (run_state (AutomaticPVCBackupCreator_Reconcile due_K sample_creator claim_key) (sample_sys () [])) =
      Returned (requeueAfter (Time_Sub ((sample_time div Hour + 1) * Hour) sample_time)) None \<and>
    ECreateBackup (sample_new_backup sample_time) (Inr ?created)
      \<in> set (auto_calls due_K sample_creator claim_key (sample_sys () []))"
    using due_backup_created [where K = due_K and r = sample_creator and req = claim_key and s = "sample_sys () []"
      and namespace = sample_namespace and pvc = sample_pvc and Next = "\<lambda>t. (t div Hour + 1) * Hour" and children = "[]"
      and now = sample_time and later = sample_time and created = ?created
      and meta = "backup_meta (sample_new_backup sample_time)"]
    by (simp add: auto_eval sample_new_backup_def)
  then show ?thesis by blast
qed

text \<open>
  Nothing is created for a claim that is not due: while it is being restored or its schedule
  is empty the reconciliation ends, and if the next time on its schedule is in the future it is
  repeated at that time (in a second at the earliest).
\<close>

lemma auto_waits:
  assumes "k_Get_Namespace K \<lparr>nn_Namespace = nn_Namespace req, nn_Name = nn_Namespace req\<rparr> (world s) = (Inr namespace, w1)"
    and "k_Get_PVC K req w1 = (Inr pvc, w2)"
    and "k_List_PVCBackups K (childBackupOptions pvc) w2 = (Inr children, w3)"
    and "k_time_Now K w3 = (now, w4)" and "k_time_Now K w4 = (later, w5)"
    and "\<And>Next. k_cronexpr_Parse K (scheduleFor r namespace pvc) = Inr Next \<Longrightarrow> now < nextBackupAt Next (newestBackup pvc children)"
  shows "(\<forall>e\<in>set (auto_calls K r req s). \<forall>backup res. e \<noteq> ECreateBackup backup res) \<and>
    fst (run_state (AutomaticPVCBackupCreator_Reconcile K r req) s) =
      (if map_of (Annotations (pvc_meta pvc)) CurrentlyRestoringAnnotation \<noteq> None \<or> scheduleFor r namespace pvc = []
       then no_requeue
       else case k_cronexpr_Parse K (scheduleFor r namespace pvc) of
         Inl err \<Rightarrow> failed err
       | Inr Next \<Rightarrow> Returned (requeueAfter (Time_Sub (nextBackupAt Next (newestBackup pvc children)) later)) None)"
  using assms by (cases "k_cronexpr_Parse K (scheduleFor r namespace pvc)")
    (auto simp: auto_defs run_call calls_def Let_def Time_After_def)

section \<open>The schedule\<close>

text \<open>
  C26: The tolerance works in exact percents although it is computed in floating point: when the
  next scheduled time comes after less than a hundredth of the interval that follows it, it is
  skipped, and otherwise it is taken. This holds for distances below \<open>2 ^ 52\<close> nanoseconds
  (52 days).
\<close>

theorem tolerance_exact:
  assumes "newest \<le> Next newest" and "Next newest - newest < 2 ^ 52"
    and "Next newest \<le> Next (Next newest)" and "Next (Next newest) - Next newest \<le> 2 ^ 52"
  shows "nextBackupAt Next newest =
    (if 100 * (Next newest - newest) < Next (Next newest) - Next newest then Next (Next newest) else Next newest)"
proof -
  have "Time_Sub (Next newest) newest = Next newest - newest"
    "Time_Sub (Next (Next newest)) (Next newest) = Next (Next newest) - Next newest"
    using assms by (auto intro!: Time_Sub_exact simp: is_duration_def time_consts)
  moreover have "withinTolerance (Next newest - newest) (Next (Next newest) - Next newest) \<longleftrightarrow>
      100 * (Next newest - newest) < Next (Next newest) - Next newest"
    by (rule withinTolerance_iff) (use assms in simp_all)
  ultimately show ?thesis by (simp add: nextBackupAt_def Let_def)
qed

theorem tolerance_exact_witness:
  "nextBackupAt (\<lambda>t. (t div Hour + 1) * Hour) (12 * Hour - 36 * Second) = 12 * Hour \<and>
   nextBackupAt (\<lambda>t. (t div Hour + 1) * Hour) (12 * Hour - 35 * Second) = 13 * Hour"
  using tolerance_exact [of "12 * Hour - 36 * Second" "\<lambda>t. (t div Hour + 1) * Hour"]
    tolerance_exact [of "12 * Hour - 35 * Second" "\<lambda>t. (t div Hour + 1) * Hour"]
  by (simp add: time_consts)

text \<open>
  C27: A claim is backed up once per scheduled time: on a schedule whose next time is always later
  and monotone, the time at which the next backup is due is a time on the schedule, and it is not
  before the first such time after the creation of the claim or of any of its backups.
\<close>

theorem once_per_scheduled_time:
  assumes "\<And>t. t < Next t" and "\<And>t u. t \<le> u \<Longrightarrow> Next t \<le> Next u"
    and "c \<in> insert (CreationTimestamp (pvc_meta pvc)) ((\<lambda>b. CreationTimestamp (backup_meta b)) ` set children)"
  shows "Next c \<le> nextBackupAt Next (newestBackup pvc children) \<and>
    (\<exists>t. nextBackupAt Next (newestBackup pvc children) = Next t)"
proof -
  have "c \<le> newestBackup pvc children"
    unfolding newestBackup_Max by (rule Max_ge) (use assms(3) in auto)
  then have "Next c \<le> Next (newestBackup pvc children)" by (rule assms(2))
  moreover have "Next (newestBackup pvc children) \<le> Next (Next (newestBackup pvc children))"
    by (rule less_imp_le [OF assms(1)])
  ultimately show ?thesis unfolding nextBackupAt_def Let_def by auto
qed

theorem once_per_scheduled_time_witness:
  "(sample_time div Hour + 1) * Hour \<le>
     nextBackupAt (\<lambda>t. (t div Hour + 1) * Hour) (newestBackup sample_pvc [finished_at sample_time, sample_backup\<lparr>backup_meta := emptyMeta\<lparr>CreationTimestamp := sample_time\<rparr>\<rparr>])"
proof -
  have "t < (t div Hour + 1) * Hour" for t
    using pos_mod_bound [of Hour t] div_mult_mod_eq [of t Hour] by (simp add: time_consts algebra_simps)
  moreover have "(t div Hour + 1) * Hour \<le> (u div Hour + 1) * Hour" if "t \<le> u" for t u
    using that by (intro mult_right_mono) (simp_all add: zdiv_mono1 time_consts)
  ultimately show ?thesis
    using once_per_scheduled_time [of "\<lambda>t. (t div Hour + 1) * Hour" sample_time sample_pvc
      "[finished_at sample_time, sample_backup\<lparr>backup_meta := emptyMeta\<lparr>CreationTimestamp := sample_time\<rparr>\<rparr>]"]
    by simp
qed

text \<open>
  A backup that the controller creates is found again when the claim is reconciled: with
  owner references that work, the backup as it is sent carries the claim as its controller, the
  index files it under the name of the claim, and the list for the claim asks for exactly that
  entry in the namespace of the backup.
\<close>

lemma created_backup_indexed:
  assumes "k_SetControllerReference K KPersistentVolumeClaim (pvc_meta pvc) (backup_meta (newPVCBackup pvc now)) = Inr meta"
    and "k_GetControllerOf K meta = Some owner"
    and "owner_APIVersion owner = ''v1''" and "owner_Kind owner = ''PersistentVolumeClaim''"
    and "owner_Name owner = Name (pvc_meta pvc)"
  shows "opt_Field (childBackupOptions pvc) = Some (jobOwnerKey, Name (pvc_meta pvc)) \<and>
    indexOwner K ((newPVCBackup pvc now)\<lparr>backup_meta := meta\<rparr>) = [Name (pvc_meta pvc)] \<and>
    opt_Namespace (childBackupOptions pvc) = Namespace (backup_meta (newPVCBackup pvc now))"
  using assms by (simp add: childBackupOptions_def indexOwner_def newPVCBackup_def)

text \<open>
  C39: A schedule that parses but never matches (its next time is the zero time, as for February
  31st) is not an error: every reconciliation of the claim creates a backup and is repeated
  after a second.
\<close>

theorem unsatisfiable_schedule:
  assumes "k_Get_Namespace K \<lparr>nn_Namespace = nn_Namespace req, nn_Name = nn_Namespace req\<rparr> (world s) = (Inr namespace, w1)"
    and "k_Get_PVC K req w1 = (Inr pvc, w2)"
    and "map_of (Annotations (pvc_meta pvc)) CurrentlyRestoringAnnotation = None"
    and "scheduleFor r namespace pvc \<noteq> []" and "k_cronexpr_Parse K (scheduleFor r namespace pvc) = Inr (\<lambda>_. 0)"
    and "k_List_PVCBackups K (childBackupOptions pvc) w2 = (Inr children, w3)"
    and "k_time_Now K w3 = (now, w4)" and "0 \<le> now"
    and "k_SetControllerReference K KPersistentVolumeClaim (pvc_meta pvc) (backup_meta (newPVCBackup pvc now)) = Inr meta"
    and "k_Create_PVCBackup K ((newPVCBackup pvc now)\<lparr>backup_meta := meta\<rparr>) w4 = (Inr created, w5)"
    and "k_time_Now K w5 = (later, w6)" and "0 \<le> later"
  shows "fst (run_state (AutomaticPVCBackupCreator_Reconcile K r req) s) = Returned \<lparr>RequeueAfter = Second\<rparr> None \<and>
    ECreateBackup ((newPVCBackup pvc now)\<lparr>backup_meta := meta\<rparr>) (Inr created) \<in> set (auto_calls K r req s)"
proof -
  have "nextBackupAt (\<lambda>_. 0) (newestBackup pvc children) = 0" by (simp add: nextBackupAt_def Let_def)
  moreover have "requeueAfter (Time_Sub 0 later) = \<lparr>RequeueAfter = Second\<rparr>"
    using assms(12) by (simp add: requeueAfter_def Time_Sub_def time_consts)
  ultimately show ?thesis using assms by (simp add: auto_defs run_call calls_def Let_def Time_After_def)
qed

theorem unsatisfiable_schedule_witness:
  "fst (run_state (AutomaticPVCBackupCreator_Reconcile (due_K\<lparr>k_cronexpr_Parse := \<lambda>_. Inr (\<lambda>_. 0)\<rparr>)
      sample_creator claim_key) (sample_sys () [])) = Returned \<lparr>RequeueAfter = Second\<rparr> None"
proof -
  let ?created = "(sample_new_backup sample_time)\<lparr>backup_meta := (backup_meta (sample_new_backup sample_time))\<lparr>CreationTimestamp := sample_time\<rparr>\<rparr>"
  show ?thesis
    using unsatisfiable_schedule [where K = "due_K\<lparr>k_cronexpr_Parse := \<lambda>_. Inr (\<lambda>_. 0)\<rparr>" and r = sample_creator
      and req = claim_key and s = "sample_sys () []" and namespace = sample_namespace and pvc = sample_pvc
      and children = "[]" and now = sample_time and later = sample_time and created = ?created
      and meta = "backup_meta (sample_new_backup sample_time)"]
    by (simp add: auto_samples scheduleFor_def sampleK_def CurrentlyRestoringAnnotation_def BackupScheduleAnnotation_def
        sample_time_def time_consts sample_new_backup_def newPVCBackup_def)
qed

section \<open>Requests\<close>

text \<open>
  The controller is asked about exactly the claims in its namespaces: a change of a claim
  gives a request for it if its namespace is handled and none otherwise, and a change of a
  namespace that is handled gives a request for every claim listed in it, none if it is not
  handled or cannot be listed.
\<close>

lemma auto_requests_scoped:
  assumes "run_state (namespaceToRequests K r namespace) s = (requests, t)"
  shows "pvcToRequest r pvc = (if ac_watches r (Namespace pvc) then [object_key pvc] else []) \<and>
    (if ac_watches r (Name namespace)
     then (case fst (k_List_PVCs K (InNamespace (Name namespace)) (world s)) of
        Inl _ \<Rightarrow> requests = []
      | Inr pvcs \<Rightarrow> requests = map (object_key \<circ> pvc_meta) pvcs)
     else requests = [] \<and> t = s)"
  using assms
  by (auto simp: pvcToRequest_def namespaceToRequests_def ac_watches_def object_key_def run_call comp_def
      split: prod.splits sum.splits if_splits)

end
