(* ===== verification/Api_Server.thy ===== *)
theory Api_Server
  imports Util
begin

text \<open>
  What the API server does when it works and nobody interferes, as hypotheses about the
  parameter \<open>'w kube\<close>: the world has a view, the stored objects, which reads answer from and
  writes change. \<open>serves K v\<close> collects these laws; they are the documented behaviour of the
  API. \<open>awp\<close> is a weakest precondition over the view, with one rule per call (collection
  \<open>api\<close>), in which a reconciliation is executed symbolically on the stored objects.
\<close>

named_theorems api \<open>symbolic execution over the stored objects\<close>

record cluster =
  cl_backups :: "NamespacedName \<Rightarrow> PVCBackup option"
  cl_restores :: "NamespacedName \<Rightarrow> PVCRestore option"
  cl_claims :: "NamespacedName \<Rightarrow> PersistentVolumeClaim option"
  cl_snapshots :: "NamespacedName \<Rightarrow> VolumeSnapshot option"
  cl_jobs :: "NamespacedName \<Rightarrow> Job option"

section \<open>What the server makes of an object\<close>

text \<open>
  A \<open>metav1.Time\<close> is sent in RFC 3339 form with whole seconds, so that is what is stored and
  what the client has in memory after an update.
\<close>

definition wire_time :: "time option \<Rightarrow> time option" where
  "wire_time = map_option (\<lambda>t. t - t mod Second)"

definition wire_backup_status :: "PVCBackupStatus \<Rightarrow> PVCBackupStatus" where
  "wire_backup_status st = st\<lparr>StartedAt := wire_time (StartedAt st), FinishedAt := wire_time (FinishedAt st)\<rparr>"

definition wire_restore_status :: "PVCRestoreStatus \<Rightarrow> PVCRestoreStatus" where
  "wire_restore_status st =
     st\<lparr>restore_StartedAt := wire_time (restore_StartedAt st), restore_FinishedAt := wire_time (restore_FinishedAt st)\<rparr>"

text \<open>A created object gets a UID and a creation time; its other metadata are kept.\<close>

definition admitted_meta :: "ObjectMeta \<Rightarrow> ObjectMeta \<Rightarrow> bool" where
  "admitted_meta m m' \<longleftrightarrow> m' = m\<lparr>UID := UID m', CreationTimestamp := CreationTimestamp m'\<rparr>"

text \<open>The status of a new object is empty, whatever was sent.\<close>

definition admitted_snapshot :: "VolumeSnapshot \<Rightarrow> VolumeSnapshot \<Rightarrow> bool" where
  "admitted_snapshot x x' \<longleftrightarrow> admitted_meta (vs_meta x) (vs_meta x') \<and> vs_spec x' = vs_spec x \<and> vs_status x' = None"

definition admitted_claim :: "PersistentVolumeClaim \<Rightarrow> PersistentVolumeClaim \<Rightarrow> bool" where
  "admitted_claim x x' \<longleftrightarrow> admitted_meta (pvc_meta x) (pvc_meta x') \<and> pvc_spec x' = pvc_spec x"

definition admitted_job :: "Job \<Rightarrow> Job \<Rightarrow> bool" where
  "admitted_job x x' \<longleftrightarrow> admitted_meta (job_meta x) (job_meta x') \<and> job_spec x' = job_spec x \<and> CompletionTime (job_status x') = None"

section \<open>The laws\<close>

text \<open>A read answers from the store and does not change it.\<close>

definition reads ::
  "('w \<Rightarrow> cluster) \<Rightarrow> (NamespacedName \<Rightarrow> 'w \<Rightarrow> (go_error + 'o) \<times> 'w) \<Rightarrow> (cluster \<Rightarrow> NamespacedName \<Rightarrow> 'o option) \<Rightarrow> bool" where
  "reads v get sel \<longleftrightarrow> (\<forall>nn w. v (snd (get nn w)) = v w \<and>
     fst (get nn w) = (case sel (v w) nn of None \<Rightarrow> Inl NotFound | Some x \<Rightarrow> Inr x))"

text \<open>A create under a free name stores the object and answers with what it has stored.\<close>

definition creates ::
  "('w \<Rightarrow> cluster) \<Rightarrow> ('o \<Rightarrow> 'w \<Rightarrow> (go_error + 'o) \<times> 'w) \<Rightarrow> ('o \<Rightarrow> NamespacedName) \<Rightarrow> ('o \<Rightarrow> 'o \<Rightarrow> bool) \<Rightarrow>
   (cluster \<Rightarrow> NamespacedName \<Rightarrow> 'o option) \<Rightarrow>
   (((NamespacedName \<Rightarrow> 'o option) \<Rightarrow> NamespacedName \<Rightarrow> 'o option) \<Rightarrow> cluster \<Rightarrow> cluster) \<Rightarrow> bool" where
  "creates v create key admitted sel upd \<longleftrightarrow> (\<forall>x w. sel (v w) (key x) = None \<longrightarrow>
     (\<exists>x'. fst (create x w) = Inr x' \<and> admitted x x' \<and> v (snd (create x w)) = upd (\<lambda>m. m(key x \<mapsto> x')) (v w)))"

text \<open>
  An update of a stored object changes its status only, or for a claim all but the status, and
  answers with the stored object; deleting takes the object away.
\<close>

definition updates ::
  "('w \<Rightarrow> cluster) \<Rightarrow> ('o \<Rightarrow> 'w \<Rightarrow> (go_error + 'o) \<times> 'w) \<Rightarrow> ('o \<Rightarrow> NamespacedName) \<Rightarrow> ('o \<Rightarrow> 'o \<Rightarrow> 'o) \<Rightarrow>
   (cluster \<Rightarrow> NamespacedName \<Rightarrow> 'o option) \<Rightarrow>
   (((NamespacedName \<Rightarrow> 'o option) \<Rightarrow> NamespacedName \<Rightarrow> 'o option) \<Rightarrow> cluster \<Rightarrow> cluster) \<Rightarrow> bool" where
  "updates v update key merge sel upd \<longleftrightarrow> (\<forall>x old w. sel (v w) (key x) = Some old \<longrightarrow>
     fst (update x w) = Inr (merge x old) \<and> v (snd (update x w)) = upd (\<lambda>m. m(key x \<mapsto> merge x old)) (v w))"

definition deletes ::
  "('w \<Rightarrow> cluster) \<Rightarrow> (NamespacedName \<Rightarrow> 'w \<Rightarrow> go_error option \<times> 'w) \<Rightarrow>
   (cluster \<Rightarrow> NamespacedName \<Rightarrow> 'o option) \<Rightarrow>
   (((NamespacedName \<Rightarrow> 'o option) \<Rightarrow> NamespacedName \<Rightarrow> 'o option) \<Rightarrow> cluster \<Rightarrow> cluster) \<Rightarrow> bool" where
  "deletes v delete sel upd \<longleftrightarrow> (\<forall>nn w. v (snd (delete nn w)) = upd (\<lambda>m. m(nn := None)) (v w) \<and>
     fst (delete nn w) = (if sel (v w) nn = None then Some NotFound else None))"

text \<open>Time passes without changing the store, and it is after the first second of the year 1.\<close>

definition keeps_time :: "('w \<Rightarrow> cluster) \<Rightarrow> 'w kube \<Rightarrow> bool" where
  "keeps_time v K \<longleftrightarrow> (\<forall>w. Second \<le> fst (k_time_Now K w) \<and> v (snd (k_time_Now K w)) = v w) \<and>
     (\<forall>d w. v (k_time_Sleep K d w) = v w)"

text \<open>An owner reference can be set on any of the objects and changes nothing else.\<close>

definition sets_owners :: "'w kube \<Rightarrow> bool" where
  "sets_owners K \<longleftrightarrow> (\<forall>kd owner m. \<exists>refs. k_SetControllerReference K kd owner m = Inr (m\<lparr>OwnerReferences := refs\<rparr>))"

text \<open>A poll that runs its condition immediately and finds it true does nothing else.\<close>

definition poll_immediate :: "'w kube \<Rightarrow> bool" where
  "poll_immediate K \<longleftrightarrow> (\<forall>i t c s. fst (run_state c s) = Inr True \<longrightarrow>
     run_state (k_PollUntilContextTimeout K i t True c) s = (None, snd (run_state c s)))"

definition serves :: "'w kube \<Rightarrow> ('w \<Rightarrow> cluster) \<Rightarrow> bool" where
  "serves K v \<longleftrightarrow>
     reads v (k_Get_PVCBackup K) cl_backups \<and> reads v (k_Get_PVCRestore K) cl_restores \<and>
     reads v (k_Get_PVC K) cl_claims \<and> reads v (k_Get_VolumeSnapshot K) cl_snapshots \<and> reads v (k_Get_Job K) cl_jobs \<and>
     creates v (k_Create_VolumeSnapshot K) (object_key \<circ> vs_meta) admitted_snapshot cl_snapshots cl_snapshots_update \<and>
     creates v (k_Create_PVC K) (object_key \<circ> pvc_meta) admitted_claim cl_claims cl_claims_update \<and>
     creates v (k_Create_Job K) (object_key \<circ> job_meta) admitted_job cl_jobs cl_jobs_update \<and>
     updates v (k_Status_Update_PVCBackup K) (object_key \<circ> backup_meta)
       (\<lambda>x old. old\<lparr>backup_status := wire_backup_status (backup_status x)\<rparr>) cl_backups cl_backups_update \<and>
     updates v (k_Status_Update_PVCRestore K) (object_key \<circ> restore_meta)
       (\<lambda>x old. old\<lparr>restore_status := wire_restore_status (restore_status x)\<rparr>) cl_restores cl_restores_update \<and>
     updates v (k_Update_PVC K) (object_key \<circ> pvc_meta) (\<lambda>x old. x) cl_claims cl_claims_update \<and>
     (\<forall>prop. deletes v (\<lambda>nn. k_Delete K KPVCBackup nn prop) cl_backups cl_backups_update \<and>
       deletes v (\<lambda>nn. k_Delete K KVolumeSnapshot nn prop) cl_snapshots cl_snapshots_update \<and>
       deletes v (\<lambda>nn. k_Delete K KPersistentVolumeClaim nn prop) cl_claims cl_claims_update \<and>
       deletes v (\<lambda>nn. k_Delete K KJob nn prop) cl_jobs cl_jobs_update) \<and>
     keeps_time v K \<and> sets_owners K \<and> poll_immediate K"

section \<open>Symbolic execution\<close>

definition awp ::
  "('w \<Rightarrow> cluster) \<Rightarrow> ('w, 'a) action \<Rightarrow> ('a \<Rightarrow> cluster \<Rightarrow> string fset option \<Rightarrow> bool) \<Rightarrow>
   cluster \<Rightarrow> string fset option \<Rightarrow> bool" where
  "awp v m Q c R \<longleftrightarrow> (\<forall>s. v (world s) = c \<longrightarrow> CurrentRunningBackups s = R \<longrightarrow>
     wp m (\<lambda>a t. Q a (v (world t)) (CurrentRunningBackups t)) s)"

lemma awp_run:
  "awp v m Q (v (world s)) (CurrentRunningBackups s) \<Longrightarrow> run_state m s = (a, t) \<Longrightarrow>
   Q a (v (world t)) (CurrentRunningBackups t)"
  by (auto simp: awp_def wp_def dest!: spec [of _ s])

lemma awp_return [api]: "Q a c R \<Longrightarrow> awp v (return a) Q c R"
  by (simp add: awp_def wp_return)

lemma awp_bind [api]: "awp v m (\<lambda>a. awp v (f a) Q) c R \<Longrightarrow> awp v (m \<bind> f) Q c R"
  unfolding awp_def wp_bind by (fastforce elim: wp_mono)

lemma awp_or_return [api]:
  "awp v m (\<lambda>x c R. case x of Inl r \<Rightarrow> Q r c R | Inr a \<Rightarrow> awp v (k a) Q c R) c R \<Longrightarrow> awp v (or_return m k) Q c R"
  unfolding awp_def wp_or_return by (fastforce elim: wp_mono split: sum.splits)

lemma awp_mono: "awp v m Q c R \<Longrightarrow> (\<And>a c R. Q a c R \<Longrightarrow> Q' a c R) \<Longrightarrow> awp v m Q' c R"
  by (fastforce simp: awp_def elim: wp_mono)

lemma awp_let [api]: "awp v (f a) Q c R \<Longrightarrow> awp v (let x = a in f x) Q c R"
  by simp

lemma awp_get_state: "(\<And>s. CurrentRunningBackups s = R \<Longrightarrow> v (world s) = c \<Longrightarrow> awp v (f s) Q c R) \<Longrightarrow> awp v (State_Monad.get \<bind> f) Q c R"
  by (simp add: awp_def wp_bind wp_get)

lemma awp_call:
  "(\<And>w. v w = c \<Longrightarrow> Q (fst (f w)) (v (snd (f w))) R) \<Longrightarrow> awp v (call f ev) Q c R"
  by (simp add: awp_def wp_call case_prod_beta)

text \<open>One rule for each kind of call.\<close>

lemma awp_read:
  "reads v get sel \<Longrightarrow> Q (case sel c nn of None \<Rightarrow> Inl NotFound | Some x \<Rightarrow> Inr x) c R \<Longrightarrow> awp v (call (get nn) ev) Q c R"
  by (rule awp_call) (simp add: reads_def)

lemma awp_create:
  assumes "creates v create key admitted sel upd" and "sel c (key x) = None"
    and "\<And>x'. admitted x x' \<Longrightarrow> Q (Inr x') (upd (\<lambda>m. m(key x \<mapsto> x')) c) R"
  shows "awp v (call (create x) ev) Q c R"
proof (rule awp_call)
  fix w assume "v w = c"
  with assms(1,2) obtain x' where "fst (create x w) = Inr x'" "admitted x x'"
    "v (snd (create x w)) = upd (\<lambda>m. m(key x \<mapsto> x')) c" by (auto simp: creates_def)
  with assms(3) show "Q (fst (create x w)) (v (snd (create x w))) R" by simp
qed

lemma awp_update:
  "updates v update key merge sel upd \<Longrightarrow> sel c (key x) = Some old \<Longrightarrow>
   Q (Inr (merge x old)) (upd (\<lambda>m. m(key x \<mapsto> merge x old)) c) R \<Longrightarrow> awp v (call (update x) ev) Q c R"
  by (rule awp_call) (auto simp: updates_def)

lemma awp_delete:
  "deletes v delete sel upd \<Longrightarrow> Q (if sel c nn = None then Some NotFound else None) (upd (\<lambda>m. m(nn := None)) c) R \<Longrightarrow>
   awp v (call (delete nn) ev) Q c R"
  by (rule awp_call) (auto simp: deletes_def)

lemma served:
  assumes "serves K v"
  shows "reads v (k_Get_PVCBackup K) cl_backups" and "reads v (k_Get_PVCRestore K) cl_restores"
    and "reads v (k_Get_PVC K) cl_claims" and "reads v (k_Get_VolumeSnapshot K) cl_snapshots" and "reads v (k_Get_Job K) cl_jobs"
    and "creates v (k_Create_VolumeSnapshot K) (object_key \<circ> vs_meta) admitted_snapshot cl_snapshots cl_snapshots_update"
    and "creates v (k_Create_PVC K) (object_key \<circ> pvc_meta) admitted_claim cl_claims cl_claims_update"
    and "creates v (k_Create_Job K) (object_key \<circ> job_meta) admitted_job cl_jobs cl_jobs_update"
    and "updates v (k_Status_Update_PVCBackup K) (object_key \<circ> backup_meta)
       (\<lambda>x old. old\<lparr>backup_status := wire_backup_status (backup_status x)\<rparr>) cl_backups cl_backups_update"
    and "updates v (k_Status_Update_PVCRestore K) (object_key \<circ> restore_meta)
       (\<lambda>x old. old\<lparr>restore_status := wire_restore_status (restore_status x)\<rparr>) cl_restores cl_restores_update"
    and "updates v (k_Update_PVC K) (object_key \<circ> pvc_meta) (\<lambda>x old. x) cl_claims cl_claims_update"
    and "deletes v (\<lambda>nn. k_Delete K KPVCBackup nn prop) cl_backups cl_backups_update"
    and "deletes v (\<lambda>nn. k_Delete K KVolumeSnapshot nn prop) cl_snapshots cl_snapshots_update"
    and "deletes v (\<lambda>nn. k_Delete K KPersistentVolumeClaim nn prop) cl_claims cl_claims_update"
    and "deletes v (\<lambda>nn. k_Delete K KJob nn prop) cl_jobs cl_jobs_update"
  using assms by (simp_all add: serves_def)

lemmas awp_Get_PVCBackup [api] = awp_read [OF served(1)]
lemmas awp_Get_PVCRestore [api] = awp_read [OF served(2)]
lemmas awp_Get_PVC [api] = awp_read [OF served(3)]
lemmas awp_Get_VolumeSnapshot [api] = awp_read [OF served(4)]
lemmas awp_Get_Job [api] = awp_read [OF served(5)]
lemmas awp_Create_VolumeSnapshot = awp_create [OF served(6), unfolded comp_def]
lemmas awp_Create_PVC = awp_create [OF served(7), unfolded comp_def]
lemmas awp_Create_Job = awp_create [OF served(8), unfolded comp_def]
lemmas awp_Status_Update_PVCBackup = awp_update [OF served(9), unfolded comp_def]
lemmas awp_Status_Update_PVCRestore = awp_update [OF served(10), unfolded comp_def]
lemmas awp_Update_PVC = awp_update [OF served(11), unfolded comp_def]
lemmas awp_Delete_VolumeSnapshot [api] = awp_delete [OF served(13)]
lemmas awp_Delete_PVC [api] = awp_delete [OF served(14)]
lemmas awp_Delete_Job [api] = awp_delete [OF served(15)]

lemma awp_time_Now:
  "serves K v \<Longrightarrow> (\<And>now. Second \<le> now \<Longrightarrow> Q now c R) \<Longrightarrow> awp v (time_Now K) Q c R"
  by (rule awp_call) (auto simp: serves_def keeps_time_def)

lemma awp_time_Sleep [api]: "serves K v \<Longrightarrow> Q () c R \<Longrightarrow> awp v (time_Sleep K d) Q c R"
  by (rule awp_call) (auto simp: serves_def keeps_time_def)

lemma awp_poll:
  assumes "serves K v" and "awp v cond (\<lambda>x c R. x = Inr True \<and> Q None c R) c R"
  shows "awp v (k_PollUntilContextTimeout K i t True cond) Q c R"
  unfolding awp_def wp_run_iff
proof (intro allI impI)
  fix s :: "'a sys" assume "v (world s) = c" "CurrentRunningBackups s = R"
  with assms(2) have "fst (run_state cond s) = Inr True"
    "Q None (v (world (snd (run_state cond s)))) (CurrentRunningBackups (snd (run_state cond s)))"
    by (auto simp: awp_def wp_run_iff)
  moreover from this(1) assms(1)
  have "run_state (k_PollUntilContextTimeout K i t True cond) s = (None, snd (run_state cond s))"
    by (simp add: serves_def poll_immediate_def)
  ultimately show "Q (fst (run_state (k_PollUntilContextTimeout K i t True cond) s))
      (v (world (snd (run_state (k_PollUntilContextTimeout K i t True cond) s))))
      (CurrentRunningBackups (snd (run_state (k_PollUntilContextTimeout K i t True cond) s)))" by simp
qed

lemma owner_set: "serves K v \<Longrightarrow> \<exists>refs. k_SetControllerReference K kd owner m = Inr (m\<lparr>OwnerReferences := refs\<rparr>)"
  by (simp add: serves_def sets_owners_def)

text \<open>A round: a reconciliation, then whatever the others do to the world.\<close>

definition round :: "('w, 'a) action \<Rightarrow> ('w \<Rightarrow> 'w) \<Rightarrow> 'w sys \<Rightarrow> 'w sys" where
  "round m others s = (let t = snd (run_state m s) in t\<lparr>world := others (world t)\<rparr>)"

text \<open>
  The contract of a life that comes to an end: while it runs, each round takes it further by a
  measure, and it goes on running or has ended. Then it ends within that many rounds.
\<close>

locale rounds =
  fixes step :: "'s \<Rightarrow> 's" and running :: "'s \<Rightarrow> bool" and ended :: "'s \<Rightarrow> bool" and left :: "'s \<Rightarrow> nat"
  assumes step_left: "running s \<Longrightarrow> left (step s) < left s"
    and step_running: "running s \<Longrightarrow> running (step s) \<or> ended (step s)"
begin

lemma ends: "running s \<Longrightarrow> \<exists>n\<le>left s. ended ((step ^^ n) s)"
proof (induction "left s" arbitrary: s rule: less_induct)
  case less
  from step_running [OF less.prems] show ?case
  proof
    assume "ended (step s)"
    with step_left [OF less.prems] show ?thesis by (intro exI [of _ 1]) simp
  next
    assume "running (step s)"
    from less.hyps [OF step_left [OF less.prems] this] obtain n where "n \<le> left (step s)" "ended ((step ^^ n) (step s))" by blast
    with step_left [OF less.prems] show ?thesis by (intro exI [of _ "Suc n"]) (simp add: funpow_swap1)
  qed
qed

end

section \<open>Facts about stored objects\<close>

lemma object_key_owners [simp]: "object_key (m\<lparr>OwnerReferences := refs\<rparr>) = object_key m"
  by (simp add: object_key_def)

lemma admitted_key: "admitted_meta m m' \<Longrightarrow> object_key m' = object_key m"
  by (metis ObjectMeta.select_convs(1,2) ObjectMeta.surjective ObjectMeta.update_convs(3,7) admitted_meta_def object_key_def)

lemma wire_time_Some [simp]: "wire_time (Some t) = Some (t - t mod Second)"
  by (simp add: wire_time_def)

lemma wire_time_nonzero: "Second \<le> t \<Longrightarrow> t mod Second \<noteq> t"
  by (simp add: Second_def)

lemma wire_time_keeps_zero: "Time_IsZero t \<Longrightarrow> Time_IsZero (wire_time t)"
  by (cases t) (auto simp: wire_time_def)

lemma wire_time_None [simp]: "wire_time t = None \<longleftrightarrow> t = None"
  by (simp add: wire_time_def)

end
