(* ===== verification/Backup_Lifecycle.thy ===== *)
theory Backup_Lifecycle
  imports Api_Server Backup_Props
begin

text \<open>
  The life of a backup, abstractly: the stages it goes through, seen in the stored objects, and
  the step from stage to stage. On an API server that works (\<open>serves\<close>), a reconciliation of
  an unfinished backup is exactly one such step on the stored objects, and touches no others.
\<close>

section \<open>Stages\<close>

datatype stage = New | Snapshotting | Snapshotted | Copying | Copied | Done

text \<open>What the handler does in each stage; it waits for others while a snapshot or a copy is made.\<close>

fun next_stage :: "stage \<Rightarrow> stage" where
  "next_stage New = Snapshotting"
| "next_stage Snapshotting = Snapshotting"
| "next_stage Snapshotted = Copying"
| "next_stage Copying = Copying"
| "next_stage Copied = Done"
| "next_stage Done = Done"

definition stage_of :: "NamespacedName \<Rightarrow> cluster \<Rightarrow> stage" where
  "stage_of req c =
    (case cl_backups c req of
       Some b \<Rightarrow>
         if \<not> Time_IsZero (FinishedAt (backup_status b)) then Done
         else (case cl_snapshots c req of
             None \<Rightarrow> New
           | Some sn \<Rightarrow>
               if \<not> snapshotReady sn then Snapshotting
               else (case cl_jobs c req of
                   None \<Rightarrow> Snapshotted
                 | Some job \<Rightarrow> if jobCompleted job then Copied else Copying))
     | None \<Rightarrow> Done)"

text \<open>
  A backup that can be worked on: it is stored under its own name, the claim it is for exists,
  and a snapshot of it that is ready tells its size.
\<close>

definition workable :: "NamespacedName \<Rightarrow> cluster \<Rightarrow> bool" where
  "workable req c \<longleftrightarrow>
    (case cl_backups c req of
       None \<Rightarrow> False
     | Some b \<Rightarrow> object_key (backup_meta b) = req \<and>
         cl_claims c \<lparr>nn_Namespace = nn_Namespace req, nn_Name = PVCName (backup_spec b)\<rparr> \<noteq> None) \<and>
    (\<forall>sn. cl_snapshots c req = Some sn \<longrightarrow> snapshotReady sn \<longrightarrow> snapshotSize sn \<noteq> None)"

text \<open>Nothing changes but the backup itself and what is stored under its name.\<close>

definition frame :: "NamespacedName \<Rightarrow> cluster \<Rightarrow> cluster \<Rightarrow> bool" where
  "frame req c c' \<longleftrightarrow> cl_restores c' = cl_restores c \<and>
     (\<forall>nn. nn \<noteq> req \<longrightarrow> cl_backups c' nn = cl_backups c nn \<and> cl_claims c' nn = cl_claims c nn \<and>
        cl_snapshots c' nn = cl_snapshots c nn \<and> cl_jobs c' nn = cl_jobs c nn)"

definition same_backup :: "PVCBackup \<Rightarrow> PVCBackup \<Rightarrow> bool" where
  "same_backup b b' \<longleftrightarrow> backup_meta b' = backup_meta b \<and> backup_spec b' = backup_spec b"

section \<open>The blocks of the handler on stored objects\<close>

lemma awp_mark_started:
  assumes "serves K v" and "cl_backups c req = Some b" and "object_key (backup_meta b) = req"
    and "Time_IsZero (FinishedAt (backup_status b))"
    and post: "\<And>b'. same_backup b b' \<Longrightarrow> StartedAt (backup_status b') \<noteq> None \<Longrightarrow>
      Time_IsZero (FinishedAt (backup_status b')) \<Longrightarrow> Q (Inr b') (cl_backups_update (\<lambda>m. m(req \<mapsto> b')) c) R"
  shows "awp v (mark_started K b) Q c R"
proof (cases "StartedAt (backup_status b) = None")
  case False
  have "cl_backups_update (\<lambda>m. m(req \<mapsto> b)) c = c" using assms(2) by (cases c) (simp add: fun_upd_idem)
  with False post [of b] assms(4) show ?thesis by (auto simp: mark_started_def same_backup_def intro!: api)
next
  case True
  let ?b = "\<lambda>now. b\<lparr>backup_status := wire_backup_status ((backup_status b)\<lparr>StartedAt := Some now\<rparr>)\<rparr>"
  have upd: "awp v (Status_Update_PVCBackup K (b\<lparr>backup_status := (backup_status b)\<lparr>StartedAt := Some now\<rparr>\<rparr>))
      (\<lambda>u c R. \<exists>b'. u = Inr b' \<and> Q (Inr b') c R) c R" for now
    by (rule awp_Status_Update_PVCBackup [OF assms(1), where old = b])
       (use assms(2-4) post [of "?b now"] in \<open>auto simp: same_backup_def wire_backup_status_def wire_time_keeps_zero\<close>)
  show ?thesis
    unfolding mark_started_def using True by (auto intro!: api awp_time_Now [OF assms(1)] awp_mono [OF upd])
qed

lemma awp_ensure_snapshot_found:
  "serves K v \<Longrightarrow> cl_snapshots c req = Some sn \<Longrightarrow> Q (Inr sn) c R \<Longrightarrow> awp v (ensure_snapshot K r req b pvc) Q c R"
  unfolding ensure_snapshot_def by (auto intro!: api)

lemma awp_ensure_snapshot_new:
  assumes "serves K v" and "cl_snapshots c req = None" and "object_key (backup_meta b) = req"
    and post: "\<And>sn. vs_status sn = None \<Longrightarrow> Q (Inr sn) (cl_snapshots_update (\<lambda>m. m(req \<mapsto> sn)) c) R"
  shows "awp v (ensure_snapshot K r req b pvc) Q c R"
proof -
  let ?sn = "newSnapshot r b pvc"
  obtain refs where refs: "k_SetControllerReference K KPVCBackup (backup_meta b) (vs_meta ?sn) = Inr ((vs_meta ?sn)\<lparr>OwnerReferences := refs\<rparr>)"
    using owner_set [OF assms(1)] by blast
  have key: "object_key (vs_meta ?sn) = req"
    using assms(3) by (simp add: newSnapshot_def Let_def object_key_def)
  have "awp v (Create_VolumeSnapshot K (?sn\<lparr>vs_meta := (vs_meta ?sn)\<lparr>OwnerReferences := refs\<rparr>\<rparr>))
      (\<lambda>u c R. \<exists>sn. u = Inr sn \<and> Q (Inr sn) c R) c R"
    by (rule awp_Create_VolumeSnapshot [OF assms(1)]) (use key assms(2) post in \<open>auto simp: admitted_snapshot_def\<close>)
  with assms(1,2) show ?thesis
    unfolding ensure_snapshot_def by (auto intro!: api simp: refs Let_def elim!: awp_mono)
qed

lemma awp_ensure_snapshot_pvc:
  assumes "serves K v" and "object_key (backup_meta b) = req" and "snapshotSize sn \<noteq> None"
    and post: "\<And>pvc. Q (Inr pvc) (cl_claims_update (\<lambda>m. m(req \<mapsto> pvc)) c) R"
  shows "awp v (ensure_snapshot_pvc K r req b sn) Q c R"
proof (cases "cl_claims c req")
  case (Some pvc)
  then have "cl_claims_update (\<lambda>m. m(req \<mapsto> pvc)) c = c" by (cases c) (simp add: fun_upd_idem)
  with Some post [of pvc] assms(1) show ?thesis unfolding ensure_snapshot_pvc_def by (auto intro!: api)
next
  case None
  from assms(3) obtain size where size: "snapshotSize sn = Some size" by blast
  let ?pvc = "newSnapshotPVC r b sn size"
  obtain refs where refs: "k_SetControllerReference K KPVCBackup (backup_meta b) (pvc_meta ?pvc) = Inr ((pvc_meta ?pvc)\<lparr>OwnerReferences := refs\<rparr>)"
    using owner_set [OF assms(1)] by blast
  have key: "object_key (pvc_meta ?pvc) = req"
    using assms(2) by (simp add: newSnapshotPVC_def Let_def object_key_def)
  have "awp v (Create_PVC K (?pvc\<lparr>pvc_meta := (pvc_meta ?pvc)\<lparr>OwnerReferences := refs\<rparr>\<rparr>))
      (\<lambda>u c R. \<exists>pvc. u = Inr pvc \<and> Q (Inr pvc) c R) c R"
    by (rule awp_Create_PVC [OF assms(1)]) (use key None post in auto)
  with assms(1) None show ?thesis
    unfolding ensure_snapshot_pvc_def by (auto intro!: api simp: refs size Let_def elim!: awp_mono)
qed

lemma awp_ensure_job_found:
  "serves K v \<Longrightarrow> cl_jobs c req = Some job \<Longrightarrow> Q (Inr job) c R \<Longrightarrow> awp v (ensure_job K r req b pvc spvc) Q c R"
  unfolding ensure_job_def by (auto intro!: api)

lemma awp_ensure_job_new:
  assumes "serves K v" and "cl_jobs c req = None" and "object_key (backup_meta b) = req"
    and post: "\<And>job. CompletionTime (job_status job) = None \<Longrightarrow> Q (Inr job) (cl_jobs_update (\<lambda>m. m(req \<mapsto> job)) c) R"
  shows "awp v (ensure_job K r req b pvc spvc) Q c R"
proof -
  let ?job = "newBackupJob r b pvc spvc"
  obtain refs where refs: "k_SetControllerReference K KPVCBackup (backup_meta b) (job_meta ?job) = Inr ((job_meta ?job)\<lparr>OwnerReferences := refs\<rparr>)"
    using owner_set [OF assms(1)] by blast
  have key: "object_key (job_meta ?job) = req"
    using assms(3) by (simp add: newBackupJob_def Let_def object_key_def)
  have "awp v (Create_Job K (?job\<lparr>job_meta := (job_meta ?job)\<lparr>OwnerReferences := refs\<rparr>\<rparr>))
      (\<lambda>u c R. \<exists>job. u = Inr job \<and> Q (Inr job) c R) c R"
    by (rule awp_Create_Job [OF assms(1)]) (use key assms(2) post in \<open>auto simp: admitted_job_def\<close>)
  with assms(1,2) show ?thesis
    unfolding ensure_job_def by (auto intro!: api simp: refs Let_def elim!: awp_mono)
qed

lemma awp_release_slot [api]: "Q () c (map_option (\<lambda>R. R |-| {|q|}) R) \<Longrightarrow> awp v (release_slot q) Q c R"
  by (auto simp: release_slot_def modify_running_def awp_def wp_update)

lemma awp_acquire_slot:
  "admit (MaxRunningBackups r) q R \<noteq> None \<Longrightarrow> Q (Inr ()) c (Some (finsert q R)) \<Longrightarrow> awp v (acquire_slot r q) Q c (Some R)"
  unfolding acquire_slot_def
  by (auto simp: awp_def wp_def admit_def split: if_splits)

lemma awp_finish_backup:
  assumes "serves K v" and "cl_backups c req = Some b" and "object_key (backup_meta b) = req"
    and "StartedAt (backup_status b) \<noteq> None"
    and post: "\<And>b'. same_backup b b' \<Longrightarrow> \<not> Time_IsZero (FinishedAt (backup_status b')) \<Longrightarrow>
      Result (backup_status b') = Some ''Succeeded'' \<Longrightarrow>
      Q (Returned (requeueAfter 0) None) (cl_backups_update (\<lambda>m. m(req \<mapsto> b')) c) (map_option (\<lambda>R. R |-| {|q|}) R)"
  shows "awp v (finish_backup K r req b q) Q c R"
proof -
  have upd: "awp v (Status_Update_PVCBackup K x) (\<lambda>u c R. \<exists>b'. u = Inr b' \<and>
      awp v (k_PollUntilContextTimeout K i t True (finishedVisible K req)) (\<lambda>e c R. e = None \<and>
        Q (Returned (requeueAfter 0) None) c (map_option (\<lambda>R. R |-| {|q|}) R)) c R) c R"
    if "Second \<le> now" and "setBackupFinished now b ''Succeeded'' = Some x" for now x i t
  proof -
    let ?b = "b\<lparr>backup_status := wire_backup_status (backup_status x)\<rparr>"
    from that have x: "backup_meta x = backup_meta b" "FinishedAt (backup_status x) = Some now"
      "Result (backup_status x) = Some ''Succeeded''" by (auto simp: setBackupFinished_def split: option.splits)
    then have fin: "\<not> Time_IsZero (FinishedAt (backup_status ?b))" "Result (backup_status ?b) = Some ''Succeeded''"
      using wire_time_nonzero [OF that(1)] by (auto simp: wire_backup_status_def)
    have "same_backup b ?b" by (simp add: same_backup_def)
    note p = post [OF this fin]
    have "awp v (k_PollUntilContextTimeout K i t True (finishedVisible K req)) (\<lambda>e c R. e = None \<and>
        Q (Returned (requeueAfter 0) None) c (map_option (\<lambda>R. R |-| {|q|}) R)) (cl_backups_update (\<lambda>m. m(req \<mapsto> ?b)) c) R"
      unfolding finishedVisible_def using p fin x(2)
      by (auto simp: wire_backup_status_def intro!: awp_poll [OF assms(1)] awp_bind awp_Get_PVCBackup [OF assms(1)] awp_return)
    with x(1) assms(2,3) show ?thesis
      by (intro awp_Status_Update_PVCBackup [OF assms(1), where old = b]) auto
  qed
  have fin: "\<exists>x. setBackupFinished now b ''Succeeded'' = Some x" for now
    using assms(4) by (auto simp: setBackupFinished_def)
  have rest: "awp v (k_PollUntilContextTimeout K i t True (finishedVisible K req) \<bind> case_option
      (release_slot q \<bind> (\<lambda>_. return (Returned (requeueAfter 0) None))) err) Q c R"
    if "awp v (k_PollUntilContextTimeout K i t True (finishedVisible K req)) (\<lambda>e c R. e = None \<and>
        Q (Returned (requeueAfter 0) None) c (map_option (\<lambda>R. R |-| {|q|}) R)) c R" for i t err c R
    by (rule awp_bind, rule awp_mono [OF that]) (auto intro!: api)
  show ?thesis
    unfolding finish_backup_def
  proof (intro awp_bind awp_time_Now [OF assms(1)])
    fix now assume now: "Second \<le> now"
    from fin [of now] obtain x where x: "setBackupFinished now b ''Succeeded'' = Some x" ..
    show "awp v (case setBackupFinished now b ''Succeeded'' of None \<Rightarrow> return Panicked | Some backup \<Rightarrow> do {
        time_Sleep K (wrap64 (SleepBetweenBackups r * Second));
        u \<leftarrow> Status_Update_PVCBackup K backup;
        case u of Inl err \<Rightarrow> return (failed err) | Inr _ \<Rightarrow> do {
          e \<leftarrow> k_PollUntilContextTimeout K (100 * Millisecond) (2 * Second) True (finishedVisible K req);
          case e of None \<Rightarrow> do { release_slot q; return (Returned (requeueAfter 0) None) }
          | Some err \<Rightarrow> return (failed (Wrapped ''failed to wait for PVCBackup Status to be updated: '' err)) } }) Q c R"
      by (auto simp: x intro!: awp_bind awp_time_Sleep [OF assms(1)] awp_mono [OF upd [OF now x]] rest)
  qed
qed

section \<open>Each stage\<close>

text \<open>A reconciliation that has its slot, in the five stages before the end.\<close>

lemma same_backup_key: "object_key (backup_meta b) = req \<Longrightarrow> same_backup b b' \<Longrightarrow> object_key (backup_meta b') = req"
  by (simp add: same_backup_def)

lemmas run_defs = reconcile_running_def run_backup_def run_snapshot_def run_job_def

lemma awp_New:
  assumes "serves K v" and "cl_backups c req = Some b" and "object_key (backup_meta b) = req"
    and "Time_IsZero (FinishedAt (backup_status b))" and "cl_snapshots c req = None"
    and post: "\<And>b' sn. same_backup b b' \<Longrightarrow> Time_IsZero (FinishedAt (backup_status b')) \<Longrightarrow> vs_status sn = None \<Longrightarrow>
      Q no_requeue (cl_snapshots_update (\<lambda>m. m(req \<mapsto> sn)) (cl_backups_update (\<lambda>m. m(req \<mapsto> b')) c)) R"
  shows "awp v (reconcile_running K r req b pvc q) Q c R"
  unfolding run_defs using assms(5)
  by (intro awp_or_return awp_mark_started [OF assms(1-4)])
     (auto intro!: api awp_ensure_snapshot_new [OF assms(1)] post simp: same_backup_key [OF assms(3)] snapshotReady_def)

lemma awp_Snapshotting:
  assumes "serves K v" and "cl_backups c req = Some b" and "object_key (backup_meta b) = req"
    and "Time_IsZero (FinishedAt (backup_status b))" and "cl_snapshots c req = Some sn" and "\<not> snapshotReady sn"
    and post: "\<And>b'. same_backup b b' \<Longrightarrow> Time_IsZero (FinishedAt (backup_status b')) \<Longrightarrow>
      Q no_requeue (cl_backups_update (\<lambda>m. m(req \<mapsto> b')) c) R"
  shows "awp v (reconcile_running K r req b pvc q) Q c R"
  unfolding run_defs using assms(5,6)
  by (intro awp_or_return awp_mark_started [OF assms(1-4)])
     (auto intro!: api awp_ensure_snapshot_found [OF assms(1), where sn = sn] post)

lemma awp_Snapshotted:
  assumes "serves K v" and "cl_backups c req = Some b" and "object_key (backup_meta b) = req"
    and "Time_IsZero (FinishedAt (backup_status b))" and "cl_snapshots c req = Some sn" and "snapshotReady sn"
    and "snapshotSize sn \<noteq> None" and "cl_jobs c req = None"
    and post: "\<And>b' pvc job. same_backup b b' \<Longrightarrow> Time_IsZero (FinishedAt (backup_status b')) \<Longrightarrow>
      CompletionTime (job_status job) = None \<Longrightarrow> Q no_requeue (cl_jobs_update (\<lambda>m. m(req \<mapsto> job))
        (cl_claims_update (\<lambda>m. m(req \<mapsto> pvc)) (cl_backups_update (\<lambda>m. m(req \<mapsto> b')) c))) R"
  shows "awp v (reconcile_running K r req b pvc q) Q c R"
  unfolding run_defs using assms(5-8)
  by (intro awp_or_return awp_mark_started [OF assms(1-4)])
     (auto intro!: api awp_ensure_snapshot_found [OF assms(1), where sn = sn] awp_ensure_snapshot_pvc [OF assms(1)]
       awp_ensure_job_new [OF assms(1)] post simp: same_backup_key [OF assms(3)] jobCompleted_def)

lemma awp_Copying:
  assumes "serves K v" and "cl_backups c req = Some b" and "object_key (backup_meta b) = req"
    and "Time_IsZero (FinishedAt (backup_status b))" and "cl_snapshots c req = Some sn" and "snapshotReady sn"
    and "snapshotSize sn \<noteq> None" and "cl_jobs c req = Some job" and "\<not> jobCompleted job"
    and post: "\<And>b' pvc. same_backup b b' \<Longrightarrow> Time_IsZero (FinishedAt (backup_status b')) \<Longrightarrow>
      Q no_requeue (cl_claims_update (\<lambda>m. m(req \<mapsto> pvc)) (cl_backups_update (\<lambda>m. m(req \<mapsto> b')) c)) R"
  shows "awp v (reconcile_running K r req b pvc q) Q c R"
  unfolding run_defs using assms(5-9)
  by (intro awp_or_return awp_mark_started [OF assms(1-4)])
     (auto intro!: api awp_ensure_snapshot_found [OF assms(1), where sn = sn] awp_ensure_snapshot_pvc [OF assms(1)]
       awp_ensure_job_found [OF assms(1), where job = job] post simp: same_backup_key [OF assms(3)])

lemma awp_Copied:
  assumes "serves K v" and "cl_backups c req = Some b" and "object_key (backup_meta b) = req"
    and "Time_IsZero (FinishedAt (backup_status b))" and "cl_snapshots c req = Some sn" and "snapshotReady sn"
    and "snapshotSize sn \<noteq> None" and "cl_jobs c req = Some job" and "jobCompleted job"
    and post: "\<And>b' pvc. same_backup b b' \<Longrightarrow> \<not> Time_IsZero (FinishedAt (backup_status b')) \<Longrightarrow>
      Result (backup_status b') = Some ''Succeeded'' \<Longrightarrow> Q (Returned (requeueAfter 0) None)
        (cl_claims_update (\<lambda>m. m(req \<mapsto> pvc)) (cl_backups_update (\<lambda>m. m(req \<mapsto> b')) c)) (map_option (\<lambda>R. R |-| {|q|}) R)"
  shows "awp v (reconcile_running K r req b pvc q) Q c R"
proof -
  have "awp v (finish_backup K r req b' q) Q
      (cl_claims_update (\<lambda>m. m(req \<mapsto> pvc')) (cl_backups_update (\<lambda>m. m(req \<mapsto> b')) c)) R"
    if "same_backup b b'" "StartedAt (backup_status b') \<noteq> None" for b' pvc'
  proof (rule awp_finish_backup [OF assms(1)])
    show "object_key (backup_meta b') = req" using that(1) assms(3) by (simp add: same_backup_def)
    show "Q (Returned (requeueAfter 0) None) (cl_backups_update (\<lambda>m. m(req \<mapsto> b''))
        (cl_claims_update (\<lambda>m. m(req \<mapsto> pvc')) (cl_backups_update (\<lambda>m. m(req \<mapsto> b')) c))) (map_option (\<lambda>R. R |-| {|q|}) R)"
      if "same_backup b' b''" "\<not> Time_IsZero (FinishedAt (backup_status b''))" "Result (backup_status b'') = Some ''Succeeded''" for b''
      using post [of b'' pvc'] that \<open>same_backup b b'\<close> by (cases c) (auto simp: same_backup_def)
  qed (use that(2) in simp_all)
  then show ?thesis
    unfolding run_defs using assms(5-9)
    by (intro awp_or_return awp_mark_started [OF assms(1-4)])
       (auto intro!: api awp_ensure_snapshot_found [OF assms(1), where sn = sn] awp_ensure_snapshot_pvc [OF assms(1)]
         awp_ensure_job_found [OF assms(1), where job = job] simp: same_backup_key [OF assms(3)])
qed

section \<open>One reconciliation\<close>

text \<open>What a reconciliation of a backup in stage \<open>st\<close> leaves behind.\<close>

definition advanced ::
  "NamespacedName \<Rightarrow> PVCBackup \<Rightarrow> cluster \<Rightarrow> string fset \<Rightarrow> outcome \<Rightarrow> cluster \<Rightarrow> string fset option \<Rightarrow> bool" where
  "advanced req b c R out c' R' \<longleftrightarrow>
     out = Returned (if stage_of req c = Copied then requeueAfter 0 else emptyResult) None \<and>
     stage_of req c' = next_stage (stage_of req c) \<and> frame req c c' \<and> workable req c' \<and>
     (\<exists>b'. cl_backups c' req = Some b' \<and> same_backup b b' \<and>
       (stage_of req c = Copied \<longrightarrow> Result (backup_status b') = Some ''Succeeded'')) \<and>
     R' = Some (if stage_of req c = Copied then R |-| {|backupQualifiedName b|} else finsert (backupQualifiedName b) R)"

lemma workable_claim:
  "workable req c \<Longrightarrow> cl_backups c req = Some b \<Longrightarrow>
   object_key (backup_meta b) = req \<and> (\<exists>pvc. cl_claims c \<lparr>nn_Namespace = nn_Namespace req, nn_Name = PVCName (backup_spec b)\<rparr> = Some pvc)"
  by (auto simp: workable_def)

lemma awp_running_advances:
  assumes "serves K v" and "workable req c" and "cl_backups c req = Some b" and "stage_of req c \<noteq> Done"
  shows "awp v (reconcile_running K r req b pvc (backupQualifiedName b)) (advanced req b c R) c (Some (finsert (backupQualifiedName b) R))"
proof -
  have key: "object_key (backup_meta b) = req" using workable_claim [OF assms(2,3)] by simp
  from assms(3,4) have unfin: "Time_IsZero (FinishedAt (backup_status b))" by (auto simp: stage_of_def split: if_splits)
  show ?thesis
  proof (cases "cl_snapshots c req")
    case None
    then show ?thesis
      using assms(2,3) unfin
      by (intro awp_New [OF assms(1,3) key unfin None])
         (auto simp: advanced_def stage_of_def workable_def frame_def same_backup_def snapshotReady_def)
  next
    case (Some sn)
    note sn = this
    show ?thesis
    proof (cases "snapshotReady sn")
      case False
      then show ?thesis
        using assms(2,3) unfin sn
        by (intro awp_Snapshotting [OF assms(1,3) key unfin sn False])
           (auto simp: advanced_def stage_of_def workable_def frame_def same_backup_def)
    next
      case True
      with sn assms(2) have size: "snapshotSize sn \<noteq> None" by (auto simp: workable_def)
      show ?thesis
      proof (cases "cl_jobs c req")
        case None
        then show ?thesis
          using assms(2,3) unfin sn True
          by (intro awp_Snapshotted [OF assms(1,3) key unfin sn True size None])
             (auto simp: advanced_def stage_of_def workable_def frame_def same_backup_def jobCompleted_def)
      next
        case (Some job)
        then show ?thesis
          using assms(2,3) unfin sn True
          by (cases "jobCompleted job"; intro awp_Copied [OF assms(1,3) key unfin sn True size Some]
                awp_Copying [OF assms(1,3) key unfin sn True size Some])
             (auto simp: advanced_def stage_of_def workable_def frame_def same_backup_def)
      qed
    qed
  qed
qed

lemma awp_Reconcile_advances:
  assumes "serves K v" and "workable req c" and "cl_backups c req = Some b" and "stage_of req c \<noteq> Done"
    and "br_watches r (nn_Namespace req)" and "admit (MaxRunningBackups r) (backupQualifiedName b) R \<noteq> None"
  shows "awp v (PVCBackupReconciler_Reconcile K r req) (advanced req b c R) c (Some R)"
proof -
  from assms(3,4) have unfin: "Time_IsZero (FinishedAt (backup_status b))" by (auto simp: stage_of_def split: if_splits)
  obtain pvc where pvc: "cl_claims c \<lparr>nn_Namespace = nn_Namespace req, nn_Name = PVCName (backup_spec b)\<rparr> = Some pvc"
    using workable_claim [OF assms(2,3)] by blast
  have "awp v (reconcile_unfinished K r req b) (advanced req b c R) c (Some R)"
    unfolding reconcile_unfinished_def
    by (auto simp: pvc intro!: awp_bind awp_or_return awp_Get_PVC [OF assms(1)] awp_acquire_slot [OF assms(6)] awp_running_advances [OF assms(1-4)])
  then have "awp v (reconcile_request K r req) (advanced req b c R) c (Some R)"
    unfolding reconcile_request_def using assms(3,5) unfin
    by (auto simp: br_watches_def intro!: awp_bind awp_Get_PVCBackup [OF assms(1)])
  then show ?thesis
    unfolding PVCBackupReconciler_Reconcile_def by (auto intro!: awp_get_state)
qed

section \<open>To the end\<close>

text \<open>
  The others (the snapshot controller, the job controller and whoever else) work between the
  reconciliations of a backup. They are helpful if they leave the backup and the claims there,
  make a snapshot of the backup ready with its size known, and complete its job.
\<close>

definition helpful :: "('w \<Rightarrow> cluster) \<Rightarrow> NamespacedName \<Rightarrow> ('w \<Rightarrow> 'w) \<Rightarrow> bool" where
  "helpful v req others \<longleftrightarrow> (\<forall>w.
     cl_backups (v (others w)) req = cl_backups (v w) req \<and>
     (\<forall>nn. cl_claims (v w) nn \<noteq> None \<longrightarrow> cl_claims (v (others w)) nn \<noteq> None) \<and>
     (cl_snapshots (v w) req = None \<longrightarrow> cl_snapshots (v (others w)) req = None) \<and>
     (cl_snapshots (v w) req \<noteq> None \<longrightarrow>
       (\<exists>sn. cl_snapshots (v (others w)) req = Some sn \<and> snapshotReady sn \<and> snapshotSize sn \<noteq> None)) \<and>
     (cl_jobs (v w) req \<noteq> None \<longrightarrow> (\<exists>job. cl_jobs (v (others w)) req = Some job \<and> jobCompleted job)))"

text \<open>The number of rounds a backup still needs.\<close>

fun rounds_left :: "stage \<Rightarrow> nat" where
  "rounds_left New = 3"
| "rounds_left Snapshotting = 3"
| "rounds_left Snapshotted = 2"
| "rounds_left Copying = 2"
| "rounds_left Copied = 1"
| "rounds_left Done = 0"

lemma helpful_workable: "helpful v req others \<Longrightarrow> workable req (v w) \<Longrightarrow> workable req (v (others w))"
  unfolding helpful_def workable_def
  by (drule spec [of _ w]) (auto split: option.splits)

lemma helpful_stage:
  assumes "helpful v req others" and "stage_of req c \<noteq> Done" and "stage_of req (v w) = next_stage (stage_of req c)"
  shows "rounds_left (stage_of req (v (others w))) < rounds_left (stage_of req c)"
  using assms(1) [unfolded helpful_def, THEN spec, of w] assms(2,3)
  by (cases "stage_of req c") (auto simp: stage_of_def [of req "v w"] stage_of_def [of req "v (others w)"]
      split: option.splits if_splits)

lemma round_advances:
  assumes "serves K v" and "workable req (v (world s))" and "cl_backups (v (world s)) req = Some b"
    and "stage_of req (v (world s)) \<noteq> Done" and "br_watches r (nn_Namespace req)"
    and "CurrentRunningBackups s = Some R" and "admit (MaxRunningBackups r) (backupQualifiedName b) R \<noteq> None"
    and "helpful v req others" and "t = round (PVCBackupReconciler_Reconcile K r req) others s"
  shows "\<exists>b'. workable req (v (world t)) \<and> cl_backups (v (world t)) req = Some b' \<and> same_backup b b' \<and>
    rounds_left (stage_of req (v (world t))) < rounds_left (stage_of req (v (world s))) \<and>
    (if stage_of req (v (world s)) = Copied
     then stage_of req (v (world t)) = Done \<and> Result (backup_status b') = Some ''Succeeded'' \<and>
       CurrentRunningBackups t = Some (R |-| {|backupQualifiedName b|})
     else stage_of req (v (world t)) \<noteq> Done \<and> CurrentRunningBackups t = Some (finsert (backupQualifiedName b) R))"
proof -
  obtain out u where run: "run_state (PVCBackupReconciler_Reconcile K r req) s = (out, u)" by fastforce
  with assms(6) awp_run [OF _ run] awp_Reconcile_advances [OF assms(1-5,7)]
  have adv: "advanced req b (v (world s)) R out (v (world u)) (CurrentRunningBackups u)" by simp
  from run assms(9) have t: "t = u\<lparr>world := others (world u)\<rparr>" by (simp add: round_def)
  from adv have st: "stage_of req (v (world u)) = next_stage (stage_of req (v (world s)))"
    and w: "workable req (v (world u))" by (simp_all add: advanced_def)
  have keep: "cl_backups (v (others (world u))) req = cl_backups (v (world u)) req"
    using assms(8) by (simp add: helpful_def)
  have "stage_of req (v (world t)) = Done \<longleftrightarrow> stage_of req (v (world s)) = Copied"
  proof -
    from keep adv have "stage_of req (v (world t)) = Done \<longleftrightarrow> stage_of req (v (world u)) = Done"
      by (auto simp: t stage_of_def advanced_def split: option.splits if_splits)
    with st assms(4) show ?thesis by (cases "stage_of req (v (world s))") auto
  qed
  with adv helpful_stage [OF assms(8,4) st] helpful_workable [OF assms(8) w] keep show ?thesis
    by (auto simp: advanced_def t)
qed

definition backup_running ::
  "'w kube \<Rightarrow> ('w \<Rightarrow> cluster) \<Rightarrow> 'w PVCBackupReconciler \<Rightarrow> NamespacedName \<Rightarrow> ('w \<Rightarrow> 'w) \<Rightarrow> PVCBackup \<Rightarrow> string fset \<Rightarrow> 'w sys \<Rightarrow> bool" where
  "backup_running K v r req others b R s \<longleftrightarrow>
     serves K v \<and> br_watches r (nn_Namespace req) \<and> helpful v req others \<and>
     workable req (v (world s)) \<and> stage_of req (v (world s)) \<noteq> Done \<and>
     (\<exists>b'. cl_backups (v (world s)) req = Some b' \<and> same_backup b b') \<and>
     (\<exists>R'. CurrentRunningBackups s = Some R' \<and> R' |-| {|backupQualifiedName b|} = R |-| {|backupQualifiedName b|} \<and>
       admit (MaxRunningBackups r) (backupQualifiedName b) R' \<noteq> None)"

definition backup_ended :: "('w \<Rightarrow> cluster) \<Rightarrow> NamespacedName \<Rightarrow> PVCBackup \<Rightarrow> string fset \<Rightarrow> 'w sys \<Rightarrow> bool" where
  "backup_ended v req b R t \<longleftrightarrow> stage_of req (v (world t)) = Done \<and>
     (\<exists>b'. cl_backups (v (world t)) req = Some b' \<and> same_backup b b' \<and> Result (backup_status b') = Some ''Succeeded'') \<and>
     CurrentRunningBackups t = Some (R |-| {|backupQualifiedName b|})"

lemma same_backup_trans: "same_backup a b \<Longrightarrow> same_backup b c \<Longrightarrow> same_backup a c"
  by (simp add: same_backup_def)

interpretation backup_rounds:
  rounds "round (PVCBackupReconciler_Reconcile K r req) others" "backup_running K v r req others b R" "backup_ended v req b R"
    "\<lambda>s. rounds_left (stage_of req (v (world s)))" for K v r req others b R
proof
  fix s :: "'a sys" assume run: "backup_running K v r req others b R s"
  let ?t = "round (PVCBackupReconciler_Reconcile K r req) others s"
  from run obtain b1 R1 where b1: "cl_backups (v (world s)) req = Some b1" "same_backup b b1" "CurrentRunningBackups s = Some R1"
      "R1 |-| {|backupQualifiedName b|} = R |-| {|backupQualifiedName b|}"
      "admit (MaxRunningBackups r) (backupQualifiedName b) R1 \<noteq> None" by (auto simp: backup_running_def)
  have q: "backupQualifiedName b1 = backupQualifiedName b" using b1(2) by (simp add: backupQualifiedName_def same_backup_def)
  from run have hyps: "serves K v" "workable req (v (world s))" "stage_of req (v (world s)) \<noteq> Done"
    "br_watches r (nn_Namespace req)" "helpful v req others" by (simp_all add: backup_running_def)
  from round_advances [OF hyps(1,2) b1(1) hyps(3,4) b1(3) b1(5) [folded q] hyps(5) refl] obtain b2 where
    t: "workable req (v (world ?t))" "cl_backups (v (world ?t)) req = Some b2" "same_backup b1 b2"
      "rounds_left (stage_of req (v (world ?t))) < rounds_left (stage_of req (v (world s)))"
    and st: "if stage_of req (v (world s)) = Copied
      then stage_of req (v (world ?t)) = Done \<and> Result (backup_status b2) = Some ''Succeeded'' \<and>
        CurrentRunningBackups ?t = Some (R1 |-| {|backupQualifiedName b|})
      else stage_of req (v (world ?t)) \<noteq> Done \<and> CurrentRunningBackups ?t = Some (finsert (backupQualifiedName b) R1)"
    unfolding q by blast
  show "rounds_left (stage_of req (v (world ?t))) < rounds_left (stage_of req (v (world s)))" by (rule t(4))
  have "admit (MaxRunningBackups r) (backupQualifiedName b) (finsert (backupQualifiedName b) R1) \<noteq> None" by (simp add: admit_def)
  with st t hyps b1(4) same_backup_trans [OF b1(2) t(3)]
  show "backup_running K v r req others b R ?t \<or> backup_ended v req b R ?t"
    by (cases "stage_of req (v (world s)) = Copied") (auto simp: backup_running_def backup_ended_def)
qed

section \<open>Cleaning up\<close>

lemma awp_delete_child:
  assumes "serves K v" and "object_key (backup_meta b) = req"
  shows "Q (Inr ()) (cl_snapshots_update (\<lambda>m. m(req := None)) c) R \<Longrightarrow> awp v (delete_child K KVolumeSnapshot b) Q c R"
    and "Q (Inr ()) (cl_jobs_update (\<lambda>m. m(req := None)) c) R \<Longrightarrow> awp v (delete_child K KJob b) Q c R"
    and "Q (Inr ()) (cl_claims_update (\<lambda>m. m(req := None)) c) R \<Longrightarrow> awp v (delete_child K KPersistentVolumeClaim b) Q c R"
  unfolding delete_child_def assms(2)
  by (auto intro!: api assms(1))

text \<open>The store without the snapshot, the job and the temporary claim of a backup.\<close>

definition cleaned :: "NamespacedName \<Rightarrow> cluster \<Rightarrow> cluster" where
  "cleaned req c = cl_claims_update (\<lambda>m. m(req := None)) (cl_jobs_update (\<lambda>m. m(req := None))
     (cl_snapshots_update (\<lambda>m. m(req := None)) c))"

lemma awp_cleanup:
  assumes "serves K v" and "object_key (backup_meta b) = req" and "Q (Returned (requeueAfter d) None) (cleaned req c) R"
  shows "awp v (reconcile_cleanup K b d) Q c R"
  using assms(3) unfolding reconcile_cleanup_def cleaned_def
  by (auto intro!: awp_or_return awp_delete_child [OF assms(1,2)] awp_return)

lemma awp_r_Now:
  "serves K v \<Longrightarrow> br_Clock r = Some (k_time_Now K) \<Longrightarrow> (\<And>w. Q (Some (fst (k_time_Now K w))) c R) \<Longrightarrow> awp v (r_Now r) Q c R"
  unfolding r_Now_def by (auto simp: serves_def keeps_time_def intro!: awp_bind awp_call awp_return)

end
