(* ===== verification/Restore_Lifecycle.thy ===== *)
theory Restore_Lifecycle
  imports Api_Server Restore_Props
begin

text \<open>
  The life of a restore, abstractly, as for backups: its stages in the stored objects, and that a
  reconciliation on a working API server is one step from stage to stage which touches only the
  restore, its job and the claim it restores to.
\<close>

section \<open>Stages\<close>

datatype restore_stage = Requested | Restoring | Restored | Closed

fun next_restore_stage :: "restore_stage \<Rightarrow> restore_stage" where
  "next_restore_stage Requested = Restoring"
| "next_restore_stage Restoring = Restoring"
| "next_restore_stage Restored = Closed"
| "next_restore_stage Closed = Closed"

definition restore_stage_of :: "NamespacedName \<Rightarrow> cluster \<Rightarrow> restore_stage" where
  "restore_stage_of req c =
    (case cl_restores c req of
       None \<Rightarrow> Closed
     | Some x \<Rightarrow>
         if \<not> Time_IsZero (restore_FinishedAt (restore_status x)) then Closed
         else (case cl_jobs c req of
             None \<Rightarrow> Requested
           | Some job \<Rightarrow> if restoreJobCompleted job then Restored else Restoring))"

definition target_key :: "NamespacedName \<Rightarrow> PVCRestore \<Rightarrow> NamespacedName" where
  "target_key req x = \<lparr>nn_Namespace = nn_Namespace req, nn_Name = targetPvcName x\<rparr>"

text \<open>
  A restore that can be worked on: it is stored under its own name and names a claim; that claim
  does not exist yet or carries the mark of the restore; and the job, once there, carries it too.
\<close>

definition restorable :: "NamespacedName \<Rightarrow> cluster \<Rightarrow> bool" where
  "restorable req c \<longleftrightarrow>
    (case cl_restores c req of
       None \<Rightarrow> False
     | Some x \<Rightarrow> object_key (restore_meta x) = req \<and> targetPvcName x \<noteq> [] \<and>
         (case cl_claims c (target_key req x) of
            None \<Rightarrow> cl_jobs c req = None
          | Some pvc \<Rightarrow> markedBy x (pvc_meta pvc) \<and> object_key (pvc_meta pvc) = target_key req x) \<and>
         (\<forall>job. cl_jobs c req = Some job \<longrightarrow> markedBy x (job_meta job)))"

definition restore_frame :: "NamespacedName \<Rightarrow> NamespacedName \<Rightarrow> cluster \<Rightarrow> cluster \<Rightarrow> bool" where
  "restore_frame req target c c' \<longleftrightarrow> cl_backups c' = cl_backups c \<and> cl_snapshots c' = cl_snapshots c \<and>
     (\<forall>nn. nn \<noteq> req \<longrightarrow> cl_restores c' nn = cl_restores c nn \<and> cl_jobs c' nn = cl_jobs c nn) \<and>
     (\<forall>nn. nn \<noteq> target \<longrightarrow> cl_claims c' nn = cl_claims c nn)"

definition same_restore :: "PVCRestore \<Rightarrow> PVCRestore \<Rightarrow> bool" where
  "same_restore x y \<longleftrightarrow> restore_meta y = restore_meta x \<and> restore_spec y = restore_spec x"

lemma same_restore_facts:
  assumes "same_restore x y"
  shows "markedBy y m = markedBy x m" and "targetPvcName y = targetPvcName x" and "target_key req y = target_key req x"
    and "object_key (restore_meta y) = object_key (restore_meta x)"
  using assms by (simp_all add: same_restore_def markedBy_def targetPvcName_def target_key_def)

section \<open>The blocks of the handler on stored objects\<close>

lemma awp_mark_restore_started:
  assumes "serves K v" and "cl_restores c req = Some x" and "object_key (restore_meta x) = req"
    and "Time_IsZero (restore_FinishedAt (restore_status x))"
    and post: "\<And>y. same_restore x y \<Longrightarrow> restore_StartedAt (restore_status y) \<noteq> None \<Longrightarrow>
      Time_IsZero (restore_FinishedAt (restore_status y)) \<Longrightarrow> Q (Inr y) (cl_restores_update (\<lambda>m. m(req \<mapsto> y)) c) R"
  shows "awp v (mark_restore_started K x) Q c R"
proof (cases "restore_StartedAt (restore_status x) = None")
  case False
  have "cl_restores_update (\<lambda>m. m(req \<mapsto> x)) c = c" using assms(2) by (cases c) (simp add: fun_upd_idem)
  with False post [of x] assms(4) show ?thesis by (auto simp: mark_restore_started_def same_restore_def intro!: api)
next
  case True
  let ?x = "\<lambda>now. x\<lparr>restore_status := wire_restore_status ((restore_status x)\<lparr>restore_StartedAt := Some now\<rparr>)\<rparr>"
  have upd: "awp v (Status_Update_PVCRestore K (x\<lparr>restore_status := (restore_status x)\<lparr>restore_StartedAt := Some now\<rparr>\<rparr>))
      (\<lambda>u c R. \<exists>y. u = Inr y \<and> Q (Inr y) c R) c R" for now
    by (rule awp_Status_Update_PVCRestore [OF assms(1), where old = x])
       (use assms(2-4) post [of "?x now"] in \<open>auto simp: same_restore_def wire_restore_status_def wire_time_keeps_zero\<close>)
  show ?thesis
    unfolding mark_restore_started_def using True by (auto intro!: api awp_time_Now [OF assms(1)] awp_mono [OF upd])
qed

lemma admitted_annotations: "admitted_meta m m' \<Longrightarrow> Annotations m' = Annotations m"
  by (metis ObjectMeta.select_convs(5) ObjectMeta.surjective ObjectMeta.update_convs(3,7) admitted_meta_def)

lemma awp_ensure_target_pvc:
  assumes "serves K v" and target: "target = \<lparr>nn_Namespace = nn_Namespace req, nn_Name = name\<rparr>"
    and "\<And>pvc. cl_claims c target = Some pvc \<Longrightarrow> markedBy x (pvc_meta pvc) \<and> object_key (pvc_meta pvc) = target"
    and post: "\<And>pvc. markedBy x (pvc_meta pvc) \<Longrightarrow> object_key (pvc_meta pvc) = target \<Longrightarrow>
      cl_claims c target \<in> {None, Some pvc} \<Longrightarrow> Q (Inr pvc) (cl_claims_update (\<lambda>m. m(target \<mapsto> pvc)) c) R"
  shows "awp v (ensure_target_pvc K r req x name) Q c R"
proof (cases "cl_claims c target")
  case (Some pvc)
  then have "cl_claims_update (\<lambda>m. m(target \<mapsto> pvc)) c = c" by (cases c) (simp add: fun_upd_idem)
  with Some assms(3) [OF Some] post [of pvc] show ?thesis
    unfolding ensure_target_pvc_def target [symmetric] by (auto intro!: awp_bind awp_Get_PVC [OF assms(1)] awp_return)
next
  case None
  let ?pvc = "newTargetPVC r req x name"
  have key: "object_key (pvc_meta ?pvc) = target"
    by (simp add: newTargetPVC_def Let_def object_key_def target)
  have ann: "Annotations (pvc_meta ?pvc) = restoringAnnotations x"
    by (simp add: newTargetPVC_def Let_def)
  have new: "awp v (Create_PVC K ?pvc) (\<lambda>u c R. \<exists>pvc. u = Inr pvc \<and> Q (Inr pvc) c R) c R"
    by (rule awp_Create_PVC [OF assms(1)])
       (use key ann None post in \<open>auto simp: admitted_claim_def admitted_key admitted_annotations markedBy_def restoringAnnotations_def\<close>)
  show ?thesis
    unfolding ensure_target_pvc_def target [symmetric]
    by (auto simp: None intro!: awp_bind awp_Get_PVC [OF assms(1)] awp_return awp_mono [OF new])
qed

lemma awp_ensure_restore_job_found:
  "serves K v \<Longrightarrow> cl_jobs c req = Some job \<Longrightarrow> Q (Inr (job, x)) c R \<Longrightarrow> awp v (ensure_restore_job K r req x pvc) Q c R"
  unfolding ensure_restore_job_def by (auto intro!: api)

lemma awp_ensure_restore_job_new:
  assumes "serves K v" and "cl_jobs c req = None" and "object_key (restore_meta x) = req"
    and post: "\<And>job y. markedBy x (job_meta job) \<Longrightarrow> CompletionTime (job_status job) = None \<Longrightarrow> restore_meta y = restore_meta x \<Longrightarrow>
      Q (Inr (job, y)) (cl_jobs_update (\<lambda>m. m(req \<mapsto> job)) c) R"
  shows "awp v (ensure_restore_job K r req x pvc) Q c R"
proof -
  let ?x = "defaultSource x" and ?job = "newRestoreJob r (defaultSource x) pvc"
  have meta: "restore_meta ?x = restore_meta x" by (simp add: defaultSource_def Let_def)
  obtain refs where refs: "k_SetControllerReference K KPVCRestore (restore_meta x) (job_meta ?job) = Inr ((job_meta ?job)\<lparr>OwnerReferences := refs\<rparr>)"
    using owner_set [OF assms(1)] by blast
  have key: "object_key (job_meta ?job) = req"
    using assms(3) meta by (simp add: newRestoreJob_def Let_def object_key_def)
  have ann: "map_of (Annotations (job_meta ?job)) CurrentlyRestoringAnnotation = Some (UID (restore_meta x))"
    by (simp add: newRestoreJob_def Let_def restoringAnnotations_def meta)
  have "awp v (Create_Job K (?job\<lparr>job_meta := (job_meta ?job)\<lparr>OwnerReferences := refs\<rparr>\<rparr>))
      (\<lambda>u c R. \<exists>job. u = Inr job \<and> Q (Inr (job, ?x)) c R) c R"
    by (rule awp_Create_Job [OF assms(1)])
       (use key ann meta assms(2) post in \<open>auto simp: admitted_job_def admitted_annotations markedBy_def\<close>)
  with assms(1,2) show ?thesis
    unfolding ensure_restore_job_def by (auto intro!: api simp: refs Let_def elim!: awp_mono)
qed

lemma awp_finish_restore:
  assumes "serves K v" and "cl_restores c req = Some x" and "object_key (restore_meta x) = req"
    and "restore_StartedAt (restore_status x) \<noteq> None"
    and post: "\<And>y. same_restore x y \<Longrightarrow> \<not> Time_IsZero (restore_FinishedAt (restore_status y)) \<Longrightarrow>
      restore_Result (restore_status y) = Some result \<Longrightarrow> Q no_requeue (cl_restores_update (\<lambda>m. m(req \<mapsto> y)) c) R"
  shows "awp v (finish_restore K x result) Q c R"
  unfolding finish_restore_def
proof (intro awp_bind awp_time_Now [OF assms(1)])
  fix now assume now: "Second \<le> now"
  from assms(4) obtain z where z: "setRestoreFinished now x result = Some z" by (auto simp: setRestoreFinished_def)
  then have z': "restore_meta z = restore_meta x" "restore_FinishedAt (restore_status z) = Some now"
    "restore_Result (restore_status z) = Some result" by (auto simp: setRestoreFinished_def split: option.splits)
  let ?x = "x\<lparr>restore_status := wire_restore_status (restore_status z)\<rparr>"
  have upd: "awp v (Status_Update_PVCRestore K z) (\<lambda>u c R. \<exists>y. u = Inr y \<and> Q no_requeue c R) c R"
    by (rule awp_Status_Update_PVCRestore [OF assms(1), where old = x])
       (use assms(2,3) z' wire_time_nonzero [OF now] post [of ?x] in \<open>auto simp: same_restore_def wire_restore_status_def\<close>)
  show "awp v (case setRestoreFinished now x result of None \<Rightarrow> return Panicked | Some restore' \<Rightarrow> do {
      u \<leftarrow> Status_Update_PVCRestore K restore';
      case u of Inl err \<Rightarrow> return (failed err) | Inr _ \<Rightarrow> return no_requeue }) Q c R"
    by (auto simp: z intro!: awp_bind awp_mono [OF upd] awp_return)
qed

lemma unmark_key [simp]: "object_key (pvc_meta (unmark pvc)) = object_key (pvc_meta pvc)"
  by (simp add: unmark_def object_key_def)

lemma awp_complete_restore:
  assumes "serves K v" and "cl_restores c req = Some x" and "object_key (restore_meta x) = req"
    and "restore_StartedAt (restore_status x) \<noteq> None"
    and "object_key (pvc_meta pvc) = target" and "cl_claims c target = Some pvc"
    and post: "\<And>y. same_restore x y \<Longrightarrow> \<not> Time_IsZero (restore_FinishedAt (restore_status y)) \<Longrightarrow>
      restore_Result (restore_status y) = Some ''Succeeded'' \<Longrightarrow>
      Q no_requeue (cl_restores_update (\<lambda>m. m(req \<mapsto> y)) (cl_claims_update (\<lambda>m. m(target \<mapsto> unmark pvc)) c)) R"
  shows "awp v (complete_restore K x pvc) Q c R"
  unfolding complete_restore_def
  by (rule awp_bind, rule awp_Update_PVC [OF assms(1), where old = pvc])
     (use assms(2-6) post in \<open>auto intro!: awp_finish_restore [OF assms(1)]\<close>)

section \<open>Each stage\<close>

text \<open>Up to the job, a reconciliation is the same in all stages.\<close>

lemma awp_until_job:
  assumes "serves K v" and "restorable req c" and "cl_restores c req = Some x"
    and "Time_IsZero (restore_FinishedAt (restore_status x))"
    and post: "\<And>y pvc. same_restore x y \<Longrightarrow> restore_StartedAt (restore_status y) \<noteq> None \<Longrightarrow>
      Time_IsZero (restore_FinishedAt (restore_status y)) \<Longrightarrow> markedBy x (pvc_meta pvc) \<Longrightarrow>
      object_key (pvc_meta pvc) = target_key req x \<Longrightarrow> (cl_claims c (target_key req x) \<in> {None, Some pvc}) \<Longrightarrow>
      awp v (or_return (ensure_restore_job K r req y pvc) (\<lambda>(job, y).
         if \<not> markedBy y (job_meta job) then finish_restore K y ''Failed''
         else if \<not> restoreJobCompleted job then return no_requeue else complete_restore K y pvc)) Q
        (cl_claims_update (\<lambda>m. m(target_key req x \<mapsto> pvc)) (cl_restores_update (\<lambda>m. m(req \<mapsto> y)) c)) R"
  shows "awp v (reconcile_restore K r req x) Q c R"
proof -
  from assms(2,3) have key: "object_key (restore_meta x) = req" and name: "targetPvcName x \<noteq> []"
    and claim: "\<And>pvc. cl_claims c (target_key req x) = Some pvc \<Longrightarrow> markedBy x (pvc_meta pvc) \<and> object_key (pvc_meta pvc) = target_key req x"
    by (auto simp: restorable_def split: option.splits)
  show ?thesis
    unfolding reconcile_restore_def Let_def if_not_P [OF name]
  proof (rule awp_or_return, rule awp_mark_restore_started [OF assms(1,3) key assms(4)], simp only: sum.case, rule awp_or_return)
    fix y assume y: "same_restore x y" "restore_StartedAt (restore_status y) \<noteq> None" "Time_IsZero (restore_FinishedAt (restore_status y))"
    show "awp v (ensure_target_pvc K r req y (targetPvcName x))
      (\<lambda>z c R. case z of Inl out \<Rightarrow> Q out c R | Inr pvc \<Rightarrow> awp v (restore_into K r req y pvc) Q c R)
      (cl_restores_update (\<lambda>m. m(req \<mapsto> y)) c) R"
    proof (rule awp_ensure_target_pvc [OF assms(1) target_key_def])
      fix pvc :: PersistentVolumeClaim
      assume pvc: "markedBy y (pvc_meta pvc)" "object_key (pvc_meta pvc) = target_key req x"
        "cl_claims (cl_restores_update (\<lambda>m. m(req \<mapsto> y)) c) (target_key req x) \<in> {None, Some pvc}"
      with y post [OF y, of pvc] have "awp v (restore_into K r req y pvc) Q
         (cl_claims_update (\<lambda>m. m(target_key req x \<mapsto> pvc)) (cl_restores_update (\<lambda>m. m(req \<mapsto> y)) c)) R"
        by (simp add: restore_into_def same_restore_facts)
      then show "case Inr pvc of Inl out \<Rightarrow> Q out (cl_claims_update (\<lambda>m. m(target_key req x \<mapsto> pvc)) (cl_restores_update (\<lambda>m. m(req \<mapsto> y)) c)) R
        | Inr pvc' \<Rightarrow> awp v (restore_into K r req y pvc') Q
         (cl_claims_update (\<lambda>m. m(target_key req x \<mapsto> pvc)) (cl_restores_update (\<lambda>m. m(req \<mapsto> y)) c)) R" by simp
    qed (use claim same_restore_facts [OF y(1)] in auto)
  qed
qed

lemma awp_Requested:
  assumes "serves K v" and "restorable req c" and "cl_restores c req = Some x"
    and "Time_IsZero (restore_FinishedAt (restore_status x))" and "cl_jobs c req = None"
    and post: "\<And>y pvc job. same_restore x y \<Longrightarrow> Time_IsZero (restore_FinishedAt (restore_status y)) \<Longrightarrow> markedBy x (pvc_meta pvc) \<Longrightarrow>
      object_key (pvc_meta pvc) = target_key req x \<Longrightarrow> markedBy x (job_meta job) \<Longrightarrow> CompletionTime (job_status job) = None \<Longrightarrow>
      Q no_requeue (cl_jobs_update (\<lambda>m. m(req \<mapsto> job)) (cl_claims_update (\<lambda>m. m(target_key req x \<mapsto> pvc))
        (cl_restores_update (\<lambda>m. m(req \<mapsto> y)) c))) R"
  shows "awp v (reconcile_restore K r req x) Q c R"
proof (rule awp_until_job [OF assms(1-4)], rule awp_or_return)
  have key: "object_key (restore_meta x) = req" using assms(2,3) by (simp add: restorable_def)
  fix y and pvc :: PersistentVolumeClaim assume y: "same_restore x y" "Time_IsZero (restore_FinishedAt (restore_status y))"
    and pvc: "markedBy x (pvc_meta pvc)" "object_key (pvc_meta pvc) = target_key req x"
  show "awp v (ensure_restore_job K r req y pvc) (\<lambda>z c R. case z of Inl out \<Rightarrow> Q out c R | Inr a \<Rightarrow> awp v (case a of (job, y) \<Rightarrow>
       if \<not> markedBy y (job_meta job) then finish_restore K y ''Failed''
       else if \<not> restoreJobCompleted job then return no_requeue else complete_restore K y pvc) Q c R)
     (cl_claims_update (\<lambda>m. m(target_key req x \<mapsto> pvc)) (cl_restores_update (\<lambda>m. m(req \<mapsto> y)) c)) R"
  proof (rule awp_ensure_restore_job_new [OF assms(1)])
    show "object_key (restore_meta y) = req" using key same_restore_facts(4) [OF y(1)] by simp
  next
    fix job :: Job and y' :: PVCRestore assume job: "markedBy y (job_meta job)" "CompletionTime (job_status job) = None" and "restore_meta y' = restore_meta y"
    then have "markedBy y' (job_meta job)" "\<not> restoreJobCompleted job" by (simp_all add: markedBy_def restoreJobCompleted_def)
    moreover have "Q no_requeue (cl_jobs_update (\<lambda>m. m(req \<mapsto> job)) (cl_claims_update (\<lambda>m. m(target_key req x \<mapsto> pvc))
        (cl_restores_update (\<lambda>m. m(req \<mapsto> y)) c))) R"
      by (rule post [OF y pvc]) (use job same_restore_facts(1) [OF y(1)] in simp_all)
    ultimately show "case Inr (job, y') of Inl out \<Rightarrow> Q out (cl_jobs_update (\<lambda>m. m(req \<mapsto> job)) (cl_claims_update (\<lambda>m. m(target_key req x \<mapsto> pvc))
        (cl_restores_update (\<lambda>m. m(req \<mapsto> y)) c))) R | Inr a \<Rightarrow> awp v (case a of (job, y) \<Rightarrow>
       if \<not> markedBy y (job_meta job) then finish_restore K y ''Failed''
       else if \<not> restoreJobCompleted job then return no_requeue else complete_restore K y pvc) Q (cl_jobs_update (\<lambda>m. m(req \<mapsto> job))
         (cl_claims_update (\<lambda>m. m(target_key req x \<mapsto> pvc)) (cl_restores_update (\<lambda>m. m(req \<mapsto> y)) c))) R"
      by (simp add: awp_return)
  qed (use assms(5) in simp)
qed

lemma awp_job_found:
  assumes "serves K v" and "restorable req c" and "cl_restores c req = Some x"
    and "Time_IsZero (restore_FinishedAt (restore_status x))" and "cl_jobs c req = Some job"
    and post: "\<And>y pvc. same_restore x y \<Longrightarrow> restore_StartedAt (restore_status y) \<noteq> None \<Longrightarrow>
      Time_IsZero (restore_FinishedAt (restore_status y)) \<Longrightarrow> cl_claims c (target_key req x) = Some pvc \<Longrightarrow>
      awp v (if \<not> restoreJobCompleted job then return no_requeue else complete_restore K y pvc) Q
        (cl_restores_update (\<lambda>m. m(req \<mapsto> y)) c) R"
  shows "awp v (reconcile_restore K r req x) Q c R"
proof (rule awp_until_job [OF assms(1-4)], rule awp_or_return)
  from assms(2,3,5) have job: "markedBy x (job_meta job)" and claim: "cl_claims c (target_key req x) \<noteq> None"
    by (auto simp: restorable_def split: option.splits)
  fix y pvc assume y: "same_restore x y" "restore_StartedAt (restore_status y) \<noteq> None" "Time_IsZero (restore_FinishedAt (restore_status y))"
    and "cl_claims c (target_key req x) \<in> {None, Some pvc}"
  with claim have pvc: "cl_claims c (target_key req x) = Some pvc" by auto
  then have c: "cl_claims_update (\<lambda>m. m(target_key req x \<mapsto> pvc)) (cl_restores_update (\<lambda>m. m(req \<mapsto> y)) c) = cl_restores_update (\<lambda>m. m(req \<mapsto> y)) c"
    by (cases c) (simp add: fun_upd_idem)
  show "awp v (ensure_restore_job K r req y pvc) (\<lambda>z c R. case z of Inl out \<Rightarrow> Q out c R | Inr a \<Rightarrow> awp v (case a of (job, y) \<Rightarrow>
       if \<not> markedBy y (job_meta job) then finish_restore K y ''Failed''
       else if \<not> restoreJobCompleted job then return no_requeue else complete_restore K y pvc) Q c R)
     (cl_claims_update (\<lambda>m. m(target_key req x \<mapsto> pvc)) (cl_restores_update (\<lambda>m. m(req \<mapsto> y)) c)) R"
    unfolding c using assms(5) job post [OF y pvc] same_restore_facts [OF y(1)]
    by (intro awp_ensure_restore_job_found [OF assms(1)]) auto
qed

section \<open>One reconciliation\<close>

text \<open>What a reconciliation of a restore leaves behind.\<close>

definition restore_advanced ::
  "NamespacedName \<Rightarrow> PVCRestore \<Rightarrow> cluster \<Rightarrow> outcome \<Rightarrow> cluster \<Rightarrow> bool" where
  "restore_advanced req x c out c' \<longleftrightarrow>
     out = no_requeue \<and> restore_stage_of req c' = next_restore_stage (restore_stage_of req c) \<and>
     restore_frame req (target_key req x) c c' \<and>
     (\<exists>y. cl_restores c' req = Some y \<and> same_restore x y \<and>
       (if restore_stage_of req c = Restored
        then restore_Result (restore_status y) = Some ''Succeeded'' \<and>
          (\<exists>pvc. cl_claims c (target_key req x) = Some pvc \<and> cl_claims c' (target_key req x) = Some (unmark pvc))
        else restorable req c'))"

lemma awp_restore_advances:
  assumes "serves K v" and "restorable req c" and "cl_restores c req = Some x" and "restore_stage_of req c \<noteq> Closed"
  shows "awp v (reconcile_restore K r req x) (\<lambda>out c' _. restore_advanced req x c out c') c R"
proof -
  from assms(3,4) have unfin: "Time_IsZero (restore_FinishedAt (restore_status x))"
    by (auto simp: restore_stage_of_def split: if_splits)
  from assms(2,3) have key: "object_key (restore_meta x) = req" by (simp add: restorable_def)
  show ?thesis
  proof (cases "cl_jobs c req")
    case None
    show ?thesis
      using assms(2,3) unfin None
      by (intro awp_Requested [OF assms(1-3) unfin None])
         (auto simp: restore_advanced_def restore_stage_of_def restorable_def restore_frame_def restoreJobCompleted_def same_restore_facts)
  next
    case (Some job)
    show ?thesis
    proof (rule awp_job_found [OF assms(1-3) unfin Some])
      fix y pvc assume y: "same_restore x y" "restore_StartedAt (restore_status y) \<noteq> None"
          "Time_IsZero (restore_FinishedAt (restore_status y))"
        and pvc: "cl_claims c (target_key req x) = Some pvc"
      from assms(2,3) pvc have pkey: "object_key (pvc_meta pvc) = target_key req x" by (simp add: restorable_def)
      show "awp v (if \<not> restoreJobCompleted job then return no_requeue else complete_restore K y pvc)
          (\<lambda>out c' _. restore_advanced req x c out c') (cl_restores_update (\<lambda>m. m(req \<mapsto> y)) c) R"
      proof (cases "restoreJobCompleted job")
        case False
        then show ?thesis
          using assms(2,3) unfin Some pvc pkey y same_restore_facts [OF y(1)]
          by (auto intro!: awp_return simp: restore_advanced_def restore_stage_of_def restorable_def restore_frame_def)
      next
        case True
        have "awp v (complete_restore K y pvc) (\<lambda>out c' _. restore_advanced req x c out c') (cl_restores_update (\<lambda>m. m(req \<mapsto> y)) c) R"
          by (rule awp_complete_restore [OF assms(1) _ _ y(2) pkey])
             (use assms(3) unfin Some True y pvc key in
               \<open>auto simp: restore_advanced_def restore_stage_of_def restore_frame_def same_restore_def\<close>)
        with True show ?thesis by simp
      qed
    qed
  qed
qed

lemma awp_Restore_Reconcile_advances:
  assumes "serves K v" and "restorable req c" and "cl_restores c req = Some x" and "restore_stage_of req c \<noteq> Closed"
    and "rr_watches r (nn_Namespace req)"
  shows "awp v (PVCRestoreReconciler_Reconcile K r req) (\<lambda>out c' _. restore_advanced req x c out c') c R"
proof -
  from assms(3,4) have "Time_IsZero (restore_FinishedAt (restore_status x))"
    by (auto simp: restore_stage_of_def split: if_splits)
  with assms(3,5) awp_restore_advances [OF assms(1-4)] show ?thesis
    unfolding PVCRestoreReconciler_Reconcile_def
    by (auto simp: rr_watches_def intro!: awp_bind awp_Get_PVCRestore [OF assms(1)])
qed

section \<open>To the end\<close>

text \<open>
  The others are helpful to a restore if they leave it and its claim as they are, and complete
  its job once there is one, without taking the mark off it.
\<close>

definition helpful_restore :: "('w \<Rightarrow> cluster) \<Rightarrow> NamespacedName \<Rightarrow> ('w \<Rightarrow> 'w) \<Rightarrow> bool" where
  "helpful_restore v req others \<longleftrightarrow> (\<forall>w.
     cl_restores (v (others w)) req = cl_restores (v w) req \<and>
     (\<forall>x. cl_restores (v w) req = Some x \<longrightarrow> cl_claims (v (others w)) (target_key req x) = cl_claims (v w) (target_key req x)) \<and>
     (case cl_jobs (v w) req of
        None \<Rightarrow> cl_jobs (v (others w)) req = None
      | Some job \<Rightarrow> (\<exists>job'. cl_jobs (v (others w)) req = Some job' \<and> restoreJobCompleted job' \<and>
          Annotations (job_meta job') = Annotations (job_meta job))))"

fun restore_rounds_left :: "restore_stage \<Rightarrow> nat" where
  "restore_rounds_left Requested = 2"
| "restore_rounds_left Restoring = 2"
| "restore_rounds_left Restored = 1"
| "restore_rounds_left Closed = 0"

lemma helpful_restorable:
  "helpful_restore v req others \<Longrightarrow> restorable req (v w) \<Longrightarrow> restorable req (v (others w))"
  unfolding helpful_restore_def restorable_def
  by (drule spec [of _ w]) (auto simp: markedBy_def split: option.splits)

lemma helpful_restore_stage:
  assumes "helpful_restore v req others" and "restore_stage_of req c \<noteq> Closed"
    and "restore_stage_of req (v w) = next_restore_stage (restore_stage_of req c)"
  shows "restore_stage_of req (v (others w)) = (if restore_stage_of req c = Restored then Closed else Restored)"
  using assms(1) [unfolded helpful_restore_def, THEN spec, of w] assms(2,3)
  by (cases "restore_stage_of req c") (auto simp: restore_stage_of_def [of req "v w"] restore_stage_of_def [of req "v (others w)"]
      split: option.splits if_splits)

lemma restore_round:
  assumes "serves K v" and "restorable req (v (world s))" and "cl_restores (v (world s)) req = Some x"
    and "restore_stage_of req (v (world s)) \<noteq> Closed" and "rr_watches r (nn_Namespace req)"
    and "helpful_restore v req others" and "t = round (PVCRestoreReconciler_Reconcile K r req) others s"
  shows "\<exists>y. cl_restores (v (world t)) req = Some y \<and> same_restore x y \<and>
    (if restore_stage_of req (v (world s)) = Restored
     then restore_stage_of req (v (world t)) = Closed \<and> restore_Result (restore_status y) = Some ''Succeeded'' \<and>
       (\<exists>pvc. cl_claims (v (world s)) (target_key req x) = Some pvc \<and> cl_claims (v (world t)) (target_key req x) = Some (unmark pvc))
     else restore_stage_of req (v (world t)) = Restored \<and> restorable req (v (world t)))"
proof -
  obtain out u where run: "run_state (PVCRestoreReconciler_Reconcile K r req) s = (out, u)" by fastforce
  from awp_run [OF awp_Restore_Reconcile_advances [OF assms(1-5)] run]
  have adv: "restore_advanced req x (v (world s)) out (v (world u))" .
  from run assms(7) have t: "t = u\<lparr>world := others (world u)\<rparr>" by (simp add: round_def)
  from adv have st: "restore_stage_of req (v (world u)) = next_restore_stage (restore_stage_of req (v (world s)))"
    by (simp add: restore_advanced_def)
  from adv obtain y where y: "cl_restores (v (world u)) req = Some y" "same_restore x y" by (auto simp: restore_advanced_def)
  from assms(6) y have keep: "cl_restores (v (others (world u))) req = Some y"
    "cl_claims (v (others (world u))) (target_key req x) = cl_claims (v (world u)) (target_key req x)"
    by (auto simp: helpful_restore_def same_restore_facts dest!: spec [of _ "world u"])
  with adv y st helpful_restore_stage [OF assms(6,4) st] helpful_restorable [OF assms(6), of "world u"] show ?thesis
    by (auto simp: restore_advanced_def t split: if_splits)
qed

definition restore_running ::
  "'w kube \<Rightarrow> ('w \<Rightarrow> cluster) \<Rightarrow> PVCRestoreReconciler \<Rightarrow> NamespacedName \<Rightarrow> ('w \<Rightarrow> 'w) \<Rightarrow> PVCRestore \<Rightarrow> 'w sys \<Rightarrow> bool" where
  "restore_running K v r req others x s \<longleftrightarrow>
     serves K v \<and> rr_watches r (nn_Namespace req) \<and> helpful_restore v req others \<and>
     restorable req (v (world s)) \<and> restore_stage_of req (v (world s)) \<noteq> Closed \<and>
     (\<exists>y. cl_restores (v (world s)) req = Some y \<and> same_restore x y)"

definition restore_ended :: "('w \<Rightarrow> cluster) \<Rightarrow> NamespacedName \<Rightarrow> PVCRestore \<Rightarrow> 'w sys \<Rightarrow> bool" where
  "restore_ended v req x t \<longleftrightarrow> restore_stage_of req (v (world t)) = Closed \<and>
     (\<exists>y. cl_restores (v (world t)) req = Some y \<and> same_restore x y \<and> restore_Result (restore_status y) = Some ''Succeeded'') \<and>
     (\<exists>pvc. cl_claims (v (world t)) (target_key req x) = Some (unmark pvc))"

interpretation restore_rounds:
  rounds "round (PVCRestoreReconciler_Reconcile K r req) others" "restore_running K v r req others x" "restore_ended v req x"
    "\<lambda>s. restore_rounds_left (restore_stage_of req (v (world s)))" for K v r req others x
proof
  fix s :: "'a sys" assume run: "restore_running K v r req others x s"
  let ?t = "round (PVCRestoreReconciler_Reconcile K r req) others s"
  from run obtain y where y: "cl_restores (v (world s)) req = Some y" "same_restore x y" by (auto simp: restore_running_def)
  from run have hyps: "serves K v" "restorable req (v (world s))" "restore_stage_of req (v (world s)) \<noteq> Closed"
    "rr_watches r (nn_Namespace req)" "helpful_restore v req others" by (simp_all add: restore_running_def)
  from restore_round [OF hyps(1,2) y(1) hyps(3-5) refl] obtain z where z: "cl_restores (v (world ?t)) req = Some z" "same_restore y z"
    and st: "if restore_stage_of req (v (world s)) = Restored
     then restore_stage_of req (v (world ?t)) = Closed \<and> restore_Result (restore_status z) = Some ''Succeeded'' \<and>
       (\<exists>pvc. cl_claims (v (world s)) (target_key req y) = Some pvc \<and> cl_claims (v (world ?t)) (target_key req y) = Some (unmark pvc))
     else restore_stage_of req (v (world ?t)) = Restored \<and> restorable req (v (world ?t))" by blast
  from st hyps(3) show "restore_rounds_left (restore_stage_of req (v (world ?t))) < restore_rounds_left (restore_stage_of req (v (world s)))"
    by (cases "restore_stage_of req (v (world s))") auto
  have "same_restore x z" using y(2) z(2) by (simp add: same_restore_def)
  with st z hyps same_restore_facts(3) [OF y(2)] show "restore_running K v r req others x ?t \<or> restore_ended v req x ?t"
    by (cases "restore_stage_of req (v (world s)) = Restored") (auto simp: restore_running_def restore_ended_def)
qed

end
