(* ===== verification/Restore_Retry.thy ===== *)
theory Restore_Retry
  imports Restore_Lifecycle
begin

text \<open>
  Restores on an API server that may refuse to update the status of a restore (a conflict, an
  admission hook, a network error), and works otherwise: what the reconciliation of a restore
  whose job has completed leaves behind when its status update is refused, and what a retry makes
  of that.
\<close>

section \<open>The laws\<close>

text \<open>An update works as on a server that serves, or it fails and changes nothing.\<close>

definition updates_or_refuses ::
  "('w \<Rightarrow> cluster) \<Rightarrow> ('o \<Rightarrow> 'w \<Rightarrow> (go_error + 'o) \<times> 'w) \<Rightarrow> ('o \<Rightarrow> NamespacedName) \<Rightarrow> ('o \<Rightarrow> 'o \<Rightarrow> 'o) \<Rightarrow>
   (cluster \<Rightarrow> NamespacedName \<Rightarrow> 'o option) \<Rightarrow>
   (((NamespacedName \<Rightarrow> 'o option) \<Rightarrow> NamespacedName \<Rightarrow> 'o option) \<Rightarrow> cluster \<Rightarrow> cluster) \<Rightarrow> bool" where
  "updates_or_refuses v update key merge sel upd \<longleftrightarrow> (\<forall>x old w. sel (v w) (key x) = Some old \<longrightarrow>
     (case fst (update x w) of
        Inr x' \<Rightarrow> x' = merge x old \<and> v (snd (update x w)) = upd (\<lambda>m. m(key x \<mapsto> merge x old)) (v w)
      | Inl _ \<Rightarrow> v (snd (update x w)) = v w))"

definition may_refuse_status :: "'w kube \<Rightarrow> ('w \<Rightarrow> cluster) \<Rightarrow> bool" where
  "may_refuse_status K v \<longleftrightarrow>
     reads v (k_Get_PVCRestore K) cl_restores \<and> reads v (k_Get_PVC K) cl_claims \<and> reads v (k_Get_Job K) cl_jobs \<and>
     updates v (k_Update_PVC K) (object_key \<circ> pvc_meta) (\<lambda>x old. x) cl_claims cl_claims_update \<and>
     updates_or_refuses v (k_Status_Update_PVCRestore K) (object_key \<circ> restore_meta)
       (\<lambda>x old. old\<lparr>restore_status := wire_restore_status (restore_status x)\<rparr>) cl_restores cl_restores_update \<and>
     keeps_time v K"

lemma may_refuse:
  assumes "may_refuse_status K v"
  shows "reads v (k_Get_PVCRestore K) cl_restores" and "reads v (k_Get_PVC K) cl_claims" and "reads v (k_Get_Job K) cl_jobs"
    and "updates v (k_Update_PVC K) (object_key \<circ> pvc_meta) (\<lambda>x old. x) cl_claims cl_claims_update"
    and "updates_or_refuses v (k_Status_Update_PVCRestore K) (object_key \<circ> restore_meta)
       (\<lambda>x old. old\<lparr>restore_status := wire_restore_status (restore_status x)\<rparr>) cl_restores cl_restores_update"
    and "keeps_time v K"
  using assms by (simp_all add: may_refuse_status_def)

lemma awp_update_or_refuse:
  assumes "updates_or_refuses v update key merge sel upd" and "sel c (key x) = Some old"
    and "Q (Inr (merge x old)) (upd (\<lambda>m. m(key x \<mapsto> merge x old)) c) R" and "\<And>err. Q (Inl err) c R"
  shows "awp v (call (update x) ev) Q c R"
proof (rule awp_call)
  fix w assume "v w = c"
  with assms(1,2) have law: "case fst (update x w) of
      Inr x' \<Rightarrow> x' = merge x old \<and> v (snd (update x w)) = upd (\<lambda>m. m(key x \<mapsto> merge x old)) c
    | Inl _ \<Rightarrow> v (snd (update x w)) = c"
    unfolding updates_or_refuses_def by metis
  show "Q (fst (update x w)) (v (snd (update x w))) R"
    using law assms(3,4) by (cases "fst (update x w)") auto
qed

section \<open>Finishing\<close>

text \<open>The restore as it is stored once it has finished with a result.\<close>

definition finished_restore :: "PVCRestore \<Rightarrow> Result \<Rightarrow> PVCRestore \<Rightarrow> bool" where
  "finished_restore x result y \<longleftrightarrow> same_restore x y \<and> \<not> Time_IsZero (restore_FinishedAt (restore_status y)) \<and>
     restore_Result (restore_status y) = Some result"

lemma awp_finish_or_refused:
  assumes "may_refuse_status K v" and "cl_restores c req = Some x" and "object_key (restore_meta x) = req"
    and "restore_StartedAt (restore_status x) \<noteq> None"
    and accepted: "\<And>y. finished_restore x result y \<Longrightarrow> Q no_requeue (cl_restores_update (\<lambda>m. m(req \<mapsto> y)) c) R"
    and refused: "\<And>err. Q (failed err) c R"
  shows "awp v (finish_restore K x result) Q c R"
  unfolding finish_restore_def
proof (rule awp_bind, rule awp_call)
  fix w assume w: "v w = c"
  define now where "now = fst (k_time_Now K w)"
  have now: "Second \<le> now" using may_refuse(6) [OF assms(1)] by (simp add: keeps_time_def now_def)
  have same: "v (snd (k_time_Now K w)) = c" using may_refuse(6) [OF assms(1)] w by (simp add: keeps_time_def)
  from assms(4) obtain z where z: "setRestoreFinished now x result = Some z" by (auto simp: setRestoreFinished_def)
  then have z': "restore_meta z = restore_meta x" "restore_FinishedAt (restore_status z) = Some now"
    "restore_Result (restore_status z) = Some result" by (auto simp: setRestoreFinished_def split: option.splits)
  let ?x = "x\<lparr>restore_status := wire_restore_status (restore_status z)\<rparr>"
  have fin: "finished_restore x result ?x"
    using z' wire_time_nonzero [OF now] by (simp add: finished_restore_def same_restore_def wire_restore_status_def)
  have "awp v (Status_Update_PVCRestore K z) (\<lambda>u c R. awp v (case u of Inl err \<Rightarrow> return (failed err) | Inr _ \<Rightarrow> return no_requeue) Q c R) c R"
    by (rule awp_update_or_refuse [OF may_refuse(5) [OF assms(1)], where old = x])
       (use assms(2,3) z' accepted [OF fin] refused in \<open>auto intro!: awp_return\<close>)
  then have "awp v (Status_Update_PVCRestore K z \<bind> case_sum (\<lambda>err. return (failed err)) (\<lambda>_. return no_requeue)) Q c R"
    by (rule awp_bind)
  with z same show "awp v (case setRestoreFinished (fst (k_time_Now K w)) x result of None \<Rightarrow> return Panicked | Some restore' \<Rightarrow> do {
      u \<leftarrow> Status_Update_PVCRestore K restore';
      case u of Inl err \<Rightarrow> return (failed err) | Inr _ \<Rightarrow> return no_requeue }) Q (v (snd (k_time_Now K w))) R"
    by (simp add: now_def)
qed

section \<open>The attempt and the retry\<close>

text \<open>
  A reconciliation of a started restore that finds its claim: with the mark on the claim and on a
  completed job it takes the mark off and reports success, without the mark on the claim it
  reports failure; in both cases the report may be refused.
\<close>

lemma awp_claim_found:
  assumes "may_refuse_status K v" and "cl_restores c req = Some x" and "targetPvcName x \<noteq> []"
    and "Time_IsZero (restore_FinishedAt (restore_status x))" and "restore_StartedAt (restore_status x) \<noteq> None"
    and "cl_claims c (target_key req x) = Some pvc" and "rr_watches r (nn_Namespace req)"
    and into: "awp v (restore_into K r req x pvc) Q c R"
  shows "awp v (PVCRestoreReconciler_Reconcile K r req) Q c R"
  unfolding PVCRestoreReconciler_Reconcile_def
  using assms(2-7) into
  by (auto simp: rr_watches_def reconcile_restore_def mark_restore_started_def ensure_target_pvc_def target_key_def Let_def
      intro!: api awp_read [OF may_refuse(1) [OF assms(1)]] awp_read [OF may_refuse(2) [OF assms(1)]])

lemma awp_attempt:
  assumes "may_refuse_status K v" and "restorable req c" and "cl_restores c req = Some x"
    and "restore_stage_of req c = Restored" and "restore_StartedAt (restore_status x) \<noteq> None"
    and "rr_watches r (nn_Namespace req)"
  shows "awp v (PVCRestoreReconciler_Reconcile K r req) (\<lambda>out c' _. \<forall>err. out = failed err \<longrightarrow>
    (\<exists>pvc. cl_claims c (target_key req x) = Some pvc \<and> c' = cl_claims_update (\<lambda>m. m(target_key req x \<mapsto> unmark pvc)) c)) c R"
proof -
  from assms(3,4) obtain job where job: "cl_jobs c req = Some job" "restoreJobCompleted job"
    and unfin: "Time_IsZero (restore_FinishedAt (restore_status x))"
    by (auto simp: restore_stage_of_def split: if_splits option.splits)
  from assms(2,3) job obtain pvc where pvc: "cl_claims c (target_key req x) = Some pvc" "markedBy x (pvc_meta pvc)"
      "object_key (pvc_meta pvc) = target_key req x"
    and x: "object_key (restore_meta x) = req" "targetPvcName x \<noteq> []" "markedBy x (job_meta job)"
    by (auto simp: restorable_def split: option.splits)
  let ?c = "cl_claims_update (\<lambda>m. m(target_key req x \<mapsto> unmark pvc)) c"
  let ?Q = "\<lambda>out c' _. \<forall>err. out = failed err \<longrightarrow>
    (\<exists>pvc. cl_claims c (target_key req x) = Some pvc \<and> c' = cl_claims_update (\<lambda>m. m(target_key req x \<mapsto> unmark pvc)) c)"
  have "awp v (finish_restore K x ''Succeeded'') ?Q ?c R"
    by (rule awp_finish_or_refused [OF assms(1) _ x(1) assms(5)]) (use assms(3) pvc(1) in auto)
  then have "awp v (complete_restore K x pvc) ?Q c R"
    unfolding complete_restore_def
    by (intro awp_bind awp_update [OF may_refuse(4) [OF assms(1)], where old = pvc]) (simp_all add: pvc)
  then have "awp v (restore_into K r req x pvc) ?Q c R"
    unfolding restore_into_def ensure_restore_job_def using pvc(2) x(3) job
    by (auto intro!: api awp_read [OF may_refuse(3) [OF assms(1)]])
  then show ?thesis
    by (rule awp_claim_found [OF assms(1,3) x(2) unfin assms(5) pvc(1) assms(6)])
qed

lemma awp_retry:
  assumes "may_refuse_status K v" and "cl_restores c req = Some x" and "object_key (restore_meta x) = req"
    and "targetPvcName x \<noteq> []" and "Time_IsZero (restore_FinishedAt (restore_status x))"
    and "restore_StartedAt (restore_status x) \<noteq> None"
    and "cl_claims c (target_key req x) = Some pvc" and "\<not> markedBy x (pvc_meta pvc)" and "rr_watches r (nn_Namespace req)"
  shows "awp v (PVCRestoreReconciler_Reconcile K r req) (\<lambda>out c' _. (\<exists>err. out = failed err \<and> c' = c) \<or>
    out = no_requeue \<and> (\<exists>y. finished_restore x ''Failed'' y \<and> c' = cl_restores_update (\<lambda>m. m(req \<mapsto> y)) c)) c R"
  by (rule awp_claim_found [OF assms(1,2,4,5,6,7,9)])
     (use assms(8) in \<open>auto simp: restore_into_def intro!: awp_finish_or_refused [OF assms(1-3,6)]\<close>)

end
