(* ===== verification/Fair_Queue.thy ===== *)
theory Fair_Queue
  imports Backup_Lifecycle
begin

text \<open>
  Many backups that compete for the slots. The locale \<open>fair_rounds\<close> is the argument: jobs that
  get their turn again and again come to an end if always one of those left is able to go on and
  stays so until something moves. Its interpretation on the backup controller shows that no backup
  starves, whatever the maximum and the order of the reconciliations.
\<close>

section \<open>Fair sequences of rounds\<close>

primrec run_schedule :: "('j \<Rightarrow> 's \<Rightarrow> 's) \<Rightarrow> (nat \<Rightarrow> 'j) \<Rightarrow> 's \<Rightarrow> nat \<Rightarrow> 's" where
  "run_schedule step sched s 0 = s"
| "run_schedule step sched s (Suc n) = step (sched n) (run_schedule step sched s n)"

text \<open>Only these jobs get a turn, and each of them again and again.\<close>

definition fair :: "'j set \<Rightarrow> (nat \<Rightarrow> 'j) \<Rightarrow> bool" where
  "fair Q sched \<longleftrightarrow> range sched \<subseteq> Q \<and> (\<forall>j\<in>Q. \<forall>n. \<exists>m\<ge>n. sched m = j)"

locale fair_rounds =
  fixes Q :: "'j set" and step :: "'j \<Rightarrow> 's \<Rightarrow> 's" and inv :: "'s \<Rightarrow> bool" and left :: "'j \<Rightarrow> 's \<Rightarrow> nat"
    and able :: "'j \<Rightarrow> 's \<Rightarrow> bool"
  assumes finite_jobs: "inv s \<Longrightarrow> finite Q"
    and inv_step: "inv s \<Longrightarrow> j \<in> Q \<Longrightarrow> inv (step j s)"
    and left_step: "inv s \<Longrightarrow> j \<in> Q \<Longrightarrow> i \<in> Q \<Longrightarrow> left i (step j s) \<le> left i s"
    and some_able: "inv s \<Longrightarrow> j \<in> Q \<Longrightarrow> 0 < left j s \<Longrightarrow> \<exists>i\<in>Q. able i s"
    and able_step: "inv s \<Longrightarrow> i \<in> Q \<Longrightarrow> able i s \<Longrightarrow> left i (step i s) < left i s"
    and able_stays: "inv s \<Longrightarrow> i \<in> Q \<Longrightarrow> able i s \<Longrightarrow> j \<in> Q \<Longrightarrow>
      (\<forall>k\<in>Q. left k (step j s) = left k s) \<Longrightarrow> able i (step j s)"
begin

lemma inv_run: "inv s \<Longrightarrow> fair Q sched \<Longrightarrow> inv (run_schedule step sched s n)"
  by (induction n) (auto simp: fair_def intro: inv_step)

lemma left_run:
  assumes "inv s" and "fair Q sched" and "i \<in> Q" and "n \<le> m"
  shows "left i (run_schedule step sched s m) \<le> left i (run_schedule step sched s n)"
  using assms(4)
proof (induction m rule: dec_induct)
  case (step m)
  have "sched m \<in> Q" using assms(2) by (auto simp: fair_def)
  from left_step [OF inv_run [OF assms(1,2)] this assms(3)] step.IH show ?case by (auto intro: order_trans)
qed simp

text \<open>Nothing moves only for so long.\<close>

lemma moves:
  assumes "inv s" and "fair Q sched" and "i \<in> Q" and "able i (run_schedule step sched s n)"
  shows "\<exists>m>n. \<exists>k\<in>Q. left k (run_schedule step sched s m) < left k (run_schedule step sched s n)"
proof (rule ccontr)
  let ?r = "run_schedule step sched s"
  assume "\<not> ?thesis"
  then have same: "left k (?r m) = left k (?r n)" if "n \<le> m" "k \<in> Q" for m k
    using left_run [OF assms(1,2) that(2,1)] that by (cases "m = n") (auto simp: not_less intro: order_antisym)
  have able: "able i (?r m)" if "n \<le> m" for m
    using that
  proof (induction m rule: dec_induct)
    case (step m)
    have "sched m \<in> Q" using assms(2) by (auto simp: fair_def)
    with able_stays [OF inv_run [OF assms(1,2)] assms(3) step.IH] same [of m] same [of "Suc m"] step.hyps show ?case by simp
  qed (rule assms(4))
  from assms(2,3) obtain m where m: "n \<le> m" "sched m = i" unfolding fair_def by blast
  from able_step [OF inv_run [OF assms(1,2)] assms(3) able [OF m(1)]] m(2)
  have "left i (?r (Suc m)) < left i (?r m)" by simp
  with same [OF _ assms(3), of m] same [OF _ assms(3), of "Suc m"] m(1) show False by simp
qed

lemma all_end:
  assumes "inv s" and "fair Q sched"
  shows "\<exists>n. \<forall>m\<ge>n. \<forall>j\<in>Q. left j (run_schedule step sched s m) = 0"
proof -
  let ?r = "run_schedule step sched s" and ?sum = "\<lambda>n. \<Sum>j\<in>Q. left j (run_schedule step sched s n)"
  have fin: "finite Q" using assms(1) by (rule finite_jobs)
  have "\<exists>m\<ge>n. \<forall>j\<in>Q. left j (?r m) = 0" for n
  proof (induction "?sum n" arbitrary: n rule: less_induct)
    case less
    show ?case
    proof (cases "\<forall>j\<in>Q. left j (?r n) = 0")
      case False
      then obtain j where "j \<in> Q" "0 < left j (?r n)" by auto
      with some_able [OF inv_run [OF assms]] obtain i where "i \<in> Q" "able i (?r n)" by blast
      from moves [OF assms this] obtain m k where m: "n < m" "k \<in> Q" "left k (?r m) < left k (?r n)" by blast
      have "?sum m < ?sum n"
        using m fin left_run [OF assms, of _ n m] by (intro sum_strict_mono_ex1) auto
      from less.hyps [OF this] obtain m' where "m \<le> m'" "\<forall>j\<in>Q. left j (?r m') = 0" by blast
      with m(1) show ?thesis by (intro exI [of _ m']) auto
    qed auto
  qed
  then obtain n where n: "\<forall>j\<in>Q. left j (?r n) = 0" by blast
  show ?thesis
  proof (intro exI [of _ n] allI impI ballI)
    fix m j assume "n \<le> m" "j \<in> Q"
    with left_run [OF assms this(2,1)] n show "left j (?r m) = 0" by simp
  qed
qed

end

section \<open>Reconciliations that do not move a backup\<close>

lemma awp_blocked:
  assumes "serves K v" and "workable req c" and "cl_backups c req = Some b" and "stage_of req c \<noteq> Done"
    and "br_watches r (nn_Namespace req)" and "admit (MaxRunningBackups r) (backupQualifiedName b) R = None"
  shows "awp v (PVCBackupReconciler_Reconcile K r req) (\<lambda>_ c' R'. c' = c \<and> R' = Some R) c (Some R)"
proof -
  from assms(3,4) have unfin: "Time_IsZero (FinishedAt (backup_status b))" by (auto simp: stage_of_def split: if_splits)
  obtain pvc where pvc: "cl_claims c \<lparr>nn_Namespace = nn_Namespace req, nn_Name = PVCName (backup_spec b)\<rparr> = Some pvc"
    using workable_claim [OF assms(2,3)] by blast
  have "awp v (acquire_slot r (backupQualifiedName b)) (\<lambda>x c' R'. (\<exists>out. x = Inl out) \<and> c' = c \<and> R' = Some R) c (Some R)"
    unfolding acquire_slot_def using assms(6) by (auto simp: awp_def wp_def)
  then have "awp v (reconcile_unfinished K r req b) (\<lambda>_ c' R'. c' = c \<and> R' = Some R) c (Some R)"
    unfolding reconcile_unfinished_def
    by (auto simp: pvc intro!: awp_bind awp_or_return awp_Get_PVC [OF assms(1)] elim!: awp_mono)
  then have "awp v (reconcile_request K r req) (\<lambda>_ c' R'. c' = c \<and> R' = Some R) c (Some R)"
    unfolding reconcile_request_def using assms(3,5) unfin
    by (auto simp: br_watches_def intro!: awp_bind awp_Get_PVCBackup [OF assms(1)])
  then show ?thesis
    unfolding PVCBackupReconciler_Reconcile_def by (auto intro!: awp_get_state)
qed

text \<open>A list does not change what is stored.\<close>

definition lists_quietly :: "'w kube \<Rightarrow> ('w \<Rightarrow> cluster) \<Rightarrow> bool" where
  "lists_quietly K v \<longleftrightarrow> (\<forall>opts w. v (snd (k_List_PVCBackups K opts w)) = v w)"

text \<open>What a reconciliation of a finished backup, or of one that is gone, leaves behind.\<close>

definition rested :: "NamespacedName \<Rightarrow> cluster \<Rightarrow> string fset \<Rightarrow> outcome \<Rightarrow> cluster \<Rightarrow> string fset option \<Rightarrow> bool" where
  "rested req c R out c' R' \<longleftrightarrow> frame req c c' \<and> cl_backups c' req \<in> {cl_backups c req, None} \<and>
     R' \<in> {Some R, Some (R |-| {|nn_Namespace req @ ''/'' @ nn_Name req|})}"

lemma rested_refl: "rested req c R out c (Some R)"
  by (simp add: rested_def frame_def)

lemma awp_finished_rests:
  assumes "serves K v" and "lists_quietly K v" and "br_Clock r = Some (k_time_Now K)" and "object_key (backup_meta b) = req"
  shows "awp v (reconcile_finished K r b) (rested req c R) c (Some R)"
proof -
  have expired: "awp v (reconcile_expired K b t) (rested req c R) c (Some R)" for t
    unfolding reconcile_expired_def Let_def assms(4)
    using assms(2) served(12) [OF assms(1)]
    by (auto intro!: awp_bind awp_call awp_return simp: lists_quietly_def rested_refl deletes_def
        rested_def frame_def split: sum.split option.split if_split)
  have clean: "awp v (reconcile_cleanup K b d) (rested req c R) c (Some R)" for d
    by (rule awp_cleanup [OF assms(1,4)]) (simp add: rested_def frame_def cleaned_def)
  show ?thesis
    unfolding reconcile_finished_def
    by (auto intro!: awp_bind awp_r_Now [OF assms(1,3)] awp_return expired clean simp: rested_refl Let_def
        split: option.split)
qed

lemma awp_Done_rests:
  assumes "serves K v" and "lists_quietly K v" and "br_Clock r = Some (k_time_Now K)" and "br_watches r (nn_Namespace req)"
    and "stage_of req c = Done" and "\<And>b. cl_backups c req = Some b \<Longrightarrow> object_key (backup_meta b) = req"
  shows "awp v (PVCBackupReconciler_Reconcile K r req) (rested req c R) c (Some R)"
proof -
  have "awp v (reconcile_request K r req) (rested req c R) c (Some R)"
  proof (cases "cl_backups c req")
    case None
    then have "awp v (release_slot (nn_Namespace req @ ''/'' @ nn_Name req)) (\<lambda>_. rested req c R (Returned emptyResult None)) c (Some R)"
      by (intro awp_release_slot) (simp add: rested_def frame_def)
    with None assms(4) show ?thesis
      unfolding reconcile_request_def
      by (auto simp: br_watches_def intro!: awp_bind awp_Get_PVCBackup [OF assms(1)] awp_return elim!: awp_mono)
  next
    case (Some b)
    with assms(5) have fin: "\<not> Time_IsZero (FinishedAt (backup_status b))" by (auto simp: stage_of_def split: option.splits if_splits)
    with Some assms(4) awp_finished_rests [OF assms(1-3) assms(6) [OF Some], of c R] show ?thesis
      unfolding reconcile_request_def
      by (auto simp: br_watches_def intro!: awp_bind awp_Get_PVCBackup [OF assms(1)])
  qed
  then show ?thesis
    unfolding PVCBackupReconciler_Reconcile_def by (auto intro!: awp_get_state)
qed

section \<open>A queue of backups\<close>

definition slot_name :: "NamespacedName \<Rightarrow> string" where
  "slot_name req = nn_Namespace req @ ''/'' @ nn_Name req"

text \<open>
  The setting: a working API server, requests in the namespaces of the controller (no name of a
  namespace has a slash), and others that help with each of the backups.
\<close>

definition queue_setting ::
  "'w kube \<Rightarrow> ('w \<Rightarrow> cluster) \<Rightarrow> 'w PVCBackupReconciler \<Rightarrow> NamespacedName set \<Rightarrow> ('w \<Rightarrow> 'w) \<Rightarrow> bool" where
  "queue_setting K v r Q others \<longleftrightarrow> serves K v \<and> lists_quietly K v \<and> br_Clock r = Some (k_time_Now K) \<and> finite Q \<and>
     (\<forall>req\<in>Q. br_watches r (nn_Namespace req) \<and> helpful v req others \<and> CHR ''/'' \<notin> set (nn_Namespace req))"

text \<open>
  The queue: backups under their names, of claims that are no temporary claims of the queue, all
  workable until they are done; the slots are held by backups that are not done.
\<close>

definition queued :: "NamespacedName set \<Rightarrow> cluster \<Rightarrow> string fset \<Rightarrow> bool" where
  "queued Q c R \<longleftrightarrow>
     (\<forall>req\<in>Q. \<forall>b. cl_backups c req = Some b \<longrightarrow> object_key (backup_meta b) = req \<and>
       \<lparr>nn_Namespace = nn_Namespace req, nn_Name = PVCName (backup_spec b)\<rparr> \<notin> Q) \<and>
     (\<forall>req\<in>Q. stage_of req c \<noteq> Done \<longrightarrow> workable req c) \<and>
     fset R \<subseteq> slot_name ` {req \<in> Q. stage_of req c \<noteq> Done}"

lemma slot_name_inj:
  assumes "queue_setting K v r Q others" and "q \<in> Q" and "q' \<in> Q" and "slot_name q = slot_name q'"
  shows "q = q'"
proof -
  have "takeWhile (\<lambda>c. c \<noteq> CHR ''/'') (slot_name x) = nn_Namespace x" if "x \<in> Q" for x
    using assms(1) that by (auto simp: queue_setting_def slot_name_def takeWhile_tail)
  with assms(2-4) have "nn_Namespace q = nn_Namespace q'" by metis
  with assms(4) show ?thesis by (simp add: slot_name_def)
qed

lemma backup_slot_name: "object_key (backup_meta b) = req \<Longrightarrow> backupQualifiedName b = slot_name req"
  by (auto simp: backupQualifiedName_def slot_name_def object_key_def)

lemma frame_elsewhere:
  assumes "frame req c c'" and "q \<noteq> req"
  shows "stage_of q c' = stage_of q c" and "cl_backups c' q = cl_backups c q"
proof -
  from assms have e: "cl_backups c' q = cl_backups c q" "cl_snapshots c' q = cl_snapshots c q" "cl_jobs c' q = cl_jobs c q"
    by (simp_all add: frame_def)
  show "stage_of q c' = stage_of q c" and "cl_backups c' q = cl_backups c q" unfolding stage_of_def e by (rule refl)+
qed

lemma rounds_left_next: "rounds_left (next_stage st) \<le> rounds_left st"
  by (cases st) simp_all

lemma rounds_left_0: "rounds_left st = 0 \<longleftrightarrow> st = Done"
  by (cases st) simp_all

lemma others_stage:
  assumes "helpful v req others"
  shows "rounds_left (stage_of req (v (others w))) \<le> rounds_left (stage_of req (v w))"
    and "stage_of req (v (others w)) = Done \<longleftrightarrow> stage_of req (v w) = Done"
  using assms [unfolded helpful_def, THEN spec, of w]
  by (auto simp: stage_of_def [of req "v w"] stage_of_def [of req "v (others w)"] split: option.splits if_splits)

lemma queued_others:
  assumes "queue_setting K v r Q others" and "queued Q (v w) R"
  shows "queued Q (v (others w)) R"
proof -
  have h: "helpful v req others" if "req \<in> Q" for req using assms(1) that by (simp add: queue_setting_def)
  then have "cl_backups (v (others w)) req = cl_backups (v w) req" if "req \<in> Q" for req using that by (simp add: helpful_def)
  moreover have "{req \<in> Q. stage_of req (v (others w)) \<noteq> Done} = {req \<in> Q. stage_of req (v w) \<noteq> Done}"
    using others_stage(2) [OF h] by auto
  ultimately show ?thesis
    using assms(2) helpful_workable [OF h] others_stage(2) [OF h] unfolding queued_def by auto
qed

text \<open>What is left of the queue when only the object of one request has changed.\<close>

lemma queued_frame:
  assumes "queued Q c R" and "req \<in> Q" and "frame req c c'"
    and "\<And>b'. cl_backups c' req = Some b' \<Longrightarrow> \<exists>b. cl_backups c req = Some b \<and> same_backup b b'"
    and "stage_of req c' \<noteq> Done \<Longrightarrow> workable req c'"
    and "fset R' \<subseteq> slot_name ` {q \<in> Q. stage_of q c' \<noteq> Done}"
  shows "queued Q c' R'"
  unfolding queued_def
proof (intro conjI ballI allI impI)
  fix q b assume q: "q \<in> Q" "cl_backups c' q = Some b"
  show "object_key (backup_meta b) = q" and "\<lparr>nn_Namespace = nn_Namespace q, nn_Name = PVCName (backup_spec b)\<rparr> \<notin> Q"
    using assms(1,4) q frame_elsewhere(2) [OF assms(3)] unfolding queued_def same_backup_def by (metis (no_types))+
next
  fix q assume q: "q \<in> Q" "stage_of q c' \<noteq> Done"
  show "workable q c'"
  proof (cases "q = req")
    case False
    note e = frame_elsewhere [OF assms(3) False]
    with q assms(1) have w: "workable q c" by (simp add: queued_def)
    then obtain b where b: "cl_backups c q = Some b" by (auto simp: workable_def split: option.splits)
    with assms(1,2) q(1) have "\<lparr>nn_Namespace = nn_Namespace q, nn_Name = PVCName (backup_spec b)\<rparr> \<noteq> req"
      unfolding queued_def by blast
    with w b e assms(3) False show ?thesis by (auto simp: workable_def frame_def)
  qed (use assms(5) q in simp)
qed (rule assms(6))

lemma queue_reconcile:
  assumes "queue_setting K v r Q others" and "queued Q (v (world s)) R" and "CurrentRunningBackups s = Some R" and "req \<in> Q"
    and "run_state (PVCBackupReconciler_Reconcile K r req) s = (out, t)"
  shows "\<exists>R'. CurrentRunningBackups t = Some R' \<and> queued Q (v (world t)) R' \<and> frame req (v (world s)) (v (world t)) \<and>
    (if stage_of req (v (world s)) \<noteq> Done \<and> admit (MaxRunningBackups r) (slot_name req) R \<noteq> None
     then stage_of req (v (world t)) = next_stage (stage_of req (v (world s)))
     else stage_of req (v (world t)) = stage_of req (v (world s)) \<and> R' = R)"
proof -
  let ?c = "v (world s)"
  from assms(1,4) have S: "serves K v" "lists_quietly K v" "br_Clock r = Some (k_time_Now K)" "br_watches r (nn_Namespace req)"
    by (simp_all add: queue_setting_def)
  have slots: "fset R \<subseteq> slot_name ` {q \<in> Q. stage_of q ?c \<noteq> Done}" using assms(2) by (simp add: queued_def)
  show ?thesis
  proof (cases "stage_of req ?c = Done")
    case True
    have "object_key (backup_meta b) = req" if "cl_backups ?c req = Some b" for b
      using assms(2,4) that by (simp add: queued_def)
    from awp_Done_rests [OF S True this] assms(3,5) have rest: "rested req ?c R out (v (world t)) (CurrentRunningBackups t)"
      using awp_run [OF _ assms(5), of v "rested req ?c R"] by simp
    have "slot_name req |\<notin>| R"
      using slots slot_name_inj [OF assms(1,4)] True by fastforce
    then have R: "CurrentRunningBackups t = Some R" using rest by (auto simp: rested_def slot_name_def)
    have fin: "stage_of req (v (world t)) = Done"
      using rest True by (auto simp: rested_def stage_of_def split: option.splits if_splits)
    have f: "frame req ?c (v (world t))" using rest by (simp add: rested_def)
    have "{q \<in> Q. stage_of q (v (world t)) \<noteq> Done} = {q \<in> Q. stage_of q ?c \<noteq> Done}"
      using frame_elsewhere(1) [OF f] fin True by metis
    moreover have "\<exists>b. cl_backups ?c req = Some b \<and> same_backup b b'" if "cl_backups (v (world t)) req = Some b'" for b'
      using rest that by (cases "cl_backups ?c req") (auto simp: rested_def same_backup_def)
    ultimately have "queued Q (v (world t)) R"
      by (intro queued_frame [OF assms(2,4) f]) (use slots fin in simp_all)
    with R f fin True show ?thesis by auto
  next
    case False
    with assms(2,4) have w: "workable req ?c" by (simp add: queued_def)
    then obtain b where b: "cl_backups ?c req = Some b" by (auto simp: workable_def split: option.splits)
    have q: "backupQualifiedName b = slot_name req" using workable_claim [OF w b] by (simp add: backup_slot_name)
    show ?thesis
    proof (cases "admit (MaxRunningBackups r) (slot_name req) R = None")
      case True
      from awp_run [OF _ assms(5), of v "\<lambda>_ c' R'. c' = ?c \<and> R' = Some R"] awp_blocked [OF S(1) w b False S(4)] assms(3) True q
      have "v (world t) = ?c" "CurrentRunningBackups t = Some R" by simp_all
      with assms(2) True show ?thesis by (simp add: frame_def)
    next
      case admitted: False
      from awp_run [OF _ assms(5), of v "advanced req b ?c R"] awp_Reconcile_advances [OF S(1) w b False S(4)] assms(3) admitted q
      have adv: "advanced req b ?c R out (v (world t)) (CurrentRunningBackups t)" by simp
      let ?R = "if stage_of req ?c = Copied then R |-| {|slot_name req|} else finsert (slot_name req) R"
      have f: "frame req ?c (v (world t))" and R: "CurrentRunningBackups t = Some ?R"
        and st: "stage_of req (v (world t)) = next_stage (stage_of req ?c)" using adv q by (simp_all add: advanced_def)
      have "fset ?R \<subseteq> slot_name ` {x \<in> Q. stage_of x (v (world t)) \<noteq> Done}"
      proof
        fix n assume n: "n \<in> fset ?R"
        show "n \<in> slot_name ` {x \<in> Q. stage_of x (v (world t)) \<noteq> Done}"
        proof (cases "n = slot_name req")
          case True
          with n have "stage_of req ?c \<noteq> Copied" by (auto split: if_splits)
          with st False have "stage_of req (v (world t)) \<noteq> Done" by (cases "stage_of req ?c") auto
          with True assms(4) show ?thesis by blast
        next
          case other: False
          with n have "n \<in> fset R" by (auto split: if_splits)
          with slots obtain x where x: "x \<in> Q" "stage_of x ?c \<noteq> Done" "n = slot_name x" by blast
          with other have "x \<noteq> req" by blast
          with frame_elsewhere(1) [OF f] x show ?thesis by force
        qed
      qed
      then have "queued Q (v (world t)) ?R"
        by (intro queued_frame [OF assms(2,4) f]) (use adv b in \<open>auto simp: advanced_def\<close>)
      with R f st False admitted show ?thesis by auto
    qed
  qed
qed

lemma queue_round:
  assumes "queue_setting K v r Q others" and "queued Q (v (world s)) R" and "CurrentRunningBackups s = Some R" and "req \<in> Q"
    and "t = round (PVCBackupReconciler_Reconcile K r req) others s"
  shows "\<exists>R'. CurrentRunningBackups t = Some R' \<and> queued Q (v (world t)) R' \<and>
    (\<forall>q\<in>Q. rounds_left (stage_of q (v (world t))) \<le> rounds_left (stage_of q (v (world s)))) \<and>
    (if stage_of req (v (world s)) \<noteq> Done \<and> admit (MaxRunningBackups r) (slot_name req) R \<noteq> None
     then rounds_left (stage_of req (v (world t))) < rounds_left (stage_of req (v (world s)))
     else R' = R)"
proof -
  obtain out u where run: "run_state (PVCBackupReconciler_Reconcile K r req) s = (out, u)" by fastforce
  from queue_reconcile [OF assms(1-4) run] obtain R' where
    R': "CurrentRunningBackups u = Some R'" "queued Q (v (world u)) R'" "frame req (v (world s)) (v (world u))"
    and c: "if stage_of req (v (world s)) \<noteq> Done \<and> admit (MaxRunningBackups r) (slot_name req) R \<noteq> None
      then stage_of req (v (world u)) = next_stage (stage_of req (v (world s)))
      else stage_of req (v (world u)) = stage_of req (v (world s)) \<and> R' = R" by blast
  have t: "world t = others (world u)" "CurrentRunningBackups t = Some R'" using assms(5) run R'(1) by (simp_all add: round_def)
  have h: "helpful v q others" if "q \<in> Q" for q using assms(1) that by (simp add: queue_setting_def)
  have le: "rounds_left (stage_of q (v (world t))) \<le> rounds_left (stage_of q (v (world s)))" if "q \<in> Q" for q
  proof -
    have "rounds_left (stage_of q (v (world u))) \<le> rounds_left (stage_of q (v (world s)))"
      using frame_elsewhere(1) [OF R'(3)] c rounds_left_next by (cases "q = req") (auto split: if_splits)
    with others_stage(1) [OF h [OF that], of "world u"] show ?thesis unfolding t(1) by (rule order_trans)
  qed
  show ?thesis
    using R' t queued_others [OF assms(1) R'(2)] le c helpful_stage [OF h [OF assms(4)], of "v (world s)" "world u"]
    by (intro exI [of _ R']) (auto split: if_splits)
qed

text \<open>A backup is able to go on if it is not done and holds or can get a slot.\<close>

definition able_backup :: "('w \<Rightarrow> cluster) \<Rightarrow> 'w PVCBackupReconciler \<Rightarrow> NamespacedName \<Rightarrow> 'w sys \<Rightarrow> bool" where
  "able_backup v r req s \<longleftrightarrow> stage_of req (v (world s)) \<noteq> Done \<and>
     (\<exists>R. CurrentRunningBackups s = Some R \<and> admit (MaxRunningBackups r) (slot_name req) R \<noteq> None)"

definition queue_inv ::
  "'w kube \<Rightarrow> ('w \<Rightarrow> cluster) \<Rightarrow> 'w PVCBackupReconciler \<Rightarrow> NamespacedName set \<Rightarrow> ('w \<Rightarrow> 'w) \<Rightarrow> 'w sys \<Rightarrow> bool" where
  "queue_inv K v r Q others s \<longleftrightarrow> queue_setting K v r Q others \<and>
     (\<exists>R. CurrentRunningBackups s = Some R \<and> queued Q (v (world s)) R)"

abbreviation backup_round :: "'w kube \<Rightarrow> 'w PVCBackupReconciler \<Rightarrow> ('w \<Rightarrow> 'w) \<Rightarrow> NamespacedName \<Rightarrow> 'w sys \<Rightarrow> 'w sys" where
  "backup_round K r others req \<equiv> round (PVCBackupReconciler_Reconcile K r req) others"

interpretation backup_queue:
  fair_rounds Q "backup_round K r others" "queue_inv K v r Q others" "\<lambda>req s. rounds_left (stage_of req (v (world s)))"
    "able_backup v r" for Q K v r others
proof
  fix s :: "'a sys" and i j
  show "finite Q" if "queue_inv K v r Q others s" using that by (simp add: queue_inv_def queue_setting_def)
  note step = queue_round [OF _ _ _ _ refl]
  show "queue_inv K v r Q others (backup_round K r others j s)" if "queue_inv K v r Q others s" "j \<in> Q"
    using that step [of K v r Q others s _ j] unfolding queue_inv_def by blast
  show "rounds_left (stage_of i (v (world (backup_round K r others j s)))) \<le> rounds_left (stage_of i (v (world s)))"
    if "queue_inv K v r Q others s" "j \<in> Q" "i \<in> Q"
    using that step [of K v r Q others s _ j] unfolding queue_inv_def by blast
  show "\<exists>i\<in>Q. able_backup v r i s"
    if inv: "queue_inv K v r Q others s" and j: "j \<in> Q" "0 < rounds_left (stage_of j (v (world s)))"
  proof -
    from inv obtain R where R: "CurrentRunningBackups s = Some R" "queued Q (v (world s)) R" by (auto simp: queue_inv_def)
    show ?thesis
    proof (cases "R = {||}")
      case True
      with R(1) j show ?thesis by (intro bexI [of _ j]) (auto simp: able_backup_def admit_def fcard_fempty)
    next
      case False
      then obtain n where "n |\<in>| R" by blast
      with R(2) obtain x where "x \<in> Q" "stage_of x (v (world s)) \<noteq> Done" "slot_name x |\<in>| R" unfolding queued_def by blast
      with R(1) show ?thesis by (intro bexI [of _ x]) (auto simp: able_backup_def admit_def)
    qed
  qed
  show "rounds_left (stage_of i (v (world (backup_round K r others i s)))) < rounds_left (stage_of i (v (world s)))"
    if "queue_inv K v r Q others s" "i \<in> Q" "able_backup v r i s"
    using that step [of K v r Q others s _ i] unfolding queue_inv_def able_backup_def by fastforce
  show "able_backup v r i (backup_round K r others j s)"
    if inv: "queue_inv K v r Q others s" and i: "i \<in> Q" "able_backup v r i s" "j \<in> Q"
      and same: "\<forall>k\<in>Q. rounds_left (stage_of k (v (world (backup_round K r others j s)))) = rounds_left (stage_of k (v (world s)))"
  proof -
    from inv obtain R where R: "CurrentRunningBackups s = Some R" "queued Q (v (world s)) R" "queue_setting K v r Q others"
      by (auto simp: queue_inv_def)
    from step [OF R(3,2,1) i(3)] same i(3) have "CurrentRunningBackups (backup_round K r others j s) = Some R"
      by (auto split: if_splits)
    moreover from same i(1,2) have "stage_of i (v (world (backup_round K r others j s))) \<noteq> Done"
      by (metis able_backup_def rounds_left_0)
    ultimately show ?thesis using i(2) R(1) by (auto simp: able_backup_def)
  qed
qed

end
