(* ===== verification/Sample_Server.thy ===== *)
theory Sample_Server
  imports Api_Server Sample_Cluster
begin

text \<open>
  A concrete API server in memory, on which the laws of \<open>serves\<close> are shown to hold together:
  the world is the stored objects. Nothing of the model depends on this theory.
\<close>

definition found :: "'o option \<Rightarrow> go_error + 'o" where
  "found x = (case x of None \<Rightarrow> Inl NotFound | Some y \<Rightarrow> Inr y)"

definition store ::
  "'o option \<Rightarrow> 'o \<Rightarrow> cluster \<Rightarrow> cluster \<Rightarrow> (go_error + 'o) \<times> cluster" where
  "store old x c' c = (if old = None then (Inr x, c') else (Inl (APIError ''already exists''), c))"

definition replace ::
  "'o option \<Rightarrow> ('o \<Rightarrow> 'o) \<Rightarrow> ('o \<Rightarrow> cluster) \<Rightarrow> cluster \<Rightarrow> (go_error + 'o) \<times> cluster" where
  "replace old f put c = (case old of None \<Rightarrow> (Inl NotFound, c) | Some x \<Rightarrow> (Inr (f x), put (f x)))"

definition serverK :: "cluster kube" where
  "serverK = sampleK\<lparr>
     k_Get_PVCBackup := \<lambda>nn c. (found (cl_backups c nn), c),
     k_Get_PVCRestore := \<lambda>nn c. (found (cl_restores c nn), c),
     k_Get_PVC := \<lambda>nn c. (found (cl_claims c nn), c),
     k_Get_VolumeSnapshot := \<lambda>nn c. (found (cl_snapshots c nn), c),
     k_Get_Job := \<lambda>nn c. (found (cl_jobs c nn), c),
     k_Create_VolumeSnapshot := \<lambda>x c. let nn = object_key (vs_meta x); x' = x\<lparr>vs_status := None\<rparr> in
       store (cl_snapshots c nn) x' (cl_snapshots_update (\<lambda>m. m(nn \<mapsto> x')) c) c,
     k_Create_PVC := \<lambda>x c. let nn = object_key (pvc_meta x) in
       store (cl_claims c nn) x (cl_claims_update (\<lambda>m. m(nn \<mapsto> x)) c) c,
     k_Create_Job := \<lambda>x c. let nn = object_key (job_meta x); x' = x\<lparr>job_status := \<lparr>CompletionTime = None\<rparr>\<rparr> in
       store (cl_jobs c nn) x' (cl_jobs_update (\<lambda>m. m(nn \<mapsto> x')) c) c,
     k_Status_Update_PVCBackup := \<lambda>x c. let nn = object_key (backup_meta x) in
       replace (cl_backups c nn) (\<lambda>old. old\<lparr>backup_status := wire_backup_status (backup_status x)\<rparr>)
         (\<lambda>y. cl_backups_update (\<lambda>m. m(nn \<mapsto> y)) c) c,
     k_Status_Update_PVCRestore := \<lambda>x c. let nn = object_key (restore_meta x) in
       replace (cl_restores c nn) (\<lambda>old. old\<lparr>restore_status := wire_restore_status (restore_status x)\<rparr>)
         (\<lambda>y. cl_restores_update (\<lambda>m. m(nn \<mapsto> y)) c) c,
     k_Update_PVC := \<lambda>x c. let nn = object_key (pvc_meta x) in
       replace (cl_claims c nn) (\<lambda>old. x) (\<lambda>y. cl_claims_update (\<lambda>m. m(nn \<mapsto> y)) c) c,
     k_Delete := \<lambda>kd nn _ c. (case kd of
         KPVCBackup \<Rightarrow> (if cl_backups c nn = None then Some NotFound else None, cl_backups_update (\<lambda>m. m(nn := None)) c)
       | KVolumeSnapshot \<Rightarrow> (if cl_snapshots c nn = None then Some NotFound else None, cl_snapshots_update (\<lambda>m. m(nn := None)) c)
       | KPersistentVolumeClaim \<Rightarrow> (if cl_claims c nn = None then Some NotFound else None, cl_claims_update (\<lambda>m. m(nn := None)) c)
       | KJob \<Rightarrow> (if cl_jobs c nn = None then Some NotFound else None, cl_jobs_update (\<lambda>m. m(nn := None)) c)
       | _ \<Rightarrow> (Some NotFound, c))\<rparr>"

lemma sampleK_owners: "sets_owners sampleK"
  by (auto simp: sets_owners_def sampleK_def)

lemma sampleK_poll: "poll_immediate sampleK"
  by (auto simp: poll_immediate_def sampleK_def split: prod.split)

lemma serverK_serves: "serves serverK (\<lambda>c. c)"
proof -
  have "keeps_time (\<lambda>c. c) serverK" by (simp add: keeps_time_def serverK_def sample_time_def Second_def)
  moreover have "sets_owners serverK" using sampleK_owners by (simp add: sets_owners_def serverK_def)
  moreover have "poll_immediate serverK" using sampleK_poll by (simp add: poll_immediate_def serverK_def)
  ultimately show ?thesis
    unfolding serves_def
    by (simp add: serverK_def reads_def creates_def updates_def deletes_def found_def store_def replace_def Let_def
        admitted_snapshot_def admitted_claim_def admitted_job_def admitted_meta_def split: option.split)
qed

definition empty_cluster :: cluster where
  "empty_cluster = \<lparr>cl_backups = Map.empty, cl_restores = Map.empty, cl_claims = Map.empty,
     cl_snapshots = Map.empty, cl_jobs = Map.empty\<rparr>"

text \<open>A cluster with the sample claim and a new backup of it.\<close>

definition new_cluster :: cluster where
  "new_cluster = empty_cluster\<lparr>cl_backups := [sample_key \<mapsto> sample_backup],
     cl_claims := [\<lparr>nn_Namespace = ''app'', nn_Name = ''data''\<rparr> \<mapsto> sample_pvc]\<rparr>"

text \<open>Others at work: the snapshot becomes ready, the job completes.\<close>

definition workers :: "cluster \<Rightarrow> cluster" where
  "workers c = c
     \<lparr>cl_snapshots := (\<lambda>nn. map_option (\<lambda>sn. sn\<lparr>vs_status := Some \<lparr>ReadyToUse = Some True, RestoreSize = Some ''1Gi''\<rparr>\<rparr>) (cl_snapshots c nn)),
      cl_jobs := (\<lambda>nn. map_option (\<lambda>job. job\<lparr>job_status := \<lparr>CompletionTime = Some sample_time\<rparr>\<rparr>) (cl_jobs c nn))\<rparr>"

end
