(* ===== verification/Lifecycle_Theorems.thy ===== *)
theory Lifecycle_Theorems
  imports Backup_Theorems Restore_Theorems Backup_Lifecycle Restore_Retry Fair_Queue Sample_Server
begin

text \<open>
  The properties about the lives of backups and restores on an API server that works: each
  reconciliation refines a step of the abstract state machine of stages, and with the help of
  the snapshot and the job controller both come to their end.
\<close>

section \<open>Backups\<close>

text \<open>
  C4: On an API server that works, a reconciliation of an unfinished backup that gets a slot is
  one step of the abstract life of a backup: no snapshot yet, snapshot being made, snapshot ready,
  being copied, copied, done. It returns without an error, changes only the objects under the name
  of the backup, keeps the backup workable, and holds the slot exactly until the backup is done.
\<close>

theorem backup_refines_stages:
  assumes "serves K v" and "workable req (v (world s))" and "cl_backups (v (world s)) req = Some b"
    and "stage_of req (v (world s)) \<noteq> Done" and "br_watches r (nn_Namespace req)"
    and "CurrentRunningBackups s = Some R" and "admit (MaxRunningBackups r) (backupQualifiedName b) R \<noteq> None"
    and "run_state (PVCBackupReconciler_Reconcile K r req) s = (out, t)"
  shows "stage_of req (v (world t)) = next_stage (stage_of req (v (world s))) \<and>
    out = Returned (if stage_of req (v (world s)) = Copied then requeueAfter 0 else emptyResult) None \<and>
    frame req (v (world s)) (v (world t)) \<and> workable req (v (world t)) \<and>
    CurrentRunningBackups t = Some (if stage_of req (v (world s)) = Copied
      then R |-| {|backupQualifiedName b|} else finsert (backupQualifiedName b) R)"
proof -
  have "awp v (PVCBackupReconciler_Reconcile K r req) (advanced req b (v (world s)) R) (v (world s)) (CurrentRunningBackups s)"
    using awp_Reconcile_advances [OF assms(1-5,7)] assms(6) by simp
  from awp_run [OF this assms(8)] show ?thesis by (simp add: advanced_def)
qed

lemma new_cluster_ready:
  "workable sample_key new_cluster" "cl_backups new_cluster sample_key = Some sample_backup"
  "stage_of sample_key new_cluster = New" "br_watches sample_reconciler (nn_Namespace sample_key)"
  "admit (MaxRunningBackups sample_reconciler) (backupQualifiedName sample_backup) {||} \<noteq> None"
  by (auto simp: workable_def stage_of_def new_cluster_def empty_cluster_def sample_reconciler_def br_watches_def
      sample_defs object_key_def admit_def fcard_fempty)

theorem backup_refines_stages_witness:
  "\<exists>out t. run_state (PVCBackupReconciler_Reconcile serverK sample_reconciler sample_key)
      (sample_sys new_cluster []) = (out, t) \<and> stage_of sample_key (world t) = Snapshotting"
proof -
  let ?s = "sample_sys new_cluster []"
  obtain out t where run: "run_state (PVCBackupReconciler_Reconcile serverK sample_reconciler sample_key) ?s = (out, t)" by fastforce
  have w: "world ?s = new_cluster" "CurrentRunningBackups ?s = Some {||}" by (simp_all add: sample_sys_def)
  with backup_refines_stages [OF serverK_serves, of sample_key ?s sample_backup sample_reconciler "{||}" out t] new_cluster_ready run
  show ?thesis by auto
qed

text \<open>
  C6: A backup terminates: with a working API server and others that make its snapshot ready and
  complete its job, an unfinished backup that gets a slot is \<open>Succeeded\<close> after at most three
  reconciliations (fewer from the later stages), and then its slot is free again.
\<close>

theorem backup_terminates:
  assumes "serves K v" and "br_watches r (nn_Namespace req)" and "helpful v req others"
    and "workable req (v (world s))" and "cl_backups (v (world s)) req = Some b"
    and "stage_of req (v (world s)) \<noteq> Done" and "CurrentRunningBackups s = Some R"
    and "admit (MaxRunningBackups r) (backupQualifiedName b) R \<noteq> None"
  shows "\<exists>n \<le> rounds_left (stage_of req (v (world s))). \<exists>b'.
    let t = (round (PVCBackupReconciler_Reconcile K r req) others ^^ n) s in
      stage_of req (v (world t)) = Done \<and> cl_backups (v (world t)) req = Some b' \<and> same_backup b b' \<and>
      Result (backup_status b') = Some ''Succeeded'' \<and> CurrentRunningBackups t = Some (R |-| {|backupQualifiedName b|})"
proof -
  have "backup_running K v r req others b R s" using assms by (auto simp: backup_running_def same_backup_def)
  from backup_rounds.ends [OF this] show ?thesis unfolding backup_ended_def Let_def by blast
qed

lemma workers_helpful: "helpful (\<lambda>c. c) req workers"
  by (auto simp: helpful_def workers_def snapshotReady_def snapshotSize_def jobCompleted_def sample_time_def Second_def)

theorem backup_terminates_witness:
  "\<exists>n\<le>3. \<exists>b'. let t = (round (PVCBackupReconciler_Reconcile serverK sample_reconciler sample_key) workers ^^ n) (sample_sys new_cluster []) in
     cl_backups (world t) sample_key = Some b' \<and> Result (backup_status b') = Some ''Succeeded'' \<and>
     CurrentRunningBackups t = Some {||}"
proof -
  let ?s = "sample_sys new_cluster []"
  have w: "world ?s = new_cluster" "CurrentRunningBackups ?s = Some {||}" by (simp_all add: sample_sys_def)
  with backup_terminates [OF serverK_serves _ workers_helpful, of sample_reconciler sample_key ?s sample_backup "{||}"] new_cluster_ready
  show ?thesis by (auto simp: Let_def)
qed

text \<open>
  C15: The reconciliation after that cleans up: while the TTL of a finished backup has not passed,
  the snapshot, the temporary claim and the job are gone from the API server afterwards, whether
  or not they were there before, nothing else has changed, and the reconciliation is repeated
  when the TTL passes.
\<close>

theorem finished_backup_cleaned:
  assumes "serves K v" and "cl_backups (v (world s)) req = Some b" and "object_key (backup_meta b) = req"
    and "FinishedAt (backup_status b) = Some finishedAt" and "finishedAt \<noteq> 0"
    and "Result (backup_status b) = Some ''Succeeded''"
    and "br_watches r (nn_Namespace req)" and "br_Clock r = Some (k_time_Now K)"
    and "\<And>w. fst (k_time_Now K w) < finishedAt + TTL (backup_spec b)"
    and "CurrentRunningBackups s = Some R"
    and "run_state (PVCBackupReconciler_Reconcile K r req) s = (out, t)"
  shows "v (world t) = cleaned req (v (world s)) \<and> CurrentRunningBackups t = Some R \<and>
    (\<exists>w. out = Returned (requeueAfter (Time_Sub (finishedAt + TTL (backup_spec b)) (fst (k_time_Now K w)))) None)"
proof -
  let ?Q = "\<lambda>out c' R'. c' = cleaned req (v (world s)) \<and> R' = Some R \<and>
    (\<exists>w. out = Returned (requeueAfter (Time_Sub (finishedAt + TTL (backup_spec b)) (fst (k_time_Now K w)))) None)"
  have pos: "\<not> Time_Sub (finishedAt + TTL (backup_spec b)) (fst (k_time_Now K w)) \<le> 0" for w
    using assms(9) [of w] by (auto simp: Time_Sub_def minDuration_def maxDuration_def)
  have "awp v (reconcile_finished K r b) ?Q (v (world s)) (Some R)"
    unfolding reconcile_finished_def using assms(4,6)
    by (auto intro!: awp_bind awp_r_Now [OF assms(1,8)] awp_cleanup [OF assms(1,3)] simp: Time_Add_def Let_def pos)
  then have "awp v (reconcile_request K r req) ?Q (v (world s)) (Some R)"
    unfolding reconcile_request_def using assms(2,4,5,7)
    by (auto simp: br_watches_def intro!: awp_bind awp_Get_PVCBackup [OF assms(1)])
  then have "awp v (PVCBackupReconciler_Reconcile K r req) ?Q (v (world s)) (CurrentRunningBackups s)"
    unfolding PVCBackupReconciler_Reconcile_def assms(10) by (auto intro!: awp_get_state)
  from awp_run [OF this assms(11)] show ?thesis .
qed

theorem finished_backup_cleaned_witness:
  "\<exists>out t. run_state (PVCBackupReconciler_Reconcile serverK (sample_reconciler\<lparr>br_Clock := Some (k_time_Now serverK)\<rparr>) sample_key)
      (sample_sys (new_cluster\<lparr>cl_backups := [sample_key \<mapsto> finished_at sample_time], cl_snapshots := [sample_key \<mapsto> ready_snapshot]\<rparr>) []) = (out, t) \<and>
    cl_snapshots (world t) sample_key = None"
proof -
  let ?r = "sample_reconciler\<lparr>br_Clock := Some (k_time_Now serverK)\<rparr>"
  let ?c = "new_cluster\<lparr>cl_backups := [sample_key \<mapsto> finished_at sample_time], cl_snapshots := [sample_key \<mapsto> ready_snapshot]\<rparr>"
  let ?s = "sample_sys ?c []"
  obtain out t where run: "run_state (PVCBackupReconciler_Reconcile serverK ?r sample_key) ?s = (out, t)" by fastforce
  have w: "world ?s = ?c" "CurrentRunningBackups ?s = Some {||}" by (simp_all add: sample_sys_def)
  have "world t = cleaned sample_key (world ?s) \<and> CurrentRunningBackups t = Some {||} \<and>
    (\<exists>w. out = Returned (requeueAfter (Time_Sub (sample_time + TTL (backup_spec (finished_at sample_time))) (fst (k_time_Now serverK w)))) None)"
    by (rule finished_backup_cleaned [OF serverK_serves _ _ _ _ _ _ _ _ _ run])
       (simp_all add: sample_defs new_cluster_def serverK_def object_key_def sample_reconciler_def br_watches_def sample_time_def time_consts)
  with run w show ?thesis by (simp add: cleaned_def)
qed

text \<open>
  C7: No backup starves: when many backups compete for the slots on a working API server, others
  make their snapshots ready and complete their jobs, and the reconciliations come in any order in
  which every backup gets its turn again and again, then at some time all backups are finished and
  all slots are free, and it stays so. This holds for every maximum of running backups, and
  although the reconciliations of finished backups delete what the backups leave behind.
\<close>

theorem no_backup_starves:
  assumes "queue_setting K v r Q others" and "queued Q (v (world s)) R" and "CurrentRunningBackups s = Some R"
    and "fair Q sched"
  shows "\<exists>n. \<forall>m\<ge>n. let t = run_schedule (backup_round K r others) sched s m in
    (\<forall>req\<in>Q. stage_of req (v (world t)) = Done) \<and> CurrentRunningBackups t = Some {||}"
proof -
  let ?t = "run_schedule (backup_round K r others) sched s"
  have inv: "queue_inv K v r Q others s" using assms(1-3) by (auto simp: queue_inv_def)
  from backup_queue.all_end [OF inv assms(4)] obtain n where
    "\<And>m req. n \<le> m \<Longrightarrow> req \<in> Q \<Longrightarrow> stage_of req (v (world (?t m))) = Done" by (auto simp: rounds_left_0)
  moreover have "CurrentRunningBackups (?t m) = Some {||}" if "\<forall>req\<in>Q. stage_of req (v (world (?t m))) = Done" for m
  proof -
    from backup_queue.inv_run [OF inv assms(4), of m] obtain R' where
      R': "CurrentRunningBackups (?t m) = Some R'" "queued Q (v (world (?t m))) R'" by (auto simp: queue_inv_def)
    from R'(2) that have "fset R' = {}" by (auto simp: queued_def)
    with R'(1) show ?thesis by (metis bot_fset.rep_eq fset_inject)
  qed
  ultimately show ?thesis unfolding Let_def by blast
qed

definition other_key :: NamespacedName where
  "other_key = \<lparr>nn_Namespace = ''app'', nn_Name = ''data-backup-2''\<rparr>"

definition two_backups :: cluster where
  "two_backups = new_cluster\<lparr>cl_backups := [sample_key \<mapsto> sample_backup,
     other_key \<mapsto> sample_backup\<lparr>backup_meta := emptyMeta\<lparr>Namespace := ''app'', Name := ''data-backup-2''\<rparr>\<rparr>]\<rparr>"

theorem no_backup_starves_witness:
  "\<exists>n. let t = run_schedule (backup_round serverK (sample_reconciler\<lparr>br_Clock := Some (k_time_Now serverK)\<rparr>) workers)
      (\<lambda>n. if even n then sample_key else other_key) (sample_sys two_backups []) n in
    stage_of sample_key (world t) = Done \<and> stage_of other_key (world t) = Done \<and> CurrentRunningBackups t = Some {||}"
proof -
  let ?r = "sample_reconciler\<lparr>br_Clock := Some (k_time_Now serverK)\<rparr>" and ?Q = "{sample_key, other_key}"
    and ?sched = "\<lambda>n::nat. if even n then sample_key else other_key" and ?s = "sample_sys two_backups []"
  have set: "queue_setting serverK (\<lambda>c. c) ?r ?Q workers"
    using serverK_serves workers_helpful
    by (auto simp: queue_setting_def lists_quietly_def serverK_def sample_key_def other_key_def br_watches_def sample_reconciler_def)
  have queue: "queued ?Q (world ?s) {||}"
    by (auto simp: queued_def two_backups_def new_cluster_def empty_cluster_def sample_sys_def sample_backup_def sample_key_def
        other_key_def object_key_def emptyMeta_def emptyBackupSpec_def workable_def)
  have fair: "fair ?Q ?sched"
    unfolding fair_def
  proof (intro conjI ballI allI)
    fix j n assume "j \<in> ?Q"
    then show "\<exists>m\<ge>n. ?sched m = j"
      by (cases "j = sample_key") (auto intro: exI [of _ "2 * n"] exI [of _ "Suc (2 * n)"])
  qed auto
  have slots: "CurrentRunningBackups ?s = Some {||}" by (simp add: sample_sys_def)
  from no_backup_starves [OF set queue slots fair] show ?thesis by (fastforce simp: Let_def)
qed

section \<open>Restores\<close>

text \<open>
  C10: On an API server that works, a reconciliation of an unfinished restore is one step of its
  abstract life: requested, being restored, restored, closed. A request gets its marked claim and
  its job in one step, a restore whose job has completed is closed as \<open>Succeeded\<close> with the
  mark taken off its claim, and no object but the restore, its job and its claim is changed.
\<close>

theorem restore_refines_stages:
  assumes "serves K v" and "restorable req (v (world s))" and "cl_restores (v (world s)) req = Some x"
    and "restore_stage_of req (v (world s)) \<noteq> Closed" and "rr_watches r (nn_Namespace req)"
    and "run_state (PVCRestoreReconciler_Reconcile K r req) s = (out, t)"
  shows "restore_stage_of req (v (world t)) = next_restore_stage (restore_stage_of req (v (world s))) \<and>
    out = no_requeue \<and> restore_frame req (target_key req x) (v (world s)) (v (world t)) \<and>
    (\<exists>y. cl_restores (v (world t)) req = Some y \<and> same_restore x y \<and>
       (if restore_stage_of req (v (world s)) = Restored
        then restore_Result (restore_status y) = Some ''Succeeded'' \<and>
          (\<exists>pvc. cl_claims (v (world s)) (target_key req x) = Some pvc \<and> cl_claims (v (world t)) (target_key req x) = Some (unmark pvc))
        else restorable req (v (world t))))"
  using awp_run [OF awp_Restore_Reconcile_advances [OF assms(1-5)] assms(6)] by (auto simp: restore_advanced_def)

definition restore_cluster :: cluster where
  "restore_cluster = empty_cluster\<lparr>cl_restores := [restore_key \<mapsto> sample_restore]\<rparr>"

lemma restore_cluster_ready:
  "restorable restore_key restore_cluster" "cl_restores restore_cluster restore_key = Some sample_restore"
  "restore_stage_of restore_key restore_cluster = Requested" "rr_watches sample_restorer (nn_Namespace restore_key)"
  by (simp_all add: restorable_def restore_stage_of_def restore_cluster_def empty_cluster_def sample_restore_def restore_key_def
      sample_restorer_def rr_watches_def sample_defs object_key_def targetPvcName_def)

theorem restore_refines_stages_witness:
  "\<exists>out t. run_state (PVCRestoreReconciler_Reconcile serverK sample_restorer restore_key)
      (sample_sys restore_cluster []) = (out, t) \<and> restore_stage_of restore_key (world t) = Restoring"
proof -
  let ?s = "sample_sys restore_cluster []"
  obtain out t where run: "run_state (PVCRestoreReconciler_Reconcile serverK sample_restorer restore_key) ?s = (out, t)" by fastforce
  have w: "world ?s = restore_cluster" by (simp add: sample_sys_def)
  with restore_refines_stages [OF serverK_serves, of restore_key ?s sample_restore sample_restorer out t] restore_cluster_ready run
  show ?thesis by auto
qed

text \<open>
  C11: A restore terminates: with a working API server and others that complete its job, an
  unfinished restore that can be worked on is \<open>Succeeded\<close> after at most two
  reconciliations, and its claim is there without the mark.
\<close>

theorem restore_terminates:
  assumes "serves K v" and "restorable req (v (world s))" and "cl_restores (v (world s)) req = Some x"
    and "restore_stage_of req (v (world s)) \<noteq> Closed" and "rr_watches r (nn_Namespace req)" and "helpful_restore v req others"
  shows "\<exists>n \<le> restore_rounds_left (restore_stage_of req (v (world s))). \<exists>y pvc.
    let t = (round (PVCRestoreReconciler_Reconcile K r req) others ^^ n) s in
      cl_restores (v (world t)) req = Some y \<and> same_restore x y \<and> restore_Result (restore_status y) = Some ''Succeeded'' \<and>
      cl_claims (v (world t)) (target_key req x) = Some (unmark pvc)"
proof -
  have "restore_running K v r req others x s" using assms by (auto simp: restore_running_def same_restore_def)
  from restore_rounds.ends [OF this] show ?thesis unfolding restore_ended_def Let_def by blast
qed

lemma workers_helpful_restore: "helpful_restore (\<lambda>c. c) req workers"
  by (auto simp: helpful_restore_def workers_def restoreJobCompleted_def sample_time_def Second_def split: option.split)

theorem restore_terminates_witness:
  "\<exists>n\<le>2. \<exists>y. cl_restores (world ((round (PVCRestoreReconciler_Reconcile serverK sample_restorer restore_key) workers ^^ n)
      (sample_sys restore_cluster []))) restore_key = Some y \<and> restore_Result (restore_status y) = Some ''Succeeded''"
proof -
  let ?s = "sample_sys restore_cluster []"
  have w: "world ?s = restore_cluster" by (simp add: sample_sys_def)
  with restore_terminates [OF serverK_serves _ _ _ _ workers_helpful_restore, of restore_key ?s sample_restore sample_restorer] restore_cluster_ready
  show ?thesis by (auto simp: Let_def)
qed

section \<open>A refused report\<close>

text \<open>
  C40: When the last status update of a restore whose job has completed is refused, no retry that
  finds the restore and the claim as the attempt has left them (whatever else has changed) can
  report \<open>Succeeded\<close>: the attempt has taken the mark off the claim, so the retry takes it for
  one that existed before. It reports \<open>Failed\<close>, or is refused again and changes nothing.
\<close>

theorem restore_retry_fails:
  assumes "may_refuse_status K v" and "restorable req (v (world s))" and "cl_restores (v (world s)) req = Some x"
    and "restore_stage_of req (v (world s)) = Restored" and "restore_StartedAt (restore_status x) \<noteq> None"
    and "rr_watches r (nn_Namespace req)"
    and "run_state (PVCRestoreReconciler_Reconcile K r req) s = (failed err, t)"
    and "cl_restores (v w) req = cl_restores (v (world t)) req"
    and "cl_claims (v w) (target_key req x) = cl_claims (v (world t)) (target_key req x)"
    and "run_state (PVCRestoreReconciler_Reconcile K r req) (t\<lparr>world := w\<rparr>) = (out, u)"
  shows "cl_restores (v (world t)) req = Some x \<and>
    (\<exists>pvc. cl_claims (v (world s)) (target_key req x) = Some pvc \<and>
       cl_claims (v (world t)) (target_key req x) = Some (unmark pvc)) \<and>
    ((\<exists>err'. out = failed err' \<and> v (world u) = v w) \<or>
     out = no_requeue \<and> (\<exists>y. cl_restores (v (world u)) req = Some y \<and> same_restore x y \<and>
       restore_Result (restore_status y) = Some ''Failed'' \<and> \<not> Time_IsZero (restore_FinishedAt (restore_status y))))"
proof -
  from awp_run [OF awp_attempt [OF assms(1-6)] assms(7)] obtain pvc where
    pvc: "cl_claims (v (world s)) (target_key req x) = Some pvc"
      "v (world t) = cl_claims_update (\<lambda>m. m(target_key req x \<mapsto> unmark pvc)) (v (world s))" by blast
  with assms(3) have left: "cl_restores (v (world t)) req = Some x" "cl_claims (v (world t)) (target_key req x) = Some (unmark pvc)"
    by simp_all
  from assms(2-4) have x: "object_key (restore_meta x) = req" "targetPvcName x \<noteq> []" "Time_IsZero (restore_FinishedAt (restore_status x))"
    by (auto simp: restorable_def restore_stage_of_def split: if_splits)
  from left assms(8,9) have "cl_restores (v w) req = Some x" "cl_claims (v w) (target_key req x) = Some (unmark pvc)" by simp_all
  from awp_retry [OF assms(1) this(1) x assms(5) this(2) unmark_not_marked assms(6)]
  have "awp v (PVCRestoreReconciler_Reconcile K r req) (\<lambda>out c' _. (\<exists>err. out = failed err \<and> c' = v w) \<or>
      out = no_requeue \<and> (\<exists>y. finished_restore x ''Failed'' y \<and> c' = cl_restores_update (\<lambda>m. m(req \<mapsto> y)) (v w)))
      (v (world (t\<lparr>world := w\<rparr>))) (CurrentRunningBackups (t\<lparr>world := w\<rparr>))" by simp
  from awp_run [OF this assms(10)]
  have "(\<exists>err'. out = failed err' \<and> v (world u) = v w) \<or> out = no_requeue \<and>
      (\<exists>y. finished_restore x ''Failed'' y \<and> v (world u) = cl_restores_update (\<lambda>m. m(req \<mapsto> y)) (v w))" .
  with left pvc(1) show ?thesis by (auto simp: finished_restore_def)
qed

text \<open>The server of the samples, made to refuse the next status update of a restore if its flag is set.\<close>

definition flaky_K :: "(cluster \<times> bool) kube" where
  "flaky_K = sampleK
     \<lparr>k_Get_PVCRestore := \<lambda>nn w. (found (cl_restores (fst w) nn), w),
      k_Get_PVC := \<lambda>nn w. (found (cl_claims (fst w) nn), w),
      k_Get_Job := \<lambda>nn w. (found (cl_jobs (fst w) nn), w),
      k_Update_PVC := \<lambda>x w. map_prod id (\<lambda>c. (c, snd w)) (k_Update_PVC serverK x (fst w)),
      k_Status_Update_PVCRestore := \<lambda>x w.
        if snd w then (Inl (APIError ''conflict''), (fst w, False))
        else map_prod id (\<lambda>c. (c, snd w)) (k_Status_Update_PVCRestore serverK x (fst w))\<rparr>"

lemma flaky_K_simps [simp]:
  "k_Get_PVCRestore flaky_K = (\<lambda>nn w. (found (cl_restores (fst w) nn), w))"
  "k_Get_PVC flaky_K = (\<lambda>nn w. (found (cl_claims (fst w) nn), w))"
  "k_Get_Job flaky_K = (\<lambda>nn w. (found (cl_jobs (fst w) nn), w))"
  "k_time_Now flaky_K = (\<lambda>w. (sample_time, w))"
  "cl_claims c (object_key (pvc_meta x)) = Some old \<Longrightarrow>
     k_Update_PVC flaky_K x (c, f) = (Inr x, (cl_claims_update (\<lambda>m. m(object_key (pvc_meta x) \<mapsto> x)) c, f))"
  "k_Status_Update_PVCRestore flaky_K y (c, True) = (Inl (APIError ''conflict''), (c, False))"
  "cl_restores c (object_key (restore_meta y)) = Some old' \<Longrightarrow>
     k_Status_Update_PVCRestore flaky_K y (c, False) = (Inr (old'\<lparr>restore_status := wire_restore_status (restore_status y)\<rparr>),
       (cl_restores_update (\<lambda>m. m(object_key (restore_meta y) \<mapsto>
          old'\<lparr>restore_status := wire_restore_status (restore_status y)\<rparr>)) c, False))"
  by (simp_all add: flaky_K_def serverK_def replace_def Let_def)

lemma flaky_K_may_refuse: "may_refuse_status flaky_K fst"
proof -
  have "reads fst (k_Get_PVCRestore flaky_K) cl_restores" "reads fst (k_Get_PVC flaky_K) cl_claims" "reads fst (k_Get_Job flaky_K) cl_jobs"
    by (simp_all add: reads_def found_def)
  moreover have "updates fst (k_Update_PVC flaky_K) (object_key \<circ> pvc_meta) (\<lambda>x old. x) cl_claims cl_claims_update"
    by (simp add: updates_def)
  moreover have "updates_or_refuses fst (k_Status_Update_PVCRestore flaky_K) (object_key \<circ> restore_meta)
      (\<lambda>x old. old\<lparr>restore_status := wire_restore_status (restore_status x)\<rparr>) cl_restores cl_restores_update"
    unfolding updates_or_refuses_def split_paired_All fst_conv comp_def all_bool_eq by simp
  moreover have "keeps_time fst flaky_K"
    by (simp add: keeps_time_def flaky_K_def sample_time_def Second_def)
  ultimately show ?thesis by (simp add: may_refuse_status_def)
qed

definition restored_cluster :: cluster where
  "restored_cluster = empty_cluster\<lparr>cl_restores := [restore_key \<mapsto> started_restore],
     cl_claims := [\<lparr>nn_Namespace = ''app'', nn_Name = ''copy''\<rparr> \<mapsto> marked_pvc],
     cl_jobs := [restore_key \<mapsto> completed_restore_job]\<rparr>"

lemma restored_cluster_ready:
  "restorable restore_key restored_cluster" "cl_restores restored_cluster restore_key = Some started_restore"
  "restore_stage_of restore_key restored_cluster = Restored"
  by (simp_all add: restorable_def restore_stage_of_def restored_cluster_def empty_cluster_def restore_samples target_key_def
      targetPvcName_def object_key_def markedBy_def restoreJobCompleted_def)

theorem restore_retry_fails_witness:
  "\<exists>t u y. run_state (PVCRestoreReconciler_Reconcile flaky_K sample_restorer restore_key) (sample_sys (restored_cluster, True) [])
       = (failed (APIError ''conflict''), t) \<and>
     run_state (PVCRestoreReconciler_Reconcile flaky_K sample_restorer restore_key) t = (no_requeue, u) \<and>
     cl_restores (fst (world u)) restore_key = Some y \<and> restore_Result (restore_status y) = Some ''Failed''"
proof -
  let ?run = "run_state (PVCRestoreReconciler_Reconcile flaky_K sample_restorer restore_key)"
  let ?s = "sample_sys (restored_cluster, True) []"
  let ?claim = "\<lparr>nn_Namespace = ''app'', nn_Name = ''copy''\<rparr>"
  have keys: "object_key (pvc_meta marked_pvc) = ?claim" "object_key (restore_meta started_restore) = restore_key"
    "nn_Namespace restore_key = ''app''" "targetPvcName started_restore = ''copy''"
    by (simp_all add: restore_samples object_key_def targetPvcName_def)
  have stored: "cl_claims restored_cluster ?claim = Some marked_pvc" "cl_jobs restored_cluster restore_key = Some completed_restore_job"
    "cl_restores restored_cluster restore_key = Some started_restore"
    by (simp_all add: restored_cluster_def)
  have marks: "markedBy started_restore (pvc_meta marked_pvc)" "markedBy started_restore (job_meta completed_restore_job)"
    "restoreJobCompleted completed_restore_job"
    by (simp_all add: markedBy_def restore_samples restoreJobCompleted_def)
  obtain z z' where z: "setRestoreFinished sample_time started_restore ''Succeeded'' = Some z" "object_key (restore_meta z) = restore_key"
    and z': "setRestoreFinished sample_time started_restore ''Failed'' = Some z'" "object_key (restore_meta z') = restore_key"
    using keys(2) by (simp add: setRestoreFinished_def started_restore_def)
  have begun: "restore_StartedAt (restore_status started_restore) = Some (sample_time - Minute)" "Time_IsZero (restore_FinishedAt (restore_status started_restore))"
    "nn_Namespace restore_key \<notin> set (rr_ExcludeNamespaces sample_restorer)" "[] \<in> set (rr_Namespaces sample_restorer)"
    by (simp_all add: restore_samples)
  note eval = restore_defs run_call or_return_def Let_def found_def
  have "fst (?run ?s) = failed (APIError ''conflict'') \<and>
      world (snd (?run ?s)) = (cl_claims_update (\<lambda>m. m(?claim \<mapsto> unmark marked_pvc)) restored_cluster, False)"
    using keys stored marks z begun by (simp add: eval sample_sys_def)
  moreover from this have "fst (?run (snd (?run ?s))) = no_requeue"
    using keys stored z' begun unmark_not_marked [of started_restore marked_pvc]
    by (simp add: eval)
  ultimately have first: "?run ?s = (failed (APIError ''conflict''), snd (?run ?s))"
    and second: "?run ((snd (?run ?s))\<lparr>world := world (snd (?run ?s))\<rparr>) = (no_requeue, snd (?run (snd (?run ?s))))"
    by (simp_all add: prod_eq_iff)
  have "world ?s = (restored_cluster, True)" "restore_StartedAt (restore_status started_restore) \<noteq> None"
    "rr_watches sample_restorer (nn_Namespace restore_key)"
    by (simp_all add: sample_sys_def started_restore_def restore_cluster_ready)
  with restore_retry_fails [OF flaky_K_may_refuse _ _ _ _ _ first refl refl second] restored_cluster_ready
  show ?thesis using first second by fastforce
qed

end
