(* ===== verification/Schedule_Lifecycle.thy ===== *)
theory Schedule_Lifecycle
  imports Backup_Lifecycle Automatic_Props
begin

text \<open>
  The automatic creator and the backup controller together. On an API server that works, what the
  creator puts there for a claim that is due is a backup in its first stage, which the lists for
  the claim find from then on: the start of the life that \<open>Backup_Lifecycle\<close> follows to its end.
\<close>

section \<open>Further laws of the API server\<close>

text \<open>The status of a new backup is empty, whatever was sent (it is a subresource).\<close>

definition admitted_backup :: "PVCBackup \<Rightarrow> PVCBackup \<Rightarrow> bool" where
  "admitted_backup x x' \<longleftrightarrow> admitted_meta (backup_meta x) (backup_meta x') \<and> backup_spec x' = backup_spec x \<and>
     backup_status x' = emptyBackupStatus"

text \<open>The backups a list is to find: by namespace, and by the index of the controller.\<close>

definition selected :: "'w kube \<Rightarrow> ListOptions \<Rightarrow> PVCBackup \<Rightarrow> bool" where
  "selected K opts b \<longleftrightarrow> (opt_Namespace opts = [] \<or> Namespace (backup_meta b) = opt_Namespace opts) \<and>
     (case opt_Field opts of None \<Rightarrow> True | Some (field, x) \<Rightarrow> field = jobOwnerKey \<and> x \<in> set (indexOwner K b))"

lemma selected_meta: "backup_meta b' = backup_meta b \<Longrightarrow> selected K opts b' = selected K opts b"
  by (simp add: selected_def indexOwner_def split: option.split prod.split)

definition lists_selected :: "'w kube \<Rightarrow> ('w \<Rightarrow> cluster) \<Rightarrow> bool" where
  "lists_selected K v \<longleftrightarrow> (\<forall>opts w. v (snd (k_List_PVCBackups K opts w)) = v w \<and>
     (\<exists>l. fst (k_List_PVCBackups K opts w) = Inr l \<and> set l = {b \<in> ran (cl_backups (v w)). selected K opts b}))"

text \<open>
  The controller of an object is read from its owner references, where
  \<open>SetControllerReference\<close> puts it.
\<close>

definition controls :: "'w kube \<Rightarrow> bool" where
  "controls K \<longleftrightarrow> (\<forall>m m'. OwnerReferences m = OwnerReferences m' \<longrightarrow> k_GetControllerOf K m = k_GetControllerOf K m') \<and>
     (\<forall>owner m m'. k_SetControllerReference K KPersistentVolumeClaim owner m = Inr m' \<longrightarrow>
       (\<exists>o'. k_GetControllerOf K m' = Some o' \<and> owner_APIVersion o' = ''v1'' \<and>
         owner_Kind o' = ''PersistentVolumeClaim'' \<and> owner_Name o' = Name owner))"

definition serves_schedule :: "'w kube \<Rightarrow> ('w \<Rightarrow> cluster) \<Rightarrow> (NamespacedName \<Rightarrow> Namespace_object option) \<Rightarrow> bool" where
  "serves_schedule K v namespaces \<longleftrightarrow> serves K v \<and> reads v (k_Get_Namespace K) (\<lambda>_. namespaces) \<and> lists_selected K v \<and>
     creates v (k_Create_PVCBackup K) (object_key \<circ> backup_meta) admitted_backup cl_backups cl_backups_update \<and> controls K"

section \<open>A claim that is due\<close>

text \<open>When the newest backup of a claim in the store was created, or else the claim itself.\<close>

definition newest_seen :: "'w kube \<Rightarrow> cluster \<Rightarrow> PersistentVolumeClaim \<Rightarrow> time" where
  "newest_seen K c pvc = Max (insert (CreationTimestamp (pvc_meta pvc))
     ((\<lambda>b. CreationTimestamp (backup_meta b)) ` {b \<in> ran (cl_backups c). selected K (childBackupOptions pvc) b}))"

definition backup_key :: "NamespacedName \<Rightarrow> time \<Rightarrow> NamespacedName" where
  "backup_key req now = \<lparr>nn_Namespace = nn_Namespace req, nn_Name = backupName (nn_Name req) now\<rparr>"

text \<open>The claim of a request is in the store, and there is a schedule for it.\<close>

definition scheduled ::
  "'w kube \<Rightarrow> 'w AutomaticPVCBackupCreator \<Rightarrow> (NamespacedName \<Rightarrow> Namespace_object option) \<Rightarrow> NamespacedName \<Rightarrow>
   cluster \<Rightarrow> PersistentVolumeClaim \<Rightarrow> (time \<Rightarrow> time) \<Rightarrow> bool" where
  "scheduled K r namespaces req c pvc Next \<longleftrightarrow>
     cl_claims c req = Some pvc \<and> object_key (pvc_meta pvc) = req \<and>
     map_of (Annotations (pvc_meta pvc)) CurrentlyRestoringAnnotation = None \<and>
     (\<exists>namespace. namespaces \<lparr>nn_Namespace = nn_Namespace req, nn_Name = nn_Namespace req\<rparr> = Some namespace \<and>
       scheduleFor r namespace pvc \<noteq> [] \<and> k_cronexpr_Parse K (scheduleFor r namespace pvc) = Inr Next)"

text \<open>A backup as the creator leaves it in the store.\<close>

definition created_for :: "'w kube \<Rightarrow> NamespacedName \<Rightarrow> PersistentVolumeClaim \<Rightarrow> time \<Rightarrow> PVCBackup \<Rightarrow> bool" where
  "created_for K req pvc now b \<longleftrightarrow> object_key (backup_meta b) = backup_key req now \<and>
     backup_spec b = emptyBackupSpec\<lparr>PVCName := nn_Name req, TTL := DefaultTTL\<rparr> \<and>
     backup_status b = emptyBackupStatus \<and> selected K (childBackupOptions pvc) b"

lemma admitted_fields:
  assumes "admitted_meta m m'"
  shows "OwnerReferences m' = OwnerReferences m" and "Namespace m' = Namespace m" and "Name m' = Name m"
  using assms unfolding admitted_meta_def by (cases m; cases m'; simp)+

lemma admitted_created_for:
  assumes "controls K" and "object_key (pvc_meta pvc) = req"
    and "k_SetControllerReference K KPersistentVolumeClaim (pvc_meta pvc) (backup_meta (newPVCBackup pvc now)) = Inr meta"
    and "meta = (backup_meta (newPVCBackup pvc now))\<lparr>OwnerReferences := refs\<rparr>"
    and "admitted_backup ((newPVCBackup pvc now)\<lparr>backup_meta := meta\<rparr>) b"
  shows "created_for K req pvc now b"
proof -
  from assms(5) have m: "admitted_meta meta (backup_meta b)" by (simp add: admitted_backup_def)
  note f = admitted_fields [OF m]
  from assms(1,3) obtain o' where o': "k_GetControllerOf K meta = Some o'" "owner_APIVersion o' = ''v1''"
      "owner_Kind o' = ''PersistentVolumeClaim''" "owner_Name o' = Name (pvc_meta pvc)" unfolding controls_def by blast
  moreover have "k_GetControllerOf K (backup_meta b) = k_GetControllerOf K meta"
    using assms(1) f(1) unfolding controls_def by blast
  ultimately have "selected K (childBackupOptions pvc) b" and "object_key (backup_meta b) = backup_key req now"
    using assms(2,4) f(2,3) by (auto simp: selected_def childBackupOptions_def indexOwner_def newPVCBackup_def
        object_key_def backup_key_def)
  with assms(2,5) show ?thesis
    by (auto simp: created_for_def admitted_backup_def newPVCBackup_def object_key_def)
qed

lemma auto_reads_clock:
  assumes "k_Get_Namespace K \<lparr>nn_Namespace = nn_Namespace req, nn_Name = nn_Namespace req\<rparr> (world s) = (Inr namespace, w1)"
    and "k_Get_PVC K req w1 = (Inr pvc, w2)"
    and "map_of (Annotations (pvc_meta pvc)) CurrentlyRestoringAnnotation = None"
    and "scheduleFor r namespace pvc \<noteq> []" and "k_cronexpr_Parse K (scheduleFor r namespace pvc) = Inr Next"
    and "k_List_PVCBackups K (childBackupOptions pvc) w2 = (Inr children, w3)" and "k_time_Now K w3 = (now, w4)"
  shows "ENow now \<in> set (calls (AutomaticPVCBackupCreator_Reconcile K r req) s)"
  unfolding auto_defs calls_def
  by (simp add: run_call assms Let_def split: sum.split prod.split)

lemma auto_run_due:
  assumes "k_Get_Namespace K \<lparr>nn_Namespace = nn_Namespace req, nn_Name = nn_Namespace req\<rparr> (world s) = (Inr namespace, w1)"
    and "k_Get_PVC K req w1 = (Inr pvc, w2)"
    and "map_of (Annotations (pvc_meta pvc)) CurrentlyRestoringAnnotation = None"
    and "scheduleFor r namespace pvc \<noteq> []" and "k_cronexpr_Parse K (scheduleFor r namespace pvc) = Inr Next"
    and "k_List_PVCBackups K (childBackupOptions pvc) w2 = (Inr children, w3)"
    and "k_time_Now K w3 = (now, w4)" and "nextBackupAt Next (newestBackup pvc children) \<le> now"
    and "k_SetControllerReference K KPersistentVolumeClaim (pvc_meta pvc) (backup_meta (newPVCBackup pvc now)) = Inr meta"
    and "k_Create_PVCBackup K ((newPVCBackup pvc now)\<lparr>backup_meta := meta\<rparr>) w4 = (Inr created, w5)"
    and "k_time_Now K w5 = (later, w6)"
  shows "world (snd (run_state (AutomaticPVCBackupCreator_Reconcile K r req) s)) = w6 \<and>
    CurrentRunningBackups (snd (run_state (AutomaticPVCBackupCreator_Reconcile K r req) s)) = CurrentRunningBackups s"
  using assms by (simp add: auto_defs run_call Let_def Time_After_def)

lemma auto_creates:
  assumes "serves_schedule K v namespaces" and "scheduled K r namespaces req (v (world s)) pvc Next"
    and due: "\<And>now. ENow now \<in> set (calls (AutomaticPVCBackupCreator_Reconcile K r req) s) \<Longrightarrow>
      nextBackupAt Next (newest_seen K (v (world s)) pvc) \<le> now \<and> cl_backups (v (world s)) (backup_key req now) = None"
    and run: "run_state (AutomaticPVCBackupCreator_Reconcile K r req) s = (out, t)"
  shows "\<exists>now b. ENow now \<in> set (calls (AutomaticPVCBackupCreator_Reconcile K r req) s) \<and> created_for K req pvc now b \<and>
    v (world t) = cl_backups_update (\<lambda>m. m(backup_key req now \<mapsto> b)) (v (world s)) \<and>
    CurrentRunningBackups t = CurrentRunningBackups s"
proof -
  from assms(1) have S: "serves K v" and laws: "reads v (k_Get_Namespace K) (\<lambda>_. namespaces)" "reads v (k_Get_PVC K) cl_claims"
      "lists_selected K v" "creates v (k_Create_PVCBackup K) (object_key \<circ> backup_meta) admitted_backup cl_backups cl_backups_update"
      "controls K" by (simp_all add: serves_schedule_def serves_def)
  from assms(2) obtain namespace where sch: "cl_claims (v (world s)) req = Some pvc" "object_key (pvc_meta pvc) = req"
      "map_of (Annotations (pvc_meta pvc)) CurrentlyRestoringAnnotation = None"
      "namespaces \<lparr>nn_Namespace = nn_Namespace req, nn_Name = nn_Namespace req\<rparr> = Some namespace"
      "scheduleFor r namespace pvc \<noteq> []" "k_cronexpr_Parse K (scheduleFor r namespace pvc) = Inr Next"
    by (auto simp: scheduled_def)
  obtain w1 where g: "k_Get_Namespace K \<lparr>nn_Namespace = nn_Namespace req, nn_Name = nn_Namespace req\<rparr> (world s) = (Inr namespace, w1)" "v w1 = v (world s)"
    using laws(1) sch(4) unfolding reads_def by (metis option.simps(5) prod.collapse)
  obtain w2 where p: "k_Get_PVC K req w1 = (Inr pvc, w2)" "v w2 = v (world s)"
    using laws(2) sch(1) g(2) unfolding reads_def by (metis option.simps(5) prod.collapse)
  obtain children w3 where l: "k_List_PVCBackups K (childBackupOptions pvc) w2 = (Inr children, w3)" "v w3 = v (world s)"
      "set children = {b \<in> ran (cl_backups (v (world s))). selected K (childBackupOptions pvc) b}"
    using laws(3) p(2) unfolding lists_selected_def by (metis prod.collapse)
  then have newest: "newestBackup pvc children = newest_seen K (v (world s)) pvc"
    by (simp add: newestBackup_Max newest_seen_def)
  obtain now w4 where n: "k_time_Now K w3 = (now, w4)" "v w4 = v (world s)"
    using S l(2) unfolding serves_def keeps_time_def by (metis prod.collapse)
  have now: "ENow now \<in> set (calls (AutomaticPVCBackupCreator_Reconcile K r req) s)"
    by (rule auto_reads_clock [OF g(1) p(1) sch(3,5,6) l(1) n(1)])
  from due [OF now] have due': "nextBackupAt Next (newest_seen K (v (world s)) pvc) \<le> now"
      "cl_backups (v (world s)) (backup_key req now) = None" by simp_all
  obtain refs where meta: "k_SetControllerReference K KPersistentVolumeClaim (pvc_meta pvc) (backup_meta (newPVCBackup pvc now)) =
      Inr ((backup_meta (newPVCBackup pvc now))\<lparr>OwnerReferences := refs\<rparr>)" using owner_set [OF S] by blast
  let ?b = "(newPVCBackup pvc now)\<lparr>backup_meta := (backup_meta (newPVCBackup pvc now))\<lparr>OwnerReferences := refs\<rparr>\<rparr>"
  have key: "object_key (backup_meta ?b) = backup_key req now"
    using sch(2) by (auto simp: newPVCBackup_def object_key_def backup_key_def)
  with due'(2) have free: "cl_backups (v w4) ((object_key \<circ> backup_meta) ?b) = None" using n(2) by simp
  from laws(4) [unfolded creates_def, rule_format, OF free] obtain b where
    "fst (k_Create_PVCBackup K ?b w4) = Inr b" "admitted_backup ?b b"
      "v (snd (k_Create_PVCBackup K ?b w4)) = cl_backups_update (\<lambda>m. m((object_key \<circ> backup_meta) ?b \<mapsto> b)) (v w4)" by blast
  then obtain w5 where b: "k_Create_PVCBackup K ?b w4 = (Inr b, w5)" "admitted_backup ?b b"
      "v w5 = cl_backups_update (\<lambda>m. m(backup_key req now \<mapsto> b)) (v (world s))"
    unfolding comp_apply key n(2) by (cases "k_Create_PVCBackup K ?b w4") simp
  obtain later w6 where e: "k_time_Now K w5 = (later, w6)" "v w6 = v w5"
    using S unfolding serves_def keeps_time_def by (metis prod.collapse)
  have "world t = w6 \<and> CurrentRunningBackups t = CurrentRunningBackups s"
    using auto_run_due [OF g(1) p(1) sch(3,5,6) l(1) n(1) due'(1) [folded newest] meta b(1) e(1)] run by simp
  with now admitted_created_for [OF laws(5) sch(2) meta refl b(2)] b(3) e(2) show ?thesis by auto
qed

text \<open>
  What was created is workable and in its first stage, also after the others have done their work.
\<close>

lemma created_ready:
  assumes "created_for K req pvc now b" and "cl_backups c (backup_key req now) = Some b" and "cl_claims c req \<noteq> None"
    and "cl_snapshots c (backup_key req now) = None"
  shows "workable (backup_key req now) c \<and> stage_of (backup_key req now) c = New"
proof -
  have "\<lparr>nn_Namespace = nn_Namespace req, nn_Name = nn_Name req\<rparr> = req" by simp
  with assms(3) obtain y where "cl_claims c \<lparr>nn_Namespace = nn_Namespace req, nn_Name = nn_Name req\<rparr> = Some y" by auto
  with assms show ?thesis by (auto simp: created_for_def workable_def stage_of_def backup_key_def emptyBackupStatus_def emptyBackupSpec_def)
qed

end
