(* ===== verification/Schedule_Theorems.thy ===== *)
theory Schedule_Theorems
  imports Automatic_Theorems Lifecycle_Theorems Schedule_Lifecycle
begin

text \<open>
  The property of the operator as a whole: a claim with a schedule gets backed up.
\<close>

section \<open>A server in memory\<close>

text \<open>
  The server of \<open>Sample_Server\<close> with the backups in a list of their own, so that they can be
  listed. Operations on other objects are taken from there.
\<close>

type_synonym stored = "(NamespacedName \<times> PVCBackup) list \<times> cluster"

definition stored_view :: "stored \<Rightarrow> cluster" where
  "stored_view w = (snd w)\<lparr>cl_backups := map_of (fst w)\<rparr>"

definition on_rest :: "(cluster \<Rightarrow> 'r \<times> cluster) \<Rightarrow> stored \<Rightarrow> 'r \<times> stored" where
  "on_rest f w = (fst (f (snd w)), (fst w, snd (f (snd w))))"

definition listK :: "stored kube" where
  "listK = sampleK\<lparr>
     k_Get_Namespace := \<lambda>nn w. (if nn = \<lparr>nn_Namespace = ''app'', nn_Name = ''app''\<rparr> then Inr sample_namespace else Inl NotFound, w),
     k_Get_PVCBackup := \<lambda>nn w. (found (map_of (fst w) nn), w),
     k_Get_PVCRestore := \<lambda>nn. on_rest (k_Get_PVCRestore serverK nn),
     k_Get_PVC := \<lambda>nn. on_rest (k_Get_PVC serverK nn),
     k_Get_VolumeSnapshot := \<lambda>nn. on_rest (k_Get_VolumeSnapshot serverK nn),
     k_Get_Job := \<lambda>nn. on_rest (k_Get_Job serverK nn),
     k_List_PVCBackups := \<lambda>opts w. (Inr (filter (selected (sampleK :: unit kube) opts) (map snd (AList.clearjunk (fst w)))), w),
     k_Create_VolumeSnapshot := \<lambda>x. on_rest (k_Create_VolumeSnapshot serverK x),
     k_Create_PVC := \<lambda>x. on_rest (k_Create_PVC serverK x),
     k_Create_Job := \<lambda>x. on_rest (k_Create_Job serverK x),
     k_Create_PVCBackup := \<lambda>x w. (let nn = object_key (backup_meta x);
         x' = x\<lparr>backup_meta := (backup_meta x)\<lparr>CreationTimestamp := sample_time\<rparr>, backup_status := emptyBackupStatus\<rparr> in
       if map_of (fst w) nn = None then (Inr x', ((nn, x') # fst w, snd w)) else (Inl (APIError ''already exists''), w)),
     k_Status_Update_PVCBackup := \<lambda>x w. (let nn = object_key (backup_meta x) in
       case map_of (fst w) nn of
         None \<Rightarrow> (Inl NotFound, w)
       | Some old \<Rightarrow> let y = old\<lparr>backup_status := wire_backup_status (backup_status x)\<rparr> in (Inr y, ((nn, y) # fst w, snd w))),
     k_Status_Update_PVCRestore := \<lambda>x. on_rest (k_Status_Update_PVCRestore serverK x),
     k_Update_PVC := \<lambda>x. on_rest (k_Update_PVC serverK x),
     k_Delete := \<lambda>kd nn p w. (if kd = KPVCBackup
       then (if map_of (fst w) nn = None then Some NotFound else None, (AList.delete nn (fst w), snd w))
       else on_rest (k_Delete serverK kd nn p) w)\<rparr>"

lemma listK_serves: "serves listK stored_view"
proof -
  have "keeps_time stored_view listK" by (simp add: keeps_time_def listK_def sample_time_def Second_def)
  moreover have "sets_owners listK" using sampleK_owners by (simp add: sets_owners_def listK_def)
  moreover have "poll_immediate listK" using sampleK_poll by (simp add: poll_immediate_def listK_def)
  ultimately show ?thesis
    unfolding serves_def
    by (simp add: listK_def serverK_def on_rest_def stored_view_def reads_def creates_def updates_def deletes_def found_def store_def
        replace_def Let_def delete_conv' fun_upd_def
        admitted_snapshot_def admitted_claim_def admitted_job_def admitted_meta_def split: option.split)
qed

definition sample_namespaces :: "NamespacedName \<Rightarrow> Namespace_object option" where
  "sample_namespaces = [\<lparr>nn_Namespace = ''app'', nn_Name = ''app''\<rparr> \<mapsto> sample_namespace]"

lemma selected_listK: "selected listK = selected (sampleK :: unit kube)"
proof -
  have "k_GetControllerOf listK = k_GetControllerOf (sampleK :: unit kube)" by (simp add: listK_def)
  then show ?thesis by (simp add: fun_eq_iff selected_def indexOwner_def split: option.split prod.split)
qed

lemma listK_serves_schedule: "serves_schedule listK stored_view sample_namespaces"
proof -
  have "set (map snd (AList.clearjunk al)) = ran (map_of al)" for al :: "(NamespacedName \<times> PVCBackup) list"
    by (metis AList.distinct_clearjunk map_of_clearjunk ran_distinct set_map)
  then have "lists_selected listK stored_view"
    unfolding lists_selected_def selected_listK by (auto simp: listK_def stored_view_def)
  moreover have "controls listK" by (auto simp: controls_def listK_def sampleK_def)
  moreover have "reads stored_view (k_Get_Namespace listK) (\<lambda>_. sample_namespaces)"
    by (auto simp: reads_def listK_def sample_namespaces_def)
  moreover have "creates stored_view (k_Create_PVCBackup listK) (object_key \<circ> backup_meta) admitted_backup cl_backups cl_backups_update"
    by (auto simp: creates_def listK_def stored_view_def admitted_backup_def admitted_meta_def Let_def fun_upd_def)
  ultimately show ?thesis using listK_serves by (simp add: serves_schedule_def)
qed

section \<open>From the schedule to the backup\<close>

text \<open>
  C13: The controllers together do what the operator is for: with a working API server, others
  that make the snapshot ready and complete the job, and a free slot, a claim that is due gets
  a backup by one reconciliation of the automatic creator, and this backup has Succeeded after at
  most three reconciliations of the backup controller. Its slot is free again, and from then on
  the lists find it as a backup of the claim.
\<close>

theorem scheduled_claim_backed_up:
  assumes "serves_schedule K v namespaces" and "scheduled K r namespaces req (v (world s)) pvc Next"
    and "\<And>now. ENow now \<in> set (auto_calls K r req s) \<Longrightarrow>
      nextBackupAt Next (newest_seen K (v (world s)) pvc) \<le> now \<and>
      cl_backups (v (world s)) (backup_key req now) = None \<and> cl_snapshots (v (world s)) (backup_key req now) = None"
    and "\<And>now. helpful v (backup_key req now) others"
    and "br_watches br (nn_Namespace req)" and "CurrentRunningBackups s = Some R"
    and "int (fcard R) < MaxRunningBackups br"
  shows "\<exists>now n b. ENow now \<in> set (auto_calls K r req s) \<and> n \<le> 3 \<and>
    (let s1 = round (AutomaticPVCBackupCreator_Reconcile K r req) others s;
         t = (round (PVCBackupReconciler_Reconcile K br (backup_key req now)) others ^^ n) s1 in
       cl_backups (v (world t)) (backup_key req now) = Some b \<and> PVCName (backup_spec b) = nn_Name req \<and>
       Result (backup_status b) = Some ''Succeeded'' \<and> selected K (childBackupOptions pvc) b \<and>
       CurrentRunningBackups t = Some (R |-| {|backupQualifiedName b|}))"
proof -
  obtain out u where run: "run_state (AutomaticPVCBackupCreator_Reconcile K r req) s = (out, u)" by fastforce
  from auto_creates [OF assms(1,2) _ run] assms(3) obtain now b where
    now: "ENow now \<in> set (auto_calls K r req s)" and b: "created_for K req pvc now b"
      "v (world u) = cl_backups_update (\<lambda>m. m(backup_key req now \<mapsto> b)) (v (world s))" "CurrentRunningBackups u = Some R"
    using assms(6) by auto
  let ?key = "backup_key req now"
  let ?s1 = "round (AutomaticPVCBackupCreator_Reconcile K r req) others s"
  let ?c = "v (world ?s1)"
  have s1: "world ?s1 = others (world u)" "CurrentRunningBackups ?s1 = Some R" using run b(3) by (simp_all add: round_def)
  from assms(2) have "cl_claims (v (world u)) req \<noteq> None" using b(2) by (simp add: scheduled_def)
  with assms(4) [of now] b(2) assms(3) [OF now] have c: "cl_backups ?c ?key = Some b" "cl_claims ?c req \<noteq> None" "cl_snapshots ?c ?key = None"
    by (auto simp: helpful_def s1(1))
  from created_ready [OF b(1) c] have ready: "workable ?key ?c" "stage_of ?key ?c = New" by simp_all
  have K: "serves K v" using assms(1) by (simp add: serves_schedule_def)
  have "br_watches br (nn_Namespace ?key)" using assms(5) by (simp add: backup_key_def)
  moreover have "admit (MaxRunningBackups br) (backupQualifiedName b) R \<noteq> None" using assms(7) by (simp add: admit_def)
  ultimately have "backup_running K v br ?key others b R ?s1"
    using K ready c(1) s1(2) assms(4) by (auto simp: backup_running_def same_backup_def)
  from backup_rounds.ends [OF this] ready(2) obtain n where "n \<le> 3"
    and "backup_ended v ?key b R ((round (PVCBackupReconciler_Reconcile K br ?key) others ^^ n) ?s1)" by auto
  then obtain b' where e: "n \<le> 3" "cl_backups (v (world ((round (PVCBackupReconciler_Reconcile K br ?key) others ^^ n) ?s1))) ?key = Some b'"
      "same_backup b b'" "Result (backup_status b') = Some ''Succeeded''"
      "CurrentRunningBackups ((round (PVCBackupReconciler_Reconcile K br ?key) others ^^ n) ?s1) = Some (R |-| {|backupQualifiedName b|})"
    by (auto simp: backup_ended_def)
  moreover from e(3) b(1) have "PVCName (backup_spec b') = nn_Name req" "selected K (childBackupOptions pvc) b'"
      "backupQualifiedName b' = backupQualifiedName b"
    using selected_meta by (auto simp: same_backup_def created_for_def backupQualifiedName_def)
  ultimately show ?thesis using now by (intro exI [of _ now] exI [of _ n] exI [of _ b']) (simp add: Let_def)
qed

definition stored_cluster :: stored where
  "stored_cluster = ([], new_cluster)"

definition stored_workers :: "stored \<Rightarrow> stored" where
  "stored_workers w = (fst w, workers (snd w))"

lemma stored_workers_helpful: "helpful stored_view req stored_workers"
  by (auto simp: helpful_def stored_workers_def stored_view_def workers_def snapshotReady_def snapshotSize_def jobCompleted_def
      sample_time_def Second_def)

theorem scheduled_claim_backed_up_witness:
  "\<exists>n b. n \<le> 3 \<and> (let s1 = round (AutomaticPVCBackupCreator_Reconcile listK sample_creator claim_key) stored_workers (sample_sys stored_cluster []);
     t = (round (PVCBackupReconciler_Reconcile listK sample_reconciler \<lparr>nn_Namespace = ''app'', nn_Name = ''data-1764403200''\<rparr>) stored_workers ^^ n) s1 in
     cl_backups (stored_view (world t)) \<lparr>nn_Namespace = ''app'', nn_Name = ''data-1764403200''\<rparr> = Some b \<and>
     Result (backup_status b) = Some ''Succeeded'')"
proof -
  let ?s = "sample_sys stored_cluster []"
  have sel: "newest_seen listK (stored_view (world ?s)) sample_pvc = sample_time - 3 * Hour"
    by (simp add: newest_seen_def stored_cluster_def stored_view_def sample_sys_def sample_pvc_def)
  have sch: "scheduled listK sample_creator sample_namespaces claim_key (stored_view (world ?s)) sample_pvc (\<lambda>t. (t div Hour + 1) * Hour)"
    by (simp add: scheduled_def stored_cluster_def stored_view_def new_cluster_def empty_cluster_def sample_namespaces_def
        scheduleFor_def sample_creator_def claim_key_def sample_defs sample_namespace_def object_key_def listK_def sampleK_def)
  have now: "now = sample_time" if "ENow now \<in> set (auto_calls listK sample_creator claim_key ?s)" for now
    using that by (simp add: auto_eval listK_def on_rest_def serverK_def found_def stored_cluster_def new_cluster_def empty_cluster_def
        object_key_def)
  have key: "backup_key claim_key sample_time = \<lparr>nn_Namespace = ''app'', nn_Name = ''data-1764403200''\<rparr>"
    by (simp add: backup_key_def claim_key_def backupName_def show_int_def show_nat.simps digit_def char_of_def bit_0 Unix_def sample_time_def Second_def)
  have due: "nextBackupAt (\<lambda>t. (t div Hour + 1) * Hour) (sample_time - 3 * Hour) \<le> sample_time"
    by (simp add: auto_eval)
  have free: "nextBackupAt (\<lambda>t. (t div Hour + 1) * Hour) (newest_seen listK (stored_view (world ?s)) sample_pvc) \<le> now \<and>
      cl_backups (stored_view (world ?s)) (backup_key claim_key now) = None \<and>
      cl_snapshots (stored_view (world ?s)) (backup_key claim_key now) = None"
    if "ENow now \<in> set (auto_calls listK sample_creator claim_key ?s)" for now
    unfolding sel now [OF that] using due
    by (simp add: stored_view_def stored_cluster_def sample_sys_def new_cluster_def empty_cluster_def)
  have "br_watches sample_reconciler (nn_Namespace claim_key)" "CurrentRunningBackups ?s = Some {||}"
      "int (fcard {||}) < MaxRunningBackups sample_reconciler"
    by (simp_all add: br_watches_def sample_reconciler_def sample_sys_def fcard_fempty claim_key_def)
  from scheduled_claim_backed_up [OF listK_serves_schedule sch free stored_workers_helpful this] now obtain n b where
    "n \<le> 3" "let s1 = round (AutomaticPVCBackupCreator_Reconcile listK sample_creator claim_key) stored_workers ?s;
      t = (round (PVCBackupReconciler_Reconcile listK sample_reconciler (backup_key claim_key sample_time)) stored_workers ^^ n) s1 in
     cl_backups (stored_view (world t)) (backup_key claim_key sample_time) = Some b \<and> Result (backup_status b) = Some ''Succeeded''"
    unfolding Let_def by metis
  then show ?thesis unfolding key by blast
qed

end
