(* ===== verification/Go_Heap.thy ===== *)
theory Go_Heap
  imports Prelude
begin

text \<open>
  Go's memory, for the code whose point is aliasing. A heap is the list of the cells allocated
  so far, an address is a position in it; what a cell may hold is a parameter. A function that
  may meet a nil or dangling pointer or an index out of range returns an option. The locale
  \<open>deep_copy\<close> is the contract of a function that copies a value with everything it points
  to: the old cells are untouched, the copy means the same, and all its pointers are new.
\<close>

type_synonym addr = nat

section \<open>Cells\<close>

definition load :: "('c \<Rightarrow> 'a option) \<Rightarrow> 'c list \<Rightarrow> addr \<Rightarrow> 'a option" where
  "load sel h a = (if a < length h then sel (h ! a) else None)"

definition new :: "'c \<Rightarrow> 'c list \<Rightarrow> addr \<times> 'c list" where
  "new c h = (length h, h @ [c])"

definition grows :: "'c list \<Rightarrow> 'c list \<Rightarrow> bool" where
  "grows h h' \<longleftrightarrow> take (length h) h' = h"

text \<open>The cells at a set of addresses are still there.\<close>

definition agree :: "addr set \<Rightarrow> 'c list \<Rightarrow> 'c list \<Rightarrow> bool" where
  "agree A h h' \<longleftrightarrow> (\<forall>a\<in>A. a < length h \<longrightarrow> a < length h' \<and> h' ! a = h ! a)"

lemma grows_length: "grows h h' \<Longrightarrow> length h \<le> length h'"
  by (metis grows_def length_take min.absorb_iff2 min.commute)

lemma grows_nth: "grows h h' \<Longrightarrow> a < length h \<Longrightarrow> h' ! a = h ! a"
  by (metis grows_def nth_take)

lemma grows_iff: "grows h h' \<longleftrightarrow> length h \<le> length h' \<and> (\<forall>a < length h. h' ! a = h ! a)"
  by (auto simp: grows_length grows_nth) (simp add: grows_def list_eq_iff_nth_eq)

lemma grows_refl [simp]: "grows h h"
  by (simp add: grows_def)

lemma grows_trans: "grows h h1 \<Longrightarrow> grows h1 h2 \<Longrightarrow> grows h h2"
  by (auto simp: grows_iff)

lemma grows_new [simp]: "grows h (h @ [c])"
  by (simp add: grows_def)

lemma grows_store: "grows h h' \<Longrightarrow> length h \<le> a \<Longrightarrow> grows h (h'[a := c])"
  by (auto simp: grows_iff)

lemma grows_agree: "grows h h' \<Longrightarrow> agree A h h'"
  by (auto simp: grows_iff agree_def dest: order.strict_trans2)

lemma store_agree: "a \<notin> A \<Longrightarrow> agree A h (h[a := c])"
  by (auto simp: agree_def) (metis nth_list_update_neq)

lemma agree_subset: "agree B h h' \<Longrightarrow> A \<subseteq> B \<Longrightarrow> agree A h h'"
  by (auto simp: agree_def)

lemma load_agree: "load sel h a = Some x \<Longrightarrow> agree A h h' \<Longrightarrow> a \<in> A \<Longrightarrow> load sel h' a = Some x"
  by (auto simp: load_def agree_def split: if_splits)

lemma load_bound: "load sel h a = Some x \<Longrightarrow> a < length h"
  by (simp add: load_def split: if_splits)

section \<open>Deep copies\<close>

text \<open>
  \<open>typed h x\<close>: the pointers in the value \<open>x\<close> lead to cells of the right type;
  \<open>refs h x\<close>: the addresses reached from it; \<open>val h x\<close>: what it means, pointers
  followed.
\<close>

locale deep_copy =
  fixes copy :: "'a \<Rightarrow> 'c list \<Rightarrow> ('a \<times> 'c list) option"
    and typed :: "'c list \<Rightarrow> 'a \<Rightarrow> bool"
    and refs :: "'c list \<Rightarrow> 'a \<Rightarrow> addr set"
    and val :: "'c list \<Rightarrow> 'a \<Rightarrow> 'v"
  assumes copies: "typed h x \<Longrightarrow> \<exists>y h'. copy x h = Some (y, h') \<and> grows h h' \<and> typed h' y \<and>
      val h' y = val h x \<and> refs h' y \<subseteq> {length h..}"
    and bounded: "typed h x \<Longrightarrow> refs h x \<subseteq> {..<length h}"
    and settled: "typed h x \<Longrightarrow> agree (refs h x) h h' \<Longrightarrow> typed h' x \<and> refs h' x = refs h x \<and> val h' x = val h x"
begin

lemma kept: "typed h x \<Longrightarrow> grows h h' \<Longrightarrow> typed h' x \<and> refs h' x = refs h x \<and> val h' x = val h x"
  using settled grows_agree by metis

text \<open>After a copy, whatever is written to the one does not show in the other.\<close>

lemma separate:
  assumes "typed h x" and "copy x h = Some (y, h')"
  shows "refs h' x \<inter> refs h' y = {}"
    and "agree (- refs h' y) h' h'' \<Longrightarrow> typed h'' x \<and> val h'' x = val h x"
    and "agree (- refs h' x) h' h'' \<Longrightarrow> typed h'' y \<and> val h'' y = val h x"
proof -
  from copies [OF assms(1)] assms(2) have c: "grows h h'" "typed h' y" "val h' y = val h x" "refs h' y \<subseteq> {length h..}"
    by auto
  from kept [OF assms(1) c(1)] have k: "typed h' x" "refs h' x = refs h x" "val h' x = val h x" by auto
  from bounded [OF assms(1)] c(4) k(2) show dis: "refs h' x \<inter> refs h' y = {}" by fastforce
  from dis have sub: "refs h' x \<subseteq> - refs h' y" "refs h' y \<subseteq> - refs h' x" by auto
  show "typed h'' x \<and> val h'' x = val h x" if "agree (- refs h' y) h' h''"
    using settled [OF k(1) agree_subset [OF that sub(1)]] k(3) by simp
  show "typed h'' y \<and> val h'' y = val h x" if "agree (- refs h' x) h' h''"
    using settled [OF c(2) agree_subset [OF that sub(2)]] c(3) by simp
qed

end

section \<open>Pointers\<close>

text \<open>
  A pointer to a cell whose contents hold no pointers, nil included:
  \<open>if in.F != nil { *out = new(T); **out = **in }\<close>.
\<close>

definition copy_ptr :: "('c \<Rightarrow> 'a option) \<Rightarrow> ('a \<Rightarrow> 'c) \<Rightarrow> addr option \<Rightarrow> 'c list \<Rightarrow> (addr option \<times> 'c list) option" where
  "copy_ptr sel mk p h =
    (case p of
       None \<Rightarrow> Some (None, h)
     | Some a \<Rightarrow> do { x \<leftarrow> load sel h a; let (out, h) = new (mk x) h; Some (Some out, h) })"

definition ptr_typed :: "('c \<Rightarrow> 'a option) \<Rightarrow> 'c list \<Rightarrow> addr option \<Rightarrow> bool" where
  "ptr_typed sel h p \<longleftrightarrow> (\<forall>a. p = Some a \<longrightarrow> load sel h a \<noteq> None)"

definition ptr_refs :: "'c list \<Rightarrow> addr option \<Rightarrow> addr set" where
  "ptr_refs h p = set_option p"

definition ptr_val :: "('c \<Rightarrow> 'a option) \<Rightarrow> 'c list \<Rightarrow> addr option \<Rightarrow> 'a option" where
  "ptr_val sel h p = Option.bind p (load sel h)"

lemma load_new: "sel c = Some x \<Longrightarrow> load sel (h @ [c]) (length h) = Some x"
  by (simp add: load_def)

lemma deep_copy_ptr:
  assumes "\<And>x. sel (mk x) = Some x"
  shows "deep_copy (copy_ptr sel mk) (ptr_typed sel) ptr_refs (ptr_val sel)"
proof
  fix h p assume t: "ptr_typed sel h p"
  show "ptr_refs h p \<subseteq> {..<length h}"
    using t by (auto simp: ptr_refs_def ptr_typed_def intro: load_bound)
  show "\<exists>y h'. copy_ptr sel mk p h = Some (y, h') \<and> grows h h' \<and> ptr_typed sel h' y \<and>
      ptr_val sel h' y = ptr_val sel h p \<and> ptr_refs h' y \<subseteq> {length h..}"
    using t by (cases p) (auto simp: copy_ptr_def ptr_typed_def ptr_val_def ptr_refs_def new_def load_new assms)
  show "ptr_typed sel h' p \<and> ptr_refs h' p = ptr_refs h p \<and> ptr_val sel h' p = ptr_val sel h p"
    if "agree (ptr_refs h p) h h'" for h'
    using t load_agree [OF _ that, of sel]
    by (cases p) (auto simp: ptr_typed_def ptr_val_def ptr_refs_def)
qed

section \<open>Structs\<close>

text \<open>Two fields, one after the other.\<close>

definition copy_pair ::
  "('a \<Rightarrow> 'c list \<Rightarrow> ('a \<times> 'c list) option) \<Rightarrow> ('b \<Rightarrow> 'c list \<Rightarrow> ('b \<times> 'c list) option) \<Rightarrow>
   'a \<times> 'b \<Rightarrow> 'c list \<Rightarrow> (('a \<times> 'b) \<times> 'c list) option" where
  "copy_pair f g x h = do { (a, h) \<leftarrow> f (fst x) h; (b, h) \<leftarrow> g (snd x) h; Some ((a, b), h) }"

lemma deep_copy_pair:
  assumes "deep_copy f tf rf vf" and "deep_copy g tg rg vg"
  shows "deep_copy (copy_pair f g) (\<lambda>h x. tf h (fst x) \<and> tg h (snd x)) (\<lambda>h x. rf h (fst x) \<union> rg h (snd x))
    (\<lambda>h x. (vf h (fst x), vg h (snd x)))"
proof
  fix h x assume t: "tf h (fst x) \<and> tg h (snd x)"
  show "rf h (fst x) \<union> rg h (snd x) \<subseteq> {..<length h}"
    using t deep_copy.bounded [OF assms(1)] deep_copy.bounded [OF assms(2)] by fastforce
  show "(tf h' (fst x) \<and> tg h' (snd x)) \<and> rf h' (fst x) \<union> rg h' (snd x) = rf h (fst x) \<union> rg h (snd x) \<and>
      (vf h' (fst x), vg h' (snd x)) = (vf h (fst x), vg h (snd x))"
    if "agree (rf h (fst x) \<union> rg h (snd x)) h h'" for h'
    using t deep_copy.settled [OF assms(1), of h "fst x" h'] deep_copy.settled [OF assms(2), of h "snd x" h']
      agree_subset [OF that, of "rf h (fst x)"] agree_subset [OF that, of "rg h (snd x)"] by simp
  from t deep_copy.copies [OF assms(1), of h "fst x"] obtain a h1 where
    a: "f (fst x) h = Some (a, h1)" "grows h h1" "tf h1 a" "vf h1 a = vf h (fst x)" "rf h1 a \<subseteq> {length h..}" by auto
  from t deep_copy.kept [OF assms(2) _ a(2)] have g: "tg h1 (snd x)" "vg h1 (snd x) = vg h (snd x)" by auto
  from deep_copy.copies [OF assms(2) g(1)] obtain b h2 where
    b: "g (snd x) h1 = Some (b, h2)" "grows h1 h2" "tg h2 b" "vg h2 b = vg h1 (snd x)" "rg h2 b \<subseteq> {length h1..}" by auto
  from deep_copy.kept [OF assms(1) a(3) b(2)] have "tf h2 a" "rf h2 a = rf h1 a" "vf h2 a = vf h1 a" by auto
  with a b g grows_length [OF a(2)]
  show "\<exists>y h'. copy_pair f g x h = Some (y, h') \<and> grows h h' \<and> (tf h' (fst y) \<and> tg h' (snd y)) \<and>
      (vf h' (fst y), vg h' (snd y)) = (vf h (fst x), vg h (snd x)) \<and> rf h' (fst y) \<union> rg h' (snd y) \<subseteq> {length h..}"
    by (auto simp: copy_pair_def intro: grows_trans)
qed

text \<open>
  A struct whose fields with pointers are \<open>get x\<close>: the others come with the assignment
  \<open>*out = *in\<close>.
\<close>

lemma deep_copy_struct:
  assumes "deep_copy f tf rf vf"
    and "\<And>x h. copy x h = map_option (\<lambda>(t, h'). (put x t, h')) (f (get x) h)"
    and "\<And>x t. get (put x t) = t" and "\<And>x t v. build (put x t) v = build x v"
    and "\<And>h x. typed h x \<longleftrightarrow> tf h (get x)" and "\<And>h x. refs h x = rf h (get x)" and "\<And>h x. val h x = build x (vf h (get x))"
  shows "deep_copy copy typed refs val"
proof
  fix h x assume "typed h x"
  then have t: "tf h (get x)" by (simp add: assms(5))
  from deep_copy.copies [OF assms(1) t] show "\<exists>y h'. copy x h = Some (y, h') \<and> grows h h' \<and> typed h' y \<and>
      val h' y = val h x \<and> refs h' y \<subseteq> {length h..}"
    by (auto simp: assms(2-7))
  show "refs h x \<subseteq> {..<length h}" using deep_copy.bounded [OF assms(1) t] by (simp add: assms(6))
  show "typed h' x \<and> refs h' x = refs h x \<and> val h' x = val h x" if "agree (refs h x) h h'" for h'
    using deep_copy.settled [OF assms(1) t, of h'] that by (simp add: assms(5-7))
qed

section \<open>Maps\<close>

text \<open>
  A map that is not nil is a reference to a cell with the entries.
  \<open>make(map[string]string)\<close> and the loop that assigns every entry, in the order in which
  the range happens to give them.
\<close>

fun copy_entries :: "('c \<Rightarrow> strmap option) \<Rightarrow> (strmap \<Rightarrow> 'c) \<Rightarrow> strmap \<Rightarrow> addr \<Rightarrow> 'c list \<Rightarrow> 'c list option" where
  "copy_entries sel mk [] out h = Some h"
| "copy_entries sel mk ((key, v) # entries) out h = do {
     m \<leftarrow> load sel h out;
     copy_entries sel mk entries out (h[out := mk (AList.update key v m)]) }"

definition copy_strmap :: "('c \<Rightarrow> strmap option) \<Rightarrow> (strmap \<Rightarrow> 'c) \<Rightarrow> addr option \<Rightarrow> 'c list \<Rightarrow> (addr option \<times> 'c list) option" where
  "copy_strmap sel mk p h =
    (case p of
       None \<Rightarrow> Some (None, h)
     | Some a \<Rightarrow> do {
         entries \<leftarrow> load sel h a;
         let (out, h) = new (mk []) h;
         h \<leftarrow> copy_entries sel mk entries out h;
         Some (Some out, h) })"

text \<open>A map has every key once.\<close>

definition strmap_typed :: "('c \<Rightarrow> strmap option) \<Rightarrow> 'c list \<Rightarrow> addr option \<Rightarrow> bool" where
  "strmap_typed sel h p \<longleftrightarrow> (\<forall>a. p = Some a \<longrightarrow> (\<exists>m. load sel h a = Some m \<and> distinct (map fst m)))"

lemma copy_entries_result:
  assumes "\<And>m. sel (mk m) = Some m"
  shows "copy_entries sel mk entries (length h) (h @ [mk m]) =
    Some (h @ [mk (fold (\<lambda>(k, v) acc. AList.update k v acc) entries m)])"
proof (induction entries arbitrary: m)
  case (Cons e entries)
  then show ?case by (cases e) (simp add: load_new assms list_update_append)
qed simp

lemma fold_update_distinct:
  "distinct (map fst (out @ m)) \<Longrightarrow> fold (\<lambda>(k, v) acc. AList.update k v acc) m out = out @ m"
proof (induction m arbitrary: out)
  case (Cons e m)
  then show ?case using Cons.IH [of "out @ [e]"] by (cases e) (simp add: update_fresh)
qed simp

lemma deep_copy_strmap:
  assumes "\<And>m. sel (mk m) = Some m"
  shows "deep_copy (copy_strmap sel mk) (strmap_typed sel) ptr_refs (ptr_val sel)"
proof
  fix h p assume t: "strmap_typed sel h p"
  show "ptr_refs h p \<subseteq> {..<length h}"
    using t by (auto simp: ptr_refs_def strmap_typed_def dest: load_bound)
  show "\<exists>y h'. copy_strmap sel mk p h = Some (y, h') \<and> grows h h' \<and> strmap_typed sel h' y \<and>
      ptr_val sel h' y = ptr_val sel h p \<and> ptr_refs h' y \<subseteq> {length h..}"
  proof (cases p)
    case (Some a)
    with t obtain m where m: "load sel h a = Some m" "distinct (map fst m)" by (auto simp: strmap_typed_def)
    with fold_update_distinct [of "[]" m] Some show ?thesis
      by (simp add: copy_strmap_def strmap_typed_def ptr_val_def ptr_refs_def new_def load_new assms copy_entries_result)
  qed (simp add: copy_strmap_def strmap_typed_def ptr_val_def ptr_refs_def)
  show "strmap_typed sel h' p \<and> ptr_refs h' p = ptr_refs h p \<and> ptr_val sel h' p = ptr_val sel h p"
    if "agree (ptr_refs h p) h h'" for h'
    using t load_agree [OF _ that, of sel]
    by (cases p) (auto simp: strmap_typed_def ptr_val_def ptr_refs_def)
qed

section \<open>Slices\<close>

text \<open>A slice that is not nil: a part of the array in a cell.\<close>

datatype slice = Slice (slice_array: addr) (slice_offset: nat) (slice_len: nat)

text \<open>
  \<open>for i := range *in { (*in)[i].DeepCopyInto(&(*out)[i]) }\<close> over the remaining indices,
  into a slice over the whole array in the cell \<open>dst\<close>.
\<close>

fun copy_range ::
  "('c \<Rightarrow> 'a list option) \<Rightarrow> ('a list \<Rightarrow> 'c) \<Rightarrow> ('a \<Rightarrow> 'c list \<Rightarrow> ('a \<times> 'c list) option) \<Rightarrow>
   addr \<Rightarrow> nat \<Rightarrow> addr \<Rightarrow> nat list \<Rightarrow> 'c list \<Rightarrow> 'c list option" where
  "copy_range sel mk f src off dst [] h = Some h"
| "copy_range sel mk f src off dst (i # is) h = do {
     xs \<leftarrow> load sel h src;
     (y, h) \<leftarrow> (if off + i < length xs then f (xs ! (off + i)) h else None);
     ys \<leftarrow> load sel h dst;
     if i < length ys then copy_range sel mk f src off dst is (h[dst := mk (ys[i := y])]) else None }"

definition copy_slice ::
  "('c \<Rightarrow> 'a list option) \<Rightarrow> ('a list \<Rightarrow> 'c) \<Rightarrow> 'a \<Rightarrow> ('a \<Rightarrow> 'c list \<Rightarrow> ('a \<times> 'c list) option) \<Rightarrow>
   slice option \<Rightarrow> 'c list \<Rightarrow> (slice option \<times> 'c list) option" where
  "copy_slice sel mk zero f s h =
    (case s of
       None \<Rightarrow> Some (None, h)
     | Some s \<Rightarrow> do {
         let (out, h) = new (mk (replicate (slice_len s) zero)) h;
         h \<leftarrow> copy_range sel mk f (slice_array s) (slice_offset s) out [0..<slice_len s] h;
         Some (Some (Slice out 0 (slice_len s)), h) })"

definition slice_elems :: "('c \<Rightarrow> 'a list option) \<Rightarrow> 'c list \<Rightarrow> slice option \<Rightarrow> 'a list" where
  "slice_elems sel h s =
    (case s of
       None \<Rightarrow> []
     | Some s \<Rightarrow>
         (case load sel h (slice_array s) of
            None \<Rightarrow> []
          | Some xs \<Rightarrow> take (slice_len s) (drop (slice_offset s) xs)))"

definition slice_typed :: "('c \<Rightarrow> 'a list option) \<Rightarrow> ('c list \<Rightarrow> 'a \<Rightarrow> bool) \<Rightarrow> 'c list \<Rightarrow> slice option \<Rightarrow> bool" where
  "slice_typed sel typed h s \<longleftrightarrow>
     (\<forall>x. s = Some x \<longrightarrow> (\<exists>xs. load sel h (slice_array x) = Some xs \<and> slice_offset x + slice_len x \<le> length xs)) \<and>
     (\<forall>x\<in>set (slice_elems sel h s). typed h x)"

definition slice_refs :: "('c \<Rightarrow> 'a list option) \<Rightarrow> ('c list \<Rightarrow> 'a \<Rightarrow> addr set) \<Rightarrow> 'c list \<Rightarrow> slice option \<Rightarrow> addr set" where
  "slice_refs sel refs h s = slice_array ` set_option s \<union> (\<Union>x\<in>set (slice_elems sel h s). refs h x)"

definition slice_val :: "('c \<Rightarrow> 'a list option) \<Rightarrow> ('c list \<Rightarrow> 'a \<Rightarrow> 'v) \<Rightarrow> 'c list \<Rightarrow> slice option \<Rightarrow> 'v list" where
  "slice_val sel val h s = map (val h) (slice_elems sel h s)"

text \<open>The loop: the elements before the index have been copied behind the array.\<close>

definition copied ::
  "('c \<Rightarrow> 'a list option) \<Rightarrow> ('c list \<Rightarrow> 'a \<Rightarrow> bool) \<Rightarrow> ('c list \<Rightarrow> 'a \<Rightarrow> addr set) \<Rightarrow> ('c list \<Rightarrow> 'a \<Rightarrow> 'v) \<Rightarrow>
   addr \<Rightarrow> 'v list \<Rightarrow> nat \<Rightarrow> 'c list \<Rightarrow> bool" where
  "copied sel typed refs val dst vs i h \<longleftrightarrow> dst < length h \<and> i \<le> length vs \<and>
     (\<exists>ys. load sel h dst = Some ys \<and> length ys = length vs \<and>
       (\<forall>j<i. typed h (ys ! j) \<and> val h (ys ! j) = vs ! j \<and> refs h (ys ! j) \<subseteq> {dst<..}))"

lemma copied_step:
  assumes D: "deep_copy f typed refs val" and mk: "\<And>xs. sel (mk xs) = Some xs"
    and inv: "copied sel typed refs val dst vs i h" and "i < length vs" and "typed h x" and "val h x = vs ! i"
  shows "\<exists>y h1 ys. f x h = Some (y, h1) \<and> load sel h1 dst = Some ys \<and> i < length ys \<and> grows h h1 \<and>
    copied sel typed refs val dst vs (Suc i) (h1[dst := mk (ys[i := y])])"
proof -
  from deep_copy.copies [OF D assms(5)] obtain y h1 where
    y: "f x h = Some (y, h1)" "grows h h1" "typed h1 y" "val h1 y = val h x" "refs h1 y \<subseteq> {length h..}" by auto
  from inv obtain ys where d: "dst < length h" "load sel h dst = Some ys" "length ys = length vs"
    and old: "\<And>j. j < i \<Longrightarrow> typed h (ys ! j) \<and> val h (ys ! j) = vs ! j \<and> refs h (ys ! j) \<subseteq> {dst<..}"
    by (auto simp: copied_def)
  let ?h = "h1[dst := mk (ys[i := y])]"
  have ld: "load sel h1 dst = Some ys"
    using load_agree [OF d(2) grows_agree [OF y(2), of "{dst}"]] by simp
  have keep: "typed ?h z \<and> val ?h z = val h1 z \<and> refs ?h z = refs h1 z" if "typed h1 z" "dst \<notin> refs h1 z" for z
    using deep_copy.settled [OF D that(1) store_agree [OF that(2)]] by simp
  have new: "typed ?h y \<and> val ?h y = vs ! i \<and> refs ?h y \<subseteq> {dst<..}"
    using keep [OF y(3)] y(4,5) d(1) assms(6) by fastforce
  have "typed ?h (ys ! j) \<and> val ?h (ys ! j) = vs ! j \<and> refs ?h (ys ! j) \<subseteq> {dst<..}" if "j < i" for j
    using deep_copy.kept [OF D _ y(2), of "ys ! j"] old [OF that] keep [of "ys ! j"] by auto
  with new d(3) assms(4) have "\<forall>j < Suc i. typed ?h (ys[i := y] ! j) \<and> val ?h (ys[i := y] ! j) = vs ! j \<and>
      refs ?h (ys[i := y] ! j) \<subseteq> {dst<..}"
    by (auto simp: less_Suc_eq)
  moreover have "dst < length h1" using d(1) grows_length [OF y(2)] by simp
  then have "load sel ?h dst = Some (ys[i := y])" "dst < length ?h" by (simp_all add: load_def mk)
  ultimately have "copied sel typed refs val dst vs (Suc i) ?h" using d(3) assms(4) by (simp add: copied_def)
  with y(1,2) ld d(3) assms(4) show ?thesis by auto
qed

lemma copy_range_copies:
  assumes D: "deep_copy f typed refs val" and mk: "\<And>xs. sel (mk xs) = Some xs"
    and "load sel h0 src = Some xs" and "off + length vs \<le> length xs"
    and src: "\<And>j. j < length vs \<Longrightarrow> typed h0 (xs ! (off + j)) \<and> val h0 (xs ! (off + j)) = vs ! j"
    and "length h0 \<le> dst"
    and "grows h0 h" and "copied sel typed refs val dst vs i h"
  shows "\<exists>h'. copy_range sel mk f src off dst [i..<length vs] h = Some h' \<and> grows h0 h' \<and>
    copied sel typed refs val dst vs (length vs) h'"
  using assms(7,8)
proof (induction "length vs - i" arbitrary: i h)
  case 0
  then show ?case by (auto simp: copied_def)
next
  case (Suc k)
  then have i: "i < length vs" by simp
  have src': "load sel h src = Some xs"
    using load_agree [OF assms(3) grows_agree [OF Suc.prems(1), of "{src}"]] by simp
  have "typed h (xs ! (off + i))" "val h (xs ! (off + i)) = vs ! i"
    using deep_copy.kept [OF D _ Suc.prems(1), of "xs ! (off + i)"] src [OF i] by auto
  from copied_step [OF D mk Suc.prems(2) i this] obtain y h1 ys where
    y: "f (xs ! (off + i)) h = Some (y, h1)" "load sel h1 dst = Some ys" "i < length ys" "grows h h1"
      "copied sel typed refs val dst vs (Suc i) (h1[dst := mk (ys[i := y])])" by auto
  have g: "grows h0 (h1[dst := mk (ys[i := y])])"
    using grows_store [OF grows_trans [OF Suc.prems(1) y(4)] assms(6)] .
  have "k = length vs - Suc i" using Suc.hyps(2) by simp
  from Suc.hyps(1) [OF this g y(5)] obtain h' where
    "copy_range sel mk f src off dst [Suc i..<length vs] (h1[dst := mk (ys[i := y])]) = Some h'"
    "grows h0 h'" "copied sel typed refs val dst vs (length vs) h'" by auto
  with src' show ?case using i assms(4) y(1-3) by (simp add: upt_conv_Cons)
qed

lemma slice_elems_agree:
  assumes "slice_typed sel typed h s" and "agree (slice_array ` set_option s) h h'"
  shows "slice_elems sel h' s = slice_elems sel h s"
  using assms load_agree [OF _ assms(2), of sel]
  by (cases s) (auto simp: slice_elems_def slice_typed_def)

lemma deep_copy_slice:
  assumes D: "deep_copy f typed refs val" and mk: "\<And>xs. sel (mk xs) = Some xs"
  shows "deep_copy (copy_slice sel mk zero f) (slice_typed sel typed) (slice_refs sel refs) (slice_val sel val)"
proof
  fix h s assume t: "slice_typed sel typed h s"
  show "slice_refs sel refs h s \<subseteq> {..<length h}"
    using t deep_copy.bounded [OF D, of h] by (auto simp: slice_refs_def slice_typed_def dest: load_bound)
  show "slice_typed sel typed h' s \<and> slice_refs sel refs h' s = slice_refs sel refs h s \<and> slice_val sel val h' s = slice_val sel val h s"
    if ag: "agree (slice_refs sel refs h s) h h'" for h'
  proof -
    have el: "slice_elems sel h' s = slice_elems sel h s"
      by (rule slice_elems_agree [OF t agree_subset [OF ag]]) (simp add: slice_refs_def)
    have x: "typed h' x \<and> refs h' x = refs h x \<and> val h' x = val h x" if "x \<in> set (slice_elems sel h s)" for x
      using deep_copy.settled [OF D _ agree_subset [OF ag], of x] t that by (auto simp: slice_refs_def slice_typed_def)
    have "load sel h' a = load sel h a" if "s = Some y" "a = slice_array y" for y a
      using t that load_agree [OF _ ag, of sel a] by (auto simp: slice_typed_def slice_refs_def)
    with t el x show ?thesis by (auto simp: slice_typed_def slice_refs_def slice_val_def)
  qed
  show "\<exists>y h'. copy_slice sel mk zero f s h = Some (y, h') \<and> grows h h' \<and> slice_typed sel typed h' y \<and>
      slice_val sel val h' y = slice_val sel val h s \<and> slice_refs sel refs h' y \<subseteq> {length h..}"
  proof (cases s)
    case None
    then show ?thesis by (simp add: copy_slice_def slice_typed_def slice_val_def slice_refs_def slice_elems_def)
  next
    case (Some x)
    with t obtain xs where xs: "load sel h (slice_array x) = Some xs" "slice_offset x + slice_len x \<le> length xs"
      by (auto simp: slice_typed_def)
    let ?vs = "slice_val sel val h s" and ?out = "length h" and ?h = "h @ [mk (replicate (slice_len x) zero)]"
    have el: "slice_elems sel h s = take (slice_len x) (drop (slice_offset x) xs)"
      using Some xs by (simp add: slice_elems_def)
    with xs have len: "length ?vs = slice_len x" by (simp add: slice_val_def)
    have src: "typed h (xs ! (slice_offset x + j)) \<and> val h (xs ! (slice_offset x + j)) = ?vs ! j" if "j < length ?vs" for j
    proof -
      have j: "slice_elems sel h s ! j = xs ! (slice_offset x + j)" "j < length (slice_elems sel h s)"
        using that len xs(2) by (simp_all add: el)
      then have "xs ! (slice_offset x + j) \<in> set (slice_elems sel h s)" by (metis nth_mem)
      with t j show ?thesis by (simp add: slice_typed_def slice_val_def)
    qed
    have "copied sel typed refs val ?out ?vs 0 ?h" by (simp add: copied_def load_new mk len)
    with copy_range_copies [where sel = sel and mk = mk and off = "slice_offset x" and dst = ?out, OF D mk xs(1) _ src _ grows_new]
      xs(2) obtain h' where
      h': "copy_range sel mk f (slice_array x) (slice_offset x) ?out [0..<length ?vs] ?h = Some h'" "grows h h'"
        "copied sel typed refs val ?out ?vs (length ?vs) h'" by (auto simp: len)
    from h'(3) obtain ys where ys: "load sel h' ?out = Some ys" "length ys = length ?vs"
      and yj: "\<And>j. j < length ?vs \<Longrightarrow> typed h' (ys ! j) \<and> val h' (ys ! j) = ?vs ! j \<and> refs h' (ys ! j) \<subseteq> {?out<..}"
      by (auto simp: copied_def)
    let ?y = "Some (Slice ?out 0 (slice_len x))"
    have ely: "slice_elems sel h' ?y = ys" using ys len by (simp add: slice_elems_def)
    have elem: "typed h' z \<and> refs h' z \<subseteq> {?out<..}" if "z \<in> set ys" for z
      using that yj ys(2) by (auto simp: in_set_conv_nth)
    have "slice_typed sel typed h' ?y" using ys len elem by (auto simp: slice_typed_def ely)
    moreover have "slice_val sel val h' ?y = ?vs" using ys(2) yj by (simp add: slice_val_def [of _ _ h'] ely list_eq_iff_nth_eq)
    moreover have "slice_refs sel refs h' ?y \<subseteq> {length h..}" using elem by (fastforce simp: slice_refs_def ely)
    ultimately show ?thesis using h'(1) [unfolded len] h'(2) Some by (simp add: copy_slice_def new_def)
  qed
qed

section \<open>Objects\<close>

text \<open>
  \<open>DeepCopy\<close> of a pointer to a struct: nil is nil; otherwise a new zero value of the type,
  into which \<open>DeepCopyInto\<close> writes the copy.
\<close>

definition copy_new ::
  "('c \<Rightarrow> 'a option) \<Rightarrow> ('a \<Rightarrow> 'c) \<Rightarrow> 'a \<Rightarrow> ('a \<Rightarrow> 'c list \<Rightarrow> ('a \<times> 'c list) option) \<Rightarrow>
   addr option \<Rightarrow> 'c list \<Rightarrow> (addr option \<times> 'c list) option" where
  "copy_new sel mk zero DeepCopyInto p h =
    (case p of
       None \<Rightarrow> Some (None, h)
     | Some a \<Rightarrow> do {
         let (out, h) = new (mk zero) h;
         x \<leftarrow> load sel h a;
         (y, h) \<leftarrow> DeepCopyInto x h;
         Some (Some out, h[out := mk y]) })"

definition obj_typed :: "('c \<Rightarrow> 'a option) \<Rightarrow> ('c list \<Rightarrow> 'a \<Rightarrow> bool) \<Rightarrow> 'c list \<Rightarrow> addr option \<Rightarrow> bool" where
  "obj_typed sel typed h p \<longleftrightarrow> (\<forall>a. p = Some a \<longrightarrow> (\<exists>x. load sel h a = Some x \<and> typed h x))"

definition obj_refs :: "('c \<Rightarrow> 'a option) \<Rightarrow> ('c list \<Rightarrow> 'a \<Rightarrow> addr set) \<Rightarrow> 'c list \<Rightarrow> addr option \<Rightarrow> addr set" where
  "obj_refs sel refs h p =
    (case p of None \<Rightarrow> {} | Some a \<Rightarrow> insert a (case load sel h a of None \<Rightarrow> {} | Some x \<Rightarrow> refs h x))"

definition obj_val :: "('c \<Rightarrow> 'a option) \<Rightarrow> ('c list \<Rightarrow> 'a \<Rightarrow> 'v) \<Rightarrow> 'c list \<Rightarrow> addr option \<Rightarrow> 'v option" where
  "obj_val sel val h p = map_option (val h) (ptr_val sel h p)"

lemma deep_copy_obj:
  assumes D: "deep_copy f typed refs val" and mk: "\<And>x. sel (mk x) = Some x"
  shows "deep_copy (copy_new sel mk zero f) (obj_typed sel typed) (obj_refs sel refs) (obj_val sel val)"
proof
  fix h p assume t: "obj_typed sel typed h p"
  show "obj_refs sel refs h p \<subseteq> {..<length h}"
    using t by (cases p) (auto simp: obj_refs_def obj_typed_def dest: load_bound subsetD [OF deep_copy.bounded [OF D]])
  show "obj_typed sel typed h' p \<and> obj_refs sel refs h' p = obj_refs sel refs h p \<and> obj_val sel val h' p = obj_val sel val h p"
    if ag: "agree (obj_refs sel refs h p) h h'" for h'
  proof (cases p)
    case (Some a)
    with t obtain x where x: "load sel h a = Some x" "typed h x" by (auto simp: obj_typed_def)
    with ag Some have "agree (insert a (refs h x)) h h'" by (simp add: obj_refs_def)
    with x deep_copy.settled [OF D x(2), of h'] load_agree [OF x(1), of "insert a (refs h x)" h'] Some show ?thesis
      by (auto simp: obj_typed_def obj_refs_def obj_val_def ptr_val_def agree_def)
  qed (simp add: obj_typed_def obj_refs_def obj_val_def ptr_val_def)
  show "\<exists>y h'. copy_new sel mk zero f p h = Some (y, h') \<and> grows h h' \<and> obj_typed sel typed h' y \<and>
      obj_val sel val h' y = obj_val sel val h p \<and> obj_refs sel refs h' y \<subseteq> {length h..}"
  proof (cases p)
    case (Some a)
    with t obtain x where x: "load sel h a = Some x" "typed h x" by (auto simp: obj_typed_def)
    let ?h = "h @ [mk zero]" and ?out = "length h"
    have lx: "load sel ?h a = Some x" using x(1) load_bound [OF x(1)] by (simp add: load_def nth_append)
    have tx: "typed ?h x" "val ?h x = val h x" using deep_copy.kept [OF D x(2) grows_new] by auto
    from deep_copy.copies [OF D tx(1)] obtain y h1 where
      y: "f x ?h = Some (y, h1)" "grows ?h h1" "typed h1 y" "val h1 y = val ?h x" "refs h1 y \<subseteq> {length ?h..}" by auto
    let ?h1 = "h1[?out := mk y]"
    have "?out \<notin> refs h1 y" using y(5) by auto
    from deep_copy.settled [OF D y(3) store_agree [OF this]]
    have k: "typed ?h1 y" "refs ?h1 y = refs h1 y" "val ?h1 y = val h1 y" by auto
    have "?out < length h1" using grows_length [OF y(2)] by simp
    then have "load sel ?h1 ?out = Some y" by (simp add: load_def mk)
    moreover have "grows h ?h1" using grows_store [OF grows_trans [OF grows_new y(2)]] by simp
    ultimately show ?thesis using Some lx x y k tx(2)
      by (fastforce simp: copy_new_def new_def obj_typed_def obj_refs_def obj_val_def ptr_val_def)
  qed (simp add: copy_new_def obj_typed_def obj_refs_def obj_val_def ptr_val_def)
qed

end
