(* ===== verification/Deep_Copy.thy ===== *)
theory Deep_Copy
  imports Go_Heap Api_Types
begin

text \<open>
  \<open>src/api/v1alpha1/zz_generated.deepcopy.go\<close>: the deep copies of the custom resources, on
  Go's memory. The types of \<open>Api_Types\<close> appear here as they lie in memory, with references
  for pointers, maps and slices. A struct type of another module (\<open>metav1.ObjectMeta\<close>,
  \<open>metav1.ListMeta\<close>, \<open>corev1.Toleration\<close>, \<open>resource.Quantity\<close>) is a type parameter
  \<open>'e\<close>, its copy function a parameter of the model. \<open>in\<close> and \<open>out\<close> of a
  \<open>DeepCopyInto\<close> are different variables: it is a function from the value of \<open>in\<close> and the
  heap to the value of \<open>out\<close> and the heap, undefined where the code would panic.
\<close>

section \<open>The types in memory\<close>

record TypeMeta =
  tm_Kind :: string
  tm_APIVersion :: string

record mPVCBackupSpec =
  m_PVCName :: string
  m_TTL :: duration
  mb_StorageClassName :: string
  mb_NodeSelector :: "addr option"
  mb_Tolerations :: "slice option"
  mb_PriorityClassName :: string
  mb_Labels :: "addr option"
  mb_Annotations :: "addr option"

record mPVCBackupStatus =
  mb_StartedAt :: "addr option"
  mb_FinishedAt :: "addr option"
  mb_Duration :: "addr option"
  mb_Result :: "addr option"

record 'e mPVCBackup =
  mb_TypeMeta :: TypeMeta
  mb_ObjectMeta :: 'e
  mb_Spec :: mPVCBackupSpec
  mb_Status :: mPVCBackupStatus

record 'e mPVCBackupList =
  mbl_TypeMeta :: TypeMeta
  mbl_ListMeta :: 'e
  mbl_Items :: "slice option"

record 'e mPVCRestoreSpec =
  m_SourcePVC :: string
  m_SourceNamespace :: string
  m_SourceSnapshot :: string
  m_TargetPVC :: string
  m_TargetPVCSize :: 'e
  mr_StorageClassName :: string
  mr_NodeSelector :: "addr option"
  mr_Tolerations :: "slice option"
  mr_PriorityClassName :: string
  mr_Labels :: "addr option"
  mr_Annotations :: "addr option"

record mPVCRestoreStatus =
  mr_StartedAt :: "addr option"
  mr_FinishedAt :: "addr option"
  mr_Duration :: "addr option"
  mr_Result :: "addr option"

record 'e mPVCRestore =
  mr_TypeMeta :: TypeMeta
  mr_ObjectMeta :: 'e
  mr_Spec :: "'e mPVCRestoreSpec"
  mr_Status :: mPVCRestoreStatus

record 'e mPVCRestoreList =
  mrl_TypeMeta :: TypeMeta
  mrl_ListMeta :: 'e
  mrl_Items :: "slice option"

text \<open>What a cell holds: the target of a pointer, the entries of a map, the array under a slice.\<close>

datatype 'e cell =
    StrMapCell strmap
  | TolerationsCell "'e list"
  | TimeCell time
  | DurationCell duration
  | ResultCell string
  | BackupSpecCell mPVCBackupSpec
  | BackupStatusCell mPVCBackupStatus
  | BackupCell "'e mPVCBackup"
  | BackupsCell "'e mPVCBackup list"
  | BackupListCell "'e mPVCBackupList"
  | RestoreSpecCell "'e mPVCRestoreSpec"
  | RestoreStatusCell mPVCRestoreStatus
  | RestoreCell "'e mPVCRestore"
  | RestoresCell "'e mPVCRestore list"
  | RestoreListCell "'e mPVCRestoreList"
  | ForeignCell 'e

type_synonym 'e heap = "'e cell list"
type_synonym ('e, 'a) copier = "'a \<Rightarrow> 'e heap \<Rightarrow> ('a \<times> 'e heap) option"

definition theStrMap :: "'e cell \<Rightarrow> strmap option" where
  "theStrMap c = (case c of StrMapCell x \<Rightarrow> Some x | _ \<Rightarrow> None)"

definition theTolerations :: "'e cell \<Rightarrow> 'e list option" where
  "theTolerations c = (case c of TolerationsCell x \<Rightarrow> Some x | _ \<Rightarrow> None)"

definition theTime :: "'e cell \<Rightarrow> time option" where
  "theTime c = (case c of TimeCell x \<Rightarrow> Some x | _ \<Rightarrow> None)"

definition theDuration :: "'e cell \<Rightarrow> duration option" where
  "theDuration c = (case c of DurationCell x \<Rightarrow> Some x | _ \<Rightarrow> None)"

definition theResult :: "'e cell \<Rightarrow> string option" where
  "theResult c = (case c of ResultCell x \<Rightarrow> Some x | _ \<Rightarrow> None)"

definition theBackupSpec :: "'e cell \<Rightarrow> mPVCBackupSpec option" where
  "theBackupSpec c = (case c of BackupSpecCell x \<Rightarrow> Some x | _ \<Rightarrow> None)"

definition theBackupStatus :: "'e cell \<Rightarrow> mPVCBackupStatus option" where
  "theBackupStatus c = (case c of BackupStatusCell x \<Rightarrow> Some x | _ \<Rightarrow> None)"

definition theBackup :: "'e cell \<Rightarrow> 'e mPVCBackup option" where
  "theBackup c = (case c of BackupCell x \<Rightarrow> Some x | _ \<Rightarrow> None)"

definition theBackups :: "'e cell \<Rightarrow> 'e mPVCBackup list option" where
  "theBackups c = (case c of BackupsCell x \<Rightarrow> Some x | _ \<Rightarrow> None)"

definition theBackupList :: "'e cell \<Rightarrow> 'e mPVCBackupList option" where
  "theBackupList c = (case c of BackupListCell x \<Rightarrow> Some x | _ \<Rightarrow> None)"

definition theRestoreSpec :: "'e cell \<Rightarrow> 'e mPVCRestoreSpec option" where
  "theRestoreSpec c = (case c of RestoreSpecCell x \<Rightarrow> Some x | _ \<Rightarrow> None)"

definition theRestoreStatus :: "'e cell \<Rightarrow> mPVCRestoreStatus option" where
  "theRestoreStatus c = (case c of RestoreStatusCell x \<Rightarrow> Some x | _ \<Rightarrow> None)"

definition theRestore :: "'e cell \<Rightarrow> 'e mPVCRestore option" where
  "theRestore c = (case c of RestoreCell x \<Rightarrow> Some x | _ \<Rightarrow> None)"

definition theRestores :: "'e cell \<Rightarrow> 'e mPVCRestore list option" where
  "theRestores c = (case c of RestoresCell x \<Rightarrow> Some x | _ \<Rightarrow> None)"

definition theRestoreList :: "'e cell \<Rightarrow> 'e mPVCRestoreList option" where
  "theRestoreList c = (case c of RestoreListCell x \<Rightarrow> Some x | _ \<Rightarrow> None)"

lemmas the_defs = theStrMap_def theTolerations_def theTime_def theDuration_def theResult_def theBackupSpec_def theBackupStatus_def theBackup_def theBackups_def theBackupList_def theRestoreSpec_def theRestoreStatus_def theRestore_def theRestores_def theRestoreList_def

text \<open>The functions of the other modules, and the zero value of their structs.\<close>

record 'e lib =
  lib_ObjectMeta_DeepCopyInto :: "('e, 'e) copier"
  lib_ListMeta_DeepCopyInto :: "('e, 'e) copier"
  lib_Toleration_DeepCopyInto :: "('e, 'e) copier"
  lib_Quantity_DeepCopy :: "('e, 'e) copier"
  lib_Time_DeepCopy :: "('e, addr option) copier"
  lib_zero :: 'e

section \<open>The zero values of new\<close>

definition zeroTypeMeta :: TypeMeta where
  "zeroTypeMeta = \<lparr>tm_Kind = [], tm_APIVersion = []\<rparr>"

definition zeroBackupSpec :: mPVCBackupSpec where
  "zeroBackupSpec = \<lparr>m_PVCName = [], m_TTL = 0, mb_StorageClassName = [], mb_NodeSelector = None,
     mb_Tolerations = None, mb_PriorityClassName = [], mb_Labels = None, mb_Annotations = None\<rparr>"

definition zeroBackupStatus :: mPVCBackupStatus where
  "zeroBackupStatus = \<lparr>mb_StartedAt = None, mb_FinishedAt = None, mb_Duration = None, mb_Result = None\<rparr>"

definition zeroBackup :: "'e lib \<Rightarrow> 'e mPVCBackup" where
  "zeroBackup L = \<lparr>mb_TypeMeta = zeroTypeMeta, mb_ObjectMeta = lib_zero L, mb_Spec = zeroBackupSpec, mb_Status = zeroBackupStatus\<rparr>"

definition zeroBackupList :: "'e lib \<Rightarrow> 'e mPVCBackupList" where
  "zeroBackupList L = \<lparr>mbl_TypeMeta = zeroTypeMeta, mbl_ListMeta = lib_zero L, mbl_Items = None\<rparr>"

definition zeroRestoreSpec :: "'e lib \<Rightarrow> 'e mPVCRestoreSpec" where
  "zeroRestoreSpec L = \<lparr>m_SourcePVC = [], m_SourceNamespace = [], m_SourceSnapshot = [], m_TargetPVC = [],
     m_TargetPVCSize = lib_zero L, mr_StorageClassName = [], mr_NodeSelector = None, mr_Tolerations = None,
     mr_PriorityClassName = [], mr_Labels = None, mr_Annotations = None\<rparr>"

definition zeroRestoreStatus :: mPVCRestoreStatus where
  "zeroRestoreStatus = \<lparr>mr_StartedAt = None, mr_FinishedAt = None, mr_Duration = None, mr_Result = None\<rparr>"

definition zeroRestore :: "'e lib \<Rightarrow> 'e mPVCRestore" where
  "zeroRestore L = \<lparr>mr_TypeMeta = zeroTypeMeta, mr_ObjectMeta = lib_zero L, mr_Spec = zeroRestoreSpec L, mr_Status = zeroRestoreStatus\<rparr>"

definition zeroRestoreList :: "'e lib \<Rightarrow> 'e mPVCRestoreList" where
  "zeroRestoreList L = \<lparr>mrl_TypeMeta = zeroTypeMeta, mrl_ListMeta = lib_zero L, mrl_Items = None\<rparr>"

section \<open>Fields\<close>

text \<open>\<open>if in.F != nil { *out = (*in).DeepCopy() }\<close> for a \<open>*metav1.Time\<close>.\<close>

definition copyTime :: "'e lib \<Rightarrow> ('e, addr option) copier" where
  "copyTime L p h = (case p of None \<Rightarrow> Some (None, h) | Some _ \<Rightarrow> lib_Time_DeepCopy L p h)"

definition copyDuration :: "('e, addr option) copier" where
  "copyDuration = copy_ptr theDuration DurationCell"

definition copyResult :: "('e, addr option) copier" where
  "copyResult = copy_ptr theResult ResultCell"

definition copyStrMap :: "('e, addr option) copier" where
  "copyStrMap = copy_strmap theStrMap StrMapCell"

definition copyTolerations :: "'e lib \<Rightarrow> ('e, slice option) copier" where
  "copyTolerations L = copy_slice theTolerations TolerationsCell (lib_zero L) (lib_Toleration_DeepCopyInto L)"

section \<open>Backups\<close>

definition PVCBackupSpec_DeepCopyInto :: "'e lib \<Rightarrow> ('e, mPVCBackupSpec) copier" where
  "PVCBackupSpec_DeepCopyInto L self h = do {
     let out = self\<lparr>m_TTL := m_TTL self\<rparr>;
     (x, h) \<leftarrow> copyStrMap (mb_NodeSelector self) h;
     let out = out\<lparr>mb_NodeSelector := x\<rparr>;
     (x, h) \<leftarrow> copyTolerations L (mb_Tolerations self) h;
     let out = out\<lparr>mb_Tolerations := x\<rparr>;
     (x, h) \<leftarrow> copyStrMap (mb_Labels self) h;
     let out = out\<lparr>mb_Labels := x\<rparr>;
     (x, h) \<leftarrow> copyStrMap (mb_Annotations self) h;
     Some (out\<lparr>mb_Annotations := x\<rparr>, h) }"

definition PVCBackupSpec_DeepCopy :: "'e lib \<Rightarrow> ('e, addr option) copier" where
  "PVCBackupSpec_DeepCopy L = copy_new theBackupSpec BackupSpecCell zeroBackupSpec (PVCBackupSpec_DeepCopyInto L)"

definition PVCBackupStatus_DeepCopyInto :: "'e lib \<Rightarrow> ('e, mPVCBackupStatus) copier" where
  "PVCBackupStatus_DeepCopyInto L self h = do {
     let out = self;
     (x, h) \<leftarrow> copyTime L (mb_StartedAt self) h;
     let out = out\<lparr>mb_StartedAt := x\<rparr>;
     (x, h) \<leftarrow> copyTime L (mb_FinishedAt self) h;
     let out = out\<lparr>mb_FinishedAt := x\<rparr>;
     (x, h) \<leftarrow> copyDuration (mb_Duration self) h;
     let out = out\<lparr>mb_Duration := x\<rparr>;
     (x, h) \<leftarrow> copyResult (mb_Result self) h;
     Some (out\<lparr>mb_Result := x\<rparr>, h) }"

definition PVCBackupStatus_DeepCopy :: "'e lib \<Rightarrow> ('e, addr option) copier" where
  "PVCBackupStatus_DeepCopy L = copy_new theBackupStatus BackupStatusCell zeroBackupStatus (PVCBackupStatus_DeepCopyInto L)"

definition PVCBackup_DeepCopyInto :: "'e lib \<Rightarrow> ('e, 'e mPVCBackup) copier" where
  "PVCBackup_DeepCopyInto L self h = do {
     let out = self\<lparr>mb_TypeMeta := mb_TypeMeta self\<rparr>;
     (x, h) \<leftarrow> lib_ObjectMeta_DeepCopyInto L (mb_ObjectMeta self) h;
     let out = out\<lparr>mb_ObjectMeta := x\<rparr>;
     (x, h) \<leftarrow> PVCBackupSpec_DeepCopyInto L (mb_Spec self) h;
     let out = out\<lparr>mb_Spec := x\<rparr>;
     (x, h) \<leftarrow> PVCBackupStatus_DeepCopyInto L (mb_Status self) h;
     Some (out\<lparr>mb_Status := x\<rparr>, h) }"

definition PVCBackup_DeepCopy :: "'e lib \<Rightarrow> ('e, addr option) copier" where
  "PVCBackup_DeepCopy L = copy_new theBackup BackupCell (zeroBackup L) (PVCBackup_DeepCopyInto L)"

definition PVCBackupList_DeepCopyInto :: "'e lib \<Rightarrow> ('e, 'e mPVCBackupList) copier" where
  "PVCBackupList_DeepCopyInto L self h = do {
     let out = self\<lparr>mbl_TypeMeta := mbl_TypeMeta self\<rparr>;
     (x, h) \<leftarrow> lib_ListMeta_DeepCopyInto L (mbl_ListMeta self) h;
     let out = out\<lparr>mbl_ListMeta := x\<rparr>;
     (x, h) \<leftarrow> copy_slice theBackups BackupsCell (zeroBackup L) (PVCBackup_DeepCopyInto L) (mbl_Items self) h;
     Some (out\<lparr>mbl_Items := x\<rparr>, h) }"

definition PVCBackupList_DeepCopy :: "'e lib \<Rightarrow> ('e, addr option) copier" where
  "PVCBackupList_DeepCopy L = copy_new theBackupList BackupListCell (zeroBackupList L) (PVCBackupList_DeepCopyInto L)"

section \<open>Restores\<close>

definition PVCRestoreSpec_DeepCopyInto :: "'e lib \<Rightarrow> ('e, 'e mPVCRestoreSpec) copier" where
  "PVCRestoreSpec_DeepCopyInto L self h = do {
     let out = self;
     (x, h) \<leftarrow> lib_Quantity_DeepCopy L (m_TargetPVCSize self) h;
     let out = out\<lparr>m_TargetPVCSize := x\<rparr>;
     (x, h) \<leftarrow> copyStrMap (mr_NodeSelector self) h;
     let out = out\<lparr>mr_NodeSelector := x\<rparr>;
     (x, h) \<leftarrow> copyTolerations L (mr_Tolerations self) h;
     let out = out\<lparr>mr_Tolerations := x\<rparr>;
     (x, h) \<leftarrow> copyStrMap (mr_Labels self) h;
     let out = out\<lparr>mr_Labels := x\<rparr>;
     (x, h) \<leftarrow> copyStrMap (mr_Annotations self) h;
     Some (out\<lparr>mr_Annotations := x\<rparr>, h) }"

definition PVCRestoreSpec_DeepCopy :: "'e lib \<Rightarrow> ('e, addr option) copier" where
  "PVCRestoreSpec_DeepCopy L = copy_new theRestoreSpec RestoreSpecCell (zeroRestoreSpec L) (PVCRestoreSpec_DeepCopyInto L)"

definition PVCRestoreStatus_DeepCopyInto :: "'e lib \<Rightarrow> ('e, mPVCRestoreStatus) copier" where
  "PVCRestoreStatus_DeepCopyInto L self h = do {
     let out = self;
     (x, h) \<leftarrow> copyTime L (mr_StartedAt self) h;
     let out = out\<lparr>mr_StartedAt := x\<rparr>;
     (x, h) \<leftarrow> copyTime L (mr_FinishedAt self) h;
     let out = out\<lparr>mr_FinishedAt := x\<rparr>;
     (x, h) \<leftarrow> copyDuration (mr_Duration self) h;
     let out = out\<lparr>mr_Duration := x\<rparr>;
     (x, h) \<leftarrow> copyResult (mr_Result self) h;
     Some (out\<lparr>mr_Result := x\<rparr>, h) }"

definition PVCRestoreStatus_DeepCopy :: "'e lib \<Rightarrow> ('e, addr option) copier" where
  "PVCRestoreStatus_DeepCopy L = copy_new theRestoreStatus RestoreStatusCell zeroRestoreStatus (PVCRestoreStatus_DeepCopyInto L)"

definition PVCRestore_DeepCopyInto :: "'e lib \<Rightarrow> ('e, 'e mPVCRestore) copier" where
  "PVCRestore_DeepCopyInto L self h = do {
     let out = self\<lparr>mr_TypeMeta := mr_TypeMeta self\<rparr>;
     (x, h) \<leftarrow> lib_ObjectMeta_DeepCopyInto L (mr_ObjectMeta self) h;
     let out = out\<lparr>mr_ObjectMeta := x\<rparr>;
     (x, h) \<leftarrow> PVCRestoreSpec_DeepCopyInto L (mr_Spec self) h;
     let out = out\<lparr>mr_Spec := x\<rparr>;
     (x, h) \<leftarrow> PVCRestoreStatus_DeepCopyInto L (mr_Status self) h;
     Some (out\<lparr>mr_Status := x\<rparr>, h) }"

definition PVCRestore_DeepCopy :: "'e lib \<Rightarrow> ('e, addr option) copier" where
  "PVCRestore_DeepCopy L = copy_new theRestore RestoreCell (zeroRestore L) (PVCRestore_DeepCopyInto L)"

definition PVCRestoreList_DeepCopyInto :: "'e lib \<Rightarrow> ('e, 'e mPVCRestoreList) copier" where
  "PVCRestoreList_DeepCopyInto L self h = do {
     let out = self\<lparr>mrl_TypeMeta := mrl_TypeMeta self\<rparr>;
     (x, h) \<leftarrow> lib_ListMeta_DeepCopyInto L (mrl_ListMeta self) h;
     let out = out\<lparr>mrl_ListMeta := x\<rparr>;
     (x, h) \<leftarrow> copy_slice theRestores RestoresCell (zeroRestore L) (PVCRestore_DeepCopyInto L) (mrl_Items self) h;
     Some (out\<lparr>mrl_Items := x\<rparr>, h) }"

definition PVCRestoreList_DeepCopy :: "'e lib \<Rightarrow> ('e, addr option) copier" where
  "PVCRestoreList_DeepCopy L = copy_new theRestoreList RestoreListCell (zeroRestoreList L) (PVCRestoreList_DeepCopyInto L)"

section \<open>Objects\<close>

text \<open>
  A \<open>runtime.Object\<close> of this API group: an interface value with the type and a pointer. The
  nil interface is None; a typed nil pointer in an interface would not be nil.
\<close>

datatype runtime_Object =
    OPVCBackup "addr option"
  | OPVCBackupList "addr option"
  | OPVCRestore "addr option"
  | OPVCRestoreList "addr option"

definition PVCBackup_DeepCopyObject :: "'e lib \<Rightarrow> addr option \<Rightarrow> 'e heap \<Rightarrow> (runtime_Object option \<times> 'e heap) option" where
  "PVCBackup_DeepCopyObject L self h = do {
     (c, h) \<leftarrow> PVCBackup_DeepCopy L self h;
     Some (if c \<noteq> None then Some (OPVCBackup c) else None, h) }"

definition PVCBackupList_DeepCopyObject :: "'e lib \<Rightarrow> addr option \<Rightarrow> 'e heap \<Rightarrow> (runtime_Object option \<times> 'e heap) option" where
  "PVCBackupList_DeepCopyObject L self h = do {
     (c, h) \<leftarrow> PVCBackupList_DeepCopy L self h;
     Some (if c \<noteq> None then Some (OPVCBackupList c) else None, h) }"

definition PVCRestore_DeepCopyObject :: "'e lib \<Rightarrow> addr option \<Rightarrow> 'e heap \<Rightarrow> (runtime_Object option \<times> 'e heap) option" where
  "PVCRestore_DeepCopyObject L self h = do {
     (c, h) \<leftarrow> PVCRestore_DeepCopy L self h;
     Some (if c \<noteq> None then Some (OPVCRestore c) else None, h) }"

definition PVCRestoreList_DeepCopyObject :: "'e lib \<Rightarrow> addr option \<Rightarrow> 'e heap \<Rightarrow> (runtime_Object option \<times> 'e heap) option" where
  "PVCRestoreList_DeepCopyObject L self h = do {
     (c, h) \<leftarrow> PVCRestoreList_DeepCopy L self h;
     Some (if c \<noteq> None then Some (OPVCRestoreList c) else None, h) }"

text \<open>The call \<open>obj.DeepCopyObject()\<close> through the interface.\<close>

fun DeepCopyObject :: "'e lib \<Rightarrow> runtime_Object \<Rightarrow> 'e heap \<Rightarrow> (runtime_Object option \<times> 'e heap) option" where
  "DeepCopyObject L (OPVCBackup p) = PVCBackup_DeepCopyObject L p"
| "DeepCopyObject L (OPVCBackupList p) = PVCBackupList_DeepCopyObject L p"
| "DeepCopyObject L (OPVCRestore p) = PVCRestore_DeepCopyObject L p"
| "DeepCopyObject L (OPVCRestoreList p) = PVCRestoreList_DeepCopyObject L p"

end
