(* ===== verification/Deep_Copy_Props.thy ===== *)
theory Deep_Copy_Props
  imports Deep_Copy
begin

text \<open>
  What the objects in memory mean, when they are well typed, what they reach, and that every
  copy function of the API types meets the contract \<open>deep_copy\<close> for these, if the functions of
  the other modules do.
\<close>

section \<open>Hypotheses about the other modules\<close>

text \<open>The meaning of the structs of the other modules.\<close>

datatype foreign = FObjectMeta | FListMeta | FToleration | FQuantity

record 'e meaning =
  foreign_typed :: "foreign \<Rightarrow> 'e heap \<Rightarrow> 'e \<Rightarrow> bool"
  foreign_refs :: "'e heap \<Rightarrow> 'e \<Rightarrow> addr set"
  ObjectMeta_value :: "'e heap \<Rightarrow> 'e \<Rightarrow> ObjectMeta"
  ListMeta_value :: "'e heap \<Rightarrow> 'e \<Rightarrow> string"
  Toleration_value :: "'e heap \<Rightarrow> 'e \<Rightarrow> Toleration"
  Quantity_value :: "'e heap \<Rightarrow> 'e \<Rightarrow> Quantity"

definition lib_copies :: "'e lib \<Rightarrow> 'e meaning \<Rightarrow> bool" where
  "lib_copies L M \<longleftrightarrow>
     deep_copy (lib_ObjectMeta_DeepCopyInto L) (foreign_typed M FObjectMeta) (foreign_refs M) (ObjectMeta_value M) \<and>
     deep_copy (lib_ListMeta_DeepCopyInto L) (foreign_typed M FListMeta) (foreign_refs M) (ListMeta_value M) \<and>
     deep_copy (lib_Toleration_DeepCopyInto L) (foreign_typed M FToleration) (foreign_refs M) (Toleration_value M) \<and>
     deep_copy (lib_Quantity_DeepCopy L) (foreign_typed M FQuantity) (foreign_refs M) (Quantity_value M) \<and>
     deep_copy (lib_Time_DeepCopy L) (ptr_typed theTime) ptr_refs (ptr_val theTime)"

lemma lib_copiesD:
  assumes "lib_copies L M"
  shows "deep_copy (lib_ObjectMeta_DeepCopyInto L) (foreign_typed M FObjectMeta) (foreign_refs M) (ObjectMeta_value M)"
    and "deep_copy (lib_ListMeta_DeepCopyInto L) (foreign_typed M FListMeta) (foreign_refs M) (ListMeta_value M)"
    and "deep_copy (lib_Toleration_DeepCopyInto L) (foreign_typed M FToleration) (foreign_refs M) (Toleration_value M)"
    and "deep_copy (lib_Quantity_DeepCopy L) (foreign_typed M FQuantity) (foreign_refs M) (Quantity_value M)"
    and "deep_copy (lib_Time_DeepCopy L) (ptr_typed theTime) ptr_refs (ptr_val theTime)"
  using assms by (simp_all add: lib_copies_def)

section \<open>Fields\<close>

definition strMap_val :: "'e heap \<Rightarrow> addr option \<Rightarrow> strmap" where
  "strMap_val h p = (case ptr_val theStrMap h p of None \<Rightarrow> [] | Some m \<Rightarrow> m)"

interpretation duration_copy: deep_copy copyDuration "ptr_typed theDuration" ptr_refs "ptr_val theDuration"
  unfolding copyDuration_def by (rule deep_copy_ptr) (simp add: theDuration_def)

interpretation result_copy: deep_copy copyResult "ptr_typed theResult" ptr_refs "ptr_val theResult"
  unfolding copyResult_def by (rule deep_copy_ptr) (simp add: theResult_def)

interpretation strmap_copy: deep_copy copyStrMap "strmap_typed theStrMap" ptr_refs "ptr_val theStrMap"
  unfolding copyStrMap_def by (rule deep_copy_strmap) (simp add: theStrMap_def)

lemma deep_copy_strMap: "deep_copy copyStrMap (strmap_typed theStrMap) ptr_refs strMap_val"
  by (rule deep_copy_struct [where get = "\<lambda>x. x" and put = "\<lambda>_ t. t" and build = "\<lambda>_ v. case v of None \<Rightarrow> [] | Some m \<Rightarrow> m",
        OF strmap_copy.deep_copy_axioms]) (simp_all add: strMap_val_def option.map_id)

lemma deep_copy_time:
  assumes "lib_copies L M"
  shows "deep_copy (copyTime L) (ptr_typed theTime) ptr_refs (ptr_val theTime)"
proof
  fix h :: "'a heap" and p
  note T = lib_copiesD(5) [OF assms]
  show "ptr_refs h p \<subseteq> {..<length h}" if "ptr_typed theTime h p" using deep_copy.bounded [OF T that] .
  show "ptr_typed theTime h' p \<and> ptr_refs h' p = ptr_refs h p \<and> ptr_val theTime h' p = ptr_val theTime h p"
    if "ptr_typed theTime h p" "agree (ptr_refs h p) h h'" for h'
    using deep_copy.settled [OF T that] .
  show "\<exists>y h'. copyTime L p h = Some (y, h') \<and> grows h h' \<and> ptr_typed theTime h' y \<and>
      ptr_val theTime h' y = ptr_val theTime h p \<and> ptr_refs h' y \<subseteq> {length h..}" if "ptr_typed theTime h p"
    using deep_copy.copies [OF T that] by (cases p) (auto simp: copyTime_def ptr_typed_def ptr_val_def ptr_refs_def)
qed

lemma deep_copy_tolerations:
  assumes "lib_copies L M"
  shows "deep_copy (copyTolerations L) (slice_typed theTolerations (foreign_typed M FToleration))
    (slice_refs theTolerations (foreign_refs M)) (slice_val theTolerations (Toleration_value M))"
  unfolding copyTolerations_def by (rule deep_copy_slice [OF lib_copiesD(3) [OF assms]]) (simp add: theTolerations_def)

section \<open>Backups\<close>

definition backupSpec_typed :: "'e meaning \<Rightarrow> 'e heap \<Rightarrow> mPVCBackupSpec \<Rightarrow> bool" where
  "backupSpec_typed M h x \<longleftrightarrow> strmap_typed theStrMap h (mb_NodeSelector x) \<and>
     slice_typed theTolerations (foreign_typed M FToleration) h (mb_Tolerations x) \<and>
     strmap_typed theStrMap h (mb_Labels x) \<and> strmap_typed theStrMap h (mb_Annotations x)"

definition backupSpec_refs :: "'e meaning \<Rightarrow> 'e heap \<Rightarrow> mPVCBackupSpec \<Rightarrow> addr set" where
  "backupSpec_refs M h x = ptr_refs h (mb_NodeSelector x) \<union> (slice_refs theTolerations (foreign_refs M) h (mb_Tolerations x) \<union>
     (ptr_refs h (mb_Labels x) \<union> ptr_refs h (mb_Annotations x)))"

definition backupSpec_val :: "'e meaning \<Rightarrow> 'e heap \<Rightarrow> mPVCBackupSpec \<Rightarrow> PVCBackupSpec" where
  "backupSpec_val M h x = \<lparr>PVCName = m_PVCName x, TTL = m_TTL x, bs_StorageClassName = mb_StorageClassName x,
     bs_NodeSelector = strMap_val h (mb_NodeSelector x),
     bs_Tolerations = slice_val theTolerations (Toleration_value M) h (mb_Tolerations x),
     bs_PriorityClassName = mb_PriorityClassName x,
     bs_Labels = strMap_val h (mb_Labels x), bs_Annotations = strMap_val h (mb_Annotations x)\<rparr>"

lemma deep_copy_backupSpec:
  assumes "lib_copies L M"
  shows "deep_copy (PVCBackupSpec_DeepCopyInto L) (backupSpec_typed M) (backupSpec_refs M) (backupSpec_val M)"
  by (rule deep_copy_struct [where get = "\<lambda>x. (mb_NodeSelector x, mb_Tolerations x, mb_Labels x, mb_Annotations x)"
        and put = "\<lambda>x (n, t, l, a). x\<lparr>mb_NodeSelector := n, mb_Tolerations := t, mb_Labels := l, mb_Annotations := a\<rparr>"
        and build = "\<lambda>x (n, t, l, a). \<lparr>PVCName = m_PVCName x, TTL = m_TTL x, bs_StorageClassName = mb_StorageClassName x,
          bs_NodeSelector = n, bs_Tolerations = t, bs_PriorityClassName = mb_PriorityClassName x, bs_Labels = l, bs_Annotations = a\<rparr>",
        OF deep_copy_pair [OF deep_copy_strMap deep_copy_pair [OF deep_copy_tolerations [OF assms]
          deep_copy_pair [OF deep_copy_strMap deep_copy_strMap]]]])
    (auto simp: PVCBackupSpec_DeepCopyInto_def copy_pair_def backupSpec_typed_def backupSpec_refs_def backupSpec_val_def
      split: bind_splits)

definition backupstatus_typed :: "'e heap \<Rightarrow> mPVCBackupStatus \<Rightarrow> bool" where
  "backupstatus_typed h x \<longleftrightarrow> ptr_typed theTime h (mb_StartedAt x) \<and> ptr_typed theTime h (mb_FinishedAt x) \<and>
     ptr_typed theDuration h (mb_Duration x) \<and> ptr_typed theResult h (mb_Result x)"

definition backupstatus_refs :: "'e heap \<Rightarrow> mPVCBackupStatus \<Rightarrow> addr set" where
  "backupstatus_refs h x = ptr_refs h (mb_StartedAt x) \<union> (ptr_refs h (mb_FinishedAt x) \<union>
     (ptr_refs h (mb_Duration x) \<union> ptr_refs h (mb_Result x)))"

definition backupstatus_val :: "'e heap \<Rightarrow> mPVCBackupStatus \<Rightarrow> PVCBackupStatus" where
  "backupstatus_val h x = \<lparr>StartedAt = ptr_val theTime h (mb_StartedAt x), FinishedAt = ptr_val theTime h (mb_FinishedAt x),
     Duration = ptr_val theDuration h (mb_Duration x), Result = ptr_val theResult h (mb_Result x)\<rparr>"

lemma deep_copy_backupstatus:
  assumes "lib_copies L M"
  shows "deep_copy (PVCBackupStatus_DeepCopyInto L) backupstatus_typed backupstatus_refs backupstatus_val"
  by (rule deep_copy_struct [where get = "\<lambda>x. (mb_StartedAt x, mb_FinishedAt x, mb_Duration x, mb_Result x)"
        and put = "\<lambda>x (s, f, d, r). x\<lparr>mb_StartedAt := s, mb_FinishedAt := f, mb_Duration := d, mb_Result := r\<rparr>"
        and build = "\<lambda>x (s, f, d, r). \<lparr>StartedAt = s, FinishedAt = f, Duration = d, Result = r\<rparr>",
        OF deep_copy_pair [OF deep_copy_time [OF assms] deep_copy_pair [OF deep_copy_time [OF assms]
          deep_copy_pair [OF duration_copy.deep_copy_axioms result_copy.deep_copy_axioms]]]])
    (auto simp: PVCBackupStatus_DeepCopyInto_def copy_pair_def backupstatus_typed_def backupstatus_refs_def backupstatus_val_def
      split: bind_splits)

definition backup_typed :: "'e meaning \<Rightarrow> 'e heap \<Rightarrow> 'e mPVCBackup \<Rightarrow> bool" where
  "backup_typed M h x \<longleftrightarrow> foreign_typed M FObjectMeta h (mb_ObjectMeta x) \<and> backupSpec_typed M h (mb_Spec x) \<and> backupstatus_typed h (mb_Status x)"

definition backup_refs :: "'e meaning \<Rightarrow> 'e heap \<Rightarrow> 'e mPVCBackup \<Rightarrow> addr set" where
  "backup_refs M h x = foreign_refs M h (mb_ObjectMeta x) \<union> (backupSpec_refs M h (mb_Spec x) \<union> backupstatus_refs h (mb_Status x))"

definition backup_val :: "'e meaning \<Rightarrow> 'e heap \<Rightarrow> 'e mPVCBackup \<Rightarrow> TypeMeta \<times> PVCBackup" where
  "backup_val M h x = (mb_TypeMeta x, \<lparr>backup_meta = ObjectMeta_value M h (mb_ObjectMeta x), backup_spec = backupSpec_val M h (mb_Spec x),
     backup_status = backupstatus_val h (mb_Status x)\<rparr>)"

lemma deep_copy_backup:
  assumes "lib_copies L M"
  shows "deep_copy (PVCBackup_DeepCopyInto L) (backup_typed M) (backup_refs M) (backup_val M)"
  by (rule deep_copy_struct [where get = "\<lambda>x. (mb_ObjectMeta x, mb_Spec x, mb_Status x)"
        and put = "\<lambda>x (m, s, t). x\<lparr>mb_ObjectMeta := m, mb_Spec := s, mb_Status := t\<rparr>"
        and build = "\<lambda>x (m, s, t). (mb_TypeMeta x, \<lparr>backup_meta = m, backup_spec = s, backup_status = t\<rparr>)",
        OF deep_copy_pair [OF lib_copiesD(1) [OF assms] deep_copy_pair [OF deep_copy_backupSpec [OF assms] deep_copy_backupstatus [OF assms]]]])
    (auto simp: PVCBackup_DeepCopyInto_def copy_pair_def backup_typed_def backup_refs_def backup_val_def split: bind_splits)

definition backupList_typed :: "'e meaning \<Rightarrow> 'e heap \<Rightarrow> 'e mPVCBackupList \<Rightarrow> bool" where
  "backupList_typed M h x \<longleftrightarrow> foreign_typed M FListMeta h (mbl_ListMeta x) \<and> slice_typed theBackups (backup_typed M) h (mbl_Items x)"

definition backupList_refs :: "'e meaning \<Rightarrow> 'e heap \<Rightarrow> 'e mPVCBackupList \<Rightarrow> addr set" where
  "backupList_refs M h x = foreign_refs M h (mbl_ListMeta x) \<union> slice_refs theBackups (backup_refs M) h (mbl_Items x)"

definition backupList_val :: "'e meaning \<Rightarrow> 'e heap \<Rightarrow> 'e mPVCBackupList \<Rightarrow> TypeMeta \<times> string \<times> (TypeMeta \<times> PVCBackup) list" where
  "backupList_val M h x = (mbl_TypeMeta x, ListMeta_value M h (mbl_ListMeta x), slice_val theBackups (backup_val M) h (mbl_Items x))"

lemma deep_copy_backupList:
  assumes "lib_copies L M"
  shows "deep_copy (PVCBackupList_DeepCopyInto L) (backupList_typed M) (backupList_refs M) (backupList_val M)"
proof -
  have items: "deep_copy (copy_slice theBackups BackupsCell (zeroBackup L) (PVCBackup_DeepCopyInto L)) (slice_typed theBackups (backup_typed M))
      (slice_refs theBackups (backup_refs M)) (slice_val theBackups (backup_val M))"
    by (rule deep_copy_slice [OF deep_copy_backup [OF assms]]) (simp add: theBackups_def)
  show ?thesis
    by (rule deep_copy_struct [where get = "\<lambda>x. (mbl_ListMeta x, mbl_Items x)"
          and put = "\<lambda>x (m, i). x\<lparr>mbl_ListMeta := m, mbl_Items := i\<rparr>"
          and build = "\<lambda>x (m, i). (mbl_TypeMeta x, m, i)",
          OF deep_copy_pair [OF lib_copiesD(2) [OF assms] items]])
      (auto simp: PVCBackupList_DeepCopyInto_def copy_pair_def backupList_typed_def backupList_refs_def backupList_val_def split: bind_splits)
qed

section \<open>Restores\<close>

definition restoreSpec_typed :: "'e meaning \<Rightarrow> 'e heap \<Rightarrow> 'e mPVCRestoreSpec \<Rightarrow> bool" where
  "restoreSpec_typed M h x \<longleftrightarrow> foreign_typed M FQuantity h (m_TargetPVCSize x) \<and> strmap_typed theStrMap h (mr_NodeSelector x) \<and>
     slice_typed theTolerations (foreign_typed M FToleration) h (mr_Tolerations x) \<and>
     strmap_typed theStrMap h (mr_Labels x) \<and> strmap_typed theStrMap h (mr_Annotations x)"

definition restoreSpec_refs :: "'e meaning \<Rightarrow> 'e heap \<Rightarrow> 'e mPVCRestoreSpec \<Rightarrow> addr set" where
  "restoreSpec_refs M h x = foreign_refs M h (m_TargetPVCSize x) \<union> (ptr_refs h (mr_NodeSelector x) \<union>
     (slice_refs theTolerations (foreign_refs M) h (mr_Tolerations x) \<union> (ptr_refs h (mr_Labels x) \<union> ptr_refs h (mr_Annotations x))))"

definition restoreSpec_val :: "'e meaning \<Rightarrow> 'e heap \<Rightarrow> 'e mPVCRestoreSpec \<Rightarrow> PVCRestoreSpec" where
  "restoreSpec_val M h x = \<lparr>SourcePVC = m_SourcePVC x, SourceNamespace = m_SourceNamespace x, SourceSnapshot = m_SourceSnapshot x,
     TargetPVC = m_TargetPVC x, TargetPVCSize = Quantity_value M h (m_TargetPVCSize x), rs_StorageClassName = mr_StorageClassName x,
     rs_NodeSelector = strMap_val h (mr_NodeSelector x),
     rs_Tolerations = slice_val theTolerations (Toleration_value M) h (mr_Tolerations x),
     rs_PriorityClassName = mr_PriorityClassName x,
     rs_Labels = strMap_val h (mr_Labels x), rs_Annotations = strMap_val h (mr_Annotations x)\<rparr>"

lemma deep_copy_restoreSpec:
  assumes "lib_copies L M"
  shows "deep_copy (PVCRestoreSpec_DeepCopyInto L) (restoreSpec_typed M) (restoreSpec_refs M) (restoreSpec_val M)"
  by (rule deep_copy_struct [where get = "\<lambda>x. (m_TargetPVCSize x, mr_NodeSelector x, mr_Tolerations x, mr_Labels x, mr_Annotations x)"
        and put = "\<lambda>x (q, n, t, l, a). x\<lparr>m_TargetPVCSize := q, mr_NodeSelector := n, mr_Tolerations := t, mr_Labels := l, mr_Annotations := a\<rparr>"
        and build = "\<lambda>x (q, n, t, l, a). \<lparr>SourcePVC = m_SourcePVC x, SourceNamespace = m_SourceNamespace x,
          SourceSnapshot = m_SourceSnapshot x, TargetPVC = m_TargetPVC x, TargetPVCSize = q,
          rs_StorageClassName = mr_StorageClassName x, rs_NodeSelector = n, rs_Tolerations = t,
          rs_PriorityClassName = mr_PriorityClassName x, rs_Labels = l, rs_Annotations = a\<rparr>",
        OF deep_copy_pair [OF lib_copiesD(4) [OF assms] deep_copy_pair [OF deep_copy_strMap deep_copy_pair [OF
          deep_copy_tolerations [OF assms] deep_copy_pair [OF deep_copy_strMap deep_copy_strMap]]]]])
    (auto simp: PVCRestoreSpec_DeepCopyInto_def copy_pair_def restoreSpec_typed_def restoreSpec_refs_def restoreSpec_val_def
      split: bind_splits)

definition restorestatus_typed :: "'e heap \<Rightarrow> mPVCRestoreStatus \<Rightarrow> bool" where
  "restorestatus_typed h x \<longleftrightarrow> ptr_typed theTime h (mr_StartedAt x) \<and> ptr_typed theTime h (mr_FinishedAt x) \<and>
     ptr_typed theDuration h (mr_Duration x) \<and> ptr_typed theResult h (mr_Result x)"

definition restorestatus_refs :: "'e heap \<Rightarrow> mPVCRestoreStatus \<Rightarrow> addr set" where
  "restorestatus_refs h x = ptr_refs h (mr_StartedAt x) \<union> (ptr_refs h (mr_FinishedAt x) \<union>
     (ptr_refs h (mr_Duration x) \<union> ptr_refs h (mr_Result x)))"

definition restorestatus_val :: "'e heap \<Rightarrow> mPVCRestoreStatus \<Rightarrow> PVCRestoreStatus" where
  "restorestatus_val h x = \<lparr>restore_StartedAt = ptr_val theTime h (mr_StartedAt x), restore_FinishedAt = ptr_val theTime h (mr_FinishedAt x),
     restore_Duration = ptr_val theDuration h (mr_Duration x), restore_Result = ptr_val theResult h (mr_Result x)\<rparr>"

lemma deep_copy_restorestatus:
  assumes "lib_copies L M"
  shows "deep_copy (PVCRestoreStatus_DeepCopyInto L) restorestatus_typed restorestatus_refs restorestatus_val"
  by (rule deep_copy_struct [where get = "\<lambda>x. (mr_StartedAt x, mr_FinishedAt x, mr_Duration x, mr_Result x)"
        and put = "\<lambda>x (s, f, d, r). x\<lparr>mr_StartedAt := s, mr_FinishedAt := f, mr_Duration := d, mr_Result := r\<rparr>"
        and build = "\<lambda>x (s, f, d, r). \<lparr>restore_StartedAt = s, restore_FinishedAt = f, restore_Duration = d, restore_Result = r\<rparr>",
        OF deep_copy_pair [OF deep_copy_time [OF assms] deep_copy_pair [OF deep_copy_time [OF assms]
          deep_copy_pair [OF duration_copy.deep_copy_axioms result_copy.deep_copy_axioms]]]])
    (auto simp: PVCRestoreStatus_DeepCopyInto_def copy_pair_def restorestatus_typed_def restorestatus_refs_def restorestatus_val_def
      split: bind_splits)

definition restore_typed :: "'e meaning \<Rightarrow> 'e heap \<Rightarrow> 'e mPVCRestore \<Rightarrow> bool" where
  "restore_typed M h x \<longleftrightarrow> foreign_typed M FObjectMeta h (mr_ObjectMeta x) \<and> restoreSpec_typed M h (mr_Spec x) \<and> restorestatus_typed h (mr_Status x)"

definition restore_refs :: "'e meaning \<Rightarrow> 'e heap \<Rightarrow> 'e mPVCRestore \<Rightarrow> addr set" where
  "restore_refs M h x = foreign_refs M h (mr_ObjectMeta x) \<union> (restoreSpec_refs M h (mr_Spec x) \<union> restorestatus_refs h (mr_Status x))"

definition restore_val :: "'e meaning \<Rightarrow> 'e heap \<Rightarrow> 'e mPVCRestore \<Rightarrow> TypeMeta \<times> PVCRestore" where
  "restore_val M h x = (mr_TypeMeta x, \<lparr>restore_meta = ObjectMeta_value M h (mr_ObjectMeta x), restore_spec = restoreSpec_val M h (mr_Spec x),
     restore_status = restorestatus_val h (mr_Status x)\<rparr>)"

lemma deep_copy_restore:
  assumes "lib_copies L M"
  shows "deep_copy (PVCRestore_DeepCopyInto L) (restore_typed M) (restore_refs M) (restore_val M)"
  by (rule deep_copy_struct [where get = "\<lambda>x. (mr_ObjectMeta x, mr_Spec x, mr_Status x)"
        and put = "\<lambda>x (m, s, t). x\<lparr>mr_ObjectMeta := m, mr_Spec := s, mr_Status := t\<rparr>"
        and build = "\<lambda>x (m, s, t). (mr_TypeMeta x, \<lparr>restore_meta = m, restore_spec = s, restore_status = t\<rparr>)",
        OF deep_copy_pair [OF lib_copiesD(1) [OF assms] deep_copy_pair [OF deep_copy_restoreSpec [OF assms] deep_copy_restorestatus [OF assms]]]])
    (auto simp: PVCRestore_DeepCopyInto_def copy_pair_def restore_typed_def restore_refs_def restore_val_def split: bind_splits)

definition restoreList_typed :: "'e meaning \<Rightarrow> 'e heap \<Rightarrow> 'e mPVCRestoreList \<Rightarrow> bool" where
  "restoreList_typed M h x \<longleftrightarrow> foreign_typed M FListMeta h (mrl_ListMeta x) \<and> slice_typed theRestores (restore_typed M) h (mrl_Items x)"

definition restoreList_refs :: "'e meaning \<Rightarrow> 'e heap \<Rightarrow> 'e mPVCRestoreList \<Rightarrow> addr set" where
  "restoreList_refs M h x = foreign_refs M h (mrl_ListMeta x) \<union> slice_refs theRestores (restore_refs M) h (mrl_Items x)"

definition restoreList_val :: "'e meaning \<Rightarrow> 'e heap \<Rightarrow> 'e mPVCRestoreList \<Rightarrow> TypeMeta \<times> string \<times> (TypeMeta \<times> PVCRestore) list" where
  "restoreList_val M h x = (mrl_TypeMeta x, ListMeta_value M h (mrl_ListMeta x), slice_val theRestores (restore_val M) h (mrl_Items x))"

lemma deep_copy_restoreList:
  assumes "lib_copies L M"
  shows "deep_copy (PVCRestoreList_DeepCopyInto L) (restoreList_typed M) (restoreList_refs M) (restoreList_val M)"
proof -
  have items: "deep_copy (copy_slice theRestores RestoresCell (zeroRestore L) (PVCRestore_DeepCopyInto L)) (slice_typed theRestores (restore_typed M))
      (slice_refs theRestores (restore_refs M)) (slice_val theRestores (restore_val M))"
    by (rule deep_copy_slice [OF deep_copy_restore [OF assms]]) (simp add: theRestores_def)
  show ?thesis
    by (rule deep_copy_struct [where get = "\<lambda>x. (mrl_ListMeta x, mrl_Items x)"
          and put = "\<lambda>x (m, i). x\<lparr>mrl_ListMeta := m, mrl_Items := i\<rparr>"
          and build = "\<lambda>x (m, i). (mrl_TypeMeta x, m, i)",
          OF deep_copy_pair [OF lib_copiesD(2) [OF assms] items]])
      (auto simp: PVCRestoreList_DeepCopyInto_def copy_pair_def restoreList_typed_def restoreList_refs_def restoreList_val_def split: bind_splits)
qed

section \<open>Objects\<close>

lemma deep_copy_pointers:
  assumes "lib_copies L M"
  shows "deep_copy (PVCBackup_DeepCopy L) (obj_typed theBackup (backup_typed M)) (obj_refs theBackup (backup_refs M)) (obj_val theBackup (backup_val M))"
    and "deep_copy (PVCBackupList_DeepCopy L) (obj_typed theBackupList (backupList_typed M)) (obj_refs theBackupList (backupList_refs M)) (obj_val theBackupList (backupList_val M))"
    and "deep_copy (PVCRestore_DeepCopy L) (obj_typed theRestore (restore_typed M)) (obj_refs theRestore (restore_refs M)) (obj_val theRestore (restore_val M))"
    and "deep_copy (PVCRestoreList_DeepCopy L) (obj_typed theRestoreList (restoreList_typed M)) (obj_refs theRestoreList (restoreList_refs M)) (obj_val theRestoreList (restoreList_val M))"
  unfolding PVCBackup_DeepCopy_def PVCBackupList_DeepCopy_def PVCRestore_DeepCopy_def PVCRestoreList_DeepCopy_def
  by (rule deep_copy_obj [OF deep_copy_backup [OF assms]] deep_copy_obj [OF deep_copy_backupList [OF assms]]
        deep_copy_obj [OF deep_copy_restore [OF assms]] deep_copy_obj [OF deep_copy_restoreList [OF assms]],
      simp add: the_defs)+

fun object_pointer :: "runtime_Object \<Rightarrow> addr option" where
  "object_pointer (OPVCBackup p) = p"
| "object_pointer (OPVCBackupList p) = p"
| "object_pointer (OPVCRestore p) = p"
| "object_pointer (OPVCRestoreList p) = p"

fun object_typed :: "'e meaning \<Rightarrow> 'e heap \<Rightarrow> runtime_Object \<Rightarrow> bool" where
  "object_typed M h (OPVCBackup p) = obj_typed theBackup (backup_typed M) h p"
| "object_typed M h (OPVCBackupList p) = obj_typed theBackupList (backupList_typed M) h p"
| "object_typed M h (OPVCRestore p) = obj_typed theRestore (restore_typed M) h p"
| "object_typed M h (OPVCRestoreList p) = obj_typed theRestoreList (restoreList_typed M) h p"

fun object_refs :: "'e meaning \<Rightarrow> 'e heap \<Rightarrow> runtime_Object \<Rightarrow> addr set" where
  "object_refs M h (OPVCBackup p) = obj_refs theBackup (backup_refs M) h p"
| "object_refs M h (OPVCBackupList p) = obj_refs theBackupList (backupList_refs M) h p"
| "object_refs M h (OPVCRestore p) = obj_refs theRestore (restore_refs M) h p"
| "object_refs M h (OPVCRestoreList p) = obj_refs theRestoreList (restoreList_refs M) h p"

datatype object_value =
    VPVCBackup "(TypeMeta \<times> PVCBackup) option"
  | VPVCBackupList "(TypeMeta \<times> string \<times> (TypeMeta \<times> PVCBackup) list) option"
  | VPVCRestore "(TypeMeta \<times> PVCRestore) option"
  | VPVCRestoreList "(TypeMeta \<times> string \<times> (TypeMeta \<times> PVCRestore) list) option"

fun object_val :: "'e meaning \<Rightarrow> 'e heap \<Rightarrow> runtime_Object \<Rightarrow> object_value" where
  "object_val M h (OPVCBackup p) = VPVCBackup (obj_val theBackup (backup_val M) h p)"
| "object_val M h (OPVCBackupList p) = VPVCBackupList (obj_val theBackupList (backupList_val M) h p)"
| "object_val M h (OPVCRestore p) = VPVCRestore (obj_val theRestore (restore_val M) h p)"
| "object_val M h (OPVCRestoreList p) = VPVCRestoreList (obj_val theRestoreList (restoreList_val M) h p)"

lemma copied_pointer:
  assumes "deep_copy (copy_new sel mk zero f) typed refs val" and "typed h p" and "p \<noteq> None"
  obtains q h' where "copy_new sel mk zero f p h = Some (q, h')" and "q \<noteq> None" and "grows h h'" and "typed h' q"
    and "val h' q = val h p" and "refs h' q \<subseteq> {length h..}"
proof -
  from deep_copy.copies [OF assms(1,2)] obtain q h' where
    q: "copy_new sel mk zero f p h = Some (q, h')" "grows h h'" "typed h' q" "val h' q = val h p" "refs h' q \<subseteq> {length h..}"
    by auto
  moreover from q(1) assms(3) have "q \<noteq> None" by (auto simp: copy_new_def new_def split: option.splits bind_splits)
  ultimately show thesis using that by blast
qed

text \<open>The copy as an object, which is not the nil interface when the pointer is not nil.\<close>

definition copy_object :: "'e lib \<Rightarrow> ('e, runtime_Object) copier" where
  "copy_object L obj h = do { (c, h) \<leftarrow> DeepCopyObject L obj h; c \<leftarrow> c; Some (c, h) }"

lemmas object_copies = copy_object_def PVCBackup_DeepCopyObject_def PVCBackupList_DeepCopyObject_def
  PVCRestore_DeepCopyObject_def PVCRestoreList_DeepCopyObject_def

lemmas pointer_copies = PVCBackup_DeepCopy_def PVCBackupList_DeepCopy_def PVCRestore_DeepCopy_def PVCRestoreList_DeepCopy_def

lemma deep_copy_object:
  assumes "lib_copies L M"
  shows "deep_copy (copy_object L) (\<lambda>h obj. object_pointer obj \<noteq> None \<and> object_typed M h obj) (object_refs M) (object_val M)"
proof
  fix h obj assume t: "object_pointer obj \<noteq> None \<and> object_typed M h obj"
  note P = deep_copy_pointers [OF assms, unfolded pointer_copies]
  show "object_refs M h obj \<subseteq> {..<length h}"
    using t P [THEN deep_copy.bounded] by (cases obj) simp_all
  show "(object_pointer obj \<noteq> None \<and> object_typed M h' obj) \<and> object_refs M h' obj = object_refs M h obj \<and> object_val M h' obj = object_val M h obj"
    if "agree (object_refs M h obj) h h'" for h'
    using t that deep_copy.settled [OF P(1), of h "object_pointer obj" h'] deep_copy.settled [OF P(2), of h "object_pointer obj" h']
      deep_copy.settled [OF P(3), of h "object_pointer obj" h'] deep_copy.settled [OF P(4), of h "object_pointer obj" h']
    by (cases obj) simp_all
  show "\<exists>y h'. copy_object L obj h = Some (y, h') \<and> grows h h' \<and> (object_pointer y \<noteq> None \<and> object_typed M h' y) \<and>
      object_val M h' y = object_val M h obj \<and> object_refs M h' y \<subseteq> {length h..}"
  proof (cases obj)
    case (OPVCBackup p)
    with t have "object_typed M h (OPVCBackup p)" "p \<noteq> None" by simp_all
    with copied_pointer [OF P(1)] show ?thesis
      unfolding OPVCBackup by (fastforce simp: object_copies pointer_copies)
  next
    case (OPVCBackupList p)
    with t have "object_typed M h (OPVCBackupList p)" "p \<noteq> None" by simp_all
    with copied_pointer [OF P(2)] show ?thesis
      unfolding OPVCBackupList by (fastforce simp: object_copies pointer_copies)
  next
    case (OPVCRestore p)
    with t have "object_typed M h (OPVCRestore p)" "p \<noteq> None" by simp_all
    with copied_pointer [OF P(3)] show ?thesis
      unfolding OPVCRestore by (fastforce simp: object_copies pointer_copies)
  next
    case (OPVCRestoreList p)
    with t have "object_typed M h (OPVCRestoreList p)" "p \<noteq> None" by simp_all
    with copied_pointer [OF P(4)] show ?thesis
      unfolding OPVCRestoreList by (fastforce simp: object_copies pointer_copies)
  qed
qed

text \<open>The dynamic type of an object, and what holds of nil pointers.\<close>

fun object_type :: "runtime_Object \<Rightarrow> string" where
  "object_type (OPVCBackup p) = ''PVCBackup''"
| "object_type (OPVCBackupList p) = ''PVCBackupList''"
| "object_type (OPVCRestore p) = ''PVCRestore''"
| "object_type (OPVCRestoreList p) = ''PVCRestoreList''"

lemma object_val_type: "object_val M h x = object_val M h' y \<Longrightarrow> object_type x = object_type y"
  by (cases x; cases y) simp_all

lemma nil_object:
  assumes "object_pointer obj = None"
  shows "DeepCopyObject L obj h = Some (None, h)" and "object_typed M h obj" and "object_val M h obj = object_val M h' obj"
  using assms by (cases obj; simp add: object_copies pointer_copies copy_new_def obj_typed_def obj_val_def ptr_val_def)+

lemma object_kept:
  assumes "lib_copies L M" and "object_typed M h obj" and "grows h h'"
  shows "object_typed M h' obj \<and> object_val M h' obj = object_val M h obj"
proof (cases "object_pointer obj = None")
  case True
  with nil_object show ?thesis by blast
next
  case False
  with deep_copy.kept [OF deep_copy_object [OF assms(1)] _ assms(3)] assms(2) show ?thesis by blast
qed

lemma DeepCopyObject_copy: "DeepCopyObject L obj h = Some (Some c, h') \<longleftrightarrow> copy_object L obj h = Some (c, h')"
  by (auto simp: copy_object_def split: bind_splits)

lemma DeepCopyObject_some: "copy_object L obj h = Some (c, h') \<Longrightarrow> object_pointer obj \<noteq> None"
  using nil_object(1) [of obj L h] by (cases "object_pointer obj") (simp_all add: copy_object_def)

end
