(* ===== verification/Deep_Copy_Theorems.thy ===== *)
theory Deep_Copy_Theorems
  imports Deep_Copy_Props Sample_Cluster
begin

text \<open>
  The properties of the deep copies of the API objects: they never fail on well-typed memory and
  keep it well typed, and an object and its copy mean the same and share nothing.
\<close>

section \<open>Samples\<close>

text \<open>
  Other modules whose structs have one pointer each: the labels of an \<open>ObjectMeta\<close>, the seconds
  of a \<open>Toleration\<close>.
\<close>

definition sample_lib :: "addr option lib" where
  "sample_lib = \<lparr>lib_ObjectMeta_DeepCopyInto = copyStrMap, lib_ListMeta_DeepCopyInto = copyResult,
     lib_Toleration_DeepCopyInto = copyDuration, lib_Quantity_DeepCopy = copyResult,
     lib_Time_DeepCopy = copy_ptr theTime TimeCell, lib_zero = None\<rparr>"

definition sample_meaning :: "addr option meaning" where
  "sample_meaning = \<lparr>foreign_typed = (\<lambda>f. case f of FObjectMeta \<Rightarrow> strmap_typed theStrMap | FListMeta \<Rightarrow> ptr_typed theResult
       | FToleration \<Rightarrow> ptr_typed theDuration | FQuantity \<Rightarrow> ptr_typed theResult),
     foreign_refs = ptr_refs,
     ObjectMeta_value = (\<lambda>h p. emptyMeta\<lparr>Labels := strMap_val h p\<rparr>),
     ListMeta_value = (\<lambda>h p. case ptr_val theResult h p of None \<Rightarrow> [] | Some x \<Rightarrow> x),
     Toleration_value = (\<lambda>h p. \<lparr>tol_Key = [], tol_Operator = ''Exists'', tol_Value = [], tol_Effect = [],
       tol_Seconds = ptr_val theDuration h p\<rparr>),
     Quantity_value = (\<lambda>h p. case ptr_val theResult h p of None \<Rightarrow> [] | Some x \<Rightarrow> x)\<rparr>"

lemma deep_copy_meaning: "deep_copy f t r v \<Longrightarrow> deep_copy f t r (\<lambda>h x. g (v h x))"
  by (erule deep_copy_struct [where get = "\<lambda>x. x" and put = "\<lambda>_ t. t" and build = "\<lambda>_. g"]) (simp_all add: option.map_id)

lemma sample_lib_copies: "lib_copies sample_lib sample_meaning"
proof -
  have "deep_copy (copy_ptr theTime TimeCell) (ptr_typed theTime) ptr_refs (ptr_val theTime)"
    by (rule deep_copy_ptr) (simp add: theTime_def)
  then show ?thesis
    unfolding lib_copies_def sample_lib_def sample_meaning_def
    by (simp add: deep_copy_meaning [OF deep_copy_strMap, of "\<lambda>m. emptyMeta\<lparr>Labels := m\<rparr>"]
        deep_copy_meaning [OF result_copy.deep_copy_axioms, of "\<lambda>x. case x of None \<Rightarrow> [] | Some x \<Rightarrow> x"]
        deep_copy_meaning [OF duration_copy.deep_copy_axioms, of "\<lambda>x. \<lparr>tol_Key = [], tol_Operator = ''Exists'',
          tol_Value = [], tol_Effect = [], tol_Seconds = x\<rparr>"])
qed

definition stored_backup :: "addr option mPVCBackup" where
  "stored_backup = \<lparr>mb_TypeMeta = zeroTypeMeta, mb_ObjectMeta = Some 0,
     mb_Spec = zeroBackupSpec\<lparr>mb_Tolerations := Some (Slice 3 1 1), mb_Labels := Some 0\<rparr>,
     mb_Status = zeroBackupStatus\<lparr>mb_StartedAt := Some 1\<rparr>\<rparr>"

definition sample_heap :: "addr option heap" where
  "sample_heap = [StrMapCell [(''app'', ''db'')], TimeCell sample_time, DurationCell 5, TolerationsCell [None, Some 2],
     BackupCell stored_backup, BackupsCell [stored_backup, stored_backup],
     BackupListCell \<lparr>mbl_TypeMeta = zeroTypeMeta, mbl_ListMeta = None, mbl_Items = Some (Slice 5 0 2)\<rparr>]"

lemmas heap_eval = obj_typed_def slice_typed_def strmap_typed_def ptr_typed_def load_def the_defs slice_elems_def
  backup_typed_def backupSpec_typed_def backupstatus_typed_def backupList_typed_def sample_heap_def stored_backup_def
  zeroBackupSpec_def zeroBackupStatus_def zeroTypeMeta_def sample_meaning_def

lemma sample_typed:
  "object_typed sample_meaning sample_heap (OPVCBackup (Some 4))"
  "object_typed sample_meaning sample_heap (OPVCBackupList (Some 6))"
  by (simp_all add: heap_eval)

section \<open>Properties\<close>

text \<open>
  C20: On well-typed memory a deep copy of any object of the API group is made without a panic:
  a nil pointer gives the nil interface, any other object an object of the same type, well typed;
  no existing cell is changed, so every other object stays well typed.
\<close>

theorem deep_copies_typed:
  assumes "lib_copies L M" and "object_typed M h obj"
  shows "\<exists>c h'. DeepCopyObject L obj h = Some (c, h') \<and> grows h h' \<and>
    (case c of
       None \<Rightarrow> object_pointer obj = None
     | Some obj' \<Rightarrow> object_pointer obj \<noteq> None \<and> object_pointer obj' \<noteq> None \<and>
         object_type obj' = object_type obj \<and> object_typed M h' obj') \<and>
    (\<forall>other. object_typed M h other \<longrightarrow> object_typed M h' other)"
proof (cases "object_pointer obj = None")
  case True
  with nil_object(1) [OF True, of L h] show ?thesis by auto
next
  case False
  with deep_copy.copies [OF deep_copy_object [OF assms(1)], of obj h] assms(2) obtain y h' where
    y: "copy_object L obj h = Some (y, h')" "grows h h'" "object_pointer y \<noteq> None" "object_typed M h' y"
      "object_val M h' y = object_val M h obj" by auto
  moreover from y(1) have "DeepCopyObject L obj h = Some (Some y, h')" by (simp add: DeepCopyObject_copy)
  ultimately show ?thesis
    using False object_kept [OF assms(1) _ y(2)] object_val_type [OF y(5)] by auto
qed

theorem deep_copies_typed_witness:
  "\<exists>c h'. DeepCopyObject sample_lib (OPVCBackupList (Some 6)) sample_heap = Some (Some c, h') \<and>
     object_typed sample_meaning h' c \<and> object_type c = ''PVCBackupList''"
proof -
  from deep_copies_typed [OF sample_lib_copies sample_typed(2)] obtain c h' where
    c: "DeepCopyObject sample_lib (OPVCBackupList (Some 6)) sample_heap = Some (c, h')"
      "case c of None \<Rightarrow> False | Some obj' \<Rightarrow> object_typed sample_meaning h' obj' \<and> object_type obj' = ''PVCBackupList''"
    by (auto split: option.splits)
  then show ?thesis by (cases c) auto
qed

text \<open>
  C19: A deep copy is the same value, and nothing is shared: it means what the original means,
  the two reach no common cell, and whatever is done afterwards to what the copy reaches (or to
  new cells) does not change the original, nor the other way round. This is what lets the other
  theories treat API objects as values.
\<close>

theorem deep_copies_independent:
  assumes "lib_copies L M" and "object_typed M h obj" and "DeepCopyObject L obj h = Some (Some obj', h')"
  shows "object_val M h' obj' = object_val M h obj \<and> object_refs M h' obj \<inter> object_refs M h' obj' = {} \<and>
    (\<forall>h''. agree (- object_refs M h' obj') h' h'' \<longrightarrow> object_val M h'' obj = object_val M h obj) \<and>
    (\<forall>h''. agree (- object_refs M h' obj) h' h'' \<longrightarrow> object_val M h'' obj' = object_val M h obj)"
proof -
  from assms(3) have c: "copy_object L obj h = Some (obj', h')" by (simp add: DeepCopyObject_copy)
  with assms(2) have t: "object_pointer obj \<noteq> None \<and> object_typed M h obj" by (simp add: DeepCopyObject_some)
  note D = deep_copy_object [OF assms(1)]
  from deep_copy.separate [OF D t c] deep_copy.copies [OF D t] c show ?thesis by auto
qed

theorem deep_copies_independent_witness:
  "\<exists>c h'. DeepCopyObject sample_lib (OPVCBackup (Some 4)) sample_heap = Some (Some c, h') \<and>
     object_val sample_meaning (h'[1 := TimeCell 0]) c = object_val sample_meaning sample_heap (OPVCBackup (Some 4)) \<and>
     object_val sample_meaning (h'[1 := TimeCell 0]) (OPVCBackup (Some 4)) \<noteq> object_val sample_meaning sample_heap (OPVCBackup (Some 4))"
proof -
  from deep_copy.copies [OF deep_copy_object [OF sample_lib_copies], of "OPVCBackup (Some 4)" sample_heap] sample_typed(1)
  obtain c h' where c: "copy_object sample_lib (OPVCBackup (Some 4)) sample_heap = Some (c, h')" and g: "grows sample_heap h'"
    by auto
  have "agree {0..6} sample_heap h'" using g by (rule grows_agree)
  then have same: "length h' > 6" "\<And>a. a \<le> 6 \<Longrightarrow> h' ! a = sample_heap ! a" by (auto simp: agree_def sample_heap_def)
  then have "1 \<in> object_refs sample_meaning h' (OPVCBackup (Some 4))"
    by (simp add: obj_refs_def load_def backup_refs_def backupstatus_refs_def ptr_refs_def the_defs sample_heap_def
        stored_backup_def)
  then have "agree (- object_refs sample_meaning h' (OPVCBackup (Some 4))) h' (h'[1 := TimeCell 0])"
    by (intro store_agree) simp
  with deep_copies_independent [OF sample_lib_copies sample_typed(1) c [folded DeepCopyObject_copy]]
  have "object_val sample_meaning (h'[1 := TimeCell 0]) c = object_val sample_meaning sample_heap (OPVCBackup (Some 4))" by blast
  moreover have "object_val sample_meaning (h'[1 := TimeCell 0]) (OPVCBackup (Some 4)) \<noteq> object_val sample_meaning sample_heap (OPVCBackup (Some 4))"
    using same by (simp add: obj_val_def ptr_val_def load_def backup_val_def backupstatus_val_def the_defs
        sample_heap_def stored_backup_def zeroBackupStatus_def sample_time_def Second_def)
  ultimately show ?thesis using c [folded DeepCopyObject_copy] by blast
qed

end
