(* ===== verification/Main_Cmd.thy ===== *)
theory Main_Cmd
  imports Backup_Controller Restore_Controller Automatic
begin

text \<open>
  \<open>src/cmd/main.go\<close> and the \<open>SetupWithManager\<close> methods: the custom flags, the default
  image, the required flags, the namespace lists, and \<open>main\<close> itself, which builds the three
  controllers from the flags and registers them with the manager. The values of the flags after
  \<open>flag.Parse\<close> are a record; the manager of the controller runtime and the YAML library are
  parameters.
\<close>

section \<open>Package strings\<close>

text \<open>\<open>strings.Cut(s, "=")\<close>: what is before and after the first separator, if there is one.\<close>

fun Cut :: "char \<Rightarrow> string \<Rightarrow> (string \<times> string) option" where
  "Cut sep [] = None"
| "Cut sep (c # s) =
    (if c = sep then Some ([], s)
     else case Cut sep s of None \<Rightarrow> None | Some (before, after) \<Rightarrow> Some (c # before, after))"

text \<open>\<open>strings.Split(s, ",")\<close>: one more element than there are separators.\<close>

fun Split :: "char \<Rightarrow> string \<Rightarrow> string list" where
  "Split sep [] = [[]]"
| "Split sep (c # s) =
    (if c = sep then [] # Split sep s
     else case Split sep s of [] \<Rightarrow> [[c]] | x # xs \<Rightarrow> (c # x) # xs)"

text \<open>
  \<open>strings.TrimSpace\<close> removes white space as defined by Unicode at both ends of a string, which
  is a sequence of bytes: these are the UTF-8 encodings of the characters with that property.
\<close>

definition spaces :: "string list" where
  "spaces =
    [[CHR 0x09], [CHR 0x0A], [CHR 0x0B], [CHR 0x0C], [CHR 0x0D], [CHR 0x20],
     [CHR 0xC2, CHR 0x85], [CHR 0xC2, CHR 0xA0], [CHR 0xE1, CHR 0x9A, CHR 0x80],
     [CHR 0xE2, CHR 0x80, CHR 0x80], [CHR 0xE2, CHR 0x80, CHR 0x81], [CHR 0xE2, CHR 0x80, CHR 0x82],
     [CHR 0xE2, CHR 0x80, CHR 0x83], [CHR 0xE2, CHR 0x80, CHR 0x84], [CHR 0xE2, CHR 0x80, CHR 0x85],
     [CHR 0xE2, CHR 0x80, CHR 0x86], [CHR 0xE2, CHR 0x80, CHR 0x87], [CHR 0xE2, CHR 0x80, CHR 0x88],
     [CHR 0xE2, CHR 0x80, CHR 0x89], [CHR 0xE2, CHR 0x80, CHR 0x8A], [CHR 0xE2, CHR 0x80, CHR 0xA8],
     [CHR 0xE2, CHR 0x80, CHR 0xA9], [CHR 0xE2, CHR 0x80, CHR 0xAF], [CHR 0xE2, CHR 0x81, CHR 0x9F],
     [CHR 0xE3, CHR 0x80, CHR 0x80]]"

function strip :: "string list \<Rightarrow> string \<Rightarrow> string" where
  "strip ps s = (case find (\<lambda>p. p \<noteq> [] \<and> take (length p) s = p) ps of
     None \<Rightarrow> s
   | Some p \<Rightarrow> strip ps (drop (length p) s))"
  by auto
termination
proof (relation "measure (\<lambda>(ps, s). length s)", simp, clarsimp)
  fix ps s p assume "find (\<lambda>p. p \<noteq> [] \<and> take (length p) s = p) ps = Some p"
  then have "p \<noteq> []" "take (length p) s = p" by (auto simp: find_Some_iff)
  then show "length s - length p < length s" by (cases s) auto
qed

declare strip.simps [simp del]

definition TrimSpace :: "string \<Rightarrow> string" where
  "TrimSpace s = rev (strip (map rev spaces) (rev (strip spaces s)))"

section \<open>Flags\<close>

text \<open>\<open>keyValueFlag.Set\<close> and \<open>resourcesFlag.Set\<close>, with the new value or the error.\<close>

definition keyValueFlag_Set :: "strmap \<Rightarrow> string \<Rightarrow> go_error + strmap" where
  "keyValueFlag_Set f s =
    (case Cut (CHR ''='') s of
       None \<Rightarrow> Inl (Errorf ''expected KEY=VALUE, got %q'' s)
     | Some (key, value) \<Rightarrow> Inr (AList.update key value f))"

definition resourcesFlag_Set ::
  "(string \<Rightarrow> go_error + ResourceRequirements) \<Rightarrow> ResourceRequirements \<Rightarrow> string \<Rightarrow> go_error + ResourceRequirements" where
  "resourcesFlag_Set UnmarshalStrict f s =
    (case UnmarshalStrict s of Inl err \<Rightarrow> Inl err | Inr r \<Rightarrow> Inr r)"

definition defaultResticResources :: ResourceRequirements where
  "defaultResticResources = \<lparr>Limits = [], Requests = [(''memory'', ''128Mi''), (''cpu'', ''20m'')]\<rparr>"

definition defaultResticImage :: "string \<Rightarrow> string" where
  "defaultResticImage version =
    (if version = [] then ''sjorsgielen/backsnap-restic:latest''
     else ''sjorsgielen/backsnap-restic:v'' @ version)"

record flags =
  metricsAddr :: string
  probeAddr :: string
  enableLeaderElection :: bool
  namespacesFlag :: string
  excludeNamespacesFlag :: string
  defaultSchedule :: string
  manual :: bool
  maxRunningBackups :: int
  sleepBetweenBackups :: int
  snapshotClassFlag :: string
  storageClassFlag :: string
  backupStorageClassFlag :: string
  restoreStorageClassFlag :: string
  imagePullSecret :: string
  image :: string
  s3Host :: string
  s3Bucket :: string
  s3AccessKeyId :: string
  s3SecretAccessKey :: string
  resticPassword :: string
  resticOldPassword :: string
  flag_resticEnv :: strmap
  resticResources :: ResourceRequirements

definition defaultFlags :: "string \<Rightarrow> flags" where
  "defaultFlags version = \<lparr>metricsAddr = '':8080'', probeAddr = '':8081'', enableLeaderElection = False,
     namespacesFlag = [], excludeNamespacesFlag = [], defaultSchedule = ''@daily'', manual = False,
     maxRunningBackups = 1, sleepBetweenBackups = 30, snapshotClassFlag = [], storageClassFlag = [],
     backupStorageClassFlag = [], restoreStorageClassFlag = [], imagePullSecret = [],
     image = defaultResticImage version, s3Host = [], s3Bucket = [], s3AccessKeyId = [],
     s3SecretAccessKey = [], resticPassword = [], resticOldPassword = [], flag_resticEnv = [],
     resticResources = defaultResticResources\<rparr>"

text \<open>\<open>requiredFlag\<close>: the message of \<open>log.Fatal\<close>, if it is called.\<close>

definition requiredFlag :: "string \<Rightarrow> string \<Rightarrow> string option" where
  "requiredFlag name val = (if val = [] then Some (''Flag -'' @ name @ '' is required'') else None)"

definition parseNamespaces :: "string \<Rightarrow> string list" where
  "parseNamespaces s =
    (let namespaces = map TrimSpace (Split (CHR '','') s);
         namespaces = (if 1 < length namespaces then filter (\<lambda>item. item \<noteq> []) namespaces else namespaces)
     in if length namespaces = 0 then namespaces @ [[]] else namespaces)"

definition parseExcludeNamespaces :: "string \<Rightarrow> string list" where
  "parseExcludeNamespaces s = map TrimSpace (Split (CHR '','') s)"

definition newBackupSettings :: "flags \<Rightarrow> BackupSettings" where
  "newBackupSettings f = \<lparr>SnapshotClass = snapshotClassFlag f, StorageClass = storageClassFlag f,
     BackupStorageClass = backupStorageClassFlag f, RestoreStorageClass = restoreStorageClassFlag f,
     ImagePullSecret = imagePullSecret f, Image = image f, S3Host = s3Host f, S3Bucket = s3Bucket f,
     S3AccessKeyId = s3AccessKeyId f, S3SecretAccessKey = s3SecretAccessKey f,
     ResticPassword = resticPassword f, ResticOldPassword = resticOldPassword f,
     ResticEnv = flag_resticEnv f, ResticResources = resticResources f\<rparr>"

section \<open>Registering the controllers\<close>

text \<open>
  What a \<open>SetupWithManager\<close> asks of the manager: the name of the controller if it is given,
  the kind it is for, the kinds it owns, and the kinds it watches with a mapping of its own and a
  predicate on the events.
\<close>

datatype map_func = PvcToRequest | NamespaceToRequests

datatype predicate = ResourceVersionChangedPredicate

record registration =
  reg_Name :: "string option"
  reg_For :: "kind option"
  reg_Owns :: "kind list"
  reg_Watches :: "(kind \<times> map_func \<times> predicate) list"

definition PVCBackupReconciler_SetupWithManager ::
  "'w kube \<Rightarrow> 'w PVCBackupReconciler \<Rightarrow> registration \<times> 'w PVCBackupReconciler" where
  "PVCBackupReconciler_SetupWithManager K r =
    (let r = (if br_Clock r = None then r\<lparr>br_Clock := Some (realClock K)\<rparr> else r)
     in (\<lparr>reg_Name = None, reg_For = Some KPVCBackup,
          reg_Owns = [KVolumeSnapshot, KPersistentVolumeClaim, KJob], reg_Watches = []\<rparr>, r))"

definition PVCRestoreReconciler_SetupWithManager ::
  "PVCRestoreReconciler \<Rightarrow> registration \<times> PVCRestoreReconciler" where
  "PVCRestoreReconciler_SetupWithManager r =
     (\<lparr>reg_Name = None, reg_For = Some KPVCRestore, reg_Owns = [KPersistentVolumeClaim, KJob],
       reg_Watches = []\<rparr>, r)"

text \<open>
  The index is registered under \<open>jobOwnerKey\<close> with the function \<open>indexOwner\<close>; the first
  parameter is the error of \<open>IndexField\<close>.
\<close>

definition AutomaticPVCBackupCreator_SetupWithManager ::
  "go_error option \<Rightarrow> 'w kube \<Rightarrow> 'w AutomaticPVCBackupCreator \<Rightarrow>
   go_error + registration \<times> 'w AutomaticPVCBackupCreator" where
  "AutomaticPVCBackupCreator_SetupWithManager indexErr K r =
    (let r = (if ac_Clock r = None then r\<lparr>ac_Clock := Some (realClock K)\<rparr> else r)
     in case indexErr of
       Some err \<Rightarrow> Inl err
     | None \<Rightarrow> Inr (\<lparr>reg_Name = Some ''automatic'', reg_For = None, reg_Owns = [],
                      reg_Watches = [(KPersistentVolumeClaim, PvcToRequest, ResourceVersionChangedPredicate),
                                     (KNamespace, NamespaceToRequests, ResourceVersionChangedPredicate)]\<rparr>, r))"

section \<open>main\<close>

text \<open>The options of \<open>ctrl.NewManager\<close>, and what it and the manager answer: nil or an error.\<close>

record manager_options =
  MetricsBindAddress :: string
  HealthProbeBindAddress :: string
  LeaderElection :: bool
  LeaderElectionID :: string
  LeaderElectionReleaseOnCancel :: bool

definition newManagerOptions :: "flags \<Rightarrow> manager_options" where
  "newManagerOptions f = \<lparr>MetricsBindAddress = metricsAddr f, HealthProbeBindAddress = probeAddr f,
     LeaderElection = enableLeaderElection f, LeaderElectionID = ''leader.backsnap.skyb.it'',
     LeaderElectionReleaseOnCancel = True\<rparr>"

record manager_answers =
  ans_NewManager :: "manager_options \<Rightarrow> go_error option"
  ans_IndexField :: "go_error option"
  ans_Complete :: "registration \<Rightarrow> go_error option"
  ans_AddHealthzCheck :: "go_error option"
  ans_AddReadyzCheck :: "go_error option"
  ans_Start :: "go_error option"

record 'w operator =
  op_automatic :: "'w AutomaticPVCBackupCreator option"
  op_backup :: "'w PVCBackupReconciler"
  op_restore :: PVCRestoreReconciler

text \<open>
  \<open>Fatal\<close> is \<open>log.Fatal\<close> and \<open>Exit1\<close> is \<open>os.Exit(1)\<close> after the logged message;
  \<open>Ran\<close> is a run of the manager with these controllers that ended without an error.
\<close>

datatype 'w main_result = Fatal string | Exit1 string | Ran "'w operator"

definition check_required :: "flags \<Rightarrow> string option" where
  "check_required f =
    (case requiredFlag ''image'' (image f) of
       Some msg \<Rightarrow> Some msg
     | None \<Rightarrow>
         (case requiredFlag ''s3-host'' (s3Host f) of
            Some msg \<Rightarrow> Some msg
          | None \<Rightarrow> requiredFlag ''s3-bucket'' (s3Bucket f)))"

definition setup_automatic ::
  "'w kube \<Rightarrow> manager_answers \<Rightarrow> flags \<Rightarrow> go_error + 'w AutomaticPVCBackupCreator option" where
  "setup_automatic K mgr f =
    (if manual f then Inr None
     else case AutomaticPVCBackupCreator_SetupWithManager (ans_IndexField mgr) K
         \<lparr>ac_Clock = None, DefaultSchedule = defaultSchedule f,
          ac_Namespaces = parseNamespaces (namespacesFlag f),
          ac_ExcludeNamespaces = parseExcludeNamespaces (excludeNamespacesFlag f)\<rparr> of
       Inl err \<Rightarrow> Inl err
     | Inr (reg, r) \<Rightarrow> (case ans_Complete mgr reg of Some err \<Rightarrow> Inl err | None \<Rightarrow> Inr (Some r)))"

definition setup_backup ::
  "'w kube \<Rightarrow> manager_answers \<Rightarrow> flags \<Rightarrow> go_error + 'w PVCBackupReconciler" where
  "setup_backup K mgr f =
    (let (reg, r) = PVCBackupReconciler_SetupWithManager K
         \<lparr>br_Clock = None, MaxRunningBackups = maxRunningBackups f,
          SleepBetweenBackups = sleepBetweenBackups f,
          br_Namespaces = parseNamespaces (namespacesFlag f),
          br_ExcludeNamespaces = parseExcludeNamespaces (excludeNamespacesFlag f),
          br_BackupSettings = newBackupSettings f\<rparr>
     in case ans_Complete mgr reg of Some err \<Rightarrow> Inl err | None \<Rightarrow> Inr r)"

definition setup_restore :: "manager_answers \<Rightarrow> flags \<Rightarrow> go_error + PVCRestoreReconciler" where
  "setup_restore mgr f =
    (let (reg, r) = PVCRestoreReconciler_SetupWithManager
         \<lparr>rr_Namespaces = parseNamespaces (namespacesFlag f),
          rr_ExcludeNamespaces = parseExcludeNamespaces (excludeNamespacesFlag f),
          rr_BackupSettings = newBackupSettings f\<rparr>
     in case ans_Complete mgr reg of Some err \<Rightarrow> Inl err | None \<Rightarrow> Inr r)"

definition main_run :: "manager_answers \<Rightarrow> 'w operator \<Rightarrow> 'w main_result" where
  "main_run mgr op =
    (if ans_AddHealthzCheck mgr \<noteq> None then Exit1 ''unable to set up health check''
     else if ans_AddReadyzCheck mgr \<noteq> None then Exit1 ''unable to set up ready check''
     else if ans_Start mgr \<noteq> None then Exit1 ''problem running manager''
     else Ran op)"

definition main :: "'w kube \<Rightarrow> manager_answers \<Rightarrow> flags \<Rightarrow> 'w main_result" where
  "main K mgr f =
    (case check_required f of
       Some msg \<Rightarrow> Fatal msg
     | None \<Rightarrow>
         if ans_NewManager mgr (newManagerOptions f) \<noteq> None then Exit1 ''unable to start manager''
         else case setup_automatic K mgr f of
           Inl _ \<Rightarrow> Exit1 ''unable to setup AutomaticPVCBackupCreator''
         | Inr automatic \<Rightarrow>
             (case setup_backup K mgr f of
                Inl _ \<Rightarrow> Exit1 ''unable to create controller''
              | Inr backup \<Rightarrow>
                  (case setup_restore mgr f of
                     Inl _ \<Rightarrow> Exit1 ''unable to create controller''
                   | Inr restore \<Rightarrow>
                       main_run mgr \<lparr>op_automatic = automatic, op_backup = backup, op_restore = restore\<rparr>)))"

end
