(* ===== verification/Scheme.thy ===== *)
theory Scheme
  imports Main_Cmd Deep_Copy
begin

text \<open>
  The Go types known to the API machinery: \<open>src/api/v1alpha1/groupversion_info.go\<close>, the
  \<open>init\<close> functions of the two type files and of \<open>src/cmd/main.go\<close>. A
  \<open>runtime.Scheme\<close> (type \<open>'s\<close>), the \<open>scheme.Builder\<close> of controller-runtime
  (type \<open>'b\<close>) and the \<open>AddToScheme\<close> functions of the other API groups are parameters.
\<close>

section \<open>Types and their group versions\<close>

record GroupVersion =
  gv_Group :: string
  gv_Version :: string

datatype api_type =
    CoreType string
  | BatchType string
  | SnapshotType string
  | BacksnapType string

text \<open>
  \<open>AddToScheme\<close> changes the scheme behind its pointer and returns an error; \<open>Register\<close>
  changes the builder behind its pointer. The last field of the library is what is recognised.
\<close>

record ('b, 's) scheme_lib =
  sl_NewScheme :: 's
  sl_Builder :: "GroupVersion \<Rightarrow> 'b"
  sl_Register :: "runtime_Object list \<Rightarrow> 'b \<Rightarrow> 'b"
  sl_Builder_AddToScheme :: "'b \<Rightarrow> 's \<Rightarrow> go_error option \<times> 's"
  sl_corev1_AddToScheme :: "'s \<Rightarrow> go_error option \<times> 's"
  sl_batchv1_AddToScheme :: "'s \<Rightarrow> go_error option \<times> 's"
  sl_volumesnapshotv1_AddToScheme :: "'s \<Rightarrow> go_error option \<times> 's"

section \<open>The API package\<close>

definition v1alpha1_GroupVersion :: GroupVersion where
  "v1alpha1_GroupVersion = \<lparr>gv_Group = ''backsnap.skyb.it'', gv_Version = ''v1alpha1''\<rparr>"

text \<open>
  \<open>SchemeBuilder\<close> is a pointer, and \<open>AddToScheme\<close> its method, so that what the
  \<open>init\<close> functions register after the variables are set is added too: the state of the
  package is the builder, and \<open>AddToScheme\<close> is a function of it.
\<close>

definition SchemeBuilder :: "('b, 's) scheme_lib \<Rightarrow> 'b" where
  "SchemeBuilder L = sl_Builder L v1alpha1_GroupVersion"

definition AddToScheme :: "('b, 's) scheme_lib \<Rightarrow> 'b \<Rightarrow> 's \<Rightarrow> go_error option \<times> 's" where
  "AddToScheme L builder s = sl_Builder_AddToScheme L builder s"

text \<open>The zero objects are only looked at for their types; the files come in their order.\<close>

definition init_pvcbackup_types :: "('b, 's) scheme_lib \<Rightarrow> 'b \<Rightarrow> 'b" where
  "init_pvcbackup_types L builder = sl_Register L [OPVCBackup (Some 0), OPVCBackupList (Some 1)] builder"

definition init_pvcrestore_types :: "('b, 's) scheme_lib \<Rightarrow> 'b \<Rightarrow> 'b" where
  "init_pvcrestore_types L builder = sl_Register L [OPVCRestore (Some 2), OPVCRestoreList (Some 3)] builder"

definition v1alpha1_init :: "('b, 's) scheme_lib \<Rightarrow> 'b" where
  "v1alpha1_init L = init_pvcrestore_types L (init_pvcbackup_types L (SchemeBuilder L))"

section \<open>The program\<close>

text \<open>\<open>utilruntime.Must(f(scheme))\<close>: a panic is None.\<close>

definition Must :: "('s \<Rightarrow> go_error option \<times> 's) \<Rightarrow> 's \<Rightarrow> 's option" where
  "Must f s = (case f s of (None, s') \<Rightarrow> Some s' | (Some _, _) \<Rightarrow> None)"

definition main_init :: "('b, 's) scheme_lib \<Rightarrow> 's option" where
  "main_init L = do {
     s \<leftarrow> Must (sl_corev1_AddToScheme L) (sl_NewScheme L);
     s \<leftarrow> Must (sl_batchv1_AddToScheme L) s;
     s \<leftarrow> Must (sl_volumesnapshotv1_AddToScheme L) s;
     Must (AddToScheme L (v1alpha1_init L)) s }"

section \<open>What the scheme has to know\<close>

text \<open>The Go type of a kind of object that the controllers handle.\<close>

fun type_of_kind :: "kind \<Rightarrow> api_type" where
  "type_of_kind KNamespace = CoreType ''Namespace''"
| "type_of_kind KPersistentVolumeClaim = CoreType ''PersistentVolumeClaim''"
| "type_of_kind KJob = BatchType ''Job''"
| "type_of_kind KVolumeSnapshot = SnapshotType ''VolumeSnapshot''"
| "type_of_kind KPVCBackup = BacksnapType ''PVCBackup''"
| "type_of_kind KPVCRestore = BacksnapType ''PVCRestore''"

fun type_of_object :: "runtime_Object \<Rightarrow> api_type" where
  "type_of_object (OPVCBackup p) = BacksnapType ''PVCBackup''"
| "type_of_object (OPVCBackupList p) = BacksnapType ''PVCBackupList''"
| "type_of_object (OPVCRestore p) = BacksnapType ''PVCRestore''"
| "type_of_object (OPVCRestoreList p) = BacksnapType ''PVCRestoreList''"

text \<open>The kinds a registration is about.\<close>

definition registration_kinds :: "registration \<Rightarrow> kind set" where
  "registration_kinds reg = set_option (reg_For reg) \<union> set (reg_Owns reg) \<union> fst ` set (reg_Watches reg)"

text \<open>
  The documented behaviour: adding a builder to a scheme makes the scheme recognise every type
  registered with it, under the group version of the builder, and forget nothing; the other API
  groups register their types without an error.
\<close>

definition adds :: "('s \<Rightarrow> api_type \<Rightarrow> GroupVersion option) \<Rightarrow> ('s \<Rightarrow> go_error option \<times> 's) \<Rightarrow> (api_type \<Rightarrow> GroupVersion option) \<Rightarrow> bool" where
  "adds known f m \<longleftrightarrow> (\<forall>s. fst (f s) = None \<and> known (snd (f s)) = known s ++ m)"

definition scheme_laws ::
  "('b, 's) scheme_lib \<Rightarrow> ('s \<Rightarrow> api_type \<Rightarrow> GroupVersion option) \<Rightarrow> ('b \<Rightarrow> GroupVersion \<times> api_type set) \<Rightarrow> bool" where
  "scheme_laws L known contents \<longleftrightarrow>
     (\<forall>gv. contents (sl_Builder L gv) = (gv, {})) \<and>
     (\<forall>objs b. contents (sl_Register L objs b) = (fst (contents b), snd (contents b) \<union> type_of_object ` set objs)) \<and>
     (\<forall>b. adds known (sl_Builder_AddToScheme L b) (\<lambda>t. if t \<in> snd (contents b) then Some (fst (contents b)) else None)) \<and>
     (\<exists>m. adds known (sl_corev1_AddToScheme L) m \<and> CoreType ` {''Namespace'', ''PersistentVolumeClaim''} \<subseteq> dom m) \<and>
     (\<exists>m. adds known (sl_batchv1_AddToScheme L) m \<and> BatchType ''Job'' \<in> dom m) \<and>
     (\<exists>m. adds known (sl_volumesnapshotv1_AddToScheme L) m \<and> SnapshotType ''VolumeSnapshot'' \<in> dom m)"

lemma Must_adds: "adds known f m \<Longrightarrow> \<exists>s'. Must f s = Some s' \<and> known s' = known s ++ m"
  by (cases "f s") (auto simp: adds_def Must_def dest!: spec [of _ s])

lemma registered_contents:
  assumes "scheme_laws L known contents"
  shows "contents (v1alpha1_init L) = (v1alpha1_GroupVersion,
    BacksnapType ` {''PVCBackup'', ''PVCBackupList'', ''PVCRestore'', ''PVCRestoreList''})"
  using assms
  by (auto simp: scheme_laws_def v1alpha1_init_def init_pvcbackup_types_def init_pvcrestore_types_def SchemeBuilder_def)

lemma main_init_known:
  assumes "scheme_laws L known contents"
  shows "\<exists>s. main_init L = Some s \<and>
    (\<forall>k. known s (type_of_kind k) \<noteq> None) \<and>
    (\<forall>obj. known s (type_of_object obj) = Some v1alpha1_GroupVersion)"
proof -
  define own where "own = (\<lambda>t. if t \<in> snd (contents (v1alpha1_init L)) then Some (fst (contents (v1alpha1_init L))) else None)"
  from assms obtain m1 m2 m3 where
    m: "adds known (sl_corev1_AddToScheme L) m1" "CoreType ` {''Namespace'', ''PersistentVolumeClaim''} \<subseteq> dom m1"
      "adds known (sl_batchv1_AddToScheme L) m2" "BatchType ''Job'' \<in> dom m2"
      "adds known (sl_volumesnapshotv1_AddToScheme L) m3" "SnapshotType ''VolumeSnapshot'' \<in> dom m3"
      "adds known (AddToScheme L (v1alpha1_init L)) own"
    by (auto simp: scheme_laws_def AddToScheme_def [abs_def] own_def)
  from Must_adds [OF m(1)] obtain s1 where s1: "Must (sl_corev1_AddToScheme L) (sl_NewScheme L) = Some s1"
      "known s1 = known (sl_NewScheme L) ++ m1" by blast
  from Must_adds [OF m(3)] obtain s2 where s2: "Must (sl_batchv1_AddToScheme L) s1 = Some s2" "known s2 = known s1 ++ m2" by blast
  from Must_adds [OF m(5)] obtain s3 where s3: "Must (sl_volumesnapshotv1_AddToScheme L) s2 = Some s3" "known s3 = known s2 ++ m3" by blast
  from Must_adds [OF m(7)] obtain s4 where s4: "Must (AddToScheme L (v1alpha1_init L)) s3 = Some s4" "known s4 = known s3 ++ own" by blast
  have sub: "dom m1 \<union> dom m2 \<union> dom m3 \<union> dom own \<subseteq> dom (known s4)" unfolding s1 s2 s3 s4 by auto
  have own: "own (type_of_object obj) = Some v1alpha1_GroupVersion" for obj
    by (cases obj) (simp_all add: own_def registered_contents [OF assms])
  have "type_of_kind k \<in> dom m1 \<union> dom m2 \<union> dom m3 \<union> dom own" for k
    using m(2,4,6) by (cases k) (auto simp: own_def registered_contents [OF assms])
  with sub have "\<forall>k. known s4 (type_of_kind k) \<noteq> None" by blast
  moreover have "main_init L = Some s4" by (simp add: main_init_def s1 s2 s3 s4)
  ultimately show ?thesis using own s4(2) by (intro exI [of _ s4]) simp
qed

end
