(* ===== verification/Flags.thy ===== *)
theory Flags
  imports Main_Cmd
begin

text \<open>
  The command line of \<open>src/cmd/main.go\<close>: the table of flags that the package variables and
  \<open>main\<close> register, \<open>flag.Parse\<close> over it (package \<open>flag\<close>, with the error handling
  \<open>ExitOnError\<close> of \<open>flag.CommandLine\<close>), and the conversions of package
  \<open>strconv\<close> that the integer and boolean flags use.
\<close>

section \<open>Package strconv\<close>

datatype num_error = ErrSyntax | ErrRange

text \<open>\<open>lower(c) = c | ('x' - 'X')\<close> on the code of a byte.\<close>

definition lower :: "char \<Rightarrow> nat" where
  "lower c = (let n = of_char c in if even (n div 32) then n + 32 else n)"

definition digit_value :: "char \<Rightarrow> int option" where
  "digit_value c =
    (let n = of_char c in
     if 48 \<le> n \<and> n \<le> 57 then Some (int (n - 48))
     else if 97 \<le> lower c \<and> lower c \<le> 122 then Some (int (lower c - 97 + 10))
     else None)"

text \<open>The loop of \<open>ParseUint\<close> for base 0, in which underscores are skipped.\<close>

fun uint_loop :: "int \<Rightarrow> int \<Rightarrow> string \<Rightarrow> num_error + int" where
  "uint_loop base n [] = Inr n"
| "uint_loop base n (c # s) =
    (if c = CHR ''_'' then uint_loop base n s
     else case digit_value c of
       None \<Rightarrow> Inl ErrSyntax
     | Some d \<Rightarrow>
         if base \<le> d then Inl ErrSyntax
         else if 2 ^ 64 \<le> n * base + d then Inl ErrRange
         else uint_loop base (n * base + d) s)"

definition detect_base :: "string \<Rightarrow> int \<times> string" where
  "detect_base s =
    (if s \<noteq> [] \<and> hd s = CHR ''0'' then
       (if 3 \<le> length s \<and> lower (s ! 1) = of_char (CHR ''b'') then (2, drop 2 s)
        else if 3 \<le> length s \<and> lower (s ! 1) = of_char (CHR ''o'') then (8, drop 2 s)
        else if 3 \<le> length s \<and> lower (s ! 1) = of_char (CHR ''x'') then (16, drop 2 s)
        else (8, drop 1 s))
     else (10, s))"

text \<open>\<open>underscoreOK\<close>: underscores only between digits, or between a base prefix and a digit.\<close>

datatype saw = SawStart | SawDigit | SawUnderscore | SawOther

fun underscore_loop :: "bool \<Rightarrow> saw \<Rightarrow> string \<Rightarrow> bool" where
  "underscore_loop hex saw [] = (saw \<noteq> SawUnderscore)"
| "underscore_loop hex saw (c # s) =
    (if (48 \<le> (of_char c :: nat) \<and> (of_char c :: nat) \<le> 57) \<or> (hex \<and> 97 \<le> lower c \<and> lower c \<le> 102)
     then underscore_loop hex SawDigit s
     else if c = CHR ''_'' then (if saw \<noteq> SawDigit then False else underscore_loop hex SawUnderscore s)
     else (if saw = SawUnderscore then False else underscore_loop hex SawOther s))"

definition underscoreOK :: "string \<Rightarrow> bool" where
  "underscoreOK s =
    (let s = (if s \<noteq> [] \<and> (hd s = CHR ''-'' \<or> hd s = CHR ''+'') then tl s else s) in
     if 2 \<le> length s \<and> hd s = CHR ''0'' \<and>
        (lower (s ! 1) = of_char (CHR ''b'') \<or> lower (s ! 1) = of_char (CHR ''o'') \<or> lower (s ! 1) = of_char (CHR ''x''))
     then underscore_loop (lower (s ! 1) = of_char (CHR ''x'')) SawDigit (drop 2 s)
     else underscore_loop False SawStart s)"

definition ParseUint :: "string \<Rightarrow> num_error + int" where
  "ParseUint s =
    (if s = [] then Inl ErrSyntax
     else let (base, rest) = detect_base s in
       case uint_loop base 0 rest of
         Inl e \<Rightarrow> Inl e
       | Inr n \<Rightarrow> if CHR ''_'' \<in> set rest \<and> \<not> underscoreOK s then Inl ErrSyntax else Inr n)"

text \<open>\<open>ParseInt(s, 0, 64)\<close>; a number out of range for \<open>ParseUint\<close> is so here too.\<close>

definition ParseInt :: "string \<Rightarrow> num_error + int" where
  "ParseInt s =
    (if s = [] then Inl ErrSyntax
     else let neg = (hd s = CHR ''-''); s' = (if hd s = CHR ''+'' \<or> hd s = CHR ''-'' then tl s else s) in
       case ParseUint s' of
         Inl e \<Rightarrow> Inl e
       | Inr un \<Rightarrow>
           if \<not> neg \<and> 2 ^ 63 \<le> un then Inl ErrRange
           else if neg \<and> 2 ^ 63 < un then Inl ErrRange
           else Inr (if neg then - un else un))"

definition ParseBool :: "string \<Rightarrow> num_error + bool" where
  "ParseBool s =
    (if s \<in> {''1'', ''t'', ''T'', ''TRUE'', ''true'', ''True''} then Inr True
     else if s \<in> {''0'', ''f'', ''F'', ''FALSE'', ''false'', ''False''} then Inr False
     else Inl ErrSyntax)"

section \<open>The registered flags\<close>

text \<open>
  A flag is boolean or not, and has a \<open>Set\<close> method on its variable, here on the record of
  all of them. Flags that imported packages register for themselves on the same flag set, such as
  \<open>-kubeconfig\<close> of controller-runtime, are not in \<open>formal\<close>.
\<close>

datatype flag = Flag (IsBoolFlag: bool) (Set: "string \<Rightarrow> flags \<Rightarrow> go_error + flags")

definition num_error_text :: "num_error \<Rightarrow> go_error" where
  "num_error_text e = (case e of ErrSyntax \<Rightarrow> ErrorMsg ''parse error'' | ErrRange \<Rightarrow> ErrorMsg ''value out of range'')"

definition String_flag :: "((string \<Rightarrow> string) \<Rightarrow> flags \<Rightarrow> flags) \<Rightarrow> flag" where
  "String_flag upd = Flag False (\<lambda>s f. Inr (upd (\<lambda>_. s) f))"

definition Bool_flag :: "((bool \<Rightarrow> bool) \<Rightarrow> flags \<Rightarrow> flags) \<Rightarrow> flag" where
  "Bool_flag upd = Flag True (\<lambda>s f. case ParseBool s of Inl e \<Rightarrow> Inl (num_error_text e) | Inr b \<Rightarrow> Inr (upd (\<lambda>_. b) f))"

definition Int_flag :: "((int \<Rightarrow> int) \<Rightarrow> flags \<Rightarrow> flags) \<Rightarrow> flag" where
  "Int_flag upd = Flag False (\<lambda>s f. case ParseInt s of Inl e \<Rightarrow> Inl (num_error_text e) | Inr n \<Rightarrow> Inr (upd (\<lambda>_. n) f))"

definition formal ::
  "(string \<Rightarrow> go_error + ResourceRequirements) \<Rightarrow> (string \<times> flag) list" where
  "formal UnmarshalStrict =
    [(''metrics-bind-address'', String_flag metricsAddr_update),
     (''health-probe-bind-address'', String_flag probeAddr_update),
     (''leader-elect'', Bool_flag enableLeaderElection_update),
     (''namespaces'', String_flag namespacesFlag_update),
     (''exclude-namespaces'', String_flag excludeNamespacesFlag_update),
     (''schedule'', String_flag defaultSchedule_update),
     (''manual'', Bool_flag manual_update),
     (''max-running-backups'', Int_flag maxRunningBackups_update),
     (''sleep-between-backups'', Int_flag sleepBetweenBackups_update),
     (''snapshotclass'', String_flag snapshotClassFlag_update),
     (''storageclass'', String_flag storageClassFlag_update),
     (''backup-storageclass'', String_flag backupStorageClassFlag_update),
     (''restore-storageclass'', String_flag restoreStorageClassFlag_update),
     (''imagepullsecret'', String_flag imagePullSecret_update),
     (''image'', String_flag image_update),
     (''s3-host'', String_flag s3Host_update),
     (''s3-bucket'', String_flag s3Bucket_update),
     (''s3-access-key-id'', String_flag s3AccessKeyId_update),
     (''s3-secret-access-key'', String_flag s3SecretAccessKey_update),
     (''restic-password'', String_flag resticPassword_update),
     (''restic-old-password'', String_flag resticOldPassword_update),
     (''restic-env'', Flag False (\<lambda>s f. case keyValueFlag_Set (flag_resticEnv f) s of
        Inl e \<Rightarrow> Inl e | Inr m \<Rightarrow> Inr (f\<lparr>flag_resticEnv := m\<rparr>))),
     (''restic-resources'', Flag False (\<lambda>s f. case resourcesFlag_Set UnmarshalStrict (resticResources f) s of
        Inl e \<Rightarrow> Inl e | Inr r \<Rightarrow> Inr (f\<lparr>resticResources := r\<rparr>)))]"

section \<open>flag.Parse\<close>

text \<open>
  \<open>parseOne\<close>: a flag was seen, with the variables and arguments after it; or the flags end,
  with the arguments that are left; or it fails, with the format and the strings of the message; or
  help was asked for.
\<close>

datatype parsed = Seen flags "string list" | Stop flags "string list" | Failf string "string list" | ErrHelp

text \<open>The name and, after the first equals sign from the second byte on, the value.\<close>

definition split_value :: "string \<Rightarrow> string \<times> string option" where
  "split_value name = (case Cut (CHR ''='') (tl name) of
     None \<Rightarrow> (name, None)
   | Some (before, after) \<Rightarrow> (hd name # before, Some after))"

definition set_flag :: "flag \<Rightarrow> string \<Rightarrow> string \<Rightarrow> flags \<Rightarrow> string list \<Rightarrow> parsed" where
  "set_flag fl name value f args =
    (case Set fl value f of
       Inr f' \<Rightarrow> Seen f' args
     | Inl _ \<Rightarrow> Failf (if IsBoolFlag fl then ''invalid boolean value %q for -%s: %v''
                        else ''invalid value %q for flag -%s: %v'') [value, name])"

definition parse_name ::
  "(string \<times> flag) list \<Rightarrow> string \<Rightarrow> flags \<Rightarrow> string list \<Rightarrow> parsed" where
  "parse_name table s f args =
    (let (name, value) = split_value s in
     case map_of table name of
       None \<Rightarrow> if name = ''help'' \<or> name = ''h'' then ErrHelp
               else Failf ''flag provided but not defined: -%s'' [name]
     | Some fl \<Rightarrow>
         if IsBoolFlag fl then set_flag fl name (case value of None \<Rightarrow> ''true'' | Some v \<Rightarrow> v) f args
         else (case value of
             Some v \<Rightarrow> set_flag fl name v f args
           | None \<Rightarrow> (case args of
                 [] \<Rightarrow> Failf ''flag needs an argument: -%s'' [name]
               | v # args' \<Rightarrow> set_flag fl name v f args')))"

definition parseOne :: "(string \<times> flag) list \<Rightarrow> flags \<Rightarrow> string list \<Rightarrow> parsed" where
  "parseOne table f args =
    (case args of
       [] \<Rightarrow> Stop f []
     | s # rest \<Rightarrow>
         if length s < 2 \<or> hd s \<noteq> CHR ''-'' then Stop f args
         else if s = ''--'' then Stop f rest
         else let name = (if s ! 1 = CHR ''-'' then drop 2 s else drop 1 s) in
           if name = [] \<or> hd name = CHR ''-'' \<or> hd name = CHR ''='' then Failf ''bad flag syntax: %s'' [s]
           else parse_name table name f rest)"

lemma parse_name_shorter: "parse_name table s f args = Seen f' args' \<Longrightarrow> length args' \<le> length args"
  by (auto simp: parse_name_def set_flag_def split: prod.splits option.splits if_splits list.splits sum.splits)

lemma parseOne_shorter: "parseOne table f args = Seen f' args' \<Longrightarrow> length args' < length args"
  by (auto simp: parseOne_def Let_def split: list.splits if_splits dest!: parse_name_shorter)

text \<open>
  \<open>Parse\<close> with \<open>ExitOnError\<close>: exit code 2 after an error, 0 after help; otherwise the
  variables and the arguments that are not flags.
\<close>

datatype parse_end = Exit nat | Parsed flags "string list"

function Parse :: "(string \<times> flag) list \<Rightarrow> flags \<Rightarrow> string list \<Rightarrow> parse_end" where
  "Parse table f args =
    (case parseOne table f args of
       Seen f' args' \<Rightarrow> Parse table f' args'
     | Stop f' args' \<Rightarrow> Parsed f' args'
     | Failf _ _ \<Rightarrow> Exit 2
     | ErrHelp \<Rightarrow> Exit 0)"
  by auto
termination
  by (relation "measure (\<lambda>(table, f, args). length args)") (auto dest: parseOne_shorter)

declare Parse.simps [simp del]

text \<open>\<open>main\<close> from its arguments on; \<open>version\<close> is set when the program is built.\<close>

datatype 'w program_result = ExitCode nat | Result_of "'w main_result"

definition program ::
  "(string \<Rightarrow> go_error + ResourceRequirements) \<Rightarrow> string \<Rightarrow> 'w kube \<Rightarrow> manager_answers \<Rightarrow> string list \<Rightarrow> 'w program_result" where
  "program UnmarshalStrict version K mgr args =
    (case Parse (formal UnmarshalStrict) (defaultFlags version) args of
       Exit n \<Rightarrow> ExitCode n
     | Parsed f _ \<Rightarrow> Result_of (main K mgr f))"

end
