(* ===== verification/Main_Props.thy ===== *)
theory Main_Props
  imports Main_Cmd
begin

text \<open>
  Facts about the string functions and the flags of \<open>main\<close>.
\<close>

section \<open>Splitting\<close>

lemma Split_nonempty [simp]: "Split sep s \<noteq> []"
  by (induction s) (auto split: list.split)

lemma Split_no_sep: "x \<in> set (Split sep s) \<Longrightarrow> sep \<notin> set x"
  by (induction s arbitrary: x) (auto split: list.splits if_splits)

lemma Split_whole: "sep \<notin> set s \<Longrightarrow> Split sep s = [s]"
  by (induction s) auto

lemma Split_append: "sep \<notin> set x \<Longrightarrow> Split sep (x @ sep # s) = x # Split sep s"
  by (induction x) auto

text \<open>The inverse: the elements joined by the separator.\<close>

fun join :: "char \<Rightarrow> string list \<Rightarrow> string" where
  "join sep [] = []"
| "join sep [x] = x"
| "join sep (x # y # xs) = x @ sep # join sep (y # xs)"

lemma Split_join: "xs \<noteq> [] \<Longrightarrow> (\<forall>x\<in>set xs. sep \<notin> set x) \<Longrightarrow> Split sep (join sep xs) = xs"
  by (induction sep xs rule: join.induct) (auto simp: Split_whole Split_append)

lemma join_Split: "join sep (Split sep s) = s"
proof (induction s)
  case (Cons c s)
  obtain x xs where "Split sep s = x # xs" using Split_nonempty by (metis neq_Nil_conv)
  with Cons show ?case by (cases xs) auto
qed simp

section \<open>Trimming\<close>

text \<open>Bytes of visible ASCII characters, of which names of namespaces consist.\<close>

definition visible :: "char \<Rightarrow> bool" where
  "visible c \<longleftrightarrow> 32 < (of_char c :: nat) \<and> (of_char c :: nat) < 128"

lemma spaces_ends: "p \<in> set spaces \<Longrightarrow> \<not> visible (hd p) \<and> \<not> visible (last p)"
  by (auto simp: spaces_def visible_def)

lemma strip_visible:
  assumes "\<forall>p\<in>set ps. p \<noteq> [] \<longrightarrow> \<not> visible (hd p)" and "s = [] \<or> visible (hd s)"
  shows "strip ps s = s"
proof -
  have "find (\<lambda>p. p \<noteq> [] \<and> take (length p) s = p) ps = None"
    unfolding find_None_iff
  proof (intro notI, elim exE conjE)
    fix p assume p: "p \<in> set ps" "p \<noteq> []" "take (length p) s = p"
    then have "s \<noteq> []" by auto
    with p have "hd s = hd p" by (metis hd_take length_greater_0_conv)
    with p assms \<open>s \<noteq> []\<close> show False by auto
  qed
  then show ?thesis by (subst strip.simps) simp
qed

lemma TrimSpace_visible:
  assumes "\<forall>c\<in>set s. visible c"
  shows "TrimSpace s = s"
proof -
  have ends: "s = [] \<or> visible (hd s)" "rev s = [] \<or> visible (hd (rev s))"
    using assms by (cases "s = []"; simp add: hd_rev)+
  have "\<forall>p\<in>set spaces. p \<noteq> [] \<longrightarrow> \<not> visible (hd p)" using spaces_ends by blast
  from strip_visible [OF this ends(1)] have "strip spaces s = s" .
  moreover have "\<forall>p\<in>set (map rev spaces). p \<noteq> [] \<longrightarrow> \<not> visible (hd p)"
    using spaces_ends by (auto simp: hd_rev)
  from strip_visible [OF this ends(2)] have "strip (map rev spaces) (rev s) = rev s" .
  ultimately show ?thesis by (simp add: TrimSpace_def)
qed

section \<open>Namespace lists\<close>

lemma parseNamespaces_shape:
  "parseNamespaces s = (let items = filter (\<lambda>x. x \<noteq> []) (map TrimSpace (Split (CHR '','') s))
     in if items = [] then [[]] else items)"
proof (cases "map TrimSpace (Split (CHR '','') s)")
  case Nil
  then show ?thesis by simp
next
  case (Cons x xs)
  then show ?thesis by (cases xs) (auto simp: parseNamespaces_def Let_def)
qed

lemma parseNamespaces_well_formed: "parseNamespaces s = [[]] \<or> [] \<notin> set (parseNamespaces s)"
  by (auto simp: parseNamespaces_shape Let_def)

lemma Cut_append: "sep \<notin> set k \<Longrightarrow> Cut sep (k @ sep # v) = Some (k, v)"
  by (induction k) auto

lemma Cut_None: "Cut sep s = None \<longleftrightarrow> sep \<notin> set s"
  by (induction s) (auto split: option.splits)

lemma Cut_Some: "Cut sep s = Some (k, v) \<Longrightarrow> s = k @ sep # v \<and> sep \<notin> set k"
  by (induction s arbitrary: k) (auto split: option.splits if_splits)

end
