(* ===== verification/Flags_Props.thy ===== *)
theory Flags_Props
  imports Flags Main_Props Automatic_Props
begin

text \<open>
  Facts about the command line: numbers are read back as they are printed, and each way to write
  a flag sets it.
\<close>

section \<open>Numbers\<close>

lemma code_digit [simp]: "d < 10 \<Longrightarrow> (of_char (digit d) :: nat) = 48 + d"
  by (simp add: digit_def)

lemma digit_neq: "d < 10 \<Longrightarrow> (of_char c :: nat) \<noteq> 48 + d \<Longrightarrow> digit d \<noteq> c"
  using code_digit by metis

lemma digit_signs: "d < 10 \<Longrightarrow> digit d \<noteq> CHR ''_'' \<and> digit d \<noteq> CHR ''+'' \<and> digit d \<noteq> CHR ''-''"
  using digit_neq [of d] by auto

lemma digit_value_digit: "d < 10 \<Longrightarrow> digit_value (digit d) = Some (int d)"
  by (simp add: digit_value_def Let_def)

lemma uint_loop_append:
  "uint_loop b n (xs @ ys) = (case uint_loop b n xs of Inl e \<Rightarrow> Inl e | Inr m \<Rightarrow> uint_loop b m ys)"
  by (induction b n xs rule: uint_loop.induct) (auto split: option.split)

lemma uint_loop_show_nat: "n < 2 ^ 64 \<Longrightarrow> uint_loop 10 0 (show_nat n) = Inr (int n)"
proof (induction n rule: show_nat.induct)
  case (1 n)
  show ?case
  proof (cases "n < 10")
    case True
    then show ?thesis using digit_value_digit [of n] digit_signs [of n] by (subst show_nat.simps) simp
  next
    case False
    then have "uint_loop 10 0 (show_nat (n div 10)) = Inr (int (n div 10))" using 1 by simp
    moreover have "int (n div 10) * 10 + int (n mod 10) = int n"
      by (metis div_mult_mod_eq of_nat_add of_nat_mult of_nat_numeral)
    moreover have "int n < 2 ^ 64" using 1(2) by (metis of_nat_less_iff of_nat_numeral of_nat_power)
    ultimately show ?thesis
      using False digit_value_digit [of "n mod 10"] digit_signs [of "n mod 10"]
      by (subst show_nat.simps) (simp add: uint_loop_append)
  qed
qed

lemma show_zero: "show_nat 0 = ''0''"
  by code_simp

lemma show_nat_head: "0 < n \<Longrightarrow> \<exists>d. 0 < d \<and> d < 10 \<and> hd (show_nat n) = digit d"
proof (induction n rule: show_nat.induct)
  case (1 n)
  show ?case
  proof (cases "n < 10")
    case True
    with 1(2) show ?thesis by (subst show_nat.simps) auto
  next
    case False
    with 1(1) [OF False] show ?thesis by (subst show_nat.simps) (simp add: hd_append)
  qed
qed

lemma show_nat_plain: "CHR ''_'' \<notin> set (show_nat n)"
proof (induction n rule: show_nat.induct)
  case (1 n)
  then show ?case
    using digit_signs [of n] digit_signs [of "n mod 10"] by (subst show_nat.simps) auto
qed

lemma ParseUint_show_nat: "n < 2 ^ 64 \<Longrightarrow> ParseUint (show_nat n) = Inr (int n)"
proof (cases "n = 0")
  case True
  then show ?thesis by (simp add: ParseUint_def detect_base_def show_zero)
next
  case False
  assume "n < 2 ^ 64"
  moreover obtain d where "0 < d" "d < 10" "hd (show_nat n) = digit d" using show_nat_head False by blast
  then have "hd (show_nat n) \<noteq> CHR ''0''" using digit_neq [of d "CHR ''0''"] by simp
  ultimately show ?thesis using uint_loop_show_nat [of n] show_nat_plain [of n] by (simp add: ParseUint_def detect_base_def)
qed

lemma show_nat_no_sign: "hd (show_nat n) \<noteq> CHR ''+'' \<and> hd (show_nat n) \<noteq> CHR ''-''"
proof (cases "n = 0")
  case True
  then show ?thesis by (simp add: show_zero)
next
  case False
  then obtain d where "d < 10" "hd (show_nat n) = digit d" using show_nat_head by blast
  with digit_signs [of d] show ?thesis by simp
qed

lemma ParseInt_show_int:
  assumes "- (2 ^ 63) \<le> i" and "i < 2 ^ 63"
  shows "ParseInt (show_int i) = Inr i"
proof (cases "i < 0")
  case True
  with assms ParseUint_show_nat [of "nat (- i)"] show ?thesis by (simp add: ParseInt_def show_int_def Let_def)
next
  case False
  with assms ParseUint_show_nat [of "nat i"] show_nat_no_sign [of "nat i"] show ?thesis
    by (simp add: ParseInt_def show_int_def Let_def)
qed

section \<open>Ways to write a flag\<close>

definition plain_name :: "string \<Rightarrow> bool" where
  "plain_name n \<longleftrightarrow> n \<noteq> [] \<and> hd n \<noteq> CHR ''-'' \<and> CHR ''='' \<notin> set n"

lemma formal_plain: "map_of (formal Y) n = Some fl \<Longrightarrow> plain_name n"
  by (auto simp: formal_def plain_name_def split: if_splits dest!: map_of_SomeD)

lemma split_value_bare: "plain_name n \<Longrightarrow> split_value n = (n, None)"
  by (cases n) (auto simp: split_value_def plain_name_def Cut_None [THEN iffD2])

lemma split_value_assigned: "plain_name n \<Longrightarrow> split_value (n @ CHR ''='' # v) = (n, Some v)"
  by (cases n) (auto simp: split_value_def plain_name_def Cut_append)

text \<open>One or two dashes make no difference.\<close>

lemma parseOne_dash:
  "plain_name n \<Longrightarrow> parseOne table f ((CHR ''-'' # n @ s) # args) = parse_name table (n @ s) f args"
  by (cases n) (auto simp: parseOne_def plain_name_def Let_def)

lemma parseOne_dash_dash:
  "plain_name n \<Longrightarrow> parseOne table f ((CHR ''-'' # CHR ''-'' # n @ s) # args) = parse_name table (n @ s) f args"
  by (cases n) (auto simp: parseOne_def plain_name_def Let_def)

lemmas parseOne_bare = parseOne_dash [where s = "[]", simplified] parseOne_dash_dash [where s = "[]", simplified]

lemma parse_name_assigned:
  "plain_name n \<Longrightarrow> map_of table n = Some fl \<Longrightarrow> parse_name table (n @ CHR ''='' # v) f args = set_flag fl n v f args"
  by (simp add: parse_name_def split_value_assigned)

lemma parse_name_bare:
  "plain_name n \<Longrightarrow> map_of table n = Some fl \<Longrightarrow> parse_name table n f args =
    (if IsBoolFlag fl then set_flag fl n ''true'' f args
     else case args of [] \<Rightarrow> Failf ''flag needs an argument: -%s'' [n] | v # args' \<Rightarrow> set_flag fl n v f args')"
  by (simp add: parse_name_def split_value_bare)

section \<open>A whole command line\<close>

text \<open>Assignments as arguments, and what they do to the variables.\<close>

definition render :: "(string \<times> string) list \<Rightarrow> string list" where
  "render = map (\<lambda>(n, v). CHR ''-'' # n @ CHR ''='' # v)"

fun assign :: "(string \<times> flag) list \<Rightarrow> (string \<times> string) list \<Rightarrow> flags \<Rightarrow> flags option" where
  "assign table [] f = Some f"
| "assign table ((n, v) # kvs) f =
    (case map_of table n of
       None \<Rightarrow> None
     | Some fl \<Rightarrow> (case Set fl v f of Inl _ \<Rightarrow> None | Inr f' \<Rightarrow> assign table kvs f'))"

lemma Parse_assign:
  "assign (formal Y) kvs f = Some f' \<Longrightarrow> Parse (formal Y) f (render kvs @ args) = Parse (formal Y) f' args"
proof (induction "formal Y" kvs f rule: assign.induct)
  case (2 n v kvs f)
  then obtain fl f1 where fl: "map_of (formal Y) n = Some fl" "Set fl v f = Inr f1" "assign (formal Y) kvs f1 = Some f'"
    by (auto split: option.splits sum.splits)
  have "parseOne (formal Y) f ((CHR ''-'' # n @ CHR ''='' # v) # render kvs @ args) = Seen f1 (render kvs @ args)"
    using parseOne_dash [OF formal_plain [OF fl(1)]] parse_name_assigned [OF formal_plain [OF fl(1)] fl(1)] fl(2)
    by (simp add: set_flag_def)
  with 2(1) [OF fl(1) fl(2) fl(3)] show ?case by (simp add: render_def Parse.simps [of _ f])
qed (simp add: render_def)

text \<open>The values of all variables as assignments; \<open>yaml\<close> is a text for the resources.\<close>

definition bool_text :: "bool \<Rightarrow> string" where
  "bool_text b = (if b then ''true'' else ''false'')"

definition flag_args :: "string \<Rightarrow> flags \<Rightarrow> (string \<times> string) list" where
  "flag_args yaml f =
    [(''metrics-bind-address'', metricsAddr f), (''health-probe-bind-address'', probeAddr f),
     (''leader-elect'', bool_text (enableLeaderElection f)), (''namespaces'', namespacesFlag f),
     (''exclude-namespaces'', excludeNamespacesFlag f), (''schedule'', defaultSchedule f),
     (''manual'', bool_text (manual f)), (''max-running-backups'', show_int (maxRunningBackups f)),
     (''sleep-between-backups'', show_int (sleepBetweenBackups f)), (''snapshotclass'', snapshotClassFlag f),
     (''storageclass'', storageClassFlag f), (''backup-storageclass'', backupStorageClassFlag f),
     (''restore-storageclass'', restoreStorageClassFlag f), (''imagepullsecret'', imagePullSecret f),
     (''image'', image f), (''s3-host'', s3Host f), (''s3-bucket'', s3Bucket f),
     (''s3-access-key-id'', s3AccessKeyId f), (''s3-secret-access-key'', s3SecretAccessKey f),
     (''restic-password'', resticPassword f), (''restic-old-password'', resticOldPassword f),
     (''restic-resources'', yaml)] @
    map (\<lambda>(k, v). (''restic-env'', k @ CHR ''='' # v)) (flag_resticEnv f)"

lemma formal_lookup:
  "map_of (formal Y) ''metrics-bind-address'' = Some (String_flag metricsAddr_update)"
  "map_of (formal Y) ''health-probe-bind-address'' = Some (String_flag probeAddr_update)"
  "map_of (formal Y) ''leader-elect'' = Some (Bool_flag enableLeaderElection_update)"
  "map_of (formal Y) ''namespaces'' = Some (String_flag namespacesFlag_update)"
  "map_of (formal Y) ''exclude-namespaces'' = Some (String_flag excludeNamespacesFlag_update)"
  "map_of (formal Y) ''schedule'' = Some (String_flag defaultSchedule_update)"
  "map_of (formal Y) ''manual'' = Some (Bool_flag manual_update)"
  "map_of (formal Y) ''max-running-backups'' = Some (Int_flag maxRunningBackups_update)"
  "map_of (formal Y) ''sleep-between-backups'' = Some (Int_flag sleepBetweenBackups_update)"
  "map_of (formal Y) ''snapshotclass'' = Some (String_flag snapshotClassFlag_update)"
  "map_of (formal Y) ''storageclass'' = Some (String_flag storageClassFlag_update)"
  "map_of (formal Y) ''backup-storageclass'' = Some (String_flag backupStorageClassFlag_update)"
  "map_of (formal Y) ''restore-storageclass'' = Some (String_flag restoreStorageClassFlag_update)"
  "map_of (formal Y) ''imagepullsecret'' = Some (String_flag imagePullSecret_update)"
  "map_of (formal Y) ''image'' = Some (String_flag image_update)"
  "map_of (formal Y) ''s3-host'' = Some (String_flag s3Host_update)"
  "map_of (formal Y) ''s3-bucket'' = Some (String_flag s3Bucket_update)"
  "map_of (formal Y) ''s3-access-key-id'' = Some (String_flag s3AccessKeyId_update)"
  "map_of (formal Y) ''s3-secret-access-key'' = Some (String_flag s3SecretAccessKey_update)"
  "map_of (formal Y) ''restic-password'' = Some (String_flag resticPassword_update)"
  "map_of (formal Y) ''restic-old-password'' = Some (String_flag resticOldPassword_update)"
  "map_of (formal Y) ''restic-env'' = Some (Flag False (\<lambda>s f. case keyValueFlag_Set (flag_resticEnv f) s of
      Inl e \<Rightarrow> Inl e | Inr m \<Rightarrow> Inr (f\<lparr>flag_resticEnv := m\<rparr>)))"
  "map_of (formal Y) ''restic-resources'' = Some (Flag False (\<lambda>s f. case resourcesFlag_Set Y (resticResources f) s of
      Inl e \<Rightarrow> Inl e | Inr r \<Rightarrow> Inr (f\<lparr>resticResources := r\<rparr>)))"
  by (simp_all add: formal_def)

lemma ParseBool_text [simp]: "ParseBool (bool_text b) = Inr b"
  by (simp add: ParseBool_def bool_text_def)

lemma assign_env:
  "(\<forall>kv\<in>set env. CHR ''='' \<notin> set (fst kv)) \<Longrightarrow> distinct (map fst (flag_resticEnv f @ env)) \<Longrightarrow>
   assign (formal Y) (map (\<lambda>(k, v). (''restic-env'', k @ CHR ''='' # v)) env) f = Some (f\<lparr>flag_resticEnv := flag_resticEnv f @ env\<rparr>)"
proof (induction env arbitrary: f)
  case (Cons kv env)
  obtain k v where kv: "kv = (k, v)" by (cases kv)
  let ?f = "f\<lparr>flag_resticEnv := flag_resticEnv f @ [(k, v)]\<rparr>"
  from Cons.prems kv have "AList.update k v (flag_resticEnv f) = flag_resticEnv f @ [(k, v)]"
    by (intro update_fresh) auto
  then have "assign (formal Y) (map (\<lambda>(k, v). (''restic-env'', k @ CHR ''='' # v)) (kv # env)) f =
      assign (formal Y) (map (\<lambda>(k, v). (''restic-env'', k @ CHR ''='' # v)) env) ?f"
    using Cons.prems(1) kv by (simp add: formal_lookup keyValueFlag_Set_def Cut_append)
  also have "\<dots> = Some (?f\<lparr>flag_resticEnv := flag_resticEnv ?f @ env\<rparr>)"
    using Cons.prems kv by (intro Cons.IH) auto
  finally show ?case by (simp add: kv)
qed simp

lemma assign_flag_args:
  assumes "- (2 ^ 63) \<le> maxRunningBackups f" and "maxRunningBackups f < 2 ^ 63"
    and "- (2 ^ 63) \<le> sleepBetweenBackups f" and "sleepBetweenBackups f < 2 ^ 63"
    and "distinct (map fst (flag_resticEnv f))" and "\<forall>kv\<in>set (flag_resticEnv f). CHR ''='' \<notin> set (fst kv)"
    and "Y yaml = Inr (resticResources f)" and "flag_resticEnv f0 = []"
  shows "assign (formal Y) (flag_args yaml f) f0 = Some f"
proof -
  have "assign (formal Y) (flag_args yaml f) f0 =
    assign (formal Y) (map (\<lambda>(k, v). (''restic-env'', k @ CHR ''='' # v)) (flag_resticEnv f)) (f\<lparr>flag_resticEnv := flag_resticEnv f0\<rparr>)"
    using assms(1-4,7) unfolding flag_args_def
    by (cases f, cases f0) (simp add: formal_lookup String_flag_def Bool_flag_def Int_flag_def ParseInt_show_int resourcesFlag_Set_def)
  also have "\<dots> = Some (f\<lparr>flag_resticEnv := flag_resticEnv f\<rparr>)"
    using assms(5,6,8) by (subst assign_env) auto
  finally show ?thesis by simp
qed

end
