(* ===== verification/Main_Theorems.thy ===== *)
theory Main_Theorems
  imports Scheme Flags_Props Backup_Props Restore_Props Sample_Cluster
begin

text \<open>
  The properties of the command line and of the wiring in \<open>main\<close>, with their witnesses.
\<close>

section \<open>Samples\<close>

definition sample_flags :: flags where
  "sample_flags = (defaultFlags [])\<lparr>s3Host := ''host'', s3Bucket := ''bucket'', namespacesFlag := '' app, ,web''\<rparr>"

definition willing_manager :: manager_answers where
  "willing_manager = \<lparr>ans_NewManager = (\<lambda>_. None), ans_IndexField = None, ans_Complete = (\<lambda>_. None),
     ans_AddHealthzCheck = None, ans_AddReadyzCheck = None, ans_Start = None\<rparr>"

section \<open>From flags to controllers\<close>

text \<open>
  C28: When \<open>main\<close> gets as far as running the manager, the required flags are set, the backup
  controller has a clock and the configured maximum, the automatic controller is there unless
  \<open>-manual\<close> is given, all controllers handle the same namespaces, backups and restores use the
  same settings, and the list of namespaces is either all of them or a list of names.
\<close>

theorem main_wires_operator:
  assumes "main K mgr f = Ran op"
  shows "image f \<noteq> [] \<and> s3Host f \<noteq> [] \<and> s3Bucket f \<noteq> [] \<and>
    br_Clock (op_backup op) = Some (k_time_Now K) \<and>
    MaxRunningBackups (op_backup op) = maxRunningBackups f \<and>
    (op_automatic op = None \<longleftrightarrow> manual f) \<and>
    br_watches (op_backup op) ns = rr_watches (op_restore op) ns \<and>
    (\<forall>r. op_automatic op = Some r \<longrightarrow> ac_watches r ns = br_watches (op_backup op) ns \<and> DefaultSchedule r = defaultSchedule f) \<and>
    br_BackupSettings (op_backup op) = newBackupSettings f \<and> rr_BackupSettings (op_restore op) = newBackupSettings f \<and>
    (br_Namespaces (op_backup op) = [[]] \<or> [] \<notin> set (br_Namespaces (op_backup op)))"
  using assms parseNamespaces_well_formed [of "namespacesFlag f"]
  by (auto simp: main_def check_required_def requiredFlag_def setup_automatic_def setup_backup_def setup_restore_def
      main_run_def PVCBackupReconciler_SetupWithManager_def PVCRestoreReconciler_SetupWithManager_def
      AutomaticPVCBackupCreator_SetupWithManager_def br_watches_def rr_watches_def ac_watches_def realClock_def Let_def
      split: option.splits sum.splits if_splits)

theorem main_wires_operator_witness:
  "\<exists>op. main (sampleK :: unit kube) willing_manager sample_flags = Ran op \<and>
     br_Clock (op_backup op) = Some (k_time_Now sampleK) \<and> op_automatic op \<noteq> None"
proof -
  have "\<exists>op. main (sampleK :: unit kube) willing_manager sample_flags = Ran op"
    by (simp add: main_def check_required_def requiredFlag_def setup_automatic_def setup_backup_def setup_restore_def
      main_run_def PVCBackupReconciler_SetupWithManager_def PVCRestoreReconciler_SetupWithManager_def
      AutomaticPVCBackupCreator_SetupWithManager_def willing_manager_def sample_flags_def defaultFlags_def
      defaultResticImage_def Let_def)
  then obtain op where op: "main (sampleK :: unit kube) willing_manager sample_flags = Ran op" ..
  have "\<not> manual sample_flags" by (simp add: sample_flags_def defaultFlags_def)
  with op main_wires_operator [OF op] show ?thesis by blast
qed

text \<open>
  C30: A list of namespaces written with commas is read back as that list: for names of visible
  ASCII characters without commas, with any number of empty items in between, the result is the
  list of the names in their order, and the flag without any name means all namespaces.
\<close>

theorem namespaces_roundtrip:
  assumes "items \<noteq> []" and "\<forall>x\<in>set items. \<forall>c\<in>set x. visible c \<and> c \<noteq> CHR '',''"
  shows "parseNamespaces (join (CHR '','') items) =
    (if \<forall>x\<in>set items. x = [] then [[]] else filter (\<lambda>x. x \<noteq> []) items)"
proof -
  have "Split (CHR '','') (join (CHR '','') items) = items"
    by (rule Split_join) (use assms in auto)
  moreover have "map TrimSpace items = items"
    by (rule map_idI, rule TrimSpace_visible) (use assms(2) in auto)
  ultimately have "parseNamespaces (join (CHR '','') items) =
      (let xs = filter (\<lambda>x. x \<noteq> []) items in if xs = [] then [[]] else xs)"
    by (simp only: parseNamespaces_shape)
  then show ?thesis by (simp only: Let_def filter_empty_conv not_not)
qed

theorem namespaces_roundtrip_witness:
  "parseNamespaces ''app,,web'' = [''app'', ''web'']"
  using namespaces_roundtrip [of "[''app'', [], ''web'']"] by (simp add: visible_def)

section \<open>Parsing the command line\<close>

text \<open>
  C31: Every configuration can be given on the command line: the arguments \<open>-flag=value\<close> for
  all flags, with integers in decimal and one \<open>-restic-env\<close> per variable, are parsed to
  exactly that configuration, for integers of 64 bits, variables with distinct names without
  equals signs, and any text for the resources that the YAML library reads as them.
\<close>

theorem flags_roundtrip:
  assumes "- (2 ^ 63) \<le> maxRunningBackups f" and "maxRunningBackups f < 2 ^ 63"
    and "- (2 ^ 63) \<le> sleepBetweenBackups f" and "sleepBetweenBackups f < 2 ^ 63"
    and "distinct (map fst (flag_resticEnv f))" and "\<forall>kv\<in>set (flag_resticEnv f). CHR ''='' \<notin> set (fst kv)"
    and "UnmarshalStrict yaml = Inr (resticResources f)"
  shows "Parse (formal UnmarshalStrict) (defaultFlags version) (render (flag_args yaml f)) = Parsed f []"
proof -
  have "assign (formal UnmarshalStrict) (flag_args yaml f) (defaultFlags version) = Some f"
    by (rule assign_flag_args [OF assms(1-6), where Y = UnmarshalStrict, OF assms(7)]) (simp add: defaultFlags_def)
  from Parse_assign [OF this, of "[]"] show ?thesis by (simp add: Parse.simps [of _ f] parseOne_def)
qed

theorem flags_roundtrip_witness:
  "Parse (formal (\<lambda>_. Inr defaultResticResources)) (defaultFlags [])
     (render (flag_args ''{}'' (sample_flags\<lparr>flag_resticEnv := [(''GOGC'', ''20'')]\<rparr>))) =
   Parsed (sample_flags\<lparr>flag_resticEnv := [(''GOGC'', ''20'')]\<rparr>) []"
  by (rule flags_roundtrip) (simp_all add: sample_flags_def defaultFlags_def)

text \<open>
  The ways to write a flag mean the same: one dash or two, and for a flag that is not boolean
  the value after an equals sign or as the next argument, even if that starts with a dash. A
  boolean flag without a value is set to true and does not take the next argument.
\<close>

lemma flag_spellings:
  assumes "map_of (formal UnmarshalStrict) n = Some fl"
  shows "Parse (formal UnmarshalStrict) f ((''--'' @ n @ ''='' @ v) # args) = Parse (formal UnmarshalStrict) f ((''-'' @ n @ ''='' @ v) # args) \<and>
    Parse (formal UnmarshalStrict) f ((''--'' @ n) # args) = Parse (formal UnmarshalStrict) f ((''-'' @ n) # args) \<and>
    (if IsBoolFlag fl
     then Parse (formal UnmarshalStrict) f ((''-'' @ n) # args) = Parse (formal UnmarshalStrict) f ((''-'' @ n @ ''=true'') # args)
     else Parse (formal UnmarshalStrict) f ((''-'' @ n) # v # args) = Parse (formal UnmarshalStrict) f ((''-'' @ n @ ''='' @ v) # args))"
proof -
  note n = formal_plain [OF assms]
  show ?thesis
    using parse_name_assigned [OF n assms] parse_name_bare [OF n assms]
    by (simp add: Parse.simps [of _ f] parseOne_dash [OF n] parseOne_dash_dash [OF n] parseOne_bare [OF n])
qed

text \<open>
  A wrong command line stops the program with exit code 2 before anything is set up: after
  any flags that are accepted, a flag that is not defined (help apart), or one whose value is
  refused, such as a number that is not an integer of 64 bits.
\<close>

lemma bad_flag_exits:
  assumes "assign (formal UnmarshalStrict) kvs (defaultFlags version) = Some f"
    and "plain_name n" and "n \<noteq> ''help''" and "n \<noteq> ''h''"
    and "case map_of (formal UnmarshalStrict) n of None \<Rightarrow> True | Some fl \<Rightarrow> \<exists>err. Set fl v f = Inl err"
  shows "program UnmarshalStrict version K mgr (render kvs @ (''-'' @ n @ ''='' @ v) # args) = ExitCode 2"
proof -
  have "\<exists>msg xs. parse_name (formal UnmarshalStrict) (n @ ''='' @ v) f args = Failf msg xs"
    using assms(2-5) by (auto simp: parse_name_def split_value_assigned set_flag_def split: option.splits)
  then have "Parse (formal UnmarshalStrict) f ((''-'' @ n @ ''='' @ v) # args) = Exit 2"
    by (auto simp: Parse.simps [of _ f] parseOne_dash [OF assms(2)])
  with Parse_assign [OF assms(1)] show ?thesis by (simp add: program_def)
qed

section \<open>The scheme\<close>

text \<open>
  C29: The scheme that \<open>main\<close> gives to the manager knows the type of every object: with API
  machinery that works, the package initialisation does not panic, every kind that one of the
  three controllers is registered for, owns or watches is recognised, and the two custom
  resources and their lists are under \<open>backsnap.skyb.it/v1alpha1\<close>, although they are
  registered after \<open>AddToScheme\<close> was taken from the builder.
\<close>

theorem scheme_knows_controllers:
  assumes "scheme_laws L known contents"
  shows "\<exists>s. main_init L = Some s \<and>
    (\<forall>k \<in> registration_kinds (fst (PVCBackupReconciler_SetupWithManager K br)) \<union>
        registration_kinds (fst (PVCRestoreReconciler_SetupWithManager rr)). known s (type_of_kind k) \<noteq> None) \<and>
    (\<forall>reg ar ar'. AutomaticPVCBackupCreator_SetupWithManager e K ar = Inr (reg, ar') \<longrightarrow>
      (\<forall>k \<in> registration_kinds reg. known s (type_of_kind k) \<noteq> None)) \<and>
    (\<forall>obj. known s (type_of_object obj) = Some \<lparr>gv_Group = ''backsnap.skyb.it'', gv_Version = ''v1alpha1''\<rparr>)"
  using main_init_known [OF assms] unfolding v1alpha1_GroupVersion_def by blast

text \<open>A scheme that is the map from types to group versions, and a builder that is a set of types.\<close>

definition sample_scheme_lib :: "(GroupVersion \<times> api_type set, api_type \<Rightarrow> GroupVersion option) scheme_lib" where
  "sample_scheme_lib = \<lparr>sl_NewScheme = Map.empty, sl_Builder = (\<lambda>gv. (gv, {})),
     sl_Register = (\<lambda>objs b. (fst b, snd b \<union> type_of_object ` set objs)),
     sl_Builder_AddToScheme = (\<lambda>b s. (None, \<lambda>t. if t \<in> snd b then Some (fst b) else s t)),
     sl_corev1_AddToScheme = (\<lambda>s. (None, s(CoreType ''Namespace'' \<mapsto> \<lparr>gv_Group = [], gv_Version = ''v1''\<rparr>,
       CoreType ''PersistentVolumeClaim'' \<mapsto> \<lparr>gv_Group = [], gv_Version = ''v1''\<rparr>))),
     sl_batchv1_AddToScheme = (\<lambda>s. (None, s(BatchType ''Job'' \<mapsto> \<lparr>gv_Group = ''batch'', gv_Version = ''v1''\<rparr>))),
     sl_volumesnapshotv1_AddToScheme = (\<lambda>s. (None, s(SnapshotType ''VolumeSnapshot'' \<mapsto>
       \<lparr>gv_Group = ''snapshot.storage.k8s.io'', gv_Version = ''v1''\<rparr>)))\<rparr>"

lemma sample_scheme_laws: "scheme_laws sample_scheme_lib (\<lambda>s. s) (\<lambda>b. b)"
  unfolding scheme_laws_def
proof (intro conjI)
  show "\<exists>m. adds (\<lambda>s. s) (sl_corev1_AddToScheme sample_scheme_lib) m \<and> CoreType ` {''Namespace'', ''PersistentVolumeClaim''} \<subseteq> dom m"
    by (rule exI [of _ "[CoreType ''Namespace'' \<mapsto> \<lparr>gv_Group = [], gv_Version = ''v1''\<rparr>,
        CoreType ''PersistentVolumeClaim'' \<mapsto> \<lparr>gv_Group = [], gv_Version = ''v1''\<rparr>]"]) (simp add: adds_def sample_scheme_lib_def)
  show "\<exists>m. adds (\<lambda>s. s) (sl_batchv1_AddToScheme sample_scheme_lib) m \<and> BatchType ''Job'' \<in> dom m"
    by (rule exI [of _ "[BatchType ''Job'' \<mapsto> \<lparr>gv_Group = ''batch'', gv_Version = ''v1''\<rparr>]"]) (simp add: adds_def sample_scheme_lib_def)
  show "\<exists>m. adds (\<lambda>s. s) (sl_volumesnapshotv1_AddToScheme sample_scheme_lib) m \<and> SnapshotType ''VolumeSnapshot'' \<in> dom m"
    by (rule exI [of _ "[SnapshotType ''VolumeSnapshot'' \<mapsto> \<lparr>gv_Group = ''snapshot.storage.k8s.io'', gv_Version = ''v1''\<rparr>]"])
      (simp add: adds_def sample_scheme_lib_def)
qed (auto simp: adds_def sample_scheme_lib_def map_add_def fun_eq_iff)

theorem scheme_knows_controllers_witness:
  "\<exists>s. main_init sample_scheme_lib = Some s \<and> s (BatchType ''Job'') \<noteq> None \<and> s (BacksnapType ''PVCRestoreList'') \<noteq> None"
proof -
  let ?br = "\<lparr>br_Clock = None, MaxRunningBackups = 1, SleepBetweenBackups = 30, br_Namespaces = [[]], br_ExcludeNamespaces = [[]],
    br_BackupSettings = sample_settings\<rparr>"
  let ?rr = "\<lparr>rr_Namespaces = [[]], rr_ExcludeNamespaces = [[]], rr_BackupSettings = sample_settings\<rparr>"
  obtain s where s: "main_init sample_scheme_lib = Some s"
    "\<forall>k \<in> registration_kinds (fst (PVCBackupReconciler_SetupWithManager (sampleK :: unit kube) ?br)) \<union>
        registration_kinds (fst (PVCRestoreReconciler_SetupWithManager ?rr)). s (type_of_kind k) \<noteq> None"
    "\<forall>obj. s (type_of_object obj) \<noteq> None"
    using scheme_knows_controllers [OF sample_scheme_laws, of "sampleK :: unit kube" ?br ?rr None] by auto
  have "KJob \<in> registration_kinds (fst (PVCRestoreReconciler_SetupWithManager ?rr))"
    by (simp add: registration_kinds_def PVCRestoreReconciler_SetupWithManager_def)
  with s(2) have "s (type_of_kind KJob) \<noteq> None" by blast
  with s(1) spec [OF s(3), of "OPVCRestoreList None"] show ?thesis by simp
qed

end
