(* ===== verification/Restic_Script.thy ===== *)
theory Restic_Script
  imports Util
begin

text \<open>
  \<open>src/restic.sh\<close>, the program of the backup container: it opens or makes the repository, moves
  it from the old password to the new one while the password is being rotated, makes the backup
  and prunes old ones. The restic program is a parameter: given the password in its environment,
  its arguments and the contents of the file given to \<open>--new-password-file\<close>, it returns an
  exit code and its output and changes the world. Under \<open>set -e -o pipefail\<close> every failing
  command that is not tested ends the script with its exit code; messages are left out.
\<close>

type_synonym 'r restic = "string \<Rightarrow> string list \<Rightarrow> string option \<Rightarrow> 'r \<Rightarrow> (nat \<times> string) \<times> 'r"

record script_env =
  RESTIC_PASSWORD :: string
  BACKSNAP_OLD_RESTIC_PASSWORD :: string
  RESTIC_HOSTNAME :: string
  BACKSNAP_RETRY_LOCK :: string
  BACKSNAP_CHECK_SUBSET :: string

text \<open>The function \<open>restic\<close> of the script, with the password it is called with.\<close>

definition with_lock :: "'r restic \<Rightarrow> string \<Rightarrow> 'r restic" where
  "with_lock command lock password args = command password ([''--retry-lock'', lock] @ args)"

definition restic :: "'r restic \<Rightarrow> script_env \<Rightarrow> string \<Rightarrow> string list \<Rightarrow> string option \<Rightarrow> ('r, nat \<times> string) state" where
  "restic command env password args new_password =
     State (with_lock command (BACKSNAP_RETRY_LOCK env) password args new_password)"

text \<open>A call under \<open>set -e\<close>: \<open>Inl\<close> is the exit code with which the script ends.\<close>

definition restic_e :: "'r restic \<Rightarrow> script_env \<Rightarrow> string \<Rightarrow> string list \<Rightarrow> string option \<Rightarrow> ('r, nat + unit) state" where
  "restic_e command env password args new_password = do {
     r \<leftarrow> restic command env password args new_password;
     return (if fst r \<noteq> 0 then Inl (fst r) else Inr ()) }"

section \<open>The repository\<close>

definition open_repository :: "'r restic \<Rightarrow> script_env \<Rightarrow> ('r, nat + unit) state" where
  "open_repository command env = do {
     r \<leftarrow> restic command env (RESTIC_PASSWORD env) [''cat'', ''config''] None;
     let code = fst r in
       if code = 10 then restic_e command env (RESTIC_PASSWORD env) [''init'', ''-vvv''] None
       else if code = 12 \<and> BACKSNAP_OLD_RESTIC_PASSWORD env \<noteq> [] then
         restic_e command env (BACKSNAP_OLD_RESTIC_PASSWORD env) [''key'', ''add'', ''--new-password-file'']
           (Some (RESTIC_PASSWORD env))
       else if code = 12 then return (Inl 1)
       else if code \<noteq> 0 then return (Inl 1)
       else return (Inr ()) }"

section \<open>Rotating the password\<close>

text \<open>
  \<open>grep -o '"current":true,"id":"[0-9a-f]*"' | cut -d '"' -f 6\<close>: the identifiers in all
  matches, from left to right.
\<close>

definition current_prefix :: string where
  "current_prefix = ''\"current\":true,\"id\":\"''"

definition is_hex :: "char \<Rightarrow> bool" where
  "is_hex c \<longleftrightarrow> (48 \<le> (of_char c :: nat) \<and> (of_char c :: nat) \<le> 57) \<or> (97 \<le> (of_char c :: nat) \<and> (of_char c :: nat) \<le> 102)"

function grep_current :: "string \<Rightarrow> string list" where
  "grep_current [] = []"
| "grep_current (c # s) =
    (let rest = drop (length current_prefix) (c # s); hex = takeWhile is_hex rest; after = dropWhile is_hex rest in
     if take (length current_prefix) (c # s) = current_prefix \<and> after \<noteq> [] \<and> hd after = CHR 0x22
     then hex # grep_current (tl after)
     else grep_current s)"
  by pat_completeness auto
termination
proof (relation "measure length")
  fix c s rest hex after
  assume "rest = drop (length current_prefix) (c # s)" "after = dropWhile is_hex rest"
  moreover have "length (dropWhile is_hex rest) \<le> length rest" by (rule length_dropWhile_le)
  moreover have "length (drop (length current_prefix) (c # s)) \<le> length s" by (simp add: current_prefix_def)
  ultimately show "(tl after, c # s) \<in> measure length" by (simp del: length_drop)
qed auto

declare grep_current.simps(2) [simp del]

fun lines :: "string list \<Rightarrow> string" where
  "lines [] = []"
| "lines [x] = x"
| "lines (x # y # xs) = x @ CHR 0x0A # lines (y # xs)"

text \<open>
  Without a match, \<open>grep\<close> fails and \<open>pipefail\<close> ends the script at the assignment to
  \<open>OLD_KEY\<close>; with a match, the test for an empty \<open>OLD_KEY\<close> follows.
\<close>

definition remove_old_key :: "'r restic \<Rightarrow> script_env \<Rightarrow> string \<Rightarrow> ('r, nat + unit) state" where
  "remove_old_key command env OLD_KEYS =
    (if grep_current OLD_KEYS = [] then return (Inl 1)
     else let OLD_KEY = lines (grep_current OLD_KEYS) in
       if OLD_KEY = [] then return (Inl 1)
       else restic_e command env (RESTIC_PASSWORD env) [''key'', ''remove'', OLD_KEY] None)"

definition rotating :: "script_env \<Rightarrow> bool" where
  "rotating env \<longleftrightarrow> BACKSNAP_OLD_RESTIC_PASSWORD env \<noteq> [] \<and> BACKSNAP_OLD_RESTIC_PASSWORD env \<noteq> RESTIC_PASSWORD env"

definition rotate_password :: "'r restic \<Rightarrow> script_env \<Rightarrow> ('r, nat + unit) state" where
  "rotate_password command env =
    (if \<not> rotating env then return (Inr ())
     else do {
       r \<leftarrow> restic command env (BACKSNAP_OLD_RESTIC_PASSWORD env) [''key'', ''list'', ''--json''] None;
       if fst r = 0 then remove_old_key command env (snd r)
       else if fst r \<noteq> 12 then return (Inl 1)
       else return (Inr ()) })"

section \<open>The backup\<close>

fun restic_all :: "'r restic \<Rightarrow> script_env \<Rightarrow> string list list \<Rightarrow> ('r, nat) state" where
  "restic_all command env [] = return 0"
| "restic_all command env (args # rest) =
     or_return (restic_e command env (RESTIC_PASSWORD env) args None) (\<lambda>_. restic_all command env rest)"

definition backup_commands :: "script_env \<Rightarrow> string list list" where
  "backup_commands env =
    [[''--verbose'', ''unlock''],
     [''--verbose'', ''backup'', ''--host'', RESTIC_HOSTNAME env, ''/data''],
     [''--verbose'', ''check''],
     [''snapshots''],
     [''forget'', ''--keep-last'', ''1'', ''--keep-hourly'', ''12'', ''--keep-daily'', ''7'',
      ''--keep-weekly'', ''2'', ''--keep-monthly'', ''2''],
     [''prune''],
     [''snapshots''],
     [''--verbose'', ''check'', ''--read-data-subset='' @ BACKSNAP_CHECK_SUBSET env]]"

text \<open>\<open>hostname\<close> is the output of the command of that name.\<close>

definition restic_sh :: "'r restic \<Rightarrow> string \<Rightarrow> script_env \<Rightarrow> ('r, nat) state" where
  "restic_sh command hostname env =
     or_return (restic_e command env (RESTIC_PASSWORD env) [''version''] None) (\<lambda>_.
     let env = (if RESTIC_HOSTNAME env = [] then env\<lparr>RESTIC_HOSTNAME := hostname\<rparr> else env) in
     or_return (open_repository command env) (\<lambda>_.
     or_return (rotate_password command env) (\<lambda>_.
     restic_all command env (backup_commands env))))"

section \<open>The keys of a repository\<close>

text \<open>
  What restic documents about keys. A repository, if there is one, has keys, each with an
  identifier and a password, and a password opens it if one of the keys has it. \<open>cat config\<close>
  and \<open>key list\<close> report with exit code 10 that there is no repository and with 12 that the
  password is wrong, and \<open>key list\<close> marks the key in use as the current one; \<open>key add\<close>
  adds a key and leaves the others; \<open>key remove\<close> removes the key it is given, but never the
  key in use. The other commands that the script runs do not change the keys.
\<close>

definition opens :: "(string \<times> string) list option \<Rightarrow> string \<Rightarrow> bool" where
  "opens keys p \<longleftrightarrow> (\<exists>ks. keys = Some ks \<and> p \<in> snd ` set ks)"

definition quiet_command :: "string list \<Rightarrow> bool" where
  "quiet_command args \<longleftrightarrow> args = [''version''] \<or> args = [''cat'', ''config''] \<or> (\<exists>env. args \<in> set (backup_commands env))"

definition quiet_law :: "'r restic \<Rightarrow> ('r \<Rightarrow> (string \<times> string) list option) \<Rightarrow> bool" where
  "quiet_law cmd keys \<longleftrightarrow> (\<forall>p args n w. quiet_command args \<longrightarrow> keys (snd (cmd p args n w)) = keys w)"

definition config_law :: "'r restic \<Rightarrow> ('r \<Rightarrow> (string \<times> string) list option) \<Rightarrow> bool" where
  "config_law cmd keys \<longleftrightarrow> (\<forall>p w. case fst (cmd p [''cat'', ''config''] None w) of (code, _) \<Rightarrow>
     (code = 0 \<longrightarrow> opens (keys w) p) \<and> (code = 10 \<longrightarrow> keys w = None) \<and> (code = 12 \<longrightarrow> \<not> opens (keys w) p))"

definition init_law :: "'r restic \<Rightarrow> ('r \<Rightarrow> (string \<times> string) list option) \<Rightarrow> bool" where
  "init_law cmd keys \<longleftrightarrow> (\<forall>p w. case cmd p [''init'', ''-vvv''] None w of ((code, _), w') \<Rightarrow>
     (keys w \<noteq> None \<longrightarrow> keys w' = keys w) \<and> (code = 0 \<longrightarrow> (\<exists>k. keys w' = Some [(k, p)])))"

definition add_law :: "'r restic \<Rightarrow> ('r \<Rightarrow> (string \<times> string) list option) \<Rightarrow> bool" where
  "add_law cmd keys \<longleftrightarrow> (\<forall>p new w. case cmd p [''key'', ''add'', ''--new-password-file''] (Some new) w of ((code, _), w') \<Rightarrow>
     (case keys w of
        None \<Rightarrow> code \<noteq> 0
      | Some ks \<Rightarrow> (\<exists>added. keys w' = Some (ks @ added) \<and> snd ` set added \<subseteq> {new} \<and> (code = 0 \<longrightarrow> added \<noteq> []))))"

definition list_law :: "'r restic \<Rightarrow> ('r \<Rightarrow> (string \<times> string) list option) \<Rightarrow> bool" where
  "list_law cmd keys \<longleftrightarrow> (\<forall>p w. case cmd p [''key'', ''list'', ''--json''] None w of ((code, out), w') \<Rightarrow>
     keys w' = keys w \<and>
     (code = 0 \<longrightarrow> (\<exists>ks k. keys w = Some ks \<and> (k, p) \<in> set ks \<and> k \<noteq> [] \<and> grep_current out = [k])) \<and>
     (code = 12 \<longrightarrow> \<not> opens (keys w) p))"

definition remove_law :: "'r restic \<Rightarrow> ('r \<Rightarrow> (string \<times> string) list option) \<Rightarrow> bool" where
  "remove_law cmd keys \<longleftrightarrow> (\<forall>p k w. case cmd p [''key'', ''remove'', k] None w of ((code, _), w') \<Rightarrow>
     if code = 0
     then (case keys w of
        None \<Rightarrow> False
      | Some ks \<Rightarrow> keys w' = Some (filter (\<lambda>x. fst x \<noteq> k) ks) \<and> opens (keys w') p)
     else keys w' = keys w)"

definition restic_keys :: "'r restic \<Rightarrow> ('r \<Rightarrow> (string \<times> string) list option) \<Rightarrow> bool" where
  "restic_keys cmd keys \<longleftrightarrow> quiet_law cmd keys \<and> config_law cmd keys \<and> init_law cmd keys \<and> add_law cmd keys \<and>
     list_law cmd keys \<and> remove_law cmd keys"

end
