(* ===== verification/Restic_Props.thy ===== *)
theory Restic_Props
  imports Restic_Script
begin

text \<open>
  What the script does to the keys of a repository: each command keeps it accessible with the new
  or the old password (a \<open>step_rel\<close>), and a run that succeeds has completed the rotation.
\<close>

section \<open>Finding the key in use\<close>

lemma grep_current_skip: "c \<noteq> CHR 0x22 \<Longrightarrow> grep_current (c # s) = grep_current s"
  by (subst grep_current.simps) (auto simp: current_prefix_def)

lemma grep_current_match:
  assumes "list_all is_hex k"
  shows "grep_current (current_prefix @ k @ CHR 0x22 # s) = k # grep_current s"
proof -
  obtain c p where cp: "current_prefix = c # p" by (simp add: current_prefix_def)
  have q: "\<not> is_hex (CHR 0x22)" by (simp add: is_hex_def)
  with assms have "takeWhile is_hex (k @ CHR 0x22 # s) = k" "dropWhile is_hex (k @ CHR 0x22 # s) = CHR 0x22 # s"
    by (auto simp: list_all_iff takeWhile_tail dropWhile_append)
  then have "grep_current (c # p @ k @ CHR 0x22 # s) = k # grep_current s"
    by (subst grep_current.simps) (simp add: cp q Let_def)
  then show ?thesis by (simp add: cp)
qed

section \<open>Access\<close>

text \<open>A repository that the new or the old password opens stays so.\<close>

definition keeps_access :: "('r \<Rightarrow> (string \<times> string) list option) \<Rightarrow> script_env \<Rightarrow> 'r \<Rightarrow> 'r \<Rightarrow> bool" where
  "keeps_access keys env w w' \<longleftrightarrow>
     opens (keys w) (RESTIC_PASSWORD env) \<or> opens (keys w) (BACKSNAP_OLD_RESTIC_PASSWORD env) \<longrightarrow>
     opens (keys w') (RESTIC_PASSWORD env) \<or> opens (keys w') (BACKSNAP_OLD_RESTIC_PASSWORD env)"

interpretation access: step_rel "keeps_access keys env" for keys env
  by unfold_locales (auto simp: keeps_access_def)

declare access.rel_intros [steps]

lemma opens_append [simp]: "opens (Some (ks @ ks')) p \<longleftrightarrow> opens (Some ks) p \<or> opens (Some ks') p"
  by (auto simp: opens_def)

lemma opens_None [simp]: "\<not> opens None p"
  by (simp add: opens_def)

text \<open>The laws, for one call.\<close>

lemma restic_laws:
  assumes "restic_keys cmd keys"
  shows "quiet_law cmd keys" and "config_law cmd keys" and "init_law cmd keys" and "add_law cmd keys"
    and "list_law cmd keys" and "remove_law cmd keys"
  using assms by (simp_all add: restic_keys_def)

lemma quiet_lawD: "restic_keys cmd keys \<Longrightarrow> quiet_command args \<Longrightarrow> cmd p args n w = (r, w') \<Longrightarrow> keys w' = keys w"
  unfolding restic_keys_def quiet_law_def by (metis snd_conv)

lemma config_lawD:
  "restic_keys cmd keys \<Longrightarrow> cmd p [''cat'', ''config''] None w = ((code, out), w') \<Longrightarrow>
   (code = 0 \<longrightarrow> opens (keys w) p) \<and> (code = 10 \<longrightarrow> keys w = None) \<and> (code = 12 \<longrightarrow> \<not> opens (keys w) p)"
  using restic_laws(2) [of cmd keys, unfolded config_law_def, THEN spec [of _ p], THEN spec [of _ w]] by simp

lemma init_lawD:
  "restic_keys cmd keys \<Longrightarrow> cmd p [''init'', ''-vvv''] None w = ((code, out), w') \<Longrightarrow>
   (keys w \<noteq> None \<longrightarrow> keys w' = keys w) \<and> (code = 0 \<longrightarrow> (\<exists>k. keys w' = Some [(k, p)]))"
  using restic_laws(3) [of cmd keys, unfolded init_law_def, THEN spec [of _ p], THEN spec [of _ w]] by simp

lemma add_lawD:
  "restic_keys cmd keys \<Longrightarrow> cmd p [''key'', ''add'', ''--new-password-file''] (Some new) w = ((code, out), w') \<Longrightarrow>
   (case keys w of
      None \<Rightarrow> code \<noteq> 0
    | Some ks \<Rightarrow> (\<exists>added. keys w' = Some (ks @ added) \<and> snd ` set added \<subseteq> {new} \<and> (code = 0 \<longrightarrow> added \<noteq> [])))"
  using restic_laws(4) [of cmd keys, unfolded add_law_def, THEN spec [of _ p], THEN spec [of _ new], THEN spec [of _ w]] by simp

lemma list_lawD:
  "restic_keys cmd keys \<Longrightarrow> cmd p [''key'', ''list'', ''--json''] None w = ((code, out), w') \<Longrightarrow>
   keys w' = keys w \<and>
   (code = 0 \<longrightarrow> (\<exists>ks k. keys w = Some ks \<and> (k, p) \<in> set ks \<and> k \<noteq> [] \<and> grep_current out = [k])) \<and>
   (code = 12 \<longrightarrow> \<not> opens (keys w) p)"
  using restic_laws(5) [of cmd keys, unfolded list_law_def, THEN spec [of _ p], THEN spec [of _ w]] by simp

lemma remove_lawD:
  "restic_keys cmd keys \<Longrightarrow> cmd p [''key'', ''remove'', k] None w = ((code, out), w') \<Longrightarrow>
   if code = 0
   then (case keys w of
      None \<Rightarrow> False
    | Some ks \<Rightarrow> keys w' = Some (filter (\<lambda>x. fst x \<noteq> k) ks) \<and> opens (keys w') p)
   else keys w' = keys w"
  using restic_laws(6) [of cmd keys, unfolded remove_law_def, THEN spec [of _ p], THEN spec [of _ k], THEN spec [of _ w]] by simp

text \<open>The calls of the script, each of which keeps access.\<close>

lemma restic_rel:
  "(\<And>w code out w'. with_lock command (BACKSNAP_RETRY_LOCK env) p args n w = ((code, out), w') \<Longrightarrow> R w w') \<Longrightarrow>
   state_io_rel R (restic command env p args n)"
  unfolding restic_def by (rule state_io_relI) (metis prod.exhaust_sel state.sel)

lemma restic_e_rel:
  assumes "step_rel R" and "state_io_rel R (restic command env p args n)"
  shows "state_io_rel R (restic_e command env p args n)"
  unfolding restic_e_def by (intro step_rel.rel_bind [OF assms(1)] step_rel.rel_return [OF assms(1)] assms(2))

lemma keeps_access_host [simp]: "keeps_access keys (env\<lparr>RESTIC_HOSTNAME := h\<rparr>) = keeps_access keys env"
  by (simp add: fun_eq_iff keeps_access_def)

lemma quiet_access:
  assumes "restic_keys (with_lock command (BACKSNAP_RETRY_LOCK env)) keys" and "quiet_command args"
  shows "state_io_rel (keeps_access keys env') (restic command env p args n)"
  by (rule restic_rel) (use quiet_lawD [OF assms] in \<open>auto simp: keeps_access_def\<close>)

lemma key_access:
  assumes "restic_keys (with_lock command (BACKSNAP_RETRY_LOCK env)) keys"
  shows "state_io_rel (keeps_access keys env) (restic command env p [''init'', ''-vvv''] None)"
    and "state_io_rel (keeps_access keys env) (restic command env p [''key'', ''add'', ''--new-password-file''] (Some new))"
    and "state_io_rel (keeps_access keys env) (restic command env p [''key'', ''list'', ''--json''] None)"
    and "state_io_rel (keeps_access keys env) (restic command env (RESTIC_PASSWORD env) [''key'', ''remove'', k] None)"
  by (rule restic_rel; drule init_lawD [OF assms] add_lawD [OF assms] list_lawD [OF assms] remove_lawD [OF assms];
      auto simp: keeps_access_def split: option.splits if_splits)+

lemma restic_all_access:
  assumes "restic_keys (with_lock command (BACKSNAP_RETRY_LOCK env)) keys"
  shows "\<forall>args\<in>set cmds. quiet_command args \<Longrightarrow> state_io_rel (keeps_access keys env') (restic_all command env cmds)"
proof (induction cmds)
  case (Cons args cmds)
  then show ?case
    by (auto intro!: steps restic_e_rel quiet_access [OF assms] access.step_rel_axioms)
qed (auto intro!: steps)

lemma quiet_commands: "args \<in> set (backup_commands env) \<Longrightarrow> quiet_command args"
  by (auto simp: quiet_command_def)

lemma restic_sh_access:
  assumes "restic_keys (with_lock command (BACKSNAP_RETRY_LOCK env)) keys"
  shows "state_io_rel (keeps_access keys env) (restic_sh command hostname env)"
proof -
  have *: "state_io_rel (keeps_access keys env) (open_repository command e)" "state_io_rel (keeps_access keys env) (rotate_password command e)"
    "state_io_rel (keeps_access keys env) (restic_all command e (backup_commands e))"
    if "e = env \<or> e = env\<lparr>RESTIC_HOSTNAME := hostname\<rparr>" for e
  proof -
    from that assms have law: "restic_keys (with_lock command (BACKSNAP_RETRY_LOCK e)) keys" and acc: "keeps_access keys env = keeps_access keys e"
      by (auto simp: fun_eq_iff keeps_access_def)
    show "state_io_rel (keeps_access keys env) (open_repository command e)"
      unfolding open_repository_def acc Let_def
      by (auto intro!: steps restic_e_rel key_access [OF law] quiet_access [OF law] access.step_rel_axioms simp: quiet_command_def)
    show "state_io_rel (keeps_access keys env) (rotate_password command e)"
      unfolding rotate_password_def remove_old_key_def acc Let_def
      by (auto intro!: steps restic_e_rel key_access [OF law] access.step_rel_axioms)
    show "state_io_rel (keeps_access keys env) (restic_all command e (backup_commands e))"
      by (rule restic_all_access [OF law]) (simp add: quiet_commands)
  qed
  show ?thesis
    unfolding restic_sh_def Let_def
    by (intro steps restic_e_rel access.step_rel_axioms quiet_access [OF assms] *) (auto simp: quiet_command_def)
qed

section \<open>A run that succeeds\<close>

text \<open>At most one key has the old password.\<close>

definition one_old_key :: "script_env \<Rightarrow> (string \<times> string) list option \<Rightarrow> bool" where
  "one_old_key env keys \<longleftrightarrow> (\<forall>ks k k'. keys = Some ks \<longrightarrow> (k, BACKSNAP_OLD_RESTIC_PASSWORD env) \<in> set ks \<longrightarrow>
     (k', BACKSNAP_OLD_RESTIC_PASSWORD env) \<in> set ks \<longrightarrow> k = k')"

lemma wp_restic: "wp (restic command env p args n) Q w = (case with_lock command (BACKSNAP_RETRY_LOCK env) p args n w of (r, w') \<Rightarrow> Q r w')"
  by (simp add: restic_def wp_def)

lemma wp_restic_e:
  "wp (restic_e command env p args n) Q w =
   (case with_lock command (BACKSNAP_RETRY_LOCK env) p args n w of ((code, out), w') \<Rightarrow> Q (if code \<noteq> 0 then Inl code else Inr ()) w')"
  by (simp add: restic_e_def wp wp_restic split: prod.split)

lemma opens_added: "added \<noteq> [] \<Longrightarrow> snd ` set added \<subseteq> {p} \<Longrightarrow> opens (Some added) p"
  by (cases added) (auto simp: opens_def)

lemma wp_open_repository:
  assumes "restic_keys (with_lock command (BACKSNAP_RETRY_LOCK env)) keys"
    and "one_old_key env (keys w)"
  shows "wp (open_repository command env) (\<lambda>r w'. case r of Inl code \<Rightarrow> code \<noteq> 0 | Inr _ \<Rightarrow>
    opens (keys w') (RESTIC_PASSWORD env) \<and> (rotating env \<longrightarrow> one_old_key env (keys w'))) w"
proof -
  let ?cmd = "with_lock command (BACKSNAP_RETRY_LOCK env)" and ?p = "RESTIC_PASSWORD env" and ?old = "BACKSNAP_OLD_RESTIC_PASSWORD env"
  obtain code out w1 where c: "?cmd ?p [''cat'', ''config''] None w = ((code, out), w1)" by (metis prod.exhaust)
  have k1: "keys w1 = keys w" by (rule quiet_lawD [OF assms(1) _ c]) (simp add: quiet_command_def)
  obtain icode iout iw where i: "?cmd ?p [''init'', ''-vvv''] None w1 = ((icode, iout), iw)" by (metis prod.exhaust)
  obtain acode aout aw where a: "?cmd ?old [''key'', ''add'', ''--new-password-file''] (Some ?p) w1 = ((acode, aout), aw)" by (metis prod.exhaust)
  have "icode = 0 \<longrightarrow> opens (keys iw) ?p \<and> (rotating env \<longrightarrow> one_old_key env (keys iw))"
    using init_lawD [OF assms(1) i] by (auto simp: opens_def rotating_def one_old_key_def)
  moreover have "acode = 0 \<longrightarrow> opens (keys aw) ?p \<and> (rotating env \<longrightarrow> one_old_key env (keys aw))"
  proof
    assume "acode = 0"
    with add_lawD [OF assms(1) a] k1 obtain ks added where ks: "keys w = Some ks" "keys aw = Some (ks @ added)"
      "snd ` set added \<subseteq> {?p}" "added \<noteq> []" by (auto split: option.splits)
    have "(k, ?old) \<in> set (ks @ added) \<longleftrightarrow> (k, ?old) \<in> set ks" if "rotating env" for k
      using ks(3) that by (force simp: rotating_def)
    with ks assms(2) opens_added [OF ks(4,3)] show "opens (keys aw) ?p \<and> (rotating env \<longrightarrow> one_old_key env (keys aw))"
      unfolding one_old_key_def ks(1,2) by simp
  qed
  ultimately show ?thesis
    using config_lawD [OF assms(1) c] k1 assms(2)
    by (auto simp: open_repository_def wp wp_restic wp_restic_e c i a Let_def)
qed

lemma wp_rotate_password:
  assumes "restic_keys (with_lock command (BACKSNAP_RETRY_LOCK env)) keys"
    and "opens (keys w) (RESTIC_PASSWORD env)" and "rotating env \<longrightarrow> one_old_key env (keys w)"
  shows "wp (rotate_password command env) (\<lambda>r w'. case r of Inl code \<Rightarrow> code \<noteq> 0 | Inr _ \<Rightarrow>
    opens (keys w') (RESTIC_PASSWORD env) \<and> (rotating env \<longrightarrow> \<not> opens (keys w') (BACKSNAP_OLD_RESTIC_PASSWORD env))) w"
proof (cases "rotating env")
  case False
  with assms(2) show ?thesis by (simp add: rotate_password_def wp)
next
  case True
  let ?cmd = "with_lock command (BACKSNAP_RETRY_LOCK env)" and ?p = "RESTIC_PASSWORD env" and ?old = "BACKSNAP_OLD_RESTIC_PASSWORD env"
  obtain code out w1 where l: "?cmd ?old [''key'', ''list'', ''--json''] None w = ((code, out), w1)" by (metis prod.exhaust)
  note list = list_lawD [OF assms(1) l]
  have "wp (remove_old_key command env out) (\<lambda>r w'. case r of Inl code \<Rightarrow> code \<noteq> 0 | Inr _ \<Rightarrow>
      opens (keys w') ?p \<and> (rotating env \<longrightarrow> \<not> opens (keys w') ?old)) w1" if "code = 0"
  proof -
    from list that obtain ks k where k: "keys w = Some ks" "(k, ?old) \<in> set ks" "k \<noteq> []" "grep_current out = [k]" "keys w1 = Some ks" by auto
    obtain rcode rout rw where r: "?cmd ?p [''key'', ''remove'', k] None w1 = ((rcode, rout), rw)" by (metis prod.exhaust)
    have "\<not> opens (Some (filter (\<lambda>x. fst x \<noteq> k) ks)) ?old"
      using assms(3) True k(1,2) by (auto simp: opens_def one_old_key_def)
    with remove_lawD [OF assms(1) r] k show ?thesis
      by (auto simp: remove_old_key_def wp wp_restic_e r split: if_splits)
  qed
  with list assms(2) True show ?thesis
    by (auto simp: rotate_password_def wp wp_restic l)
qed

lemma wp_restic_all:
  assumes "restic_keys (with_lock command (BACKSNAP_RETRY_LOCK env)) keys"
  shows "\<forall>args\<in>set cmds. quiet_command args \<Longrightarrow> wp (restic_all command env cmds) (\<lambda>_ w'. keys w' = keys w) w"
proof (induction cmds arbitrary: w)
  case (Cons args cmds)
  obtain r w1 where r: "with_lock command (BACKSNAP_RETRY_LOCK env) (RESTIC_PASSWORD env) args None w = (r, w1)" by (metis prod.exhaust)
  have "keys w1 = keys w" by (rule quiet_lawD [OF assms _ r]) (use Cons.prems in simp)
  with Cons.IH [of w1] Cons.prems r show ?case by (cases r) (auto simp: wp wp_restic_e)
qed (simp add: wp)

lemma wp_restic_sh:
  assumes "restic_keys (with_lock command (BACKSNAP_RETRY_LOCK env)) keys" and "one_old_key env (keys w)"
  shows "wp (restic_sh command hostname env) (\<lambda>code w'. code = 0 \<longrightarrow> opens (keys w') (RESTIC_PASSWORD env) \<and>
    (rotating env \<longrightarrow> \<not> opens (keys w') (BACKSNAP_OLD_RESTIC_PASSWORD env))) w"
proof -
  define e where "e = (if RESTIC_HOSTNAME env = [] then env\<lparr>RESTIC_HOSTNAME := hostname\<rparr> else env)"
  have e: "RESTIC_PASSWORD e = RESTIC_PASSWORD env" "BACKSNAP_OLD_RESTIC_PASSWORD e = BACKSNAP_OLD_RESTIC_PASSWORD env"
    "BACKSNAP_RETRY_LOCK e = BACKSNAP_RETRY_LOCK env" by (simp_all add: e_def)
  then have same: "rotating e = rotating env" "one_old_key e = one_old_key env" by (simp_all add: rotating_def one_old_key_def fun_eq_iff)
  from assms(1) e have law: "restic_keys (with_lock command (BACKSNAP_RETRY_LOCK e)) keys" by simp
  obtain r w1 where v: "with_lock command (BACKSNAP_RETRY_LOCK env) (RESTIC_PASSWORD env) [''version''] None w = (r, w1)" by (metis prod.exhaust)
  have k: "keys w1 = keys w" by (rule quiet_lawD [OF assms(1) _ v]) (simp add: quiet_command_def)
  let ?R = "\<lambda>w'. opens (keys w') (RESTIC_PASSWORD env) \<and> (rotating env \<longrightarrow> \<not> opens (keys w') (BACKSNAP_OLD_RESTIC_PASSWORD env))"
  let ?Q = "\<lambda>code w'. code = 0 \<longrightarrow> ?R w'"
  have all: "wp (restic_all command e (backup_commands e)) ?Q u" if "?R u" for u
    by (rule wp_mono [OF wp_restic_all [OF law]]) (use that quiet_commands in auto)
  have rot: "wp (rotate_password command e) (\<lambda>x t. case x of Inl code \<Rightarrow> ?Q code t
      | Inr _ \<Rightarrow> wp (restic_all command e (backup_commands e)) ?Q t) u"
    if "opens (keys u) (RESTIC_PASSWORD env) \<and> (rotating env \<longrightarrow> one_old_key env (keys u))" for u
  proof (rule wp_mono [OF wp_rotate_password [OF law]])
    fix x t assume "case x of Inl code \<Rightarrow> code \<noteq> 0 | Inr _ \<Rightarrow> opens (keys t) (RESTIC_PASSWORD e) \<and>
      (rotating e \<longrightarrow> \<not> opens (keys t) (BACKSNAP_OLD_RESTIC_PASSWORD e))"
    with all [of t] show "case x of Inl code \<Rightarrow> ?Q code t | Inr _ \<Rightarrow> wp (restic_all command e (backup_commands e)) ?Q t"
      by (cases x) (simp_all add: e same)
  qed (use that e same in simp_all)
  have "wp (open_repository command e) (\<lambda>x t. case x of Inl code \<Rightarrow> ?Q code t
      | Inr _ \<Rightarrow> wp (or_return (rotate_password command e) (\<lambda>_. restic_all command e (backup_commands e))) ?Q t) w1"
  proof (rule wp_mono [OF wp_open_repository [OF law]])
    fix x t assume "case x of Inl code \<Rightarrow> code \<noteq> 0 | Inr _ \<Rightarrow> opens (keys t) (RESTIC_PASSWORD e) \<and>
      (rotating e \<longrightarrow> one_old_key e (keys t))"
    with rot [of t] show "case x of Inl code \<Rightarrow> ?Q code t
      | Inr _ \<Rightarrow> wp (or_return (rotate_password command e) (\<lambda>_. restic_all command e (backup_commands e))) ?Q t"
      by (cases x) (simp_all add: e same wp_or_return)
  qed (use assms(2) k same in simp)
  then show ?thesis
    by (cases r) (simp add: restic_sh_def wp_or_return wp_restic_e v Let_def e_def [symmetric])
qed

end
