(* ===== verification/Restic_Theorems.thy ===== *)
theory Restic_Theorems
  imports Restic_Props
begin

text \<open>
  The properties of \<open>restic.sh\<close> while the password is being rotated, with their witnesses on
  a small restic of keys only.
\<close>

section \<open>A sample restic\<close>

definition key_of :: "string \<Rightarrow> (string \<times> string) list option \<Rightarrow> string option" where
  "key_of p keys = (case keys of None \<Rightarrow> None | Some ks \<Rightarrow> map_of (map (\<lambda>(k, q). (q, k)) ks) p)"

definition sample_restic :: "(string \<times> string) list option restic" where
  "sample_restic p args n w =
    (let args = drop 2 args in
     if args = [''cat'', ''config''] then ((if w = None then 10 else if key_of p w = None then 12 else 0, []), w)
     else if args = [''init'', ''-vvv''] then (case w of None \<Rightarrow> ((0, []), Some [(''a1'', p)]) | Some _ \<Rightarrow> ((1, []), w))
     else if args = [''key'', ''add'', ''--new-password-file''] then
       (case (w, n) of (Some ks, Some new) \<Rightarrow> if key_of p w = None then ((12, []), w) else ((0, []), Some (ks @ [(''b2'', new)]))
        | _ \<Rightarrow> ((1, []), w))
     else if args = [''key'', ''list'', ''--json''] then
       (case key_of p w of None \<Rightarrow> ((12, []), w)
        | Some k \<Rightarrow> if k \<noteq> [] \<and> list_all is_hex k then ((0, ''[{'' @ current_prefix @ k @ [CHR 0x22] @ ''}]''), w) else ((1, []), w))
     else if length args = 3 \<and> args ! 0 = ''key'' \<and> args ! 1 = ''remove'' then
       (case w of None \<Rightarrow> ((1, []), w)
        | Some ks \<Rightarrow> (let ks' = filter (\<lambda>x. fst x \<noteq> args ! 2) ks in
            if key_of p (Some ks') = None then ((1, []), w) else ((0, []), Some ks')))
     else if args \<noteq> [] \<and> (hd args = ''init'' \<or> hd args = ''key'') then ((1, []), w) else ((0, []), w))"

lemma key_of_opens: "key_of p keys \<noteq> None \<longleftrightarrow> opens keys p"
  by (cases keys) (auto simp: key_of_def opens_def map_of_eq_None_iff image_iff split_beta)

lemma key_of_Some: "key_of p keys = Some k \<Longrightarrow> \<exists>ks. keys = Some ks \<and> (k, p) \<in> set ks"
  by (auto simp: key_of_def split: option.splits dest!: map_of_SomeD)

lemma grep_sample: "list_all is_hex k \<Longrightarrow> grep_current (''[{'' @ current_prefix @ k @ [CHR 0x22] @ ''}]'') = [k]"
  using grep_current_match [of k "''}]''"] by (simp add: grep_current_skip)

lemma sample_restic_keys: "restic_keys (with_lock sample_restic lock) (\<lambda>w. w)"
proof -
  have "list_law (with_lock sample_restic lock) (\<lambda>w. w)"
    by (auto simp: list_law_def with_lock_def sample_restic_def grep_sample [simplified] key_of_opens [symmetric] split: option.split dest: key_of_Some)
  moreover have "remove_law (with_lock sample_restic lock) (\<lambda>w. w)"
    by (auto simp: remove_law_def with_lock_def sample_restic_def Let_def key_of_opens [symmetric] split: option.split)
  moreover have "add_law (with_lock sample_restic lock) (\<lambda>w. w)"
    by (auto simp: add_law_def with_lock_def sample_restic_def split: option.split)
  moreover have "config_law (with_lock sample_restic lock) (\<lambda>w. w)"
    by (auto simp: config_law_def with_lock_def sample_restic_def key_of_opens [symmetric])
  moreover have "init_law (with_lock sample_restic lock) (\<lambda>w. w)"
    by (auto simp: init_law_def with_lock_def sample_restic_def split: option.split)
  moreover have "snd (sample_restic p (a # b # args) n w) = w" if "quiet_command args" for p a b args n w
  proof -
    from that have "args \<noteq> [''init'', ''-vvv'']" "args \<noteq> [''key'', ''add'', ''--new-password-file'']"
      "args \<noteq> [''key'', ''list'', ''--json'']" "\<not> (length args = 3 \<and> args ! 0 = ''key'' \<and> args ! 1 = ''remove'')"
      by (auto simp: quiet_command_def backup_commands_def)
    with that show ?thesis by (auto simp: sample_restic_def)
  qed
  then have "quiet_law (with_lock sample_restic lock) (\<lambda>w. w)" by (simp add: quiet_law_def with_lock_def)
  ultimately show ?thesis by (simp add: restic_keys_def)
qed

definition rotation_env :: script_env where
  "rotation_env = \<lparr>RESTIC_PASSWORD = ''new'', BACKSNAP_OLD_RESTIC_PASSWORD = ''old'', RESTIC_HOSTNAME = ''app'',
     BACKSNAP_RETRY_LOCK = ''30m'', BACKSNAP_CHECK_SUBSET = ''10%''\<rparr>"

lemma rotation_run:
  "run_state (restic_sh sample_restic ''pod'' rotation_env) (Some [(''a1'', ''old'')]) = (0, Some [(''b2'', ''new'')])"
  by code_simp

section \<open>Rotation\<close>

text \<open>
  C17: The script never locks anybody out: a repository that the new or the old password opens
  before it runs is opened by the new or the old password afterwards, whatever restic answers and
  wherever the script ends.
\<close>

theorem rotation_keeps_access:
  assumes "restic_keys (with_lock command (BACKSNAP_RETRY_LOCK env)) keys"
    and "run_state (restic_sh command hostname env) w = (code, w')"
    and "opens (keys w) (RESTIC_PASSWORD env) \<or> opens (keys w) (BACKSNAP_OLD_RESTIC_PASSWORD env)"
  shows "opens (keys w') (RESTIC_PASSWORD env) \<or> opens (keys w') (BACKSNAP_OLD_RESTIC_PASSWORD env)"
  using rel_run [OF restic_sh_access [OF assms(1)] assms(2)] assms(3) by (simp add: keeps_access_def)

theorem rotation_keeps_access_witness:
  "opens (snd (run_state (restic_sh sample_restic ''pod'' rotation_env) (Some [(''a1'', ''old'')]))) ''new'' \<or>
   opens (snd (run_state (restic_sh sample_restic ''pod'' rotation_env) (Some [(''a1'', ''old'')]))) ''old''"
  using rotation_keeps_access [OF sample_restic_keys rotation_run] unfolding rotation_run by (simp add: rotation_env_def opens_def)

text \<open>
  C18: A run that succeeds has moved the repository: the new password opens it, and, while the
  password is being rotated, the old one does not any more, even if an earlier run was interrupted
  after adding the new password (as long as no two keys have the old password).
\<close>

theorem rotation_completes:
  assumes "restic_keys (with_lock command (BACKSNAP_RETRY_LOCK env)) keys"
    and "one_old_key env (keys w)"
    and "run_state (restic_sh command hostname env) w = (0, w')"
  shows "opens (keys w') (RESTIC_PASSWORD env) \<and> (rotating env \<longrightarrow> \<not> opens (keys w') (BACKSNAP_OLD_RESTIC_PASSWORD env))"
  using wp_run [OF wp_restic_sh [OF assms(1,2)] assms(3)] by simp

theorem rotation_completes_witness:
  "opens (snd (run_state (restic_sh sample_restic ''pod'' rotation_env) (Some [(''a1'', ''old'')]))) ''new'' \<and>
   \<not> opens (snd (run_state (restic_sh sample_restic ''pod'' rotation_env) (Some [(''a1'', ''old'')]))) ''old''"
proof -
  have "one_old_key rotation_env (Some [(''a1'', ''old'')])" by (simp add: one_old_key_def)
  from rotation_completes [OF sample_restic_keys this rotation_run] show ?thesis
    unfolding rotation_run by (simp add: rotation_env_def rotating_def)
qed

end
