(* ===== verification/Operator.thy ===== *)
theory Operator
  imports Backup_Outcomes Restore_Props Automatic_Props Main_Props
begin

text \<open>
  The operator as a whole: a state machine whose steps are the reconciliations of the three
  controllers, for any request and in any order, and changes of the world by others in between.
  Each controller works on one request at a time, and the three share nothing but the API server
  (only the backup controller uses \<open>CurrentRunningBackups\<close>); since a step may also change the
  world arbitrarily, and every single call of a reconciliation may find anything in the world,
  interleaved reconciliations of different controllers are covered.
\<close>

section \<open>Handlers\<close>

datatype request = ForBackup NamespacedName | ForRestore NamespacedName | ForClaim NamespacedName

fun op_handle :: "'w kube \<Rightarrow> 'w operator \<Rightarrow> request \<Rightarrow> ('w, outcome) action" where
  "op_handle K op (ForBackup req) = PVCBackupReconciler_Reconcile K (op_backup op) req"
| "op_handle K op (ForRestore req) = PVCRestoreReconciler_Reconcile K (op_restore op) req"
| "op_handle K op (ForClaim req) =
    (case op_automatic op of
       None \<Rightarrow> return no_requeue
     | Some r \<Rightarrow> AutomaticPVCBackupCreator_Reconcile K r req)"

text \<open>Names of Kubernetes objects contain no slash.\<close>

fun valid_request :: "request \<Rightarrow> bool" where
  "valid_request (ForBackup req) = (CHR ''/'' \<notin> set (nn_Namespace req) \<and> CHR ''/'' \<notin> set (nn_Name req))"
| "valid_request _ = True"

inductive op_step :: "'w kube \<Rightarrow> 'w operator \<Rightarrow> 'w sys \<Rightarrow> 'w sys \<Rightarrow> bool" for K op where
  handle: "valid_request rq \<Longrightarrow> run_state (op_handle K op rq) s = (out, t) \<Longrightarrow> op_step K op s t"
| others: "op_step K op s (s\<lparr>world := w\<rparr>)"

inductive_cases op_stepE: "op_step K op s t"

section \<open>Contracts of the handlers\<close>

text \<open>
  The interface of a controller that is limited to some namespaces: outside of them it makes no
  calls but lists of backups (the search at start-up), and whatever it is asked about, it owes
  the work queue a polite result.
\<close>

locale scoped_controller =
  fixes handler :: "NamespacedName \<Rightarrow> ('w, outcome) action"
    and in_scope :: "string \<Rightarrow> bool"
  assumes outside_lists: "\<not> in_scope (nn_Namespace req) \<Longrightarrow> state_io_rel (emit_rel is_list) (handler req)"
    and handler_polite: "pred_state polite (handler req)"
begin

lemma outside_calls: "\<not> in_scope (nn_Namespace req) \<Longrightarrow> e \<in> set (calls (handler req) s) \<Longrightarrow> is_list e"
  by (rule calls_emit [OF outside_lists])

lemma write_in_scope:
  "e \<in> set (calls (handler req) s) \<Longrightarrow> \<not> is_list e \<Longrightarrow> in_scope (nn_Namespace req)"
  using outside_calls by blast

lemma result_polite: "polite (fst (run_state (handler req) s))"
  by (rule pred_state_run_state [OF handler_polite])

end

lemma Restore_polite: "pred_state polite (PVCRestoreReconciler_Reconcile K r req)"
  unfolding restore_defs by (auto intro!: results simp: Let_def split: prod.split)

interpretation backup_scope: scoped_controller "PVCBackupReconciler_Reconcile K r" "br_watches r" for K r
proof
  fix req :: NamespacedName assume "\<not> br_watches r (nn_Namespace req)"
  then show "state_io_rel (emit_rel is_list) (PVCBackupReconciler_Reconcile K r req)"
    unfolding PVCBackupReconciler_Reconcile_def reconcile_request_def br_watches_def
    by (auto intro!: steps Find_emits)
qed (rule Reconcile_polite)

interpretation restore_scope: scoped_controller "PVCRestoreReconciler_Reconcile K r" "rr_watches r" for K r
proof
  fix req :: NamespacedName assume "\<not> rr_watches r (nn_Namespace req)"
  then show "state_io_rel (emit_rel is_list) (PVCRestoreReconciler_Reconcile K r req)"
    unfolding PVCRestoreReconciler_Reconcile_def rr_watches_def by (auto intro!: steps)
qed (rule Restore_polite)

section \<open>The running map over many steps\<close>

lemma request_name_inj:
  "valid_request (ForBackup req) \<Longrightarrow> valid_request (ForBackup req') \<Longrightarrow> request_name req = request_name req' \<longleftrightarrow> req = req'"
proof
  assume v: "valid_request (ForBackup req)" "valid_request (ForBackup req')" and eq: "request_name req = request_name req'"
  have "takeWhile (\<lambda>c. c \<noteq> CHR ''/'') (request_name r) = nn_Namespace r" if "valid_request (ForBackup r)" for r
    using that by (auto simp: request_name_def takeWhile_tail)
  with v eq have "nn_Namespace req = nn_Namespace req'" by metis
  with eq show "req = req'" by (simp add: request_name_def)
qed simp

lemma handle_pool:
  assumes "poll_runs_condition K"
    and "\<And>req. rq = ForBackup req \<Longrightarrow> request_name req \<in> Q"
    and "\<And>req w backup w'. rq = ForBackup req \<Longrightarrow> k_Get_PVCBackup K req w = (Inr backup, w') \<Longrightarrow> backupQualifiedName backup \<in> Q"
  shows "state_io_rel (pool_rel (MaxRunningBackups (op_backup op)) Q) (op_handle K op rq)"
proof (cases rq)
  case (ForBackup req)
  with assms show ?thesis by (auto intro!: Reconcile_pool)
next
  case (ForRestore req)
  then show ?thesis by (simp add: running_imp_pool [OF Restore_running])
next
  case (ForClaim req)
  then show ?thesis
    by (auto simp: running_imp_pool [OF Auto_running] pool_steps.rel_return split: option.split)
qed

lemma step_pool: "poll_runs_condition K \<Longrightarrow> op_step K op s t \<Longrightarrow> pool_rel (MaxRunningBackups (op_backup op)) UNIV s t"
  by (erule op_stepE) (auto intro: rel_run [OF handle_pool] simp: same_running_pool same_running_def)

lemma steps_pool:
  assumes "poll_runs_condition K"
  shows "(op_step K op)\<^sup>*\<^sup>* s t \<Longrightarrow> pool_rel (MaxRunningBackups (op_backup op)) UNIV s t"
  by (induction rule: rtranclp_induct) (auto intro: pool_steps.R_refl pool_steps.R_trans step_pool [OF assms])

section \<open>A finished backup and its slot\<close>

text \<open>
  The world shows the backup of a request as finished, or a read of it fails for another reason
  than that the backup is gone.
\<close>

definition reads_finished :: "'w kube \<Rightarrow> NamespacedName \<Rightarrow> 'w \<Rightarrow> bool" where
  "reads_finished K req w \<longleftrightarrow> (case fst (k_Get_PVCBackup K req w) of
     Inr backup \<Rightarrow> \<not> Time_IsZero (FinishedAt (backup_status backup))
   | Inl err \<Rightarrow> \<not> IsNotFound err)"

text \<open>
  The steps of the operator once the backup of a request has finished and everyone can see it:
  any step, but the reconciliations of that request do not read the backup as unfinished or gone.
\<close>

inductive step_after :: "'w kube \<Rightarrow> 'w operator \<Rightarrow> NamespacedName \<Rightarrow> 'w sys \<Rightarrow> 'w sys \<Rightarrow> bool" for K op req where
  handle: "valid_request rq \<Longrightarrow> (rq = ForBackup req \<Longrightarrow> reads_finished K req (world s)) \<Longrightarrow>
    run_state (op_handle K op rq) s = (out, t) \<Longrightarrow> step_after K op req s t"
| others: "step_after K op req s (s\<lparr>world := w\<rparr>)"

lemma step_after_op_step: "step_after K op req s t \<Longrightarrow> op_step K op s t"
  by (auto elim!: step_after.cases intro: op_step.intros)

lemma steps_after_op_steps: "(step_after K op req)\<^sup>*\<^sup>* s t \<Longrightarrow> (op_step K op)\<^sup>*\<^sup>* s t"
  by (rule mono_rtranclp [rule_format]) (rule step_after_op_step)

lemma finished_request_running:
  assumes "run_state (PVCBackupReconciler_Reconcile K r req) s = (out, t)" and "CurrentRunningBackups s = Some R"
    and "reads_finished K req (world s)"
  shows "CurrentRunningBackups t = Some R"
proof -
  from assms(1,2) have "run_state (reconcile_request K r req) s = (out, t)"
    by (simp add: PVCBackupReconciler_Reconcile_def)
  then show ?thesis
  proof (cases rule: request_run_cases)
    case (finished backup w)
    with rel_run [OF finished_running finished(4)] assms(2) show ?thesis by (simp add: same_running_def)
  qed (use assms(2,3) in \<open>auto simp: reads_finished_def split: if_splits\<close>)
qed

text \<open>The backups read under a request are the objects of that name.\<close>

definition reads_by_name :: "'w kube \<Rightarrow> bool" where
  "reads_by_name K \<longleftrightarrow> (\<forall>req w backup w'. k_Get_PVCBackup K req w = (Inr backup, w') \<longrightarrow> object_key (backup_meta backup) = req)"

lemma reads_by_name_qualified:
  "reads_by_name K \<Longrightarrow> k_Get_PVCBackup K req w = (Inr backup, w') \<Longrightarrow> backupQualifiedName backup = request_name req"
proof -
  assume "reads_by_name K" "k_Get_PVCBackup K req w = (Inr backup, w')"
  then have "req = object_key (backup_meta backup)" unfolding reads_by_name_def by metis
  then show ?thesis by (simp add: backupQualifiedName_def request_name_def object_key_def)
qed

text \<open>
  A reconciliation that has written a finished status and returns an error has not given the slot
  back.
\<close>

lemma finish_error_keeps_slot:
  assumes "poll_runs_condition K" and "reads_by_name K"
    and "run_state (PVCBackupReconciler_Reconcile K r req) s = (Returned res (Some err), t)"
    and "CurrentRunningBackups s = Some R" and "trace s = []" and "list_ex finishes (trace t)"
  shows "CurrentRunningBackups t = Some (finsert (request_name req) R)"
proof -
  from assms(3,4) have "run_state (reconcile_request K r req) s = (Returned res (Some err), t)"
    by (simp add: PVCBackupReconciler_Reconcile_def)
  then show ?thesis
  proof (cases rule: request_run_cases)
    case (finished backup w)
    have "state_io_rel (emit_rel (\<lambda>e. \<not> finishes e)) (reconcile_finished K r backup)"
      by (rule emit_mono [OF _ finished_no_create]) (auto elim: finishes.elims)
    from rel_run [OF this finished(4)] assms(5,6) show ?thesis
      by (auto simp: emit_rel_def list_all_iff list_ex_iff)
  next
    case (unfinished backup w)
    from unfinished_ends [OF assms(1) _ unfinished(3,4)] assms(4-6) show ?thesis
      by (auto simp: reads_by_name_qualified [OF assms(2) unfinished(2)])
  qed (use assms(5,6) in auto)
qed

text \<open>Once a backup reads as finished, its slot stays as it is.\<close>

lemma step_after_keeps:
  assumes poll: "poll_runs_condition K" and names: "reads_by_name K" and valid: "valid_request (ForBackup req)"
    and step: "step_after K op req s t" and R: "CurrentRunningBackups s = Some R" and q: "request_name req |\<in>| R"
  shows "\<exists>R'. CurrentRunningBackups t = Some R' \<and> request_name req |\<in>| R'"
  using step
proof cases
  case (others w)
  with R q show ?thesis by simp
next
  case (handle rq out)
  show ?thesis
  proof (cases "rq = ForBackup req")
    case True
    with handle finished_request_running [OF _ R] q show ?thesis by auto
  next
    case False
    let ?Q = "{request_name req' | req'. rq = ForBackup req'}"
    have "state_io_rel (pool_rel (MaxRunningBackups (op_backup op)) ?Q) (op_handle K op rq)"
      by (rule handle_pool [OF poll]) (auto dest: reads_by_name_qualified [OF names])
    from rel_run [OF this handle(3)] have "pool_rel (MaxRunningBackups (op_backup op)) ?Q s t" .
    moreover have "request_name req \<notin> ?Q"
    proof
      assume "request_name req \<in> ?Q"
      then obtain req' where rq: "rq = ForBackup req'" and "request_name req = request_name req'" by blast
      with handle(1) request_name_inj [OF valid, of req'] False show False by auto
    qed
    ultimately show ?thesis using pool_rel_others [OF _ R] q by blast
  qed
qed

lemma steps_after_keep:
  assumes "poll_runs_condition K" and "reads_by_name K" and "valid_request (ForBackup req)"
    and "(step_after K op req)\<^sup>*\<^sup>* s t" and "CurrentRunningBackups s = Some R" and "request_name req |\<in>| R"
  shows "\<exists>R'. CurrentRunningBackups t = Some R' \<and> request_name req |\<in>| R'"
  using assms(4)
proof (induction rule: rtranclp_induct)
  case base
  with assms(5,6) show ?case by blast
next
  case (step t u)
  with step_after_keeps [OF assms(1-3)] show ?case by blast
qed

end
