(* ===== verification/Spec2Isabelle.thy ===== *)
theory Spec2Isabelle
  imports Backup_Theorems Restore_Theorems Automatic_Theorems Lifecycle_Theorems Schedule_Theorems Deep_Copy_Theorems Main_Theorems
    Restic_Theorems Operator
begin

text \<open>
  A verification development for backsnap, a Kubernetes operator that makes off-site backups of
  persistent volume claims with restic and restores them.

  \<^bold>\<open>The program.\<close> \<open>src/cmd/main.go\<close> parses the command line and registers three
  controllers with a manager. The \<^emph>\<open>automatic creator\<close>
  (\<open>src/internal/controller/automatic.go\<close>) is asked about claims and creates a
  \<open>PVCBackup\<close> object when the schedule of a claim says so. The \<^emph>\<open>backup controller\<close>
  (\<open>pvcbackup_controller.go\<close>) is asked about \<open>PVCBackup\<close> objects: it takes one of
  \<open>MaxRunningBackups\<close> slots, makes a snapshot of the claim, a temporary claim from the
  snapshot and a job on that, writes the result into the status, cleans up, and deletes old
  backups. The \<^emph>\<open>restore controller\<close> (\<open>pvcrestore_controller.go\<close>) makes a new claim
  and a job that restores into it; an annotation with the UID of the restore marks the claim
  until the job has completed. The backup job runs \<open>src/restic.sh\<close>. The controllers share
  \<open>util.go\<close> and the types of \<open>src/api/v1alpha1\<close>, and meet in the API server: the
  annotations they set keep the automatic creator away from their claims, and the environment of
  their jobs makes restores read what backups wrote.

  \<^bold>\<open>The theories.\<close>
  \<^item> \<open>Prelude\<close>: Go errors and maps, the state monad with early return, weakest preconditions,
    and the locale \<open>step_rel\<close> for what a computation may do to the state.
  \<^item> \<open>Go_Time\<close>: package \<open>time\<close>; instants and durations are integers, with the saturation
    and the wrap-around of 64-bit durations written out.
  \<^item> \<open>Kube_Types\<close>, \<open>Api_Types\<close>: the objects, one record per Go struct.
  \<^item> \<open>Kube_Client\<close>: the environment as a record of operations over an arbitrary world, and
    the state of the operator: the world, the map \<open>CurrentRunningBackups\<close>, and a trace of all
    calls with their answers. A handler is a computation in this state; its outcome is a result
    with an error or a panic.
  \<^item> \<open>Util\<close>: \<open>util.go\<close>.
  \<^item> \<open>Backup_Controller\<close>, \<open>Restore_Controller\<close>, \<open>Automatic\<close>: the three handlers,
    composed of one definition per block of the Go function. The schedule tolerance is computed
    in binary floating point (53 bits) as in the code.
  \<^item> \<open>Main_Cmd\<close>, \<open>Flags\<close>: \<open>main\<close>, the \<open>SetupWithManager\<close> methods, the table of
    flags, \<open>flag.Parse\<close> and \<open>strconv.ParseInt\<close>.
  \<^item> \<open>Go_Heap\<close>: Go's memory as a list of cells, with pointers, maps and slices, and the locale
    \<open>deep_copy\<close>, interpreted on the copies of pointer and map fields. \<open>Deep_Copy\<close>: the API
    types as they lie in memory and the functions of \<open>zz_generated.deepcopy.go\<close>;
    \<open>Deep_Copy_Props\<close>: what the objects in memory mean, and that every function is a deep copy.
  \<^item> \<open>Scheme\<close>: the registration of the types (\<open>groupversion_info.go\<close>, the \<open>init\<close> functions).
  \<^item> \<open>Restic_Script\<close>: \<open>restic.sh\<close>, with the restic program as a parameter.
  \<^item> \<open>Slot_Pool\<close>: the locale \<open>slot_pool\<close>, interpreted on the slot decision of the backup
    controller. \<open>Backup_Props\<close>, \<open>Backup_Outcomes\<close>, \<open>Restore_Props\<close>,
    \<open>Automatic_Props\<close>, \<open>Main_Props\<close>, \<open>Flags_Props\<close>, \<open>Restic_Props\<close>: what each
    block does (calls, their order, slots, outcomes).
  \<^item> \<open>Api_Server\<close>: the laws of an API server that works (\<open>serves\<close>), symbolic execution on
    its stored objects (\<open>awp\<close>), and the locale \<open>rounds\<close> for lives that come to an end.
    \<open>Backup_Lifecycle\<close>, \<open>Restore_Lifecycle\<close>: the abstract stages of a backup and a restore,
    the step from stage to stage, and that the handlers refine it. \<open>Restore_Retry\<close>: restores on
    a server that may refuse their status updates. \<open>Schedule_Lifecycle\<close>: the
    automatic creator on such a server, up to the first stage of the backup it makes.
    \<open>Fair_Queue\<close>: many backups that compete for the slots, with the locale \<open>fair_rounds\<close>.
  \<^item> \<open>Operator\<close>: the handlers as steps of one state machine, interleaved with arbitrary
    changes of the world; the locale \<open>scoped_controller\<close>, interpreted on both reconcilers.
  \<^item> \<open>Sample_Cluster\<close>, \<open>Sample_Server\<close>: concrete environments for the witnesses. The
    properties are in the theories \<open>*_Theorems\<close>, those that span components in this one.

  \<^bold>\<open>What is shown.\<close> For every world and every answer of the API server: the order in which
  a backup makes its objects; that a backup is deleted only when another one of the same claim has
  finished later, other objects only under the name of the backup; that restores write only to claims they have made; when automatic
  backups are created, when not, and for which claims; the bound on running backups over all
  interleavings of the operator; when a handler can panic; that requeue times are at least a
  second. On a server that works: each reconciliation is one step of the abstract life of its
  object, changes nothing else, and backups and restores end after at most three and two rounds;
  in every fair order of reconciliations all backups of a queue finish, whatever the maximum;
  together, the automatic creator and the backup controller bring a claim that is due to a
  backup that has succeeded. For the deep copies: they never fail on well-typed memory, and an
  object and its copy mean the same and share no cell, which is why the other theories can treat
  API objects as values. The scheme knows every type the controllers use.
  For the command line: round trips of the flags and of namespace lists, and the exit on errors.
  For the script: rotating the password never locks the user out and, if it succeeds, is complete.
  Some properties state behaviour that is probably not intended; they are marked as findings in
  the manifest.

  \<^bold>\<open>Hypotheses.\<close> The API server, the cron library, the owner references, the clock, polling,
  the YAML library, the manager and restic are parameters. What a property relies on is a named
  hypothesis on them, such as \<open>poll_runs_condition\<close>, \<open>lists_backups\<close>, \<open>serves\<close> (reads
  are up to date, writes succeed and are kept, times are stored in whole seconds, deletion is
  immediate), \<open>may_refuse_status\<close>, \<open>serves_schedule\<close>, \<open>lib_copies\<close>, \<open>scheme_laws\<close> or \<open>restic_keys\<close>; each property with hypotheses has a witness on a concrete
  environment. No fuel is used: all loops of the program are over finite lists and are total
  recursive functions here.

  \<^bold>\<open>Not modelled.\<close> Logging and metrics; the expansion of \<open>$(VAR)\<close> in container
  environments, which is done by Kubernetes; the copy functions of types of other modules, which
  are parameters; the chart, the manifests and the image builds.
\<close>

section \<open>Samples\<close>

definition sample_operator :: "'w operator" where
  "sample_operator = \<lparr>op_automatic = Some sample_creator, op_backup = sample_reconciler, op_restore = sample_restorer\<rparr>"

text \<open>
  A cluster with a lagging cache: the world is the status of the sample backup as it is read and as
  it is stored. Updates reach the store only, and polling gives up after one read.
\<close>

definition lagging_K :: "(PVCBackupStatus \<times> PVCBackupStatus) kube" where
  "lagging_K = sampleK
     \<lparr>k_Get_PVCBackup := \<lambda>nn w. (if nn = sample_key then Inr (sample_backup\<lparr>backup_status := fst w\<rparr>) else Inl NotFound, w),
      k_Status_Update_PVCBackup := \<lambda>b w. (Inr b, (fst w, backup_status b)),
      k_Get_PVC := \<lambda>_ w. (Inr sample_pvc, w),
      k_Get_VolumeSnapshot := \<lambda>_ w. (Inr ready_snapshot, w),
      k_Get_Job := \<lambda>_ w. (Inr (sample_job (Some sample_time)), w)\<rparr>"

section \<open>The operator over time\<close>

text \<open>
  C5: However the reconciliations of the three controllers and the actions of others follow on
  each other, the number of backups counted as running stays within \<open>MaxRunningBackups\<close>, or
  within what it was before if the search at start-up found more than that.
\<close>

theorem op_slots_bounded:
  assumes "poll_runs_condition K" and "(op_step K op)\<^sup>*\<^sup>* s t"
    and "CurrentRunningBackups s = Some R" and "0 < MaxRunningBackups (op_backup op)"
  shows "\<exists>R'. CurrentRunningBackups t = Some R' \<and>
    int (fcard R') \<le> max (MaxRunningBackups (op_backup op)) (int (fcard R))"
  using pool_rel_bound [OF steps_pool [OF assms(1,2)] assms(3,4)] .

theorem op_slots_bounded_witness:
  "\<exists>t R'. (op_step storeK sample_operator)\<^sup>*\<^sup>* (sample_sys sample_backup []) t \<and>
     CurrentRunningBackups t = Some R' \<and> int (fcard R') \<le> 1"
proof -
  let ?s = "sample_sys sample_backup []"
  have p: "poll_runs_condition storeK" by (simp add: polls_once_runs_condition)
  obtain out t where run: "run_state (op_handle storeK sample_operator (ForBackup sample_key)) ?s = (out, t)" by fastforce
  have "op_step storeK sample_operator ?s t"
    by (rule op_step.handle [OF _ run]) (simp add: sample_key_def)
  then have steps: "(op_step storeK sample_operator)\<^sup>*\<^sup>* ?s t" ..
  have "CurrentRunningBackups ?s = Some {||}" by (simp add: sample_sys_def)
  from op_slots_bounded [OF p steps this] steps show ?thesis
    by (auto simp: sample_operator_def sample_reconciler_def fcard_fempty)
qed

text \<open>
  C37: When the poll for the new status fails (by its timeout, or by an error of a read) after the
  API has accepted a finished status, the slot of the backup is never given back: it is held after
  every sequence of steps of the operator and of others in which each reconciliation of that
  backup reads it as finished (or fails to read it, but not because it is gone). The other backups
  are left with one slot less than the maximum: one that is not running already is refused as soon
  as they hold those, with a maximum of one always.
\<close>

theorem leaked_slot_stays:
  assumes "poll_runs_condition K" and "reads_by_name K" and "valid_request (ForBackup req)"
    and "CurrentRunningBackups s = Some R" and "0 < MaxRunningBackups (op_backup op)"
    and "int (fcard R) \<le> MaxRunningBackups (op_backup op)"
    and "run_state (PVCBackupReconciler_Reconcile K (op_backup op) req) (s\<lparr>trace := []\<rparr>) =
      (failed (Wrapped ''failed to wait for PVCBackup Status to be updated: '' err), u)"
    and "EUpdateBackupStatus x (Inr answer) \<in> set (trace u)" and "\<not> Time_IsZero (FinishedAt (backup_status x))"
    and "(step_after K op req)\<^sup>*\<^sup>* u t"
  shows "\<exists>R'. CurrentRunningBackups t = Some R' \<and> request_name req |\<in>| R' \<and>
    int (fcard (R' |-| {|request_name req|})) \<le> MaxRunningBackups (op_backup op) - 1 \<and>
    (\<forall>q. q |\<notin>| R' \<and> int (fcard (R' |-| {|request_name req|})) = MaxRunningBackups (op_backup op) - 1 \<longrightarrow>
       admit (MaxRunningBackups (op_backup op)) q R' = None)"
proof -
  let ?s = "s\<lparr>trace := []\<rparr>" and ?q = "request_name req"
  have R: "CurrentRunningBackups ?s = Some R" using assms(4) by simp
  have "list_ex finishes (trace u)" using assms(8,9) by (auto simp: list_ex_iff intro!: bexI [of _ "EUpdateBackupStatus x (Inr answer)"])
  with finish_error_keeps_slot [OF assms(1,2,7) R] have "CurrentRunningBackups u = Some (finsert ?q R)" by simp
  from steps_after_keep [OF assms(1-3,10) this] obtain R' where
    R': "CurrentRunningBackups t = Some R'" "?q |\<in>| R'" by auto
  have "op_step K op ?s u" by (rule op_step.handle [OF assms(3)]) (simp add: assms(7))
  then have "(op_step K op)\<^sup>*\<^sup>* ?s t" using steps_after_op_steps [OF assms(10)] by (rule converse_rtranclp_into_rtranclp)
  from pool_rel_bound [OF steps_pool [OF assms(1) this] R assms(5)] R'(1) assms(6)
  have "int (fcard R') \<le> MaxRunningBackups (op_backup op)" by auto
  moreover have "fcard R' = Suc (fcard (R' |-| {|?q|}))" 
    using fcard_finsert_disjoint [of ?q "R' |-| {|?q|}"] finsert_fminus [OF R'(2)] by simp
  ultimately have "int (fcard (R' |-| {|?q|})) \<le> MaxRunningBackups (op_backup op) - 1"
    and "\<And>q. q |\<notin>| R' \<and> int (fcard (R' |-| {|?q|})) = MaxRunningBackups (op_backup op) - 1 \<Longrightarrow>
      admit (MaxRunningBackups (op_backup op)) q R' = None"
    using assms(5) unfolding admit_def by simp_all
  with R' show ?thesis by blast
qed

text \<open>On the lagging cluster the poll fails after the update, and the retry cleans up.\<close>

lemmas lagging_eval = lagging_K_def backup_eval snapshotReady_def jobCompleted_def setBackupFinished_def Duration_Round_def
  ensure_snapshot_pvc_def finishedVisible_def sampleK_def

lemma lagging_attempt:
  assumes "u = snd (run_state (PVCBackupReconciler_Reconcile lagging_K sample_reconciler sample_key)
    (sample_sys (backup_status started_backup, backup_status started_backup) []))"
  shows "run_state (PVCBackupReconciler_Reconcile lagging_K sample_reconciler sample_key)
      (sample_sys (backup_status started_backup, backup_status started_backup) []) =
      (failed (Wrapped ''failed to wait for PVCBackup Status to be updated: '' (ErrorMsg ''context deadline exceeded'')), u)"
    and "snd (world u) = backup_status (finished_at sample_time)"
    and "EUpdateBackupStatus (finished_at sample_time) (Inr (finished_at sample_time)) \<in> set (trace u)"
    and "\<exists>R. CurrentRunningBackups u = Some R"
  unfolding assms by (simp_all add: prod_eq_iff lagging_eval)

lemma lagging_retry:
  assumes "fst (world s) = backup_status (finished_at sample_time)" and "CurrentRunningBackups s = Some R"
  shows "fst (run_state (PVCBackupReconciler_Reconcile lagging_K sample_reconciler sample_key) s) =
    Returned \<lparr>RequeueAfter = Hour\<rparr> None"
  using assms by (simp add: lagging_eval requeueAfter_def)

theorem leaked_slot_stays_witness:
  "\<exists>u t R'. run_state (PVCBackupReconciler_Reconcile lagging_K sample_reconciler sample_key)
      (sample_sys (backup_status started_backup, backup_status started_backup) []) =
      (failed (Wrapped ''failed to wait for PVCBackup Status to be updated: '' (ErrorMsg ''context deadline exceeded'')), u) \<and>
    run_state (PVCBackupReconciler_Reconcile lagging_K sample_reconciler sample_key) (u\<lparr>world := (snd (world u), snd (world u))\<rparr>) =
      (Returned \<lparr>RequeueAfter = Hour\<rparr> None, t) \<and>
    CurrentRunningBackups t = Some R' \<and> ''app/data-backup'' |\<in>| R' \<and> admit 1 ''app/other'' R' = None"
proof -
  let ?run = "run_state (PVCBackupReconciler_Reconcile lagging_K sample_reconciler sample_key)"
  let ?s = "sample_sys (backup_status started_backup, backup_status started_backup) []"
  let ?f = "Wrapped ''failed to wait for PVCBackup Status to be updated: '' (ErrorMsg ''context deadline exceeded'')"
  let ?x = "finished_at sample_time"
  define u where "u = snd (?run ?s)"
  define u' where "u' = u\<lparr>world := (snd (world u), snd (world u))\<rparr>"
  define t where "t = snd (?run u')"
  note u = lagging_attempt [OF u_def] and first = lagging_attempt(1) [OF u_def]
  have second: "?run u' = (Returned \<lparr>RequeueAfter = Hour\<rparr> None, t)"
    using u(2,4) lagging_retry [of u'] by (auto simp: t_def u'_def prod_eq_iff)
  have "step_after lagging_K sample_operator sample_key u u'" unfolding u'_def by (rule step_after.others)
  moreover have "reads_finished lagging_K sample_key (world u')"
    using u(2) by (simp add: reads_finished_def lagging_K_def u'_def) (simp add: sample_defs sample_time_def time_consts)
  then have "step_after lagging_K sample_operator sample_key u' t"
    using second by (intro step_after.handle [where rq = "ForBackup sample_key"]) (simp_all add: sample_operator_def sample_key_def)
  ultimately have steps: "(step_after lagging_K sample_operator sample_key)\<^sup>*\<^sup>* u t" by simp
  have op: "op_backup sample_operator = sample_reconciler" "MaxRunningBackups sample_reconciler = 1"
    by (simp_all add: sample_operator_def sample_reconciler_def)
  note leak = leaked_slot_stays [where op = sample_operator and K = lagging_K and req = sample_key and s = ?s and R = "{||}"
      and u = u and t = t and x = ?x and answer = ?x and err = "ErrorMsg ''context deadline exceeded''", unfolded op]
  have p: "poll_runs_condition lagging_K"
    by (rule polls_once_runs_condition) (simp add: lagging_K_def)
  have n: "reads_by_name lagging_K"
    by (auto simp: reads_by_name_def lagging_K_def object_key_def sample_defs)
  have v: "valid_request (ForBackup sample_key)" and R: "CurrentRunningBackups ?s = Some {||}" and first': "?run (?s\<lparr>trace := []\<rparr>) = (failed ?f, u)"
    and q: "request_name sample_key = ''app/data-backup''"
    using first by (simp_all add: sample_key_def sample_sys_def request_name_def)
  have fin: "\<not> Time_IsZero (FinishedAt (backup_status ?x))" by (simp add: sample_defs sample_time_def time_consts)
  have "\<exists>R'. CurrentRunningBackups t = Some R' \<and> request_name sample_key |\<in>| R' \<and>
      int (fcard (R' |-| {|request_name sample_key|})) \<le> 1 - 1 \<and>
      (\<forall>q. q |\<notin>| R' \<and> int (fcard (R' |-| {|request_name sample_key|})) = 1 - 1 \<longrightarrow> admit 1 q R' = None)"
    by (rule leak [OF p n v R _ _ first' u(3) fin steps]) (simp_all add: fcard_fempty)
  then obtain R' where R': "CurrentRunningBackups t = Some R'" "''app/data-backup'' |\<in>| R'"
      "fcard (R' |-| {|''app/data-backup''|}) = 0"
      "\<forall>q. q |\<notin>| R' \<and> fcard (R' |-| {|''app/data-backup''|}) = 0 \<longrightarrow> admit 1 q R' = None"
    unfolding q by (metis diff_self of_nat_0 of_nat_le_0_iff)
  from R'(3) have "R' |-| {|''app/data-backup''|} = {||}" by (simp only: fcard_0_eq)
  then have "''app/other'' |\<notin>| R'" by auto
  with R'(3,4) have "admit 1 ''app/other'' R' = None" by blast
  with first second R'(1,2) show ?thesis unfolding u'_def by blast
qed

text \<open>
  C24: Every reconciliation of every controller owes the work queue a polite result: an error
  without a requeue time, no requeue, or a requeue after at least a second; so the operator never
  spins.
\<close>

theorem operator_polite: "polite (fst (run_state (op_handle K op rq) s))"
proof (cases rq)
  case (ForBackup req)
  then show ?thesis using backup_scope.result_polite by simp
next
  case (ForRestore req)
  then show ?thesis using restore_scope.result_polite by simp
next
  case (ForClaim req)
  then show ?thesis by (auto simp: pred_state_run_state [OF Auto_polite] split: option.split)
qed

text \<open>
  C32: The backup and the restore controller keep to their namespaces: for a request in any other
  namespace they make no call at all, except for the lists of backups at start-up.
\<close>

theorem operator_scoped:
  assumes "case rq of ForBackup req \<Rightarrow> \<not> br_watches (op_backup op) (nn_Namespace req)
    | ForRestore req \<Rightarrow> \<not> rr_watches (op_restore op) (nn_Namespace req) | ForClaim _ \<Rightarrow> False"
    and "e \<in> set (calls (op_handle K op rq) s)"
  shows "\<exists>opts answer. e = EListBackups opts answer \<and> CurrentRunningBackups s = None"
proof (cases rq)
  case (ForBackup req)
  with assms have out: "\<not> br_watches (op_backup op) (nn_Namespace req)" by simp
  from backup_scope.outside_calls [OF out] assms(2) ForBackup have "is_list e" by simp
  moreover have "e \<notin> set (calls (PVCBackupReconciler_Reconcile K (op_backup op) req) s)"
    if "CurrentRunningBackups s \<noteq> None"
    using that out by (auto simp: calls_def PVCBackupReconciler_Reconcile_def reconcile_request_def br_watches_def)
  ultimately show ?thesis using assms(2) ForBackup by (cases "CurrentRunningBackups s"; cases e) auto
next
  case (ForRestore req)
  with assms have "\<not> rr_watches (op_restore op) (nn_Namespace req)" by simp
  with assms(2) ForRestore show ?thesis
    by (auto simp: calls_def PVCRestoreReconciler_Reconcile_def rr_watches_def split: if_splits)
qed (use assms in simp)

theorem operator_scoped_witness:
  "calls (op_handle done_K (sample_operator\<lparr>op_restore := sample_restorer\<lparr>rr_ExcludeNamespaces := [''app'']\<rparr>\<rparr>)
     (ForRestore restore_key)) (sample_sys () []) = []"
proof -
  let ?op = "sample_operator\<lparr>op_restore := sample_restorer\<lparr>rr_ExcludeNamespaces := [''app'']\<rparr>\<rparr>"
  have out: "case ForRestore restore_key of ForBackup req \<Rightarrow> \<not> br_watches (op_backup ?op) (nn_Namespace req)
    | ForRestore req \<Rightarrow> \<not> rr_watches (op_restore ?op) (nn_Namespace req) | ForClaim _ \<Rightarrow> False"
    by (simp add: rr_watches_def restore_key_def)
  have "e \<notin> set (calls (op_handle done_K ?op (ForRestore restore_key)) (sample_sys () []))" for e
    using operator_scoped [OF out, of e done_K "sample_sys () []"] by (auto simp: sample_sys_def)
  then show ?thesis by (metis all_not_in_conv set_empty)
qed

section \<open>Between the controllers\<close>

text \<open>
  C23: The operator does not back up its own claims: a claim with the annotations of the temporary
  claim of a backup, or of a claim that is being restored, makes the automatic controller end
  its reconciliation without an error, a requeue or a new backup, whatever the annotations of the
  namespace and the default schedule say.
\<close>

theorem own_claims_not_scheduled:
  assumes "fst (k_Get_Namespace K \<lparr>nn_Namespace = nn_Namespace req, nn_Name = nn_Namespace req\<rparr> (world s)) = Inr namespace"
    and "\<And>w. fst (k_Get_PVC K req w) = Inr pvc"
    and "Annotations (pvc_meta pvc) = Annotations (pvc_meta (newSnapshotPVC br backup snapshot restoreSize)) \<or>
      Annotations (pvc_meta pvc) = Annotations (pvc_meta (newTargetPVC rr rreq restore name))"
  shows "fst (run_state (AutomaticPVCBackupCreator_Reconcile K r req) s) = no_requeue \<and>
    auto_calls K r req s = [EGetNamespace \<lparr>nn_Namespace = nn_Namespace req, nn_Name = nn_Namespace req\<rparr> (Inr namespace),
      EGetPVC req (Inr pvc)]"
proof -
  have "map_of (Annotations (pvc_meta pvc)) CurrentlyRestoringAnnotation \<noteq> None \<or> scheduleFor r namespace pvc = []"
    using assms(3)
    by (auto simp: newSnapshotPVC_def newTargetPVC_def restoringAnnotations_def scheduleFor_def Let_def)
  then have "consider_pvc K r namespace pvc = return no_requeue" by (auto simp: consider_pvc_def Let_def)
  moreover obtain w where "k_Get_Namespace K \<lparr>nn_Namespace = nn_Namespace req, nn_Name = nn_Namespace req\<rparr> (world s) = (Inr namespace, w)"
    using assms(1) by (metis prod.collapse)
  moreover obtain w' where "k_Get_PVC K req w = (Inr pvc, w')" using assms(2) [of w] by (metis prod.collapse)
  ultimately show ?thesis by (simp add: calls_def AutomaticPVCBackupCreator_Reconcile_def run_call)
qed

theorem own_claims_not_scheduled_witness:
  "fst (run_state (AutomaticPVCBackupCreator_Reconcile
      (due_K\<lparr>k_Get_PVC := \<lambda>_ w. (Inr (newSnapshotPVC sample_reconciler sample_backup ready_snapshot ''1Gi''), w)\<rparr>)
      sample_creator sample_key) (sample_sys () [])) = no_requeue"
  by (rule own_claims_not_scheduled [where namespace = sample_namespace, THEN conjunct1, OF _ _ disjI1 [OF refl]])
     (simp_all add: due_K_def)

text \<open>
  C21: A restore finds what a backup has stored: for the same settings, the restore job of a claim
  sees the same value as its backup job for every environment variable (repository, password,
  credentials, host name and the configured ones), except for the old password, which only
  backups get.
\<close>

theorem restore_reads_backup:
  assumes "distinct (map fst (ResticEnv settings))"
    and "SourcePVC spec = Name (pvc_meta pvc)" and "SourceNamespace spec = Namespace (pvc_meta pvc)"
    and "k \<noteq> ''BACKSNAP_OLD_RESTIC_PASSWORD''"
  shows "env_lookup (resticEnv settings (restoreManagedEnv settings spec)) k =
    env_lookup (resticEnv settings (backupManagedEnv settings pvc)) k"
proof -
  have "env_lookup (restoreManagedEnv settings spec) k = env_lookup (backupManagedEnv settings pvc) k"
    using assms(2-4) by (simp add: restoreManagedEnv_def backupManagedEnv_def env_lookup_def)
  then show ?thesis by (simp add: resticEnv_lookup [OF assms(1)])
qed

theorem restore_reads_backup_witness:
  "env_lookup (resticEnv sample_settings (restoreManagedEnv sample_settings
       ((restore_spec sample_restore)\<lparr>SourceNamespace := ''app''\<rparr>))) ''RESTIC_PASSWORD'' =
   env_lookup (resticEnv sample_settings (backupManagedEnv sample_settings sample_pvc)) ''RESTIC_PASSWORD''"
  by (rule restore_reads_backup) (simp_all add: sample_settings_def sample_restore_def sample_defs)

text \<open>
  C22: The environment of a restic container defines every variable once, in this order of
  precedence: the variables managed by the operator, then the configured ones, then the defaults.
  The managed ones come first, so that they can be referred to, and the others follow sorted.
\<close>

theorem restic_env_precedence:
  assumes "distinct (map fst (ResticEnv settings))" and "distinct (map env_Name managed)"
  shows "distinct (map env_Name (resticEnv settings managed)) \<and>
    take (length managed) (resticEnv settings managed) = managed \<and>
    sorted (map env_Name (drop (length managed) (resticEnv settings managed))) \<and>
    env_lookup (resticEnv settings managed) k =
      (case env_lookup managed k of Some v \<Rightarrow> Some v
       | None \<Rightarrow> (case map_of (ResticEnv settings) k of Some v \<Rightarrow> Some v | None \<Rightarrow> map_of defaultResticEnv k))"
  using resticEnv_distinct [OF assms(2)] resticEnv_prefix resticEnv_suffix_sorted resticEnv_lookup [OF assms(1)]
  by blast

theorem restic_env_precedence_witness:
  "env_lookup (resticEnv sample_settings (backupManagedEnv sample_settings sample_pvc)) ''GOGC'' = Some ''20'' \<and>
   env_lookup (resticEnv sample_settings (backupManagedEnv sample_settings sample_pvc)) ''BACKSNAP_RETRY_LOCK'' = Some ''30m''"
proof -
  have d: "distinct (map fst (ResticEnv sample_settings))" "distinct (map env_Name (backupManagedEnv sample_settings sample_pvc))"
    by (simp_all add: sample_settings_def backupManagedEnv_def)
  show ?thesis
    using restic_env_precedence [OF d, of "''GOGC''"] restic_env_precedence [OF d, of "''BACKSNAP_RETRY_LOCK''"]
    by (simp add: env_lookup_def backupManagedEnv_def sample_settings_def defaultResticEnv_def)
qed

end
